(* ===== verification/Prelude.thy ===== *)
theory Prelude
  imports Main "HOL-Library.Char_ord" "HOL-Library.Sublist" "HOL-Library.Word"
begin

text \<open>
  Shared vocabulary of the development.  Go strings are byte sequences, written as \<^typ>\<open>string\<close>
  (lists of \<^typ>\<open>char\<close>, which is exactly the type of bytes); Go errors are their messages; a Go
  function that returns a value and an error is a sum with the error on the left.  The theory
  defines the functions of Go's packages \<^verbatim>\<open>strings\<close> and \<^verbatim>\<open>bytes\<close> that the firewall calls, with the
  lemmas about them that several components use, and the collections of simplification rules
  that carry the component proofs.
\<close>

type_synonym gerror = string
type_synonym 'a result = "gerror + 'a"

named_theorems go_str \<open>rules about the modelled functions of package strings\<close>

text \<open>A string between single quotes, as the format verb \<open>'%s'\<close> prints it.\<close>

definition quoted :: "string \<Rightarrow> string" where
  "quoted s = CHR 0x27 # s @ [CHR 0x27]"

subsection \<open>Package strings\<close>

text \<open>\<^verbatim>\<open>strings.IndexByte\<close>: the first position of a byte, \<^term>\<open>None\<close> for the result \<open>-1\<close>.\<close>

fun IndexByte :: "string \<Rightarrow> char \<Rightarrow> nat option" where
  "IndexByte [] c = None"
| "IndexByte (x # xs) c = (if x = c then Some 0 else map_option Suc (IndexByte xs c))"

text \<open>\<^verbatim>\<open>strings.Index\<close> for a general separator.\<close>

fun Index :: "string \<Rightarrow> string \<Rightarrow> nat option" where
  "Index [] sep = (if sep = [] then Some 0 else None)"
| "Index (x # xs) sep = (if prefix sep (x # xs) then Some 0 else map_option Suc (Index xs sep))"

definition Contains :: "string \<Rightarrow> string \<Rightarrow> bool" where
  "Contains s sep \<longleftrightarrow> Index s sep \<noteq> None"

definition TrimPrefix :: "string \<Rightarrow> string \<Rightarrow> string" where
  "TrimPrefix s p = (if prefix p s then drop (length p) s else s)"

definition TrimSuffix :: "string \<Rightarrow> string \<Rightarrow> string" where
  "TrimSuffix s p = (if suffix p s then take (length s - length p) s else s)"

text \<open>\<^verbatim>\<open>strings.Join\<close>.\<close>

fun Join :: "string list \<Rightarrow> string \<Rightarrow> string" where
  "Join [] sep = []"
| "Join [x] sep = x"
| "Join (x # y # ys) sep = x @ sep @ Join (y # ys) sep"

text \<open>\<^verbatim>\<open>strings.Split\<close> with a separator of one byte: never empty.\<close>

fun SplitByte :: "string \<Rightarrow> char \<Rightarrow> string list" where
  "SplitByte [] c = [[]]"
| "SplitByte (x # xs) c =
    (if x = c then [] # SplitByte xs c
     else (case SplitByte xs c of [] \<Rightarrow> [[x]] | y # ys \<Rightarrow> (x # y) # ys))"

text \<open>White space as \<^verbatim>\<open>unicode.IsSpace\<close> has it on ASCII: tab, newline, vertical tab, form feed,
  carriage return and blank.\<close>

definition is_space :: "char \<Rightarrow> bool" where
  "is_space c \<longleftrightarrow> c \<in> {CHR 0x09, CHR 0x0A, CHR 0x0B, CHR 0x0C, CHR 0x0D, CHR 0x20}"

definition TrimSpace :: "string \<Rightarrow> string" where
  "TrimSpace s = rev (dropWhile is_space (rev (dropWhile is_space s)))"

definition upper_byte :: "char \<Rightarrow> char" where
  "upper_byte c = (if CHR ''a'' \<le> c \<and> c \<le> CHR ''z'' then char_of (of_char c - 32 :: nat) else c)"

definition lower_byte :: "char \<Rightarrow> char" where
  "lower_byte c = (if CHR ''A'' \<le> c \<and> c \<le> CHR ''Z'' then char_of (of_char c + 32 :: nat) else c)"

text \<open>\<^verbatim>\<open>strings.ToUpper\<close>, \<^verbatim>\<open>strings.ToLower\<close> and \<^verbatim>\<open>strings.EqualFold\<close> on ASCII text, the only text
  the firewall compares without case (method names, modes, schemes, header and media type
  names); bytes outside ASCII are kept.\<close>

definition ToUpper :: "string \<Rightarrow> string" where
  "ToUpper s = map upper_byte s"

definition ToLower :: "string \<Rightarrow> string" where
  "ToLower s = map lower_byte s"

definition EqualFold :: "string \<Rightarrow> string \<Rightarrow> bool" where
  "EqualFold s t \<longleftrightarrow> ToLower s = ToLower t"

text \<open>\<^verbatim>\<open>strings.ReplaceAll\<close> for a pattern that is not empty.\<close>

function ReplaceAll :: "string \<Rightarrow> string \<Rightarrow> string \<Rightarrow> string" where
  "ReplaceAll s old new =
    (if old = [] \<or> s = [] then s
     else if prefix old s then new @ ReplaceAll (drop (length old) s) old new
     else hd s # ReplaceAll (tl s) old new)"
  by pat_completeness auto
termination by (relation "measure (\<lambda>(s, old, new). length s)") auto
declare ReplaceAll.simps [simp del]

subsection \<open>Facts about these functions\<close>

lemma IndexByte_None [go_str, simp]: "IndexByte s c = None \<longleftrightarrow> c \<notin> set s"
  by (induction s) auto

lemma IndexByte_notin [simp]: "c \<notin> set s \<Longrightarrow> IndexByte s c = None"
  by simp

lemma IndexByte_Some:
  "IndexByte s c = Some i \<longleftrightarrow> i < length s \<and> s ! i = c \<and> c \<notin> set (take i s)"
proof (induction s arbitrary: i)
  case (Cons x xs)
  then show ?case by (cases i) auto
qed simp

lemma IndexByte_SomeD:
  assumes "IndexByte s c = Some i"
  shows "i < length s" "s ! i = c" "c \<notin> set (take i s)" "drop i s = c # drop (Suc i) s"
  using assms by (auto simp: IndexByte_Some Cons_nth_drop_Suc)

lemma IndexByte_append_fresh [go_str]:
  "c \<notin> set s \<Longrightarrow> IndexByte (s @ c # t) c = Some (length s)"
  by (induction s) auto

lemma IndexByte_append_None [go_str]:
  "c \<notin> set s \<Longrightarrow> IndexByte (s @ t) c = map_option (\<lambda>i. length s + i) (IndexByte t c)"
proof (induction s)
  case Nil
  then show ?case by (cases "IndexByte t c") (simp_all del: IndexByte_None)
next
  case (Cons a s)
  then show ?case by (cases "IndexByte t c") (auto simp del: IndexByte_None)
qed

lemma SplitByte_nonempty [simp]: "SplitByte s c \<noteq> []"
  by (induction s) (auto split: list.splits)

lemma SplitByte_no_sep [go_str]: "c \<notin> set s \<Longrightarrow> SplitByte s c = [s]"
  by (induction s) (auto split: list.splits)

lemma SplitByte_append [go_str]:
  "c \<notin> set s \<Longrightarrow> SplitByte (s @ c # t) c = s # SplitByte t c"
  by (induction s) (auto split: list.splits)

text \<open>Splitting and joining with the same byte are inverse.\<close>

lemma Join_SplitByte [go_str]: "Join (SplitByte s c) [c] = s"
proof (induction s)
  case (Cons x xs)
  then show ?case
    by (cases "SplitByte xs c" rule: remdups_adj.cases) auto
qed simp

lemma SplitByte_Join [go_str]:
  "xs \<noteq> [] \<Longrightarrow> \<forall>x\<in>set xs. c \<notin> set x \<Longrightarrow> SplitByte (Join xs [c]) c = xs"
  by (induction xs "[c]" rule: Join.induct) (auto simp: SplitByte_no_sep SplitByte_append)

lemma SplitByte_parts_fresh: "\<forall>x\<in>set (SplitByte s c). c \<notin> set x"
  by (induction s) (auto split: list.splits)

lemma TrimSpace_no_space [go_str]:
  "s = [] \<or> (\<not> is_space (hd s) \<and> \<not> is_space (last s)) \<Longrightarrow> TrimSpace s = s"
proof -
  assume h: "s = [] \<or> (\<not> is_space (hd s) \<and> \<not> is_space (last s))"
  have keep: "dropWhile is_space t = t" if "t = [] \<or> \<not> is_space (hd t)" for t
    using that by (cases t) auto
  show ?thesis
    using h by (cases "s = []") (auto simp: TrimSpace_def keep hd_rev)
qed

lemma prefix_drop_append [go_str]: "prefix p s \<Longrightarrow> p @ drop (length p) s = s"
  by (auto simp: prefix_def)

lemma ReplaceAll_length:
  "length new < length old \<Longrightarrow> length (ReplaceAll s old new) \<le> length s"
proof (induction s old new rule: ReplaceAll.induct)
  case (1 s old new)
  show ?case
  proof (cases "prefix old s")
    case True
    then have "length old \<le> length s" by (rule prefix_length_le)
    with 1 True show ?thesis by (subst ReplaceAll.simps) (auto simp: le_diff_conv2)
  next
    case False
    with 1 show ?thesis by (subst ReplaceAll.simps) (cases s; auto)
  qed
qed

lemma ReplaceAll_shrinks:
  "Contains s old \<Longrightarrow> length new < length old \<Longrightarrow> length (ReplaceAll s old new) < length s"
proof (induction s)
  case Nil
  then show ?case by (auto simp: Contains_def split: if_splits)
next
  case (Cons x xs)
  show ?case
  proof (cases "prefix old (x # xs)")
    case True
    then have "length old \<le> length (x # xs)" by (rule prefix_length_le)
    with True Cons.prems(2) ReplaceAll_length[OF Cons.prems(2), of "drop (length old) (x # xs)"]
    show ?thesis by (subst ReplaceAll.simps) auto
  next
    case False
    with Cons show ?thesis
      by (subst ReplaceAll.simps) (auto simp: Contains_def)
  qed
qed

text \<open>Lower case letters are fixed points, and no other byte becomes one of the separators.\<close>

lemma lower_byte_cases:
  obtains "lower_byte c = c" "\<not> (65 \<le> (of_char c :: nat) \<and> of_char c \<le> (90 :: nat))"
  | "of_char (lower_byte c) = (of_char c + 32 :: nat)" "65 \<le> (of_char c :: nat)" "of_char c \<le> (90 :: nat)"
  by (cases "CHR ''A'' \<le> c \<and> c \<le> CHR ''Z''")
     (auto simp: lower_byte_def less_eq_char_def of_char_of)

lemma lower_byte_idem [simp]: "lower_byte (lower_byte c) = lower_byte c"
proof (cases c rule: lower_byte_cases)
  case 2
  then show ?thesis by (auto simp: lower_byte_def less_eq_char_def of_char_of)
qed simp

lemma ToLower_idem [simp]: "ToLower (ToLower s) = ToLower s"
  by (simp add: ToLower_def)

lemma EqualFold_ToLower [simp]: "EqualFold s (ToLower t) = EqualFold s t" "EqualFold (ToLower s) t = EqualFold s t"
  by (simp_all add: EqualFold_def)

lemma lower_byte_space [simp]: "lower_byte c = CHR '' '' \<longleftrightarrow> c = CHR '' ''"
proof (cases c rule: lower_byte_cases)
  case 2
  then have "lower_byte c \<noteq> CHR '' ''" "c \<noteq> CHR '' ''" by auto
  then show ?thesis by simp
qed simp

lemma SplitByte_ToLower: "SplitByte (ToLower s) CHR '' '' = map ToLower (SplitByte s CHR '' '')"
  by (induction s) (auto simp: ToLower_def split: list.splits)

subsection \<open>Lists\<close>

lemma take_append_drop_eq: "take n s @ drop n s = s"
  by simp

text \<open>The first index of a list whose element satisfies a predicate: a Go loop over the indices
  that returns at the first hit.\<close>

fun find_index :: "('a \<Rightarrow> bool) \<Rightarrow> 'a list \<Rightarrow> nat option" where
  "find_index P [] = None"
| "find_index P (x # xs) = (if P x then Some 0 else map_option Suc (find_index P xs))"

lemma find_index_None [simp]: "find_index P xs = None \<longleftrightarrow> (\<forall>x\<in>set xs. \<not> P x)"
  by (induction xs) auto

lemma find_index_SomeD:
  "find_index P xs = Some i \<Longrightarrow> i < length xs \<and> P (xs ! i) \<and> (\<forall>j<i. \<not> P (xs ! j))"
proof (induction xs arbitrary: i)
  case (Cons x xs)
  then show ?case
    by (cases i) (auto split: if_splits simp: nth_Cons split: nat.splits)
qed simp

lemma find_index_length: "find_index P xs = Some i \<Longrightarrow> i < length xs"
  by (drule find_index_SomeD) simp

lemma set_update_subset: "set (xs[i := x]) \<subseteq> insert x (set xs)"
  by (rule set_update_subset_insert)

lemma in_set_updateE:
  assumes "y \<in> set (xs[i := x])"
  obtains "y = x" | "y \<in> set xs"
  using assms set_update_subset_insert[of xs i x] by blast

end
