(* ===== verification/Go_Net.thy ===== *)
theory Go_Net
  imports Prelude "HOL-Library.Code_Target_Nat"
begin

unbundle bit_operations_syntax

text \<open>
  The functions of Go's packages \<^verbatim>\<open>strconv\<close>, \<^verbatim>\<open>net\<close>, \<^verbatim>\<open>net/netip\<close> and \<^verbatim>\<open>bufio\<close> that the firewall
  calls: decimal numbers, IP addresses in text form, address prefixes, host and port, lines of a
  file.  An address is \<open>A4\<close> with its 32 bits or \<open>A6\<close> with its 128 bits; zones never get past the
  callers and are not kept.
\<close>

subsection \<open>Decimal numbers\<close>

definition is_digit :: "char \<Rightarrow> bool" where
  "is_digit c \<longleftrightarrow> CHR ''0'' \<le> c \<and> c \<le> CHR ''9''"

definition digit_val :: "char \<Rightarrow> nat" where
  "digit_val c = of_char c - 48"

definition digit_char :: "nat \<Rightarrow> char" where
  "digit_char d = char_of (d + 48)"

fun itoa :: "nat \<Rightarrow> string" where
  "itoa n = (if n < 10 then [digit_char n] else itoa (n div 10) @ [digit_char (n mod 10)])"
declare itoa.simps [simp del]

definition Itoa :: "int \<Rightarrow> string" where
  "Itoa i = (if i < 0 then CHR ''-'' # itoa (nat (- i)) else itoa (nat i))"

definition digits_val :: "string \<Rightarrow> nat" where
  "digits_val s = foldl (\<lambda>v c. v * 10 + digit_val c) 0 s"

text \<open>\<^verbatim>\<open>strconv.Atoi\<close> for a 64-bit \<^verbatim>\<open>int\<close>.\<close>

definition Atoi :: "string \<Rightarrow> int result" where
  "Atoi s =
    (let neg = (s \<noteq> [] \<and> hd s = CHR ''-'');
         ds = (if s \<noteq> [] \<and> (hd s = CHR ''-'' \<or> hd s = CHR ''+'') then tl s else s);
         v = int (digits_val ds)
     in if ds = [] \<or> \<not> list_all is_digit ds then Inl ''invalid syntax''
        else if neg then (if v > 2 ^ 63 then Inl ''value out of range'' else Inr (- v))
        else if v \<ge> 2 ^ 63 then Inl ''value out of range'' else Inr v)"

lemma digit_char_props [simp]:
  assumes "d < 10"
  shows "is_digit (digit_char d)" "digit_val (digit_char d) = d"
  using assms unfolding is_digit_def digit_val_def digit_char_def less_eq_char_def
  by (simp_all add: of_char_of)

lemma digits_val_snoc [simp]: "digits_val (s @ [c]) = digits_val s * 10 + digit_val c"
  by (simp add: digits_val_def)

lemma itoa_digits [simp]: "list_all is_digit (itoa n)" "itoa n \<noteq> []" "digits_val (itoa n) = n"
proof (induction n rule: itoa.induct)
  case (1 n)
  { case 1 then show ?case using "1.IH" by (subst itoa.simps) auto }
  { case 2 then show ?case by (subst itoa.simps) auto }
  { case 3 then show ?case using "1.IH" by (subst itoa.simps) (auto simp: digits_val_def) }
qed

lemma digit_not_sign: "is_digit c \<Longrightarrow> c \<noteq> CHR ''-'' \<and> c \<noteq> CHR ''+'' \<and> c \<noteq> CHR ''.'' \<and> c \<noteq> CHR '':''"
  by (auto simp: is_digit_def less_eq_char_def)

text \<open>\<^verbatim>\<open>Atoi\<close> reads what \<^verbatim>\<open>Itoa\<close> prints, for every number of the 64-bit range.\<close>

lemma Atoi_Itoa:
  assumes "- (2 ^ 63) \<le> i" "i < 2 ^ 63"
  shows "Atoi (Itoa i) = Inr i"
proof (cases "i < 0")
  case True
  then show ?thesis using assms by (auto simp: Atoi_def Itoa_def Let_def)
next
  case False
  have "is_digit (hd (itoa (nat i)))" by (metis itoa_digits(1,2) list.set_sel(1) list_all_iff)
  then show ?thesis using False assms by (auto simp: Atoi_def Itoa_def Let_def dest: digit_not_sign)
qed

subsection \<open>Addresses\<close>

datatype addr = A4 "32 word" | A6 "128 word"

text \<open>\<^verbatim>\<open>parseIPv4Fields\<close>: \<open>start\<close> is true at the beginning and after a dot.\<close>

fun ipv4Loop :: "string \<Rightarrow> bool \<Rightarrow> nat \<Rightarrow> nat \<Rightarrow> nat list \<Rightarrow> nat list option" where
  "ipv4Loop [] start val digLen fields = (if length fields < 3 then None else Some (fields @ [val]))"
| "ipv4Loop (c # s) start val digLen fields =
    (if is_digit c then
       (if digLen = 1 \<and> val = 0 then None
        else let v = val * 10 + digit_val c in
             if v > 255 then None else ipv4Loop s False v (Suc digLen) fields)
     else if c = CHR ''.'' then
       (if start \<or> s = [] then None
        else if length fields = 3 then None
        else ipv4Loop s True 0 0 (fields @ [val]))
     else None)"

definition parseIPv4Fields :: "string \<Rightarrow> nat list option" where
  "parseIPv4Fields s = ipv4Loop s True 0 0 []"

definition hex_val :: "char \<Rightarrow> nat option" where
  "hex_val c =
    (if is_digit c then Some (digit_val c)
     else if CHR ''a'' \<le> c \<and> c \<le> CHR ''f'' then Some (of_char c - 87)
     else if CHR ''A'' \<le> c \<and> c \<le> CHR ''F'' then Some (of_char c - 55)
     else None)"

text \<open>The hexadecimal digits of one group: their number, their value and the rest of the text;
  \<^term>\<open>None\<close> for more than four.\<close>

fun hexGroup :: "string \<Rightarrow> nat \<Rightarrow> nat \<Rightarrow> (nat \<times> nat \<times> string) option" where
  "hexGroup [] off acc = Some (off, acc, [])"
| "hexGroup (c # s) off acc =
    (case hex_val c of
       None \<Rightarrow> Some (off, acc, c # s)
     | Some v \<Rightarrow> if off > 3 then None else hexGroup s (Suc off) (acc * 16 + v))"

lemma hexGroup_length: "hexGroup s off acc = Some (off', acc', rest) \<Longrightarrow> length rest + off' = length s + off"
  by (induction s off acc rule: hexGroup.induct) (auto split: option.splits if_splits)

text \<open>The loop of \<^verbatim>\<open>parseIPv6\<close>: \<open>bytes\<close> are the bytes written so far, \<open>ell\<close> the position of the
  ellipsis.  The result is the state at the end of the loop with the unread text.\<close>

function ipv6Loop :: "string \<Rightarrow> nat list \<Rightarrow> nat option \<Rightarrow> (nat list \<times> nat option \<times> string) option" where
  "ipv6Loop s bytes ell =
    (if length bytes \<ge> 16 then Some (bytes, ell, s)
     else case hexGroup s 0 0 of
       None \<Rightarrow> None
     | Some (off, acc, rest) \<Rightarrow>
         if off = 0 then None
         else if rest \<noteq> [] \<and> hd rest = CHR ''.'' then
           (if ell = None \<and> length bytes \<noteq> 12 then None
            else if length bytes + 4 > 16 then None
            else case parseIPv4Fields s of
              None \<Rightarrow> None
            | Some f \<Rightarrow> Some (bytes @ f, ell, []))
         else
           let bytes' = bytes @ [acc div 256, acc mod 256] in
           if rest = [] then Some (bytes', ell, [])
           else if hd rest \<noteq> CHR '':'' \<or> tl rest = [] then None
           else if hd (tl rest) = CHR '':'' then
             (if ell \<noteq> None then None
              else if tl (tl rest) = [] then Some (bytes', Some (length bytes'), [])
              else ipv6Loop (tl (tl rest)) bytes' (Some (length bytes')))
           else ipv6Loop (tl rest) bytes' ell)"
  by pat_completeness auto
termination by (relation "measure (\<lambda>(s, b, e). length s)") (auto dest: hexGroup_length)
declare ipv6Loop.simps [simp del]

definition word_of_bytes :: "nat list \<Rightarrow> 'a::len word" where
  "word_of_bytes bs = word_of_nat (foldl (\<lambda>v b. v * 256 + b) 0 bs)"

definition parseIPv6 :: "string \<Rightarrow> addr option" where
  "parseIPv6 s =
    (let dc = prefix ''::'' s in
     if dc \<and> length s = 2 then Some (A6 0)
     else case ipv6Loop (if dc then drop 2 s else s) [] (if dc then Some 0 else None) of
       None \<Rightarrow> None
     | Some (bytes, ell, rest) \<Rightarrow>
         if rest \<noteq> [] then None
         else if length bytes < 16 then
           (case ell of
              None \<Rightarrow> None
            | Some e \<Rightarrow> Some (A6 (word_of_bytes (take e bytes @ replicate (16 - length bytes) 0 @ drop e bytes))))
         else if ell \<noteq> None then None
         else Some (A6 (word_of_bytes bytes)))"

text \<open>\<^verbatim>\<open>netip.ParseAddr\<close> without zones.  A text with a percent sign is an address with a zone or an
  error; both callers refuse it.\<close>

definition ParseAddr :: "string \<Rightarrow> addr option" where
  "ParseAddr s =
    (if CHR ''%'' \<in> set s then None
     else case find (\<lambda>c. c = CHR ''.'' \<or> c = CHR '':'') s of
       None \<Rightarrow> None
     | Some c \<Rightarrow> if c = CHR ''.'' then map_option (\<lambda>f. A4 (word_of_bytes f)) (parseIPv4Fields s) else parseIPv6 s)"

definition As16 :: "addr \<Rightarrow> 128 word" where
  "As16 a = (case a of A4 w \<Rightarrow> word_of_nat (0xFFFF * 2 ^ 32 + unat w) | A6 w \<Rightarrow> w)"

text \<open>\<^verbatim>\<open>net.ParseIP\<close>: the sixteen bytes of the address.\<close>

definition ParseIP :: "string \<Rightarrow> 128 word option" where
  "ParseIP s = map_option As16 (ParseAddr s)"

subsection \<open>Printing addresses\<close>

definition dotted :: "nat \<Rightarrow> string" where
  "dotted n = itoa (n div 2 ^ 24 mod 256) @ ''.'' @ itoa (n div 2 ^ 16 mod 256) @ ''.'' @
     itoa (n div 2 ^ 8 mod 256) @ ''.'' @ itoa (n mod 256)"

definition hex_digit :: "nat \<Rightarrow> char" where
  "hex_digit d = (if d < 10 then digit_char d else char_of (d + 87))"

fun hex_group :: "nat \<Rightarrow> string" where
  "hex_group n = (if n < 16 then [hex_digit n] else hex_group (n div 16) @ [hex_digit (n mod 16)])"
declare hex_group.simps [simp del]

definition groups :: "128 word \<Rightarrow> nat list" where
  "groups w = map (\<lambda>i. unat w div 2 ^ (16 * (7 - i)) mod 2 ^ 16) [0..<8]"

text \<open>The first longest run of at least two zero groups, as its start and end.\<close>

definition zeroRun :: "nat list \<Rightarrow> (nat \<times> nat) option" where
  "zeroRun gs =
    fold (\<lambda>i best.
      let l = length (takeWhile (\<lambda>g. g = 0) (drop i gs));
          cur = (case best of None \<Rightarrow> 0 | Some (a, b) \<Rightarrow> b - a)
      in if l \<ge> 2 \<and> l > cur then Some (i, i + l) else best) [0..<length gs] None"

definition string6 :: "128 word \<Rightarrow> string" where
  "string6 w =
    (let gs = groups w in
     case zeroRun gs of
       None \<Rightarrow> Join (map hex_group gs) '':''
     | Some (a, b) \<Rightarrow> Join (map hex_group (take a gs)) '':'' @ ''::'' @ Join (map hex_group (drop b gs)) '':'')"

definition is4in6 :: "128 word \<Rightarrow> bool" where
  "is4in6 w \<longleftrightarrow> unat w div 2 ^ 32 = 0xFFFF"

text \<open>\<^verbatim>\<open>netip.Addr.String\<close> and \<^verbatim>\<open>net.IP.String\<close>: only the second prints an address of the mapped
  range in dotted form.\<close>

definition Addr_String :: "addr \<Rightarrow> string" where
  "Addr_String a =
    (case a of A4 w \<Rightarrow> dotted (unat w)
     | A6 w \<Rightarrow> if is4in6 w then ''::ffff:'' @ dotted (unat w mod 2 ^ 32) else string6 w)"

definition IP_String :: "128 word \<Rightarrow> string" where
  "IP_String w = (if is4in6 w then dotted (unat w mod 2 ^ 32) else string6 w)"

subsection \<open>Prefixes\<close>

definition LastIndexByte :: "string \<Rightarrow> char \<Rightarrow> nat option" where
  "LastIndexByte s c = map_option (\<lambda>i. length s - Suc i) (IndexByte (rev s) c)"

definition ParsePrefix :: "string \<Rightarrow> (addr \<times> nat) result" where
  "ParsePrefix s =
    (case LastIndexByte s CHR ''/'' of
       None \<Rightarrow> Inl ''no slash''
     | Some i \<Rightarrow>
         (case ParseAddr (take i s) of
            None \<Rightarrow> Inl ''unable to parse IP''
          | Some ip \<Rightarrow>
              let bitsStr = drop (Suc i) s in
              if length bitsStr > 1 \<and> (hd bitsStr < CHR ''1'' \<or> hd bitsStr > CHR ''9'')
              then Inl ''bad bits after slash''
              else case Atoi bitsStr of
                Inl e \<Rightarrow> Inl ''bad bits after slash''
              | Inr bits \<Rightarrow>
                  if bits < 0 \<or> bits > (case ip of A4 _ \<Rightarrow> 32 | A6 _ \<Rightarrow> 128)
                  then Inl ''prefix length out of range''
                  else Inr (ip, nat bits)))"

text \<open>\<^verbatim>\<open>Masked\<close>, \<^verbatim>\<open>Contains\<close> and \<^verbatim>\<open>Next\<close> on the bits of an address.\<close>

definition maskedBits :: "nat \<Rightarrow> 'a::len word \<Rightarrow> 'a word" where
  "maskedBits bits w = push_bit (LENGTH('a) - bits) (drop_bit (LENGTH('a) - bits) w)"

definition containsBits :: "nat \<Rightarrow> 'a::len word \<Rightarrow> 'a word \<Rightarrow> bool" where
  "containsBits bits p w \<longleftrightarrow> drop_bit (LENGTH('a) - bits) (w XOR p) = 0"

definition nextBits :: "'a::len word \<Rightarrow> 'a word option" where
  "nextBits w = (if w + 1 = 0 then None else Some (w + 1))"

subsection \<open>Host and port\<close>

definition SplitHostPort :: "string \<Rightarrow> (string \<times> string) result" where
  "SplitHostPort hp =
    (case LastIndexByte hp CHR '':'' of
       None \<Rightarrow> Inl ''missing port in address''
     | Some i \<Rightarrow>
         let port = drop (Suc i) hp;
             finish = (\<lambda>host j k.
               if CHR ''['' \<in> set (drop j hp) then Inl ''unexpected opening bracket in address''
               else if CHR '']'' \<in> set (drop k hp) then Inl ''unexpected closing bracket in address''
               else Inr (host, port))
         in if hd hp = CHR ''['' then
              (case IndexByte hp CHR '']'' of
                 None \<Rightarrow> Inl ''missing closing bracket in address''
               | Some e \<Rightarrow>
                   if Suc e = length hp then Inl ''missing port in address''
                   else if Suc e = i then finish (drop 1 (take e hp)) 1 (Suc e)
                   else if hp ! Suc e = CHR '':'' then Inl ''too many colons in address''
                   else Inl ''missing port in address'')
            else if CHR '':'' \<in> set (take i hp) then Inl ''too many colons in address''
            else finish (take i hp) 0 0)"

subsection \<open>Lines of a file\<close>

text \<open>\<^verbatim>\<open>bufio.Scanner\<close> with lines: the last line counts when it is not empty, a carriage return at
  the end is dropped, and a line of 65536 bytes or more stops the scan with an error.\<close>

definition dropCR :: "string \<Rightarrow> string" where
  "dropCR l = (if l \<noteq> [] \<and> last l = CHR 0x0D then butlast l else l)"

definition MaxScanTokenSize :: nat where "MaxScanTokenSize = 65536"

definition scanLines :: "string \<Rightarrow> string list \<times> gerror option" where
  "scanLines content =
    (let parts = SplitByte content CHR 0x0A;
         ls = (if last parts = [] then butlast parts else parts);
         ok = takeWhile (\<lambda>l. length l < MaxScanTokenSize) ls
     in (map dropCR ok, if length ok < length ls then Some ''bufio.Scanner: token too long'' else None))"

subsection \<open>Round trip of IPv4 addresses\<close>

lemma is_digit_dot [simp]: "\<not> is_digit CHR ''.''"
  by (simp add: is_digit_def less_eq_char_def)

lemma itoa_octet:
  assumes "v < 256"
  obtains "v < 10" "itoa v = [digit_char v]"
  | a b where "v = a * 10 + b" "0 < a" "a < 10" "b < 10" "itoa v = [digit_char a, digit_char b]"
  | a b c where "v = (a * 10 + b) * 10 + c" "0 < a" "a < 10" "b < 10" "c < 10"
      "itoa v = [digit_char a, digit_char b, digit_char c]"
proof -
  consider "v < 10" | "10 \<le> v" "v < 100" | "100 \<le> v" by linarith
  then show ?thesis
  proof cases
    case 1
    then have "itoa v = [digit_char v]" by (subst itoa.simps) simp
    with 1 show ?thesis by (rule that(1))
  next
    case 2
    then have "itoa v = [digit_char (v div 10), digit_char (v mod 10)]"
      by (subst itoa.simps, subst itoa.simps) auto
    then show ?thesis using 2 by (intro that(2)[of "v div 10" "v mod 10"]) auto
  next
    case 3
    then have "v div 10 \<ge> 10" "v div 100 < 10" using assms by auto
    then have iv: "itoa v = [digit_char (v div 100), digit_char (v div 10 mod 10), digit_char (v mod 10)]"
      using 3 by (subst itoa.simps, subst itoa.simps, subst itoa.simps) (auto simp: div_mult2_eq[symmetric])
    have "v div 100 = v div 10 div 10" by (simp add: div_mult2_eq[symmetric])
    then have "v = (v div 100 * 10 + v div 10 mod 10) * 10 + v mod 10" by (simp only: div_mult_mod_eq)
    moreover have "0 < v div 100" using 3 by simp
    ultimately show ?thesis using \<open>v div 100 < 10\<close> iv
      by (intro that(3)[of "v div 100" "v div 10 mod 10" "v mod 10"]) simp_all
  qed
qed

lemma ipv4Loop_octet:
  assumes "v < 256"
  shows "\<exists>k. ipv4Loop (itoa v @ s) True 0 0 fs = ipv4Loop s False v (Suc k) fs"
  using assms
proof (cases rule: itoa_octet)
  case 1
  then show ?thesis by (intro exI[of _ 0]) simp
next
  case (2 a b)
  show ?thesis
    by (rule exI[of _ 1], unfold 2(5)) (use 2(1-4) assms in \<open>simp add: Let_def\<close>)
next
  case (3 a b c)
  have "a * 10 + b \<le> 255" using 3(1) assms by simp
  then show ?thesis
    by (intro exI[of _ 2], unfold 3(6)) (use 3(1-5) assms in \<open>simp add: Let_def numeral_3_eq_3\<close>)
qed

lemma ipv4Loop_octet_dot:
  assumes "v < 256" "s \<noteq> []" "length fs < 3"
  shows "ipv4Loop (itoa v @ ''.'' @ s) True 0 0 fs = ipv4Loop s True 0 0 (fs @ [v])"
proof -
  obtain k where "ipv4Loop (itoa v @ ''.'' @ s) True 0 0 fs = ipv4Loop (''.'' @ s) False v (Suc k) fs"
    using ipv4Loop_octet[OF assms(1)] by metis
  then show ?thesis using assms by simp
qed

lemma ipv4Loop_octet_end:
  assumes "v < 256" "length fs = 3"
  shows "ipv4Loop (itoa v) True 0 0 fs = Some (fs @ [v])"
  using ipv4Loop_octet[OF assms(1), of "[]" fs] assms(2) by auto

lemma parseIPv4Fields_dotted:
  "parseIPv4Fields (dotted n) =
    Some [n div 2 ^ 24 mod 256, n div 2 ^ 16 mod 256, n div 2 ^ 8 mod 256, n mod 256]"
  unfolding parseIPv4Fields_def dotted_def
  apply (subst ipv4Loop_octet_dot, simp, simp, simp)
  apply (subst ipv4Loop_octet_dot, simp, simp, simp)
  apply (subst ipv4Loop_octet_dot, simp, simp, simp)
  apply (subst ipv4Loop_octet_end, simp_all)
  done

lemma dotted_chars: "set (dotted n) \<subseteq> Collect is_digit \<union> {CHR ''.''}" "CHR ''.'' \<in> set (dotted n)"
  using itoa_digits(1) by (auto simp: dotted_def list_all_iff)

lemma ParseAddr_dotted:
  "ParseAddr (dotted n) =
    Some (A4 (word_of_bytes [n div 2 ^ 24 mod 256, n div 2 ^ 16 mod 256, n div 2 ^ 8 mod 256, n mod 256]))"
proof -
  have no: "CHR ''%'' \<notin> set (dotted n)" "CHR '':'' \<notin> set (dotted n)"
    using dotted_chars(1)[of n] by (auto simp: is_digit_def less_eq_char_def)
  have "find (\<lambda>c. c = CHR ''.'' \<or> c = CHR '':'') (dotted n) = Some CHR ''.''"
  proof (cases "find (\<lambda>c. c = CHR ''.'' \<or> c = CHR '':'') (dotted n)")
    case None
    then show ?thesis using dotted_chars(2)[of n] by (auto simp: find_None_iff)
  next
    case (Some c)
    then have "c \<in> set (dotted n)" "c = CHR ''.'' \<or> c = CHR '':''" by (auto simp: find_Some_iff) (metis nth_mem)+
    then show ?thesis using no Some by auto
  qed
  then show ?thesis using no by (simp add: ParseAddr_def parseIPv4Fields_dotted)
qed

lemma word_of_octets:
  assumes "n < 2 ^ 32"
  shows "word_of_bytes [n div 2 ^ 24 mod 256, n div 2 ^ 16 mod 256, n div 2 ^ 8 mod 256, n mod 256] = (word_of_nat n :: 32 word)"
proof -
  have "n div 2 ^ 24 mod 256 = n div 2 ^ 24" using assms by (simp add: less_mult_imp_div_less)
  moreover have "n div 2 ^ 24 = n div 2 ^ 16 div 256" "n div 2 ^ 16 = n div 2 ^ 8 div 256" "n div 2 ^ 8 = n div 256"
    by (simp_all add: div_mult2_eq[symmetric])
  ultimately have "((n div 2 ^ 24 mod 256 * 256 + n div 2 ^ 16 mod 256) * 256 + n div 2 ^ 8 mod 256) * 256 + n mod 256 = n"
    by (simp only: div_mult_mod_eq)
  then show ?thesis unfolding word_of_bytes_def by (simp only: foldl.simps mult_0 add_0)
qed

lemma LENGTH_128: "LENGTH(128) = 128"
  by simp

lemma unat_v4: "unat (w :: 32 word) < 2 ^ 32"
  using unsigned_less[of w, where ?'a = nat] by simp

lemma unat_As16_A4: "unat (As16 (A4 w)) = 0xFFFF * 2 ^ 32 + unat w"
proof -
  have "unat (word_of_nat m :: 128 word) = m" if "m < 2 ^ 128" for m
    using that take_bit_nat_eq_self[of m 128] by (simp only: unsigned_of_nat LENGTH_128 of_nat_id)
  then show ?thesis using unat_v4[of w] by (simp add: As16_def del: of_nat_add)
qed

lemma As16_A4_mapped: "is4in6 (As16 (A4 w))" "unat (As16 (A4 w)) mod 2 ^ 32 = unat w"
proof -
  have "(65535 * 2 ^ 32 + m) div 2 ^ 32 = 65535 \<and> (65535 * 2 ^ 32 + m) mod 2 ^ 32 = m" if "m < 2 ^ 32" for m :: nat
    using that by (simp only: div_mult_self3 mod_mult_self3 div_less mod_less) simp
  then show "is4in6 (As16 (A4 w))" "unat (As16 (A4 w)) mod 2 ^ 32 = unat w"
    using unat_v4[of w] unfolding is4in6_def unat_As16_A4 by blast+
qed

text \<open>The text of an IPv4 address is read back to the same address.\<close>

lemma ParseIP_dotted: "ParseIP (dotted (unat w)) = Some (As16 (A4 w))"
  by (simp only: ParseIP_def ParseAddr_dotted word_of_octets[OF unat_v4] option.map) simp

lemma ParseIP_IP_String_v4: "ParseIP (IP_String (As16 (A4 w))) = Some (As16 (A4 w))"
  by (simp only: IP_String_def As16_A4_mapped ParseIP_dotted if_True)

lemma ParseIP_empty [simp]: "ParseIP [] = None"
  by (simp add: ParseIP_def ParseAddr_def)

end
