(* ===== verification/Go_URL.thy ===== *)
theory Go_URL
  imports Go_Net "HOL-Library.List_Lexorder"
begin

text \<open>
  Go's packages \<^verbatim>\<open>net/url\<close> and \<^verbatim>\<open>path\<close>, as far as the firewall uses them: percent encoding, query
  strings, parsing and printing of URLs, joining of paths.  Values of a query are an association list
  from keys to the values in their order; the keys stand in the order of their first appearance, on
  which no caller depends.
\<close>

subsection \<open>Percent encoding\<close>

datatype encoding = EncPath | EncPathSegment | EncHost | EncZone | EncUserPassword | EncQueryComponent | EncFragment

definition is_alnum :: "char \<Rightarrow> bool" where
  "is_alnum c \<longleftrightarrow> is_digit c \<or> (let l = lower_byte c in CHR ''a'' \<le> l \<and> l \<le> CHR ''z'')"

definition reservedIn :: "encoding \<Rightarrow> char \<Rightarrow> bool" where
  "reservedIn mode c \<longleftrightarrow>
    (case mode of
       EncPath \<Rightarrow> c = CHR ''?''
     | EncPathSegment \<Rightarrow> c \<in> set ''/;,?''
     | EncUserPassword \<Rightarrow> c \<in> set ''@/?:''
     | EncFragment \<Rightarrow> False
     | _ \<Rightarrow> True)"

definition shouldEscape :: "encoding \<Rightarrow> char \<Rightarrow> bool" where
  "shouldEscape mode c \<longleftrightarrow>
    \<not> is_alnum c \<and>
    \<not> ((mode = EncHost \<or> mode = EncZone) \<and> c \<in> set (CHR 0x27 # ''!$&()*+,;=:[]<>'' @ [CHR 0x22])) \<and>
    c \<notin> set ''-_.~'' \<and>
    (if c \<in> set ''$&+,/:;=?@'' then reservedIn mode c
     else \<not> (mode = EncFragment \<and> c \<in> set ''!()*''))"

definition upperhex :: "nat \<Rightarrow> char" where
  "upperhex d = ''0123456789ABCDEF'' ! d"

definition escapeByte :: "encoding \<Rightarrow> char \<Rightarrow> string" where
  "escapeByte mode c =
    (if c = CHR '' '' \<and> mode = EncQueryComponent then ''+''
     else if shouldEscape mode c then [CHR ''%'', upperhex (of_char c div 16), upperhex (of_char c mod 16)]
     else [c])"

definition escape :: "string \<Rightarrow> encoding \<Rightarrow> string" where
  "escape s mode = concat (map (escapeByte mode) s)"

definition escapeError :: "string \<Rightarrow> gerror" where
  "escapeError s = ''invalid URL escape '' @ quoted (take 3 s)"

text \<open>The two loops of \<^verbatim>\<open>unescape\<close> in one: the first error ends it.\<close>

fun unescape :: "string \<Rightarrow> encoding \<Rightarrow> string result" where
  "unescape [] mode = Inr []"
| "unescape (c # s) mode =
    (if c = CHR ''%'' then
       (case s of
          a # b # s' \<Rightarrow>
            (case (hex_val a, hex_val b) of
               (Some x, Some y) \<Rightarrow>
                 let v = char_of (16 * x + y) in
                 if mode = EncHost \<and> x < 8 \<and> [a, b] \<noteq> ''25'' then Inl (escapeError (c # s))
                 else if mode = EncZone \<and> [a, b] \<noteq> ''25'' \<and> v \<noteq> CHR '' '' \<and> shouldEscape EncHost v
                 then Inl (escapeError (c # s))
                 else map_sum id (\<lambda>r. v # r) (unescape s' mode)
             | _ \<Rightarrow> Inl (escapeError (c # s)))
        | _ \<Rightarrow> Inl (escapeError (c # s)))
     else if c = CHR ''+'' \<and> mode = EncQueryComponent
     then map_sum id (\<lambda>r. CHR '' '' # r) (unescape s mode)
     else if (mode = EncHost \<or> mode = EncZone) \<and> c < CHR 0x80 \<and> shouldEscape mode c
     then Inl (''invalid character in host name '' @ quoted [c])
     else map_sum id (\<lambda>r. c # r) (unescape s mode))"

definition QueryEscape :: "string \<Rightarrow> string" where "QueryEscape s = escape s EncQueryComponent"
definition QueryUnescape :: "string \<Rightarrow> string result" where "QueryUnescape s = unescape s EncQueryComponent"
definition PathUnescape :: "string \<Rightarrow> string result" where "PathUnescape s = unescape s EncPathSegment"

text \<open>\<^verbatim>\<open>strings.Cut\<close> with a separator of one byte.\<close>

definition CutByte :: "string \<Rightarrow> char \<Rightarrow> string \<times> string \<times> bool" where
  "CutByte s c =
    (case IndexByte s c of
       None \<Rightarrow> (s, [], False)
     | Some i \<Rightarrow> (take i s, drop (Suc i) s, True))"

subsection \<open>Query strings\<close>

type_synonym urlvalues = "(string \<times> string list) list"

fun valAdd :: "string \<Rightarrow> string \<Rightarrow> urlvalues \<Rightarrow> urlvalues" where
  "valAdd k v [] = [(k, [v])]"
| "valAdd k v ((k', vs) # m) = (if k' = k then (k', vs @ [v]) # m else (k', vs) # valAdd k v m)"

definition valValues :: "string \<Rightarrow> urlvalues \<Rightarrow> string list" where
  "valValues k m = (case map_of m k of None \<Rightarrow> [] | Some vs \<Rightarrow> vs)"

definition valGet :: "string \<Rightarrow> urlvalues \<Rightarrow> string" where
  "valGet k m = (case valValues k m of [] \<Rightarrow> [] | v # _ \<Rightarrow> v)"

text \<open>The loop of \<^verbatim>\<open>parseQuery\<close> runs over the parts between ampersands and keeps the first error; a
  semicolon overwrites it.\<close>

definition parsePair :: "string \<Rightarrow> urlvalues \<times> gerror option \<Rightarrow> urlvalues \<times> gerror option" where
  "parsePair part st =
    (let (m, err) = st in
     if CHR '';'' \<in> set part then (m, Some ''invalid semicolon separator in query'')
     else if part = [] then st
     else let (key, val, _) = CutByte part CHR ''='' in
       case QueryUnescape key of
         Inl e \<Rightarrow> (m, case err of None \<Rightarrow> Some e | _ \<Rightarrow> err)
       | Inr k \<Rightarrow>
           (case QueryUnescape val of
              Inl e \<Rightarrow> (m, case err of None \<Rightarrow> Some e | _ \<Rightarrow> err)
            | Inr v \<Rightarrow> (valAdd k v m, err)))"

definition ParseQuery :: "string \<Rightarrow> urlvalues \<times> gerror option" where
  "ParseQuery query = fold parsePair (SplitByte query CHR ''&'') ([], None)"

definition Encode :: "urlvalues \<Rightarrow> string" where
  "Encode m =
    Join (concat (map (\<lambda>k. map (\<lambda>v. QueryEscape k @ ''='' @ QueryEscape v) (valValues k m)) (sort (map fst m)))) ''&''"

subsection \<open>URLs\<close>

record URL =
  u_Scheme :: string
  u_Opaque :: string
  u_User :: "(string \<times> string option) option"
  u_Host :: string
  u_Path :: string
  u_RawPath :: string
  u_OmitHost :: bool
  u_ForceQuery :: bool
  u_RawQuery :: string
  u_Fragment :: string
  u_RawFragment :: string

definition noURL :: URL where
  "noURL = \<lparr> u_Scheme = [], u_Opaque = [], u_User = None, u_Host = [], u_Path = [], u_RawPath = [],
     u_OmitHost = False, u_ForceQuery = False, u_RawQuery = [], u_Fragment = [], u_RawFragment = [] \<rparr>"

text \<open>\<^verbatim>\<open>getScheme\<close>: the text before the first colon, if it is a scheme.\<close>

definition getScheme :: "string \<Rightarrow> (string \<times> string) result" where
  "getScheme rawURL =
    (let ok = (\<lambda>c. is_alnum c \<or> c \<in> set ''+-.'');
         i = length (takeWhile ok rawURL)
     in if rawURL \<noteq> [] \<and> (is_digit (hd rawURL) \<or> hd rawURL \<in> set ''+-.'') then Inr ([], rawURL)
        else if i < length rawURL \<and> rawURL ! i = CHR '':'' then
          if i = 0 then Inl ''missing protocol scheme'' else Inr (take i rawURL, drop (Suc i) rawURL)
        else Inr ([], rawURL))"

definition validOptionalPort :: "string \<Rightarrow> bool" where
  "validOptionalPort port \<longleftrightarrow> port = [] \<or> hd port = CHR '':'' \<and> list_all is_digit (tl port)"

text \<open>The next step of a computation that may fail.\<close>

definition andThen :: "'a result \<Rightarrow> ('a \<Rightarrow> 'b result) \<Rightarrow> 'b result" where
  "andThen r f = case_sum Inl f r"

lemma andThen_simps [simp]: "andThen (Inl e) f = Inl e" "andThen (Inr x) f = f x"
  by (simp_all add: andThen_def)

definition parseHost :: "string \<Rightarrow> string result" where
  "parseHost host =
    (case LastIndexByte host CHR ''['' of
       Some (Suc _) \<Rightarrow> Inl ''invalid IP-literal''
     | Some 0 \<Rightarrow>
         (case LastIndexByte host CHR '']'' of
            None \<Rightarrow> Inl ''missing ']' in host''
          | Some j \<Rightarrow>
              let colonPort = drop (Suc j) host; hostname = take (j - 1) (tl host) in
              if \<not> validOptionalPort colonPort then Inl (''invalid port '' @ colonPort @ '' after host'')
              else andThen (unescape colonPort EncHost) (\<lambda>p.
                andThen (case Index hostname ''%25'' of
                        Some z \<Rightarrow> andThen (unescape (take z hostname) EncHost)
                                   (\<lambda>h. map_sum id (\<lambda>zo. h @ zo) (unescape (drop z hostname) EncZone))
                      | None \<Rightarrow> unescape hostname EncHost) (\<lambda>h.
                case ParseAddr h of
                  None \<Rightarrow> Inl ''invalid host''
                | Some (A4 _) \<Rightarrow> Inl ''invalid IP-literal''
                | Some (A6 _) \<Rightarrow> Inr (''['' @ h @ '']'' @ p))))
     | None \<Rightarrow>
         (case LastIndexByte host CHR '':'' of
            Some i \<Rightarrow>
              if validOptionalPort (drop i host) then unescape host EncHost
              else Inl (''invalid port '' @ drop i host @ '' after host'')
          | None \<Rightarrow> unescape host EncHost))"

definition validUserinfo :: "string \<Rightarrow> bool" where
  "validUserinfo s \<longleftrightarrow>
    list_all (\<lambda>c. is_alnum c \<or> c \<in> set (CHR 0x27 # ''-._:~!$&()*+,;=%@'')) s"

definition parseAuthority :: "string \<Rightarrow> ((string \<times> string option) option \<times> string) result" where
  "parseAuthority authority =
    (case LastIndexByte authority CHR ''@'' of
       None \<Rightarrow> map_sum id (Pair None) (parseHost authority)
     | Some i \<Rightarrow>
         andThen (parseHost (drop (Suc i) authority)) (\<lambda>host.
           let userinfo = take i authority in
           if \<not> validUserinfo userinfo then Inl ''net/url: invalid userinfo''
           else case CutByte userinfo CHR '':'' of
             (name, pass, True) \<Rightarrow>
               andThen (unescape name EncUserPassword) (\<lambda>n.
                 map_sum id (\<lambda>p. (Some (n, Some p), host)) (unescape pass EncUserPassword))
           | _ \<Rightarrow> map_sum id (\<lambda>n. (Some (n, None), host)) (unescape userinfo EncUserPassword)))"

definition setPath :: "string \<Rightarrow> URL \<Rightarrow> URL result" where
  "setPath p u =
    map_sum id (\<lambda>path. u\<lparr>u_Path := path, u_RawPath := (if p = escape path EncPath then [] else p)\<rparr>) (unescape p EncPath)"

definition setFragment :: "string \<Rightarrow> URL \<Rightarrow> URL result" where
  "setFragment f u =
    map_sum id (\<lambda>frag. u\<lparr>u_Fragment := frag, u_RawFragment := (if f = escape frag EncFragment then [] else f)\<rparr>)
      (unescape f EncFragment)"

text \<open>The query of a URL is cut off first; a lone question mark at the end is remembered.\<close>

definition cutQuery :: "string \<Rightarrow> URL \<Rightarrow> string \<times> URL" where
  "cutQuery rest u =
    (if suffix ''?'' rest \<and> length (filter (\<lambda>c. c = CHR ''?'') rest) = 1
     then (butlast rest, u\<lparr>u_ForceQuery := True\<rparr>)
     else let (r, q, _) = CutByte rest CHR ''?'' in (r, u\<lparr>u_RawQuery := q\<rparr>))"

definition parseHier :: "bool \<Rightarrow> string \<Rightarrow> URL \<Rightarrow> URL result" where
  "parseHier viaRequest rest u =
    (if (u_Scheme u \<noteq> [] \<or> \<not> viaRequest \<and> \<not> prefix ''///'' rest) \<and> prefix ''//'' rest then
       let a = drop 2 rest;
           (authority, path) = (case IndexByte a CHR ''/'' of None \<Rightarrow> (a, []) | Some i \<Rightarrow> (take i a, drop i a))
       in andThen (parseAuthority authority) (\<lambda>(user, host). setPath path (u\<lparr>u_User := user, u_Host := host\<rparr>))
     else setPath rest (if u_Scheme u \<noteq> [] \<and> prefix ''/'' rest then u\<lparr>u_OmitHost := True\<rparr> else u))"

definition parseURL :: "bool \<Rightarrow> string \<Rightarrow> URL result" where
  "parseURL viaRequest rawURL =
    (if list_ex (\<lambda>c. c < CHR '' '' \<or> c = CHR 0x7F) rawURL then Inl ''net/url: invalid control character in URL''
     else if rawURL = [] \<and> viaRequest then Inl ''empty url''
     else if rawURL = ''*'' then Inr (noURL\<lparr>u_Path := ''*''\<rparr>)
     else andThen (getScheme rawURL) (\<lambda>(scheme, rest0).
       let (rest, u) = cutQuery rest0 (noURL\<lparr>u_Scheme := ToLower scheme\<rparr>) in
       if \<not> prefix ''/'' rest \<and> u_Scheme u \<noteq> [] then Inr (u\<lparr>u_Opaque := rest\<rparr>)
       else if \<not> prefix ''/'' rest \<and> viaRequest then Inl ''invalid URI for request''
       else if \<not> prefix ''/'' rest \<and> CHR '':'' \<in> set (fst (CutByte rest CHR ''/''))
       then Inl ''first path segment in URL cannot contain colon''
       else parseHier viaRequest rest u))"

definition URL_Parse :: "string \<Rightarrow> URL result" where
  "URL_Parse rawURL =
    (let (u, frag, _) = CutByte rawURL CHR ''#'' in
     andThen (parseURL False u) (\<lambda>url. if frag = [] then Inr url else setFragment frag url))"

definition URL_ParseRequestURI :: "string \<Rightarrow> URL result" where
  "URL_ParseRequestURI rawURL = parseURL True rawURL"

definition validEncoded :: "string \<Rightarrow> encoding \<Rightarrow> bool" where
  "validEncoded s mode \<longleftrightarrow>
    list_all (\<lambda>c. c \<in> set (CHR 0x27 # ''!$&()*+,;=:@[]%'') \<or> \<not> shouldEscape mode c) s"

definition EscapedPath :: "URL \<Rightarrow> string" where
  "EscapedPath u =
    (if u_RawPath u \<noteq> [] \<and> validEncoded (u_RawPath u) EncPath \<and> unescape (u_RawPath u) EncPath = Inr (u_Path u)
     then u_RawPath u else if u_Path u = ''*'' then ''*'' else escape (u_Path u) EncPath)"

definition EscapedFragment :: "URL \<Rightarrow> string" where
  "EscapedFragment u =
    (if u_RawFragment u \<noteq> [] \<and> validEncoded (u_RawFragment u) EncFragment
        \<and> unescape (u_RawFragment u) EncFragment = Inr (u_Fragment u)
     then u_RawFragment u else escape (u_Fragment u) EncFragment)"

definition userString :: "string \<times> string option \<Rightarrow> string" where
  "userString ui =
    (case ui of (n, None) \<Rightarrow> escape n EncUserPassword
     | (n, Some p) \<Rightarrow> escape n EncUserPassword @ '':'' @ escape p EncUserPassword)"

definition URL_String :: "URL \<Rightarrow> string" where
  "URL_String u =
    (let scheme = (if u_Scheme u \<noteq> [] then u_Scheme u @ '':'' else []);
         host = (if u_Scheme u = [] \<and> u_Host u = [] \<and> u_User u = None \<or>
                    u_OmitHost u \<and> u_Host u = [] \<and> u_User u = None then []
                 else (if u_Host u \<noteq> [] \<or> u_Path u \<noteq> [] \<or> u_User u \<noteq> None then ''//'' else []) @
                      (case u_User u of None \<Rightarrow> [] | Some ui \<Rightarrow> userString ui @ ''@'') @
                      escape (u_Host u) EncHost);
         path = EscapedPath u;
         slash = (if path \<noteq> [] \<and> hd path \<noteq> CHR ''/'' \<and> u_Host u \<noteq> [] then ''/'' else []);
         dot = (if scheme @ host @ slash = [] \<and> CHR '':'' \<in> set (fst (CutByte path CHR ''/'')) then ''./'' else [])
     in scheme @ (if u_Opaque u \<noteq> [] then u_Opaque u else host @ slash @ dot @ path) @
        (if u_ForceQuery u \<or> u_RawQuery u \<noteq> [] then ''?'' @ u_RawQuery u else []) @
        (if u_Fragment u \<noteq> [] then ''#'' @ EscapedFragment u else []))"

subsection \<open>Paths\<close>

definition cleanStep :: "bool \<Rightarrow> string \<Rightarrow> string list \<Rightarrow> string list" where
  "cleanStep rooted seg out =
    (if seg = [] \<or> seg = ''.'' then out
     else if seg = ''..'' then
       if out \<noteq> [] \<and> last out \<noteq> ''..'' then butlast out else if rooted then out else out @ [seg]
     else out @ [seg])"

definition path_Clean :: "string \<Rightarrow> string" where
  "path_Clean p =
    (if p = [] then ''.''
     else let rooted = (hd p = CHR ''/''); out = Join (fold (cleanStep rooted) (SplitByte p CHR ''/'') []) ''/''
          in if rooted then CHR ''/'' # out else if out = [] then ''.'' else out)"

definition path_Join :: "string list \<Rightarrow> string" where
  "path_Join elem =
    (let es = filter (\<lambda>e. e \<noteq> []) elem in if es = [] then [] else path_Clean (Join es ''/''))"

definition JoinPath :: "string \<Rightarrow> string \<Rightarrow> string result" where
  "JoinPath base elem =
    andThen (URL_Parse base) (\<lambda>u.
      let e0 = EscapedPath u;
          p = (if prefix ''/'' e0 then path_Join [e0, elem] else tl (path_Join [CHR ''/'' # e0, elem]));
          p' = (if suffix ''/'' elem \<and> \<not> suffix ''/'' p then p @ ''/'' else p)
      in Inr (URL_String (case setPath p' u of Inl _ \<Rightarrow> u | Inr u' \<Rightarrow> u')))"

subsection \<open>Escaping is reversible\<close>

lemma upperhex_val: "d < 16 \<Longrightarrow> hex_val (upperhex d) = Some d"
proof -
  have "\<forall>d<16. hex_val (upperhex d) = Some d" by code_simp
  then show "d < 16 \<Longrightarrow> ?thesis" by blast
qed

lemma of_char_bound: "of_char c < (256 :: nat)"
  by (rule nat_of_char_less_256)

lemma escaped_pair:
  "hex_val (upperhex (of_char c div 16)) = Some (of_char c div 16)"
  "hex_val (upperhex (of_char c mod 16)) = Some (of_char c mod 16)"
  "char_of (16 * (of_char c div 16) + of_char c mod 16 :: nat) = c"
proof -
  have "of_char c < (256 :: nat)" by (rule of_char_bound)
  then have "of_char c div 16 < (16 :: nat)" by (simp add: less_mult_imp_div_less)
  then show "hex_val (upperhex (of_char c div 16)) = Some (of_char c div 16)" by (rule upperhex_val)
  show "hex_val (upperhex (of_char c mod 16)) = Some (of_char c mod 16)" by (rule upperhex_val) simp
  show "char_of (16 * (of_char c div 16) + of_char c mod 16 :: nat) = c"
    by (simp only: mult_div_mod_eq char_of_char)
qed

lemma shouldEscape_percent: "shouldEscape EncQueryComponent CHR ''%''" "shouldEscape EncQueryComponent CHR ''+''"
  "shouldEscape EncQueryComponent CHR ''&''" "shouldEscape EncQueryComponent CHR ''=''"
  "shouldEscape EncQueryComponent CHR '';''"
  by code_simp+

lemma unescape_escapeByte:
  "unescape (escapeByte EncQueryComponent c @ s) EncQueryComponent
    = map_sum id (\<lambda>r. c # r) (unescape s EncQueryComponent)"
proof (cases "c = CHR '' ''")
  case False
  then show ?thesis
    using shouldEscape_percent escaped_pair[of c] by (auto simp: escapeByte_def Let_def)
qed (simp add: escapeByte_def)

lemma QueryUnescape_QueryEscape [simp]: "QueryUnescape (QueryEscape s) = Inr s"
  unfolding QueryUnescape_def QueryEscape_def escape_def
  by (induction s) (simp_all add: unescape_escapeByte)

lemma QueryEscape_chars: "c \<in> set (QueryEscape s) \<Longrightarrow> c \<notin> set ''&=;''"
proof -
  have u: "\<forall>d<16. upperhex d \<notin> set ''&=;''" by code_simp
  have "set (escapeByte EncQueryComponent a) \<inter> set ''&=;'' = {}" for a
  proof (cases "shouldEscape EncQueryComponent a")
    case True
    have "of_char a < (256 :: nat)" by (rule of_char_bound)
    then have "of_char a div 16 < (16 :: nat)" by (simp add: less_mult_imp_div_less)
    then have "upperhex (of_char a div 16) \<notin> set ''&=;''" using u by blast
    moreover have "upperhex (of_char a mod 16) \<notin> set ''&=;''" using u by (simp del: list.set)
    ultimately show ?thesis using True by (auto simp: escapeByte_def)
  qed (use shouldEscape_percent in \<open>auto simp: escapeByte_def\<close>)
  then show "c \<in> set (QueryEscape s) \<Longrightarrow> c \<notin> set ''&=;''"
    by (auto simp: QueryEscape_def escape_def)
qed

subsection \<open>Queries read back\<close>

definition pairText :: "string \<times> string \<Rightarrow> string" where
  "pairText kv = QueryEscape (fst kv) @ ''='' @ QueryEscape (snd kv)"

definition valPairs :: "urlvalues \<Rightarrow> (string \<times> string) list" where
  "valPairs m = concat (map (\<lambda>k. map (Pair k) (valValues k m)) (sort (map fst m)))"

lemma Encode_pairs: "Encode m = Join (map pairText (valPairs m)) ''&''"
  by (simp add: Encode_def valPairs_def pairText_def map_concat comp_def)

lemma pairText_plain: "CHR ''&'' \<notin> set (pairText kv)" "CHR '';'' \<notin> set (pairText kv)" "pairText kv \<noteq> []"
  using QueryEscape_chars by (auto simp: pairText_def)

lemma parsePair_pairText: "parsePair (pairText kv) (m, err) = (valAdd (fst kv) (snd kv) m, err)"
proof -
  have "CHR ''='' \<notin> set (QueryEscape (fst kv))" using QueryEscape_chars by fastforce
  then have "CutByte (pairText kv) CHR ''='' = (QueryEscape (fst kv), QueryEscape (snd kv), True)"
    by (simp add: CutByte_def pairText_def IndexByte_append_fresh)
  then show ?thesis using pairText_plain[of kv] by (simp add: parsePair_def Let_def)
qed

lemma fold_pairText:
  "fold parsePair (map pairText ps) (m, err) = (fold (\<lambda>kv. valAdd (fst kv) (snd kv)) ps m, err)"
  by (induction ps arbitrary: m) (simp_all add: parsePair_pairText)

lemma valValues_valAdd: "valValues k (valAdd k' v m) = (if k = k' then valValues k m @ [v] else valValues k m)"
  by (induction k' v m rule: valAdd.induct) (auto simp: valValues_def)

lemma valValues_fold:
  "valValues k (fold (\<lambda>kv. valAdd (fst kv) (snd kv)) ps m) = valValues k m @ map snd (filter (\<lambda>kv. fst kv = k) ps)"
  by (induction ps arbitrary: m) (auto simp: valValues_valAdd)

lemma valValues_notin: "k \<notin> fst ` set m \<Longrightarrow> valValues k m = []"
  by (simp add: valValues_def map_of_eq_None_iff[symmetric])

lemma filter_valPairs:
  assumes "distinct (map fst m)"
  shows "map snd (filter (\<lambda>kv. fst kv = k) (valPairs m)) = valValues k m"
proof -
  have *: "filter (\<lambda>kv. fst kv = k) (concat (map (\<lambda>k'. map (Pair k') (f k')) ks)) =
      (if k \<in> set ks then map (Pair k) (f k) else [])" if "distinct ks" for ks and f :: "string \<Rightarrow> string list"
    using that
  proof (induction ks)
    case (Cons a ks)
    then have "k \<in> set ks \<Longrightarrow> a \<noteq> k" by auto
    with Cons show ?case by (cases "a = k") (auto simp: filter_map comp_def)
  qed simp
  have "distinct (sort (map fst m))" using assms by simp
  then show ?thesis
    using *[of "sort (map fst m)" "\<lambda>k. valValues k m"] valValues_notin[of k m]
    by (auto simp: valPairs_def comp_def)
qed

text \<open>Printing a query and reading it back keeps the values of every key.\<close>

lemma ParseQuery_Encode:
  assumes "distinct (map fst m)"
  shows "valValues k (fst (ParseQuery (Encode m))) = valValues k m" "snd (ParseQuery (Encode m)) = None"
proof -
  have "ParseQuery (Encode m) = (fold (\<lambda>kv. valAdd (fst kv) (snd kv)) (valPairs m) [], None)"
  proof (cases "valPairs m = []")
    case False
    then have "SplitByte (Encode m) CHR ''&'' = map pairText (valPairs m)"
      unfolding Encode_pairs by (intro SplitByte_Join) (auto simp: pairText_plain)
    then show ?thesis by (simp add: ParseQuery_def fold_pairText)
  qed (simp add: ParseQuery_def Encode_pairs parsePair_def)
  then show "valValues k (fst (ParseQuery (Encode m))) = valValues k m" "snd (ParseQuery (Encode m)) = None"
    by (simp_all add: valValues_fold filter_valPairs[OF assms], simp add: valValues_def)
qed

lemma valAdd_keys: "set (map fst (valAdd k v m)) = insert k (set (map fst m))"
  by (induction k v m rule: valAdd.induct) auto

lemma valAdd_distinct: "distinct (map fst m) \<Longrightarrow> distinct (map fst (valAdd k v m))"
proof (induction k v m rule: valAdd.induct)
  case (2 k v k' vs m)
  then show ?case using valAdd_keys[of k v m] by auto
qed simp

lemma parsePair_distinct: "distinct (map fst (fst st)) \<Longrightarrow> distinct (map fst (fst (parsePair part st)))"
  by (cases st) (auto simp: parsePair_def Let_def valAdd_distinct split: prod.splits sum.splits)

lemma ParseQuery_distinct: "distinct (map fst (fst (ParseQuery q)))"
  unfolding ParseQuery_def
  by (rule fold_invariant[where Q = "\<lambda>_. True" and P = "\<lambda>st. distinct (map fst (fst st))"])
     (simp_all add: parsePair_distinct)

end
