(* ===== verification/Go_HTTP.thy ===== *)
theory Go_HTTP
  imports Go_URL "HOL-Library.AList"
begin

text \<open>
  More of Go's library, as the validators use it: \<^verbatim>\<open>strings.Split\<close> with any separator, the number and
  boolean readers of \<^verbatim>\<open>strconv\<close>, and the headers and cookies of \<^verbatim>\<open>net/http\<close>.
\<close>

subsection \<open>Splitting\<close>

text \<open>An empty separator splits into characters; the firewall uses it on no text outside ASCII.\<close>

function Split :: "string \<Rightarrow> string \<Rightarrow> string list" where
  "Split s sep =
    (if sep = [] then map (\<lambda>c. [c]) s
     else case Index s sep of
       None \<Rightarrow> [s]
     | Some i \<Rightarrow> take i s # Split (drop (i + length sep) s) sep)"
  by pat_completeness auto
termination
proof (relation "measure (\<lambda>(s, sep). length s)", goal_cases)
  case (2 s sep i)
  then have "s \<noteq> []" by (cases s) auto
  with 2 show ?case by (cases sep) auto
qed simp
declare Split.simps [simp del]

lemma Index_byte: "Index s [c] = IndexByte s c"
  by (induction s) (auto simp: prefix_Cons)

text \<open>With a separator of one byte it is the splitting of the prelude.\<close>

lemma Split_byte: "Split s [c] = SplitByte s c"
proof (induction s "[c]" rule: Split.induct)
  case (1 s)
  show ?case
  proof (cases "IndexByte s c")
    case None
    then show ?thesis by (subst Split.simps) (simp add: Index_byte SplitByte_no_sep)
  next
    case (Some i)
    have s: "s = take i s @ c # drop (Suc i) s" "c \<notin> set (take i s)"
      using IndexByte_SomeD[OF Some] by (metis append_take_drop_id, simp)
    then have "SplitByte s c = take i s # SplitByte (drop (Suc i) s) c" using SplitByte_append by metis
    with 1 Some show ?thesis by (subst Split.simps) (simp add: Index_byte)
  qed
qed

lemma Split_nonempty: "sep \<noteq> [] \<Longrightarrow> Split s sep \<noteq> []"
  by (subst Split.simps) (simp split: option.splits)

subsection \<open>Numbers\<close>

text \<open>The two errors of \<^verbatim>\<open>strconv\<close>.\<close>

definition ErrSyntax :: gerror where "ErrSyntax = ''invalid syntax''"
definition ErrRange :: gerror where "ErrRange = ''value out of range''"

text \<open>\<^verbatim>\<open>underscoreOK\<close>: \<open>prev\<close> tells the last byte seen.\<close>

datatype uscore = AtStart | AfterDigit | AfterUscore | AfterOther

fun uscoreLoop :: "bool \<Rightarrow> uscore \<Rightarrow> string \<Rightarrow> bool" where
  "uscoreLoop hex prev [] = (prev \<noteq> AfterUscore)"
| "uscoreLoop hex prev (c # s) =
    (if is_digit c \<or> hex \<and> CHR ''a'' \<le> lower_byte c \<and> lower_byte c \<le> CHR ''f'' then uscoreLoop hex AfterDigit s
     else if c = CHR ''_'' then (if prev \<noteq> AfterDigit then False else uscoreLoop hex AfterUscore s)
     else if prev = AfterUscore then False else uscoreLoop hex AfterOther s)"

definition dropSign :: "string \<Rightarrow> string" where
  "dropSign s = (if s \<noteq> [] \<and> (hd s = CHR ''-'' \<or> hd s = CHR ''+'') then tl s else s)"

definition underscoreOK :: "string \<Rightarrow> bool" where
  "underscoreOK s0 =
    (let s = dropSign s0 in
     if length s \<ge> 2 \<and> hd s = CHR ''0'' \<and> lower_byte (s ! 1) \<in> set ''box''
     then uscoreLoop (lower_byte (s ! 1) = CHR ''x'') AfterDigit (drop 2 s)
     else uscoreLoop False AtStart s)"

text \<open>\<^verbatim>\<open>ParseUint\<close> with base 0: the prefix chooses the base; the loop ends at the first digit that is
  none, or at the first value above the bound.\<close>

definition digitIn :: "char \<Rightarrow> nat option" where
  "digitIn c =
    (if is_digit c then Some (digit_val c)
     else if CHR ''a'' \<le> lower_byte c \<and> lower_byte c \<le> CHR ''z'' then Some (of_char (lower_byte c) - 87)
     else None)"

fun uintLoop :: "nat \<Rightarrow> nat \<Rightarrow> nat \<Rightarrow> string \<Rightarrow> nat result" where
  "uintLoop base maxVal n [] = Inr n"
| "uintLoop base maxVal n (c # s) =
    (if c = CHR ''_'' then uintLoop base maxVal n s
     else case digitIn c of
       None \<Rightarrow> Inl ErrSyntax
     | Some d \<Rightarrow>
         if d \<ge> base then Inl ErrSyntax
         else if n * base + d > maxVal then Inl ErrRange
         else uintLoop base maxVal (n * base + d) s)"

definition basePrefix :: "string \<Rightarrow> nat \<times> string" where
  "basePrefix s =
    (if hd s \<noteq> CHR ''0'' then (10, s)
     else if length s \<ge> 3 \<and> lower_byte (s ! 1) = CHR ''b'' then (2, drop 2 s)
     else if length s \<ge> 3 \<and> lower_byte (s ! 1) = CHR ''o'' then (8, drop 2 s)
     else if length s \<ge> 3 \<and> lower_byte (s ! 1) = CHR ''x'' then (16, drop 2 s)
     else (8, tl s))"

definition ParseUint0 :: "string \<Rightarrow> nat \<Rightarrow> nat result" where
  "ParseUint0 s bitSize =
    (if s = [] then Inl ErrSyntax
     else let (base, ds) = basePrefix s in
       case uintLoop base (2 ^ bitSize - 1) 0 ds of
         Inl e \<Rightarrow> Inl e
       | Inr n \<Rightarrow> if CHR ''_'' \<in> set ds \<and> \<not> underscoreOK s then Inl ErrSyntax else Inr n)"

text \<open>\<^verbatim>\<open>ParseInt\<close> with base 0.\<close>

definition ParseInt0 :: "string \<Rightarrow> nat \<Rightarrow> int result" where
  "ParseInt0 s bitSize =
    (if s = [] then Inl ErrSyntax
     else case ParseUint0 (dropSign s) bitSize of
       Inl e \<Rightarrow> Inl e
     | Inr un \<Rightarrow>
         if hd s = CHR ''-'' then (if un > 2 ^ (bitSize - 1) then Inl ErrRange else Inr (- int un))
         else if un \<ge> 2 ^ (bitSize - 1) then Inl ErrRange else Inr (int un))"

definition ParseBool :: "string \<Rightarrow> bool result" where
  "ParseBool s =
    (if s \<in> {''1'', ''t'', ''T'', ''true'', ''TRUE'', ''True''} then Inr True
     else if s \<in> {''0'', ''f'', ''F'', ''false'', ''FALSE'', ''False''} then Inr False
     else Inl ErrSyntax)"

lemma ParseInt0_range:
  assumes "ParseInt0 s bitSize = Inr i"
  shows "- (2 ^ (bitSize - 1)) \<le> i" "i < 2 ^ (bitSize - 1)"
proof -
  have c: "int un \<le> 2 ^ n \<longleftrightarrow> un \<le> 2 ^ n" "int un < 2 ^ n \<longleftrightarrow> un < 2 ^ n" for un n :: nat
    by (metis of_nat_le_iff of_nat_numeral of_nat_power, metis of_nat_less_iff of_nat_numeral of_nat_power)
  have "int un < 2 ^ n \<Longrightarrow> - (2 ^ n) \<le> int un" for un n :: nat
    by (metis order.trans neg_le_0_iff_le of_nat_0_le_iff zero_le_power zero_le_numeral)
  then show "- (2 ^ (bitSize - 1)) \<le> i" "i < 2 ^ (bitSize - 1)"
    using assms unfolding ParseInt0_def
    by (auto simp: c not_le not_less split: if_splits sum.splits intro: order.strict_trans1[of _ 0])
qed

subsection \<open>Headers\<close>

type_synonym header = "(string \<times> string list) list"

definition is_token_char :: "char \<Rightarrow> bool" where
  "is_token_char c \<longleftrightarrow> is_alnum c \<or> c \<in> set (CHR 0x27 # CHR 0x60 # ''!#$%&*+-.^_|~'')"

fun canonLoop :: "bool \<Rightarrow> string \<Rightarrow> string" where
  "canonLoop upper [] = []"
| "canonLoop upper (c # s) = (let c' = (if upper then upper_byte c else lower_byte c) in c' # canonLoop (c' = CHR ''-'') s)"

definition CanonicalHeaderKey :: "string \<Rightarrow> string" where
  "CanonicalHeaderKey s = (if list_all is_token_char s then canonLoop True s else s)"

definition hdrGet :: "string \<Rightarrow> header \<Rightarrow> string" where
  "hdrGet k h = (case map_of h (CanonicalHeaderKey k) of Some (v # _) \<Rightarrow> v | _ \<Rightarrow> [])"

definition hdrAdd :: "string \<Rightarrow> string \<Rightarrow> header \<Rightarrow> header" where
  "hdrAdd k v h = valAdd (CanonicalHeaderKey k) v h"

definition hdrSet :: "string \<Rightarrow> string \<Rightarrow> header \<Rightarrow> header" where
  "hdrSet k v h = AList.update (CanonicalHeaderKey k) [v] h"

subsection \<open>Cookies\<close>

definition trimString :: "string \<Rightarrow> string" where
  "trimString s =
    (let sp = (\<lambda>c. c \<in> {CHR '' '', CHR 0x09, CHR 0x0A, CHR 0x0D})
     in rev (dropWhile sp (rev (dropWhile sp s))))"

definition validCookieValueByte :: "char \<Rightarrow> bool" where
  "validCookieValueByte c \<longleftrightarrow> CHR '' '' \<le> c \<and> c < CHR 0x7F \<and> c \<noteq> CHR 0x22 \<and> c \<noteq> CHR '';'' \<and> c \<noteq> CHR 0x5C"

definition parseCookieValue :: "string \<Rightarrow> string option" where
  "parseCookieValue raw =
    (let r = (if length raw > 1 \<and> hd raw = CHR 0x22 \<and> last raw = CHR 0x22 then butlast (tl raw) else raw)
     in if list_all validCookieValueByte r then Some r else None)"

definition cookiePart :: "string \<Rightarrow> string \<Rightarrow> string option" where
  "cookiePart want part0 =
    (let part = trimString part0; (name0, val, _) = CutByte part CHR ''=''; name = trimString name0
     in if part = [] \<or> name = [] \<or> \<not> list_all is_token_char name \<or> name \<noteq> want then None
        else parseCookieValue val)"

text \<open>\<^verbatim>\<open>Request.Cookie\<close>: the first cookie of that name; \<^term>\<open>None\<close> is \<^verbatim>\<open>ErrNoCookie\<close>, the only error.\<close>

definition reqCookie :: "header \<Rightarrow> string \<Rightarrow> string option" where
  "reqCookie h name =
    (if name = [] then None
     else case List.map_filter (cookiePart name)
                 (concat (map (\<lambda>line. SplitByte (trimString line) CHR '';'') (valValues ''Cookie'' h))) of
       [] \<Rightarrow> None
     | v # _ \<Rightarrow> Some v)"

text \<open>\<^verbatim>\<open>Request.AddCookie\<close> with a name and a value.\<close>

definition sanitizeCookieValue :: "string \<Rightarrow> string" where
  "sanitizeCookieValue v0 =
    (let v = filter validCookieValueByte v0
     in if v = [] then v else if CHR '' '' \<in> set v \<or> CHR '','' \<in> set v then CHR 0x22 # v @ [CHR 0x22] else v)"

definition addCookie :: "string \<Rightarrow> string \<Rightarrow> header \<Rightarrow> header" where
  "addCookie name val h =
    (let s = map (\<lambda>c. if c = CHR 0x0A \<or> c = CHR 0x0D then CHR ''-'' else c) name @ ''='' @ sanitizeCookieValue val;
         c = hdrGet ''Cookie'' h
     in hdrSet ''Cookie'' (if c \<noteq> [] then c @ ''; '' @ s else s) h)"

end
