(* ===== verification/OpenAPI.thy ===== *)
theory OpenAPI
  imports Go_HTTP
begin

text \<open>
  The data the validators work on: decoded values, schemas, parameters, operations and errors.  The
  library \<^verbatim>\<open>kin-openapi\<close> is not part of the repository.  Its structs are data types here, with the fields
  the firewall reads and one field for everything else; its methods are the fields of the record
  \<open>kin\<close>, an argument of the definitions that call them.  The numbers of type \<^verbatim>\<open>float64\<close> are a type
  parameter with their reader and printers in the record \<open>goFloat\<close>.  Schemas are finite trees: a schema
  that contains itself through references is not covered.
\<close>

subsection \<open>Values\<close>

text \<open>A value of type \<^verbatim>\<open>any\<close>.  \<open>GNil\<close> is the nil interface; \<open>GNilArr\<close> and \<open>GNilMap\<close> are interfaces that hold
  a nil slice and a nil map, which differ from it.  A map is an association list; its order is the
  order in which the map is filled.\<close>

datatype 'f gval = GNil | GStr string | GNumber string | GInt32 int | GInt64 int | GFloat 'f | GBool bool
  | GArr "'f gval list" | GNilArr | GMap "(string \<times> 'f gval) list" | GNilMap

record 'f goFloat =
  ParseFloat :: "string \<Rightarrow> 'f result"
  FormatFloat :: "'f \<Rightarrow> string"
  Format4 :: "'f \<Rightarrow> string"
  EqFloat :: "'f \<Rightarrow> 'f \<Rightarrow> bool"

definition isNilValue :: "'f gval \<Rightarrow> bool" where
  "isNilValue v \<longleftrightarrow> (case v of GNil \<Rightarrow> True | GNilArr \<Rightarrow> True | GNilMap \<Rightarrow> True | _ \<Rightarrow> False)"

text \<open>The format verb \<^verbatim>\<open>%v\<close>: maps are printed in the order of their keys.\<close>

fun sprintV :: "'f goFloat \<Rightarrow> 'f gval \<Rightarrow> string" where
  "sprintV F GNil = ''<nil>''"
| "sprintV F (GStr s) = s"
| "sprintV F (GNumber s) = s"
| "sprintV F (GInt32 i) = Itoa i"
| "sprintV F (GInt64 i) = Itoa i"
| "sprintV F (GFloat f) = FormatFloat F f"
| "sprintV F (GBool b) = (if b then ''true'' else ''false'')"
| "sprintV F (GArr xs) = ''['' @ Join (map (sprintV F) xs) '' '' @ '']''"
| "sprintV F GNilArr = ''[]''"
| "sprintV F (GMap m) =
    ''map['' @ Join (map snd (sort_key fst (map (\<lambda>kv. (fst kv, fst kv @ '':'' @ sprintV F (snd kv))) m))) '' '' @ '']''"
| "sprintV F GNilMap = ''map[]''"

text \<open>\<^verbatim>\<open>reflect.DeepEqual\<close>: maps are equal when they have the same entries.\<close>

fun sortMaps :: "'f gval \<Rightarrow> 'f gval" where
  "sortMaps (GArr xs) = GArr (map sortMaps xs)"
| "sortMaps (GMap m) = GMap (sort_key fst (map (\<lambda>kv. (fst kv, sortMaps (snd kv))) m))"
| "sortMaps v = v"

fun sameShape :: "('f \<Rightarrow> 'f \<Rightarrow> bool) \<Rightarrow> 'f gval \<Rightarrow> 'f gval \<Rightarrow> bool" where
  "sameShape eq (GFloat f) w = (case w of GFloat g \<Rightarrow> eq f g | _ \<Rightarrow> False)"
| "sameShape eq (GArr xs) w = (case w of GArr ys \<Rightarrow> list_all2 (sameShape eq) xs ys | _ \<Rightarrow> False)"
| "sameShape eq (GMap m) w =
    (case w of GMap n \<Rightarrow> list_all2 (\<lambda>kv kw. fst kv = fst kw \<and> sameShape eq (snd kv) (snd kw)) m n | _ \<Rightarrow> False)"
| "sameShape eq v w = (v = w)"

definition isEqual :: "'f goFloat \<Rightarrow> 'f gval \<Rightarrow> 'f gval \<Rightarrow> bool" where
  "isEqual F value1 value2 = sameShape (EqFloat F) (sortMaps value1) (sortMaps value2)"

subsection \<open>JSON documents\<close>

text \<open>A document of the JSON library, and its conversion.\<close>

datatype fjson = FJObject "(string \<times> fjson) list" | FJArray "fjson list" | FJNumber string
  | FJString string | FJBool bool | FJNull

fun convertToMap :: "fjson \<Rightarrow> 'f gval" where
  "convertToMap (FJObject kvs) = GMap (fold (\<lambda>kv m. AList.update (fst kv) (snd kv) m)
     (map (\<lambda>kv. (fst kv, convertToMap (snd kv))) kvs) [])"
| "convertToMap (FJArray xs) = (if xs = [] then GNilArr else GArr (map convertToMap xs))"
| "convertToMap (FJNumber s) = GNumber s"
| "convertToMap (FJString s) = GStr s"
| "convertToMap (FJBool b) = GBool b"
| "convertToMap FJNull = GNil"

subsection \<open>Schemas and operations\<close>

datatype ('f, 'x) schema = Schema
  (s_Ref: string) (s_Title: string) (s_Type: "string list option") (s_Format: string) (s_Pattern: string)
  (s_AllOf: "('f, 'x) schema list") (s_AnyOf: "('f, 'x) schema list") (s_OneOf: "('f, 'x) schema list")
  (s_Not: "('f, 'x) schema option") (s_Items: "('f, 'x) schema option")
  (s_Properties: "(string \<times> ('f, 'x) schema) list")
  (s_AddHas: "bool option") (s_AddSchema: "('f, 'x) schema option")
  (s_Default: "'f gval") (s_Max: "'f option") (s_Min: "'f option") (s_Rest: 'x)

record SerializationMethod =
  sm_Style :: string
  sm_Explode :: bool

record encodingObj =
  eo_ContentType :: string
  eo_Style :: string
  eo_Explode :: "bool option"

record ('f, 'x) mediaType =
  mt_Schema :: "('f, 'x) schema option"
  mt_Encoding :: "(string \<times> encodingObj) list"

type_synonym ('f, 'x) content = "(string \<times> ('f, 'x) mediaType) list"

text \<open>A parameter, also used for the headers of a response.  \<open>pa_Content\<close> is \<^term>\<open>None\<close> for a nil map.\<close>

record ('f, 'x) parameter =
  pa_Name :: string
  pa_In :: string
  pa_Required :: bool
  pa_AllowEmptyValue :: bool
  pa_Style :: string
  pa_Explode :: "bool option"
  pa_Schema :: "('f, 'x) schema option"
  pa_Content :: "('f, 'x) content option"

record ('f, 'x) requestBody =
  rb_Required :: bool
  rb_Content :: "('f, 'x) content"

record ('f, 'x) response =
  rp_Headers :: "(string \<times> ('f, 'x) parameter) list"
  rp_Content :: "('f, 'x) content"

record securityScheme =
  ss_Type :: string
  ss_Scheme :: string
  ss_In :: string
  ss_Name :: string

type_synonym securityRequirement = "(string \<times> string list) list"

record ('f, 'x) operation =
  op_Parameters :: "('f, 'x) parameter list"
  op_Security :: "securityRequirement list option"
  op_RequestBody :: "('f, 'x) requestBody option"
  op_Responses :: "(string \<times> ('f, 'x) response option) list"

text \<open>A route: the operation, the parameters of the path item, and the parts of the document it uses.\<close>

record ('f, 'x) route =
  rt_Operation :: "('f, 'x) operation"
  rt_PathParameters :: "('f, 'x) parameter list"
  rt_Security :: "securityRequirement list"
  rt_SecuritySchemes :: "(string \<times> securityScheme) list"

subsection \<open>Errors\<close>

datatype parseErrorKind = KindOther | KindUnsupportedFormat | KindInvalidFormat

datatype pathElem = PStr string | PInt nat

text \<open>Every error value that the validators build or inspect.  \<open>WrapErr\<close> is \<^verbatim>\<open>fmt.Errorf\<close> with the verb \<^verbatim>\<open>%w\<close>
  at its end.  The fields \<^verbatim>\<open>ExpectedType\<close> and \<^verbatim>\<open>ValueStr\<close> of \<^verbatim>\<open>ParseError\<close> are never set.\<close>

datatype ('f, 'x) oerr =
    ParseErr (pe_Kind: parseErrorKind) (pe_Value: "'f gval") (pe_Reason: string) (pe_path: "pathElem list")
      (pe_Cause: "('f, 'x) oerr option")
  | PlainErr string
  | WrapErr string "('f, 'x) oerr"
  | SchemaErr (se_Field: string) (se_Reason: string) (se_Value: "'f gval") (se_Schema: "('f, 'x) schema")
      (se_Pointer: "string list")
  | RequestErr (re_Parameter: "('f, 'x) parameter option") (re_Body: "('f, 'x) requestBody option")
      (re_Reason: string) (re_Err: "('f, 'x) oerr option")
  | ResponseErr (rs_Reason: string) (rs_Err: "('f, 'x) oerr option")
  | SecurityErr "securityRequirement list" "('f, 'x) oerr list"
  | MultiErr "('f, 'x) oerr list"
  | SecMissing (sm_Field: string) (sm_Message: string)

text \<open>The methods of the library.  \<open>kVisitJSON\<close> validates a value against a schema; it may write default values into the
  value, and the third result tells whether it did.  \<open>kErrText\<close> is \<^verbatim>\<open>Error()\<close> of the error types of the library.\<close>

datatype visit = VisitPlain bool | VisitRequest bool bool bool | VisitResponse bool

record ('f, 'x) kin =
  kTypeIs :: "string list option \<Rightarrow> string \<Rightarrow> bool"
  kTypePermits :: "string list option \<Rightarrow> string \<Rightarrow> bool"
  kTypeSlice :: "string list option \<Rightarrow> string list"
  kParamSM :: "('f, 'x) parameter \<Rightarrow> SerializationMethod result"
  kEncSM :: "encodingObj option \<Rightarrow> SerializationMethod"
  kContentGet :: "('f, 'x) content \<Rightarrow> string \<Rightarrow> ('f, 'x) mediaType option"
  kIsEmpty :: "('f, 'x) schema option \<Rightarrow> bool result"
  kVisitJSON :: "visit \<Rightarrow> ('f, 'x) schema \<Rightarrow> 'f gval \<Rightarrow> ('f, 'x) oerr option \<times> 'f gval \<times> bool"
  kGetByInAndName :: "('f, 'x) parameter list \<Rightarrow> string \<Rightarrow> string \<Rightarrow> ('f, 'x) parameter option"
  kStatus :: "(string \<times> ('f, 'x) response option) list \<Rightarrow> int \<Rightarrow> ('f, 'x) response option option"
  kDefault :: "(string \<times> ('f, 'x) response option) list \<Rightarrow> ('f, 'x) response option option"
  kErrText :: "('f, 'x) oerr \<Rightarrow> string"

subsection \<open>The methods of \<^verbatim>\<open>ParseError\<close>\<close>

definition showElem :: "pathElem \<Rightarrow> string" where
  "showElem p = (case p of PStr s \<Rightarrow> s | PInt n \<Rightarrow> itoa n)"

text \<open>The path of the cause comes first.\<close>

fun errPath :: "('f, 'x) oerr \<Rightarrow> pathElem list" where
  "errPath (ParseErr k v r p c) = (case c of Some c' \<Rightarrow> errPath c' | None \<Rightarrow> []) @ p"
| "errPath _ = []"

fun errText :: "'f goFloat \<Rightarrow> ('f, 'x) kin \<Rightarrow> ('f, 'x) oerr \<Rightarrow> string"
  and innerError :: "'f goFloat \<Rightarrow> ('f, 'x) kin \<Rightarrow> ('f, 'x) oerr \<Rightarrow> string" where
  "errText F K e =
    (case e of
       ParseErr k v r p c \<Rightarrow>
         (if errPath e \<noteq> [] then ''path '' @ Join (map showElem (errPath e)) ''.'' @ '': '' else []) @ innerError F K e
     | PlainErr s \<Rightarrow> s
     | WrapErr s e' \<Rightarrow> s @ errText F K e'
     | SecMissing f m \<Rightarrow> m
     | _ \<Rightarrow> kErrText K e)"
| "innerError F K e =
    (case e of
       ParseErr k v r p c \<Rightarrow>
         Join ((if v = GNil then [] else [''value '' @ sprintV F v]) @ (if r = [] then [] else [r]) @
               (case c of
                  None \<Rightarrow> []
                | Some c' \<Rightarrow> [case c' of ParseErr _ _ _ _ _ \<Rightarrow> innerError F K c' | _ \<Rightarrow> errText F K c'])) '': ''
     | _ \<Rightarrow> [])"

fun RootCause :: "('f, 'x) oerr \<Rightarrow> ('f, 'x) oerr option" where
  "RootCause (ParseErr k v r p c) =
    (case c of Some (ParseErr k' v' r' p' c') \<Rightarrow> RootCause (ParseErr k' v' r' p' c') | _ \<Rightarrow> c)"
| "RootCause e = None"

definition isParseErr :: "('f, 'x) oerr \<Rightarrow> bool" where
  "isParseErr e = (case e of ParseErr _ _ _ _ _ \<Rightarrow> True | _ \<Rightarrow> False)"

text \<open>\<^verbatim>\<open>errors.As\<close> with a \<^verbatim>\<open>*ParseError\<close>: the chain of wrapped errors is searched.\<close>

fun asParseErr :: "('f, 'x) oerr \<Rightarrow> bool" where
  "asParseErr (ParseErr k v r p c) = True"
| "asParseErr (WrapErr s e) = asParseErr e"
| "asParseErr (RequestErr p b r e) = (case e of None \<Rightarrow> False | Some e' \<Rightarrow> asParseErr e')"
| "asParseErr (ResponseErr r e) = (case e of None \<Rightarrow> False | Some e' \<Rightarrow> asParseErr e')"
| "asParseErr _ = False"

end
