(* ===== verification/Decoder.thy ===== *)
theory Decoder
  imports OpenAPI
begin

text \<open>
  The decoders of parameters (\<^verbatim>\<open>internal/platform/validator/req_resp_decoder.go\<close>, first part): a value
  from the path, the query, the headers or the cookies, read as the schema and the serialization
  method say.  A Go function that returns a value, a flag and an error returns the three here; a panic
  is on the left of a sum around them.  Loops over schemas are combinators of their own, so that the
  recursion over a schema is visible in one definition.
\<close>

type_synonym ('f, 'x) dres = "'f gval \<times> bool \<times> ('f, 'x) oerr option"
type_synonym ('f, 'x) pres = "'f gval \<times> ('f, 'x) oerr option"

text \<open>The format verb \<^verbatim>\<open>%q\<close>, for text without quotes and control characters.\<close>

definition quoteQ :: "string \<Rightarrow> string" where
  "quoteQ s = CHR 0x22 # s @ [CHR 0x22]"

definition nilDeref :: string where
  "nilDeref = ''runtime error: invalid memory address or nil pointer dereference''"

definition badAssert :: string where "badAssert = ''interface conversion''"

definition urlDecoderDelimiter :: string where "urlDecoderDelimiter = [CHR 0x1F]"

definition invalidSerializationMethodErr :: "SerializationMethod \<Rightarrow> ('f, 'x) oerr" where
  "invalidSerializationMethodErr sm =
    PlainErr (''invalid serialization method: style='' @ quoteQ (sm_Style sm) @ '', explode='' @
      (if sm_Explode sm then ''true'' else ''false''))"

subsection \<open>Primitive values\<close>

definition invalidValue :: "string \<Rightarrow> string \<Rightarrow> gerror \<Rightarrow> ('f, 'x) pres" where
  "invalidValue raw typ e =
    (GNil, Some (ParseErr KindInvalidFormat (GStr raw) (''an invalid '' @ typ) [] (Some (PlainErr e))))"

definition parsePrimitiveCase :: "'f goFloat \<Rightarrow> string \<Rightarrow> ('f, 'x) schema \<Rightarrow> string \<Rightarrow> ('f, 'x) pres" where
  "parsePrimitiveCase F raw s typ =
    (if typ = ''integer'' then
       if s_Format s = ''int32'' then
         (case ParseInt0 raw 32 of Inl e \<Rightarrow> invalidValue raw typ e | Inr v \<Rightarrow> (GInt32 v, None))
       else (case ParseInt0 raw 64 of Inl e \<Rightarrow> invalidValue raw typ e | Inr v \<Rightarrow> (GInt64 v, None))
     else if typ = ''number'' then
       (case ParseFloat F raw of Inl e \<Rightarrow> invalidValue raw typ e | Inr v \<Rightarrow> (GFloat v, None))
     else if typ = ''boolean'' then
       (case ParseBool raw of Inl e \<Rightarrow> invalidValue raw typ e | Inr v \<Rightarrow> (GBool v, None))
     else if typ = ''string'' then (GStr raw, None)
     else (GNil, Some (ParseErr KindOther (GStr raw) (''schema has non primitive type '' @ typ) [] None)))"

fun primLoop :: "'f goFloat \<Rightarrow> string \<Rightarrow> ('f, 'x) schema \<Rightarrow> string list \<Rightarrow> ('f, 'x) pres \<Rightarrow> ('f, 'x) pres" where
  "primLoop F raw s [] res = res"
| "primLoop F raw s (typ # typs) res =
    (case parsePrimitiveCase F raw s typ of
       (v, None) \<Rightarrow> (v, None)
     | r \<Rightarrow> primLoop F raw s typs r)"

text \<open>A nil schema is dereferenced only when there is text.\<close>

definition parsePrimitive :: "'f goFloat \<Rightarrow> ('f, 'x) kin \<Rightarrow> string \<Rightarrow> ('f, 'x) schema option \<Rightarrow> ('f, 'x) pres result" where
  "parsePrimitive F K raw sr =
    (if raw = [] then Inr (GNil, None)
     else case sr of
       None \<Rightarrow> Inl nilDeref
     | Some s \<Rightarrow> Inr (primLoop F raw s (kTypeSlice K (s_Type s)) (GNil, None)))"

text \<open>The loop of the two functions \<^verbatim>\<open>parseArray\<close>, over the parser of an item.\<close>

fun arrayLoop :: "(string \<Rightarrow> ('f, 'x) pres result) \<Rightarrow> nat \<Rightarrow> string list \<Rightarrow> 'f gval list
    \<Rightarrow> ('f gval list \<times> ('f, 'x) oerr option) result" where
  "arrayLoop item i [] acc = Inr (acc, None)"
| "arrayLoop item i (v # vs) acc =
    (case item v of
       Inl p \<Rightarrow> Inl p
     | Inr (x, Some e) \<Rightarrow>
         Inr ([], Some (if isParseErr e then ParseErr KindOther GNil [] [PInt i] (Some e)
                        else WrapErr (''item '' @ itoa i @ '': '') e))
     | Inr (x, None) \<Rightarrow> if x = GNil then Inr ([], None) else arrayLoop item (Suc i) vs (acc @ [x]))"

definition parseArray :: "'f goFloat \<Rightarrow> ('f, 'x) kin \<Rightarrow> string list \<Rightarrow> ('f, 'x) schema
    \<Rightarrow> ('f gval list \<times> ('f, 'x) oerr option) result" where
  "parseArray F K raw s = arrayLoop (\<lambda>v. parsePrimitive F K v (s_Items s)) 0 raw []"

subsection \<open>Loops over schemas\<close>

fun allOfLoop :: "('s \<Rightarrow> ('f, 'x) dres result) \<Rightarrow> bool \<Rightarrow> ('f, 'x) pres \<Rightarrow> 's list \<Rightarrow> ('f, 'x) dres result" where
  "allOfLoop f found (value, err) [] = Inr (value, found, err)"
| "allOfLoop f found ve (sr # srs) =
    (case f sr of
       Inl p \<Rightarrow> Inl p
     | Inr (value, fd, err) \<Rightarrow>
         if value = GNil \<or> err \<noteq> None then Inr (value, found \<or> fd, err)
         else allOfLoop f (found \<or> fd) (value, err) srs)"

fun anyOfLoop :: "('s \<Rightarrow> ('f, 'x) dres result) \<Rightarrow> ('f, 'x) oerr option \<Rightarrow> bool \<Rightarrow> 's list \<Rightarrow> ('f, 'x) dres result" where
  "anyOfLoop f failed found [] = Inr (GNil, found, failed)"
| "anyOfLoop f failed found (sr # srs) =
    (case f sr of
       Inl p \<Rightarrow> Inl p
     | Inr (value, fd, _) \<Rightarrow>
         if value \<noteq> GNil then Inr (value, found \<or> fd, None) else anyOfLoop f failed (found \<or> fd) srs)"

fun oneOfLoop :: "('s \<Rightarrow> ('f, 'x) dres result) \<Rightarrow> ('f, 'x) oerr option \<Rightarrow> bool \<Rightarrow> 'f gval \<Rightarrow> 's list
    \<Rightarrow> ('f, 'x) dres result" where
  "oneOfLoop f failed found value [] =
    Inr (if value \<noteq> GNil then (value, found, None) else (GNil, found, failed))"
| "oneOfLoop f failed found value (sr # srs) =
    (case f sr of
       Inl p \<Rightarrow> Inl p
     | Inr (v, fd, _) \<Rightarrow> oneOfLoop f failed (found \<or> fd) (if v \<noteq> GNil then v else value) srs)"

text \<open>The loops of \<^verbatim>\<open>parseValue\<close>, which has no flag and keeps errors.\<close>

fun valAnyOf :: "('s \<Rightarrow> ('f, 'x) pres result) \<Rightarrow> ('f, 'x) oerr option \<Rightarrow> 's list \<Rightarrow> ('f, 'x) pres result" where
  "valAnyOf f err [] = Inr (GNil, err)"
| "valAnyOf f err (sr # srs) =
    (case f sr of
       Inl p \<Rightarrow> Inl p
     | Inr (value, None) \<Rightarrow> Inr (value, None)
     | Inr (value, Some e) \<Rightarrow> valAnyOf f (Some e) srs)"

fun valOneOf :: "('s \<Rightarrow> ('f, 'x) pres result) \<Rightarrow> nat \<Rightarrow> 'f gval \<Rightarrow> 's list \<Rightarrow> ('f, 'x) pres result" where
  "valOneOf f isMatched value [] =
    Inr (if isMatched = 1 then (value, None)
         else (GNil, Some (PlainErr (''decoding oneOf failed: '' @ itoa isMatched @ '' schemas matched''))))"
| "valOneOf f isMatched value (sr # srs) =
    (case f sr of
       Inl p \<Rightarrow> Inl p
     | Inr (v, None) \<Rightarrow> valOneOf f (Suc isMatched) v srs
     | Inr (v, Some _) \<Rightarrow> valOneOf f isMatched value srs)"

fun valAllOf :: "('s \<Rightarrow> ('f, 'x) pres result) \<Rightarrow> ('f, 'x) pres \<Rightarrow> 's list \<Rightarrow> ('f, 'x) pres result" where
  "valAllOf f ve [] = Inr ve"
| "valAllOf f ve (sr # srs) =
    (case f sr of
       Inl p \<Rightarrow> Inl p
     | Inr (value, err) \<Rightarrow>
         if value = GNil \<or> err \<noteq> None then Inr (value, err) else valAllOf f (value, err) srs)"

lemma allOfLoop_cong [fundef_cong]:
  assumes "xs = ys" "\<And>x. x \<in> set ys \<Longrightarrow> f x = g x"
  shows "allOfLoop f fd ve xs = allOfLoop g fd ve ys"
  unfolding assms(1) using assms(2)
proof (induction ys arbitrary: fd ve)
  case (Cons a ys)
  have "f a = g a" using Cons.prems by simp
  moreover have "allOfLoop f fd ve ys = allOfLoop g fd ve ys" for fd ve using Cons by simp
  ultimately show ?case by (simp split: sum.split option.split prod.split)
next
  case Nil
  show ?case by (cases ve) simp
qed

lemma anyOfLoop_cong [fundef_cong]:
  assumes "xs = ys" "\<And>x. x \<in> set ys \<Longrightarrow> f x = g x"
  shows "anyOfLoop f e fd xs = anyOfLoop g e fd ys"
  unfolding assms(1) using assms(2)
proof (induction ys arbitrary: fd)
  case (Cons a ys)
  have "f a = g a" using Cons.prems by simp
  moreover have "anyOfLoop f e fd ys = anyOfLoop g e fd ys" for fd using Cons by simp
  ultimately show ?case by (simp split: sum.split option.split prod.split)
qed simp

lemma oneOfLoop_cong [fundef_cong]:
  assumes "xs = ys" "\<And>x. x \<in> set ys \<Longrightarrow> f x = g x"
  shows "oneOfLoop f e fd v xs = oneOfLoop g e fd v ys"
  unfolding assms(1) using assms(2)
proof (induction ys arbitrary: fd v)
  case (Cons a ys)
  have "f a = g a" using Cons.prems by simp
  moreover have "oneOfLoop f e fd v ys = oneOfLoop g e fd v ys" for fd v using Cons by simp
  ultimately show ?case by (simp split: sum.split option.split prod.split)
qed simp

lemma valAnyOf_cong [fundef_cong]:
  assumes "xs = ys" "\<And>x. x \<in> set ys \<Longrightarrow> f x = g x"
  shows "valAnyOf f e xs = valAnyOf g e ys"
  unfolding assms(1) using assms(2)
proof (induction ys arbitrary: e)
  case (Cons a ys)
  have "f a = g a" using Cons.prems by simp
  moreover have "valAnyOf f e ys = valAnyOf g e ys" for e using Cons by simp
  ultimately show ?case by (simp split: sum.split option.split prod.split)
qed simp

lemma valOneOf_cong [fundef_cong]:
  assumes "xs = ys" "\<And>x. x \<in> set ys \<Longrightarrow> f x = g x"
  shows "valOneOf f n v xs = valOneOf g n v ys"
  unfolding assms(1) using assms(2)
proof (induction ys arbitrary: n v)
  case (Cons a ys)
  have "f a = g a" using Cons.prems by simp
  moreover have "valOneOf f n v ys = valOneOf g n v ys" for n v using Cons by simp
  ultimately show ?case by (simp split: sum.split option.split prod.split)
qed simp

lemma valAllOf_cong [fundef_cong]:
  assumes "xs = ys" "\<And>x. x \<in> set ys \<Longrightarrow> f x = g x"
  shows "valAllOf f ve xs = valAllOf g ve ys"
  unfolding assms(1) using assms(2)
proof (induction ys arbitrary: ve)
  case (Cons a ys)
  have "f a = g a" using Cons.prems by simp
  moreover have "valAllOf f ve ys = valAllOf g ve ys" for ve using Cons by simp
  ultimately show ?case by (simp split: sum.split option.split prod.split)
qed simp

text \<open>The parts of a schema are smaller.\<close>

lemma schema_parts [termination_simp]:
  "sr \<in> set (s_AllOf s) \<Longrightarrow> size sr < size s"
  "sr \<in> set (s_AnyOf s) \<Longrightarrow> size sr < size s"
  "sr \<in> set (s_OneOf s) \<Longrightarrow> size sr < size s"
  "s_Items s = Some sr \<Longrightarrow> size sr < size s"
  "s_AddSchema s = Some sr \<Longrightarrow> size sr < size s"
  "kv \<in> set (s_Properties s) \<Longrightarrow> size (snd kv) < size s"
proof -
  have l: "x \<in> set xs \<Longrightarrow> size x \<le> size_list size xs" for x :: "('a, 'b) schema" and xs
    by (induction xs) auto
  have p: "kv \<in> set xs \<Longrightarrow> size (snd kv) \<le> size_list (size_prod (\<lambda>_. 0) size) xs" for kv :: "string \<times> ('a, 'b) schema" and xs
    by (induction xs) auto
  show "sr \<in> set (s_AllOf s) \<Longrightarrow> size sr < size s" using l[of sr "s_AllOf s"] by (cases s) simp
  show "sr \<in> set (s_AnyOf s) \<Longrightarrow> size sr < size s" using l[of sr "s_AnyOf s"] by (cases s) simp
  show "sr \<in> set (s_OneOf s) \<Longrightarrow> size sr < size s" using l[of sr "s_OneOf s"] by (cases s) simp
  show "s_Items s = Some sr \<Longrightarrow> size sr < size s" by (cases s) simp
  show "s_AddSchema s = Some sr \<Longrightarrow> size sr < size s" by (cases s) simp
  show "kv \<in> set (s_Properties s) \<Longrightarrow> size (snd kv) < size s" using p[of kv "s_Properties s"] by (cases s) auto
qed

text \<open>\<^verbatim>\<open>urlValuesDecoder.parseValue\<close>.\<close>

fun parseValue :: "'f goFloat \<Rightarrow> ('f, 'x) kin \<Rightarrow> string \<Rightarrow> ('f, 'x) schema \<Rightarrow> ('f, 'x) pres result" where
  "parseValue F K v s =
    (if s_AllOf s \<noteq> [] then valAllOf (\<lambda>sr. parseValue F K v sr) (GNil, None) (s_AllOf s)
     else if s_AnyOf s \<noteq> [] then valAnyOf (\<lambda>sr. parseValue F K v sr) None (s_AnyOf s)
     else if s_OneOf s \<noteq> [] then valOneOf (\<lambda>sr. parseValue F K v sr) 0 GNil (s_OneOf s)
     else if s_Not s \<noteq> None then Inr (GNil, Some (PlainErr ''not implemented: decoding 'not' ''))
     else parsePrimitive F K v (Some s))"
declare parseValue.simps [simp del]

subsection \<open>Objects\<close>

text \<open>\<^verbatim>\<open>deepGet\<close> stops at the first value that is no map, even with keys left.\<close>

fun deepGet :: "(string \<times> 'f gval) list \<Rightarrow> string list \<Rightarrow> 'f gval \<times> bool" where
  "deepGet m [] = (GMap m, True)"
| "deepGet m (key # keys) =
    (case map_of m key of
       None \<Rightarrow> (GNil, False)
     | Some (GMap m') \<Rightarrow> deepGet m' keys
     | Some GNilMap \<Rightarrow> if keys = [] then (GNilMap, True) else (GNil, False)
     | Some val \<Rightarrow> (val, True))"

text \<open>\<^verbatim>\<open>deepSet\<close> panics when a value on the way is no map.\<close>

fun deepSet :: "(string \<times> 'f gval) list \<Rightarrow> string list \<Rightarrow> 'f gval \<Rightarrow> (string \<times> 'f gval) list result" where
  "deepSet m [] value = Inl ''index out of range''"
| "deepSet m [key] value = Inr (AList.update key value m)"
| "deepSet m (key # key' # keys) value =
    (case map_of m key of
       None \<Rightarrow> andThen (deepSet [] (key' # keys) value) (\<lambda>m'. Inr (AList.update key (GMap m') m))
     | Some (GMap m1) \<Rightarrow> andThen (deepSet m1 (key' # keys) value) (\<lambda>m'. Inr (AList.update key (GMap m') m))
     | Some _ \<Rightarrow> Inl badAssert)"

definition pathFromKeys :: "string list \<Rightarrow> pathElem list" where
  "pathFromKeys kk = map PStr kk"

definition handlePropParseError :: "string list \<Rightarrow> ('f, 'x) oerr \<Rightarrow> ('f, 'x) oerr" where
  "handlePropParseError path err =
    (if isParseErr err then ParseErr KindOther GNil [] (pathFromKeys path) (Some err)
     else WrapErr (''property '' @ quoteQ (Join path ''.'') @ '': '') err)"

text \<open>\<^verbatim>\<open>sliceMapToSlice\<close>: the largest index decides how long the result is.\<close>

fun indexKeys :: "string list \<Rightarrow> int list result" where
  "indexKeys [] = Inr []"
| "indexKeys (k # ks) = andThen (Atoi k) (\<lambda>key. andThen (indexKeys ks) (\<lambda>keys. Inr (key # keys)))"

definition sliceMapToSlice :: "(string \<times> 'f gval) list \<Rightarrow> 'f gval list result" where
  "sliceMapToSlice m =
    (case indexKeys (map fst m) of
       Inl err \<Rightarrow> Inl (''array indexes must be integers: '' @ err)
     | Inr keys \<Rightarrow>
         let mx = fold max keys (- 1)
         in Inr (map (\<lambda>i. case map_of m (itoa i) of None \<Rightarrow> GNil | Some val \<Rightarrow> val) [0..<nat (mx + 1)]))"

text \<open>The loops of \<^verbatim>\<open>buildResObj\<close> and \<^verbatim>\<open>buildFromSchemas\<close>.\<close>

fun buildItems :: "('i \<Rightarrow> ('f, 'x) pres result) \<Rightarrow> 'f gval list \<Rightarrow> 'i list \<Rightarrow> ('f, 'x) pres result" where
  "buildItems f resultArr [] = Inr (GArr resultArr, None)"
| "buildItems f resultArr (i # is) =
    (case f i of
       Inl p \<Rightarrow> Inl p
     | Inr (r, Some err) \<Rightarrow> Inr (GNil, Some err)
     | Inr (r, None) \<Rightarrow> buildItems f (resultArr @ [r]) is)"

fun buildProps :: "('s \<Rightarrow> ('f, 'x) pres result) \<Rightarrow> ('s \<Rightarrow> string) \<Rightarrow> (string \<times> 'f gval) list \<Rightarrow> 's list
    \<Rightarrow> ((string \<times> 'f gval) list \<times> ('f, 'x) oerr option) result" where
  "buildProps f name resultMap [] = Inr (resultMap, None)"
| "buildProps f name resultMap (kv # kvs) =
    (case f kv of
       Inl p \<Rightarrow> Inl p
     | Inr (r, Some err) \<Rightarrow> Inr ([], Some err)
     | Inr (r, None) \<Rightarrow> buildProps f name (if r \<noteq> GNil then AList.update (name kv) r resultMap else resultMap) kvs)"

fun fromSchemas :: "('s \<Rightarrow> ('f, 'x) pres result) \<Rightarrow> (string \<times> 'f gval) list \<Rightarrow> 's list \<Rightarrow> ('f, 'x) pres result" where
  "fromSchemas f resultMap [] = Inr (if resultMap \<noteq> [] then GMap resultMap else GNil, None)"
| "fromSchemas f resultMap (s # ss) =
    (case f s of
       Inl p \<Rightarrow> Inl p
     | Inr (val, Some _) \<Rightarrow> fromSchemas f resultMap ss
     | Inr (val, None) \<Rightarrow>
         (case val of
            GNil \<Rightarrow> fromSchemas f resultMap ss
          | GMap m \<Rightarrow> fromSchemas f (AList.merge resultMap m) ss
          | GNilMap \<Rightarrow> fromSchemas f resultMap ss
          | GArr a \<Rightarrow> if a \<noteq> [] then Inr (GArr a, None) else fromSchemas f resultMap ss
          | GNilArr \<Rightarrow> fromSchemas f resultMap ss
          | _ \<Rightarrow> Inr (val, None)))"

lemma buildItems_cong [fundef_cong]:
  assumes "xs = ys" "\<And>x. x \<in> set ys \<Longrightarrow> f x = g x"
  shows "buildItems f r xs = buildItems g r ys"
  unfolding assms(1) using assms(2)
proof (induction ys arbitrary: r)
  case (Cons a ys)
  have "f a = g a" using Cons.prems by simp
  moreover have "buildItems f r ys = buildItems g r ys" for r using Cons by simp
  ultimately show ?case by (simp split: sum.split option.split prod.split gval.split)
qed simp

lemma buildProps_cong [fundef_cong]:
  assumes "xs = ys" "\<And>x. x \<in> set ys \<Longrightarrow> f x = g x"
  shows "buildProps f n m xs = buildProps g n m ys"
  unfolding assms(1) using assms(2)
proof (induction ys arbitrary: m)
  case (Cons a ys)
  have "f a = g a" using Cons.prems by simp
  moreover have "buildProps f n m ys = buildProps g n m ys" for m using Cons by simp
  ultimately show ?case by (simp split: sum.split option.split prod.split gval.split)
qed simp

lemma fromSchemas_cong [fundef_cong]:
  assumes "xs = ys" "\<And>x. x \<in> set ys \<Longrightarrow> f x = g x"
  shows "fromSchemas f m xs = fromSchemas g m ys"
  unfolding assms(1) using assms(2)
proof (induction ys arbitrary: m)
  case (Cons a ys)
  have "f a = g a" using Cons.prems by simp
  moreover have "fromSchemas f m ys = fromSchemas g m ys" for m using Cons by simp
  ultimately show ?case by (simp split: sum.split option.split prod.split gval.split)
qed simp


text \<open>\<^verbatim>\<open>buildResObj\<close>: the members of an array are built by index, the properties of an object by name, and
  what lies at the path of the keys so far is read with \<^verbatim>\<open>deepGet\<close>.\<close>

fun buildResObj :: "'f goFloat \<Rightarrow> ('f, 'x) kin \<Rightarrow> (string \<times> 'f gval) list \<Rightarrow> string list \<Rightarrow> string
    \<Rightarrow> ('f, 'x) schema \<Rightarrow> ('f, 'x) pres result" where
  "buildResObj F K params parentKeys key s =
    (let mapKeys = (if key \<noteq> [] then parentKeys @ [key] else parentKeys) in
     if kTypeIs K (s_Type s) ''array'' then
       (case deepGet params mapKeys of
          (_, False) \<Rightarrow> Inr (GNil, None)
        | (GMap t, True) \<Rightarrow>
            (case sliceMapToSlice t of
               Inl err \<Rightarrow> Inr (GNil, Some (ParseErr KindInvalidFormat GNil
                   (''could not convert value map to array: '' @ err) (pathFromKeys mapKeys) None))
             | Inr arr \<Rightarrow>
                 (case s_Items s of
                    None \<Rightarrow> if arr = [] then Inr (GArr [], None) else Inl nilDeref
                  | Some it \<Rightarrow> buildItems (\<lambda>i. buildResObj F K params mapKeys (itoa i) it) [] [0..<length arr]))
        | (_, True) \<Rightarrow> Inr (GNil, Some (ParseErr KindInvalidFormat GNil ''array items must be set with indexes''
                          (pathFromKeys mapKeys) None)))
     else if kTypeIs K (s_Type s) ''object'' then
       (case fst (deepGet params mapKeys) of
          GMap objectParams \<Rightarrow>
            (case buildProps (\<lambda>kv. buildResObj F K params mapKeys (fst kv) (snd kv)) fst [] (s_Properties s) of
               Inl p \<Rightarrow> Inl p
             | Inr (resultMap, Some err) \<Rightarrow> Inr (GNil, Some err)
             | Inr (resultMap, None) \<Rightarrow>
                 (case s_AddSchema s of
                    None \<Rightarrow> Inr (GMap resultMap, None)
                  | Some additPropsSchema \<Rightarrow>
                      (case buildProps (\<lambda>k. buildResObj F K params mapKeys k additPropsSchema) (\<lambda>k. k) resultMap
                              (map fst objectParams) of
                         Inl p \<Rightarrow> Inl p
                       | Inr (_, Some err) \<Rightarrow> Inr (GNil, Some err)
                       | Inr (resultMap', None) \<Rightarrow> Inr (GMap resultMap', None))))
        | pp \<Rightarrow> Inr (pp, None))
     else if s_AnyOf s \<noteq> [] then fromSchemas (\<lambda>sr. buildResObj F K params parentKeys key sr) [] (s_AnyOf s)
     else if s_OneOf s \<noteq> [] then fromSchemas (\<lambda>sr. buildResObj F K params parentKeys key sr) [] (s_OneOf s)
     else if s_AllOf s \<noteq> [] then fromSchemas (\<lambda>sr. buildResObj F K params parentKeys key sr) [] (s_AllOf s)
     else case deepGet params mapKeys of
       (_, False) \<Rightarrow> Inr (GNil, None)
     | (GStr v, True) \<Rightarrow>
         (case parsePrimitive F K v (Some s) of
            Inl p \<Rightarrow> Inl p
          | Inr (prim, Some err) \<Rightarrow> Inr (GNil, Some (handlePropParseError mapKeys err))
          | Inr (prim, None) \<Rightarrow> Inr (prim, None))
     | (val, True) \<Rightarrow> Inr (GNil, Some (ParseErr KindInvalidFormat val ''path is not convertible to primitive''
                         (pathFromKeys mapKeys) None)))"
declare buildResObj.simps [simp del]

text \<open>The first loop of \<^verbatim>\<open>makeObject\<close>; \<open>Inr (Inl keys)\<close> is the error for implicit array indexes.\<close>

fun setProps :: "(string \<times> string) list \<Rightarrow> (string \<times> 'f gval) list \<Rightarrow> (string list + (string \<times> 'f gval) list) result" where
  "setProps [] mobj = Inr (Inr mobj)"
| "setProps ((kk, value) # props) mobj =
    (let keys = Split kk urlDecoderDelimiter in
     if Contains value urlDecoderDelimiter then Inr (Inl keys)
     else case deepSet mobj keys (GStr value) of
       Inl p \<Rightarrow> Inl p
     | Inr mobj' \<Rightarrow> setProps props mobj')"

definition makeObject :: "'f goFloat \<Rightarrow> ('f, 'x) kin \<Rightarrow> (string \<times> string) list \<Rightarrow> ('f, 'x) schema
    \<Rightarrow> ((string \<times> 'f gval) list option \<times> ('f, 'x) oerr option) result" where
  "makeObject F K props s =
    (case setProps props [] of
       Inl p \<Rightarrow> Inl p
     | Inr (Inl keys) \<Rightarrow>
         Inr (None, Some (ParseErr KindInvalidFormat GNil ''array items must be set with indexes'' (pathFromKeys keys) None))
     | Inr (Inr mobj) \<Rightarrow>
         (case buildResObj F K mobj [] [] s of
            Inl p \<Rightarrow> Inl p
          | Inr (_, Some err) \<Rightarrow> Inr (None, Some err)
          | Inr (GMap result, None) \<Rightarrow> Inr (Some result, None)
          | Inr (_, None) \<Rightarrow> Inr (None, Some (ParseErr KindOther GNilMap ''invalid param object'' [] None))))"

subsection \<open>Properties written in one string\<close>

definition propsFormatErr :: "string \<Rightarrow> string \<Rightarrow> string \<Rightarrow> ('f, 'x) oerr" where
  "propsFormatErr src propDelim valueDelim =
    ParseErr KindInvalidFormat (GStr src)
      (''a value must be a list of object's properties in format '' @ quoteQ (''name'' @ valueDelim @ ''value'') @
       '' separated by '' @ propDelim) [] None"

fun pairUp :: "string list \<Rightarrow> (string \<times> string) list \<Rightarrow> (string \<times> string) list" where
  "pairUp (k # v # ps) props = pairUp ps (AList.update k v props)"
| "pairUp _ props = props"

fun pairLoop :: "string \<Rightarrow> string list \<Rightarrow> (string \<times> string) list \<Rightarrow> (string \<times> string) list option" where
  "pairLoop valueDelim [] props = Some props"
| "pairLoop valueDelim (pair # pairs) props =
    (case Split pair valueDelim of
       [k, v] \<Rightarrow> pairLoop valueDelim pairs (AList.update k v props)
     | _ \<Rightarrow> None)"

definition propsFromString :: "string \<Rightarrow> string \<Rightarrow> string \<Rightarrow> ('f, 'x) oerr + (string \<times> string) list" where
  "propsFromString src propDelim valueDelim =
    (let pairs = Split src propDelim in
     if propDelim = valueDelim then
       if length pairs mod 2 \<noteq> 0 then Inl (propsFormatErr src propDelim valueDelim) else Inr (pairUp pairs [])
     else case pairLoop valueDelim pairs [] of
       None \<Rightarrow> Inl (propsFormatErr src propDelim valueDelim)
     | Some props \<Rightarrow> Inr props)"

definition cutPrefix :: "string \<Rightarrow> string \<Rightarrow> ('f, 'x) oerr + string" where
  "cutPrefix raw pre =
    (if pre = [] then Inr raw
     else if length raw < length pre \<or> take (length pre) raw \<noteq> pre then
       Inl (ParseErr KindInvalidFormat (GStr raw) (''a value must be prefixed with '' @ quoteQ pre) [] None)
     else Inr (drop (length pre) raw))"

subsection \<open>The four decoders\<close>

datatype decoder = PathDec "(string \<times> string) list" | QueryDec urlvalues | HeaderDec header | CookieDec header

text \<open>The results of the methods: an array is a list (a nil slice and an empty one are not told apart by any caller),
  an object is \<^term>\<open>None\<close> for a nil map.\<close>

type_synonym ('f, 'x) ares = "('f gval list \<times> bool \<times> ('f, 'x) oerr option) result"
type_synonym ('f, 'x) ores = "((string \<times> 'f gval) list option \<times> bool \<times> ('f, 'x) oerr option) result"

definition withFound :: "bool \<Rightarrow> ('a \<times> 'e) result \<Rightarrow> ('a \<times> bool \<times> 'e) result" where
  "withFound ok r = map_sum id (\<lambda>(v, e). (v, ok, e)) r"

text \<open>\<^verbatim>\<open>pathParamDecoder\<close>: prefix and delimiters by style.  An empty value counts as missing.\<close>

definition pathRaw :: "(string \<times> string) list \<Rightarrow> string \<Rightarrow> string option" where
  "pathRaw pathParams param =
    (case map_of pathParams param of Some raw \<Rightarrow> if raw = [] then None else Some raw | None \<Rightarrow> None)"

definition pathPrimitive :: "'f goFloat \<Rightarrow> ('f, 'x) kin \<Rightarrow> (string \<times> string) list \<Rightarrow> string \<Rightarrow> SerializationMethod
    \<Rightarrow> ('f, 'x) schema \<Rightarrow> ('f, 'x) dres result" where
  "pathPrimitive F K pathParams param sm s =
    (if sm_Style sm \<notin> {''simple'', ''label'', ''matrix''} then Inr (GNil, False, Some (invalidSerializationMethodErr sm))
     else let pre = (if sm_Style sm = ''label'' then ''.'' else if sm_Style sm = ''matrix'' then '';'' @ param @ ''='' else [])
     in case pathRaw pathParams param of
          None \<Rightarrow> Inr (GNil, False, None)
        | Some raw \<Rightarrow>
            (case cutPrefix raw pre of
               Inl err \<Rightarrow> Inr (GNil, True, Some err)
             | Inr src \<Rightarrow> withFound True (parsePrimitive F K src (Some s))))"

definition pathArrayDelims :: "string \<Rightarrow> SerializationMethod \<Rightarrow> (string \<times> string) option" where
  "pathArrayDelims param sm =
    (if sm_Style sm = ''simple'' then Some ([], '','')
     else if sm_Style sm = ''label'' then Some (''.'', if sm_Explode sm then ''.'' else '','')
     else if sm_Style sm = ''matrix''
     then Some ('';'' @ param @ ''='', if sm_Explode sm then '';'' @ param @ ''='' else '','')
     else None)"

definition pathArray :: "'f goFloat \<Rightarrow> ('f, 'x) kin \<Rightarrow> (string \<times> string) list \<Rightarrow> string \<Rightarrow> SerializationMethod
    \<Rightarrow> ('f, 'x) schema \<Rightarrow> ('f, 'x) ares" where
  "pathArray F K pathParams param sm s =
    (case pathArrayDelims param sm of
       None \<Rightarrow> Inr ([], False, Some (invalidSerializationMethodErr sm))
     | Some (pre, delim) \<Rightarrow>
         (case pathRaw pathParams param of
            None \<Rightarrow> Inr ([], False, None)
          | Some raw \<Rightarrow>
              (case cutPrefix raw pre of
                 Inl err \<Rightarrow> Inr ([], True, Some err)
               | Inr src \<Rightarrow> withFound True (parseArray F K (Split src delim) s))))"

definition pathObjectDelims :: "string \<Rightarrow> SerializationMethod \<Rightarrow> (string \<times> string \<times> string) option" where
  "pathObjectDelims param sm =
    (if sm_Style sm = ''simple'' then Some ([], '','', if sm_Explode sm then ''='' else '','')
     else if sm_Style sm = ''label'' then
       Some (''.'', if sm_Explode sm then ''.'' else '','', if sm_Explode sm then ''='' else '','')
     else if sm_Style sm = ''matrix'' then
       (if sm_Explode sm then Some ('';'', '';'', ''='') else Some ('';'' @ param @ ''='', '','', '',''))
     else None)"

text \<open>The common end of the object decoders.\<close>

definition objectFrom :: "'f goFloat \<Rightarrow> ('f, 'x) kin \<Rightarrow> ('f, 'x) schema \<Rightarrow> bool \<Rightarrow> (('f, 'x) oerr + (string \<times> string) list)
    \<Rightarrow> ('f, 'x) ores" where
  "objectFrom F K s ok props =
    (case props of
       Inl err \<Rightarrow> Inr (None, ok, Some err)
     | Inr ps \<Rightarrow> withFound ok (makeObject F K ps s))"

definition pathObject :: "'f goFloat \<Rightarrow> ('f, 'x) kin \<Rightarrow> (string \<times> string) list \<Rightarrow> string \<Rightarrow> SerializationMethod
    \<Rightarrow> ('f, 'x) schema \<Rightarrow> ('f, 'x) ores" where
  "pathObject F K pathParams param sm s =
    (case pathObjectDelims param sm of
       None \<Rightarrow> Inr (None, False, Some (invalidSerializationMethodErr sm))
     | Some (pre, propsDelim, valueDelim) \<Rightarrow>
         (case pathRaw pathParams param of
            None \<Rightarrow> Inr (None, False, None)
          | Some raw \<Rightarrow>
              (case cutPrefix raw pre of
                 Inl err \<Rightarrow> Inr (None, True, Some err)
               | Inr src \<Rightarrow> objectFrom F K s True (propsFromString src propsDelim valueDelim))))"

text \<open>\<^verbatim>\<open>urlValuesDecoder\<close>.\<close>

definition queryPrimitive :: "'f goFloat \<Rightarrow> ('f, 'x) kin \<Rightarrow> urlvalues \<Rightarrow> string \<Rightarrow> SerializationMethod
    \<Rightarrow> ('f, 'x) schema \<Rightarrow> ('f, 'x) dres result" where
  "queryPrimitive F K vals param sm s =
    (if sm_Style sm \<noteq> ''form'' then Inr (GNil, False, Some (invalidSerializationMethodErr sm))
     else let ok = (map_of vals param \<noteq> None) in
       case valValues param vals of
         [] \<Rightarrow> Inr (GNil, ok, None)
       | v # _ \<Rightarrow>
           if s_Type s = None \<and> s_Pattern s \<noteq> [] then Inr (GStr v, ok, None)
           else withFound ok (parsePrimitive F K v (Some s)))"

definition queryArray :: "'f goFloat \<Rightarrow> ('f, 'x) kin \<Rightarrow> urlvalues \<Rightarrow> string \<Rightarrow> SerializationMethod
    \<Rightarrow> ('f, 'x) schema \<Rightarrow> ('f, 'x) ares" where
  "queryArray F K vals param sm s =
    (if sm_Style sm = ''deepObject'' then Inr ([], False, Some (invalidSerializationMethodErr sm))
     else let ok = (map_of vals param \<noteq> None) in
       case valValues param vals of
         [] \<Rightarrow> Inr ([], ok, None)
       | v # vs \<Rightarrow>
           let delim = (if sm_Style sm = ''form'' then '','' else if sm_Style sm = ''spaceDelimited'' then '' ''
                        else if sm_Style sm = ''pipeDelimited'' then ''|'' else []);
               raw = (if sm_Explode sm then v # vs else Split v delim)
           in withFound ok (arrayLoop (\<lambda>x. case s_Items s of None \<Rightarrow> Inl nilDeref | Some it \<Rightarrow> parseValue F K x it) 0 raw []))"

text \<open>The matches of the regular expression for the text between square brackets: from an opening
  bracket to the next closing one, with no line break between them.\<close>

fun brackets :: "string \<Rightarrow> string list" where
  "brackets [] = []"
| "brackets (c # s) =
    (if c = CHR ''['' then
       (case IndexByte s CHR '']'' of
          Some j \<Rightarrow> if CHR 0x0A \<notin> set (take j s) then take j s # brackets (drop (Suc j) s) else brackets s
        | None \<Rightarrow> brackets s)
     else brackets s)"

text \<open>The properties in the query for the two styles; \<^term>\<open>None\<close> is a nil map.\<close>

definition formProps :: "bool \<Rightarrow> string \<Rightarrow> urlvalues \<Rightarrow> (('f, 'x) oerr + (string \<times> string) list option) result" where
  "formProps explode param params =
    (if params = [] then Inr (Inr None)
     else if explode then
       if list_ex (\<lambda>kv. snd kv = []) params then Inl ''index out of range''
       else Inr (Inr (Some (map (\<lambda>kv. (fst kv, hd (snd kv))) params)))
     else case valValues param params of
       [] \<Rightarrow> Inr (Inr None)
     | v # _ \<Rightarrow> Inr (map_sum id Some (propsFromString v '','' '','')))"

definition deepProps :: "string \<Rightarrow> urlvalues \<Rightarrow> (string \<times> string) list" where
  "deepProps param params =
    fold (\<lambda>(key, vs) props.
      if \<not> prefix (param @ ''['') key \<or> brackets key = [] then props
      else AList.update (Join (brackets key) urlDecoderDelimiter) (Join vs urlDecoderDelimiter) props) params []"

definition queryProps :: "SerializationMethod \<Rightarrow> string \<Rightarrow> urlvalues \<Rightarrow> (('f, 'x) oerr + (string \<times> string) list option) result" where
  "queryProps sm param vals =
    (if sm_Style sm = ''form'' then formProps (sm_Explode sm) param vals
     else if sm_Style sm = ''deepObject'' then
       (let props = deepProps param vals in Inr (Inr (if props = [] then None else Some props)))
     else Inr (Inl (invalidSerializationMethodErr sm)))"

definition propsFound :: "('f, 'x) kin \<Rightarrow> ('f, 'x) schema \<Rightarrow> (string \<times> string) list \<Rightarrow> (string \<times> 'f gval) list \<Rightarrow> bool" where
  "propsFound K s props val \<longleftrightarrow>
    list_ex (\<lambda>propName.
      propName \<in> fst ` set props \<or>
      (kTypePermits K (s_Type s) ''array'' \<or> kTypePermits K (s_Type s) ''object'') \<and>
      list_ex (\<lambda>k. snd (deepGet val (Split k urlDecoderDelimiter))) (map fst props)) (map fst (s_Properties s))"

definition queryObject :: "'f goFloat \<Rightarrow> ('f, 'x) kin \<Rightarrow> urlvalues \<Rightarrow> string \<Rightarrow> SerializationMethod
    \<Rightarrow> ('f, 'x) schema \<Rightarrow> ('f, 'x) ores" where
  "queryObject F K vals param sm s =
    (case queryProps sm param vals of
       Inl p \<Rightarrow> Inl p
     | Inr (Inl err) \<Rightarrow> Inr (None, False, Some err)
     | Inr (Inr None) \<Rightarrow> Inr (None, False, None)
     | Inr (Inr (Some props)) \<Rightarrow>
         (case makeObject F K props s of
            Inl p \<Rightarrow> Inl p
          | Inr (_, Some err) \<Rightarrow> Inr (None, False, Some err)
          | Inr (None, None) \<Rightarrow> Inr (None, False, None)
          | Inr (Some val, None) \<Rightarrow> Inr (Some val, propsFound K s props val, None)))"

text \<open>\<^verbatim>\<open>headerParamDecoder\<close> and \<^verbatim>\<open>cookieParamDecoder\<close>; \<open>raw\<close> are the values of the header, \<^term>\<open>None\<close> when it is absent.\<close>

definition headerPrimitive :: "'f goFloat \<Rightarrow> ('f, 'x) kin \<Rightarrow> header \<Rightarrow> string \<Rightarrow> SerializationMethod
    \<Rightarrow> ('f, 'x) schema \<Rightarrow> ('f, 'x) dres result" where
  "headerPrimitive F K h param sm s =
    (if sm_Style sm \<noteq> ''simple'' then Inr (GNil, False, Some (invalidSerializationMethodErr sm))
     else case map_of h (CanonicalHeaderKey param) of
       Some (raw # _) \<Rightarrow> withFound True (parsePrimitive F K raw (Some s))
     | r \<Rightarrow> Inr (GNil, r \<noteq> None, None))"

definition headerArray :: "'f goFloat \<Rightarrow> ('f, 'x) kin \<Rightarrow> header \<Rightarrow> string \<Rightarrow> SerializationMethod
    \<Rightarrow> ('f, 'x) schema \<Rightarrow> ('f, 'x) ares" where
  "headerArray F K h param sm s =
    (if sm_Style sm \<noteq> ''simple'' then Inr ([], False, Some (invalidSerializationMethodErr sm))
     else case map_of h (CanonicalHeaderKey param) of
       Some (raw # _) \<Rightarrow> withFound True (parseArray F K (Split raw '','') s)
     | r \<Rightarrow> Inr ([], r \<noteq> None, None))"

definition headerObject :: "'f goFloat \<Rightarrow> ('f, 'x) kin \<Rightarrow> header \<Rightarrow> string \<Rightarrow> SerializationMethod
    \<Rightarrow> ('f, 'x) schema \<Rightarrow> ('f, 'x) ores" where
  "headerObject F K h param sm s =
    (if sm_Style sm \<noteq> ''simple'' then Inr (None, False, Some (invalidSerializationMethodErr sm))
     else case map_of h (CanonicalHeaderKey param) of
       Some (raw # _) \<Rightarrow> objectFrom F K s True (propsFromString raw '','' (if sm_Explode sm then ''='' else '',''))
     | r \<Rightarrow> Inr (None, r \<noteq> None, None))"

definition cookiePrimitive :: "'f goFloat \<Rightarrow> ('f, 'x) kin \<Rightarrow> header \<Rightarrow> string \<Rightarrow> SerializationMethod
    \<Rightarrow> ('f, 'x) schema \<Rightarrow> ('f, 'x) dres result" where
  "cookiePrimitive F K h param sm s =
    (if sm_Style sm \<noteq> ''form'' then Inr (GNil, False, Some (invalidSerializationMethodErr sm))
     else case reqCookie h param of
       None \<Rightarrow> Inr (GNil, False, None)
     | Some v \<Rightarrow> withFound True (parsePrimitive F K v (Some s)))"

definition cookieArray :: "'f goFloat \<Rightarrow> ('f, 'x) kin \<Rightarrow> header \<Rightarrow> string \<Rightarrow> SerializationMethod
    \<Rightarrow> ('f, 'x) schema \<Rightarrow> ('f, 'x) ares" where
  "cookieArray F K h param sm s =
    (if sm_Style sm \<noteq> ''form'' \<or> sm_Explode sm then Inr ([], False, Some (invalidSerializationMethodErr sm))
     else case reqCookie h param of
       None \<Rightarrow> Inr ([], False, None)
     | Some v \<Rightarrow> withFound True (parseArray F K (Split v '','') s))"

definition cookieObject :: "'f goFloat \<Rightarrow> ('f, 'x) kin \<Rightarrow> header \<Rightarrow> string \<Rightarrow> SerializationMethod
    \<Rightarrow> ('f, 'x) schema \<Rightarrow> ('f, 'x) ores" where
  "cookieObject F K h param sm s =
    (if sm_Style sm \<noteq> ''form'' \<or> sm_Explode sm then Inr (None, False, Some (invalidSerializationMethodErr sm))
     else case reqCookie h param of
       None \<Rightarrow> Inr (None, False, None)
     | Some v \<Rightarrow> objectFrom F K s True (propsFromString v '','' '',''))"

text \<open>The interface \<^verbatim>\<open>valueDecoder\<close>.\<close>

definition DecodePrimitive :: "'f goFloat \<Rightarrow> ('f, 'x) kin \<Rightarrow> decoder \<Rightarrow> string \<Rightarrow> SerializationMethod
    \<Rightarrow> ('f, 'x) schema \<Rightarrow> ('f, 'x) dres result" where
  "DecodePrimitive F K dec param sm s =
    (case dec of
       PathDec pp \<Rightarrow> pathPrimitive F K pp param sm s
     | QueryDec vals \<Rightarrow> queryPrimitive F K vals param sm s
     | HeaderDec h \<Rightarrow> headerPrimitive F K h param sm s
     | CookieDec h \<Rightarrow> cookiePrimitive F K h param sm s)"

definition DecodeArray :: "'f goFloat \<Rightarrow> ('f, 'x) kin \<Rightarrow> decoder \<Rightarrow> string \<Rightarrow> SerializationMethod
    \<Rightarrow> ('f, 'x) schema \<Rightarrow> ('f, 'x) ares" where
  "DecodeArray F K dec param sm s =
    (case dec of
       PathDec pp \<Rightarrow> pathArray F K pp param sm s
     | QueryDec vals \<Rightarrow> queryArray F K vals param sm s
     | HeaderDec h \<Rightarrow> headerArray F K h param sm s
     | CookieDec h \<Rightarrow> cookieArray F K h param sm s)"

definition DecodeObject :: "'f goFloat \<Rightarrow> ('f, 'x) kin \<Rightarrow> decoder \<Rightarrow> string \<Rightarrow> SerializationMethod
    \<Rightarrow> ('f, 'x) schema \<Rightarrow> ('f, 'x) ores" where
  "DecodeObject F K dec param sm s =
    (case dec of
       PathDec pp \<Rightarrow> pathObject F K pp param sm s
     | QueryDec vals \<Rightarrow> queryObject F K vals param sm s
     | HeaderDec h \<Rightarrow> headerObject F K h param sm s
     | CookieDec h \<Rightarrow> cookieObject F K h param sm s)"

subsection \<open>Parameters\<close>

text \<open>A schema with a type: an array without members becomes nil, an object becomes an interface that is
  never nil, whatever the decoder returns.\<close>

definition decodeTyped :: "'f goFloat \<Rightarrow> ('f, 'x) kin \<Rightarrow> decoder \<Rightarrow> string \<Rightarrow> SerializationMethod
    \<Rightarrow> ('f, 'x) schema \<Rightarrow> ('f, 'x) dres result" where
  "decodeTyped F K dec param sm s =
    (if kTypeIs K (s_Type s) ''array'' then
       map_sum id (\<lambda>(res, b, e). (if res = [] then GNil else GArr res, b, e)) (DecodeArray F K dec param sm s)
     else if kTypeIs K (s_Type s) ''object'' then
       map_sum id (\<lambda>(res, b, e). (case res of None \<Rightarrow> GNilMap | Some m \<Rightarrow> GMap m, b, e)) (DecodeObject F K dec param sm s)
     else DecodePrimitive F K dec param sm s)"

text \<open>A schema without a type: only the presence of the parameter is found out.\<close>

definition decodeUntyped :: "'f goFloat \<Rightarrow> ('f, 'x) kin \<Rightarrow> decoder \<Rightarrow> string \<Rightarrow> SerializationMethod
    \<Rightarrow> ('f, 'x) schema \<Rightarrow> ('f, 'x) dres result" where
  "decodeUntyped F K dec param sm s =
    (case dec of
       PathDec pp \<Rightarrow> Inr (GNil, map_of pp param \<noteq> None, None)
     | QueryDec vals \<Rightarrow>
         if s_Pattern s \<noteq> [] then DecodePrimitive F K dec param sm s
         else Inr (GNil, map_of vals param \<noteq> None, None)
     | HeaderDec h \<Rightarrow> Inr (GNil, map_of h (CanonicalHeaderKey param) \<noteq> None, None)
     | CookieDec h \<Rightarrow> Inr (GNil, reqCookie h param \<noteq> None, None))"

fun decodeValue :: "'f goFloat \<Rightarrow> ('f, 'x) kin \<Rightarrow> decoder \<Rightarrow> string \<Rightarrow> SerializationMethod
    \<Rightarrow> bool \<Rightarrow> ('f, 'x) schema \<Rightarrow> ('f, 'x) dres result" where
  "decodeValue F K dec param sm required s =
    (if s_AllOf s \<noteq> [] then
       allOfLoop (\<lambda>sr. decodeValue F K dec param sm required sr) False (GNil, None) (s_AllOf s)
     else if s_AnyOf s \<noteq> [] then
       anyOfLoop (\<lambda>sr. decodeValue F K dec param sm required sr)
         (if required then Some (PlainErr (''decoding anyOf for parameter '' @ quoteQ param @ '' failed'')) else None)
         False (s_AnyOf s)
     else if s_OneOf s \<noteq> [] then
       oneOfLoop (\<lambda>sr. decodeValue F K dec param sm required sr)
         (if required then Some (PlainErr (''decoding oneOf failed: '' @ quoteQ param @ '' is required'')) else None)
         False GNil (s_OneOf s)
     else if s_Not s \<noteq> None then Inr (GNil, False, Some (PlainErr ''not implemented: decoding 'not' ''))
     else if s_Type s \<noteq> None then decodeTyped F K dec param sm s
     else decodeUntyped F K dec param sm s)"
declare decodeValue.simps [simp del]

text \<open>A request as the validators see it; a body is the bytes a reader delivers and the error it ends with.\<close>

record httpReq =
  hr_Method :: string
  hr_RawQuery :: string
  hr_Header :: header
  hr_Body :: "(string \<times> gerror option) option"
  hr_GetBody :: "(string \<times> gerror option) result option"
  hr_ContentLength :: int

record ('f, 'x) valInput =
  vi_Req :: httpReq
  vi_PathParams :: "(string \<times> string) list"
  vi_QueryParams :: urlvalues
  vi_Route :: "('f, 'x) route"

definition decodeStyledParameter :: "'f goFloat \<Rightarrow> ('f, 'x) kin \<Rightarrow> ('f, 'x) parameter \<Rightarrow> ('f, 'x) valInput
    \<Rightarrow> ('f, 'x) dres result" where
  "decodeStyledParameter F K param input =
    (case kParamSM K param of
       Inl err \<Rightarrow> Inr (GNil, False, Some (PlainErr err))
     | Inr sm \<Rightarrow>
         let decode = (\<lambda>dec. case pa_Schema param of
                         None \<Rightarrow> Inl nilDeref
                       | Some s \<Rightarrow> decodeValue F K dec (pa_Name param) sm (pa_Required param) s)
         in if pa_In param = ''path'' then
              (if vi_PathParams input = [] then Inr (GNil, False, None) else decode (PathDec (vi_PathParams input)))
            else if pa_In param = ''query'' then
              (if vi_QueryParams input = [] then Inr (GNil, False, None) else decode (QueryDec (vi_QueryParams input)))
            else if pa_In param = ''header'' then decode (HeaderDec (hr_Header (vi_Req input)))
            else if pa_In param = ''cookie'' then decode (CookieDec (hr_Header (vi_Req input)))
            else Inr (GNil, False, Some (PlainErr (''unsupported parameter's 'in': '' @ pa_In param))))"

text \<open>Parameters with a content: \<open>unmarshal\<close> is \<^verbatim>\<open>json.Unmarshal\<close> into an interface.\<close>

definition unmarshalParam :: "(string \<Rightarrow> 'f gval result) \<Rightarrow> ('f, 'x) kin \<Rightarrow> string \<Rightarrow> ('f, 'x) schema option \<Rightarrow> 'f gval result" where
  "unmarshalParam unmarshal K encoded paramSchema =
    (case unmarshal encoded of
       Inl e \<Rightarrow>
         (case paramSchema of
            Some s \<Rightarrow> if \<not> kTypeIs K (s_Type s) ''object'' then Inr (GStr encoded) else Inl e
          | None \<Rightarrow> Inl e)
     | Inr v \<Rightarrow> Inr v)"

fun unmarshalAll :: "(string \<Rightarrow> 'f gval result) \<Rightarrow> string list \<Rightarrow> 'f gval list result" where
  "unmarshalAll u [] = Inr []"
| "unmarshalAll u (v # vs) = andThen (u v) (\<lambda>item. andThen (unmarshalAll u vs) (\<lambda>items. Inr (item # items)))"

definition defaultContentParameterDecoder :: "(string \<Rightarrow> 'f gval result) \<Rightarrow> ('f, 'x) kin \<Rightarrow> ('f, 'x) parameter
    \<Rightarrow> string list \<Rightarrow> ('f gval \<times> ('f, 'x) schema option \<times> ('f, 'x) oerr option) result" where
  "defaultContentParameterDecoder unmarshal K param vals =
    (let fail = (\<lambda>msg. Inr (GNil, None, Some (PlainErr msg))) in
     if length vals > 1 \<and> pa_In param \<noteq> ''query''
     then fail (pa_In param @ '' parameter '' @ quoteQ (pa_Name param) @ '' cannot have multiple values'')
     else case pa_Content param of
       None \<Rightarrow> fail (''parameter '' @ quoteQ (pa_Name param) @ '' expected to have content'')
     | Some content \<Rightarrow>
         if length content \<noteq> 1 then fail (''multiple content types for parameter '' @ quoteQ (pa_Name param))
         else case kContentGet K content ''application/json'' of
           None \<Rightarrow> fail (''parameter '' @ quoteQ (pa_Name param) @ '' has no content schema'')
         | Some mt \<Rightarrow>
             (case mt_Schema mt of
                None \<Rightarrow> Inl nilDeref
              | Some outSchema \<Rightarrow>
                  (case vals of
                     [v] \<Rightarrow>
                       (case unmarshalParam unmarshal K v (Some outSchema) of
                          Inl _ \<Rightarrow> Inr (GNil, Some outSchema, Some (PlainErr (''error unmarshaling parameter '' @ quoteQ (pa_Name param))))
                        | Inr x \<Rightarrow> Inr (x, Some outSchema, None))
                   | _ \<Rightarrow>
                       (case unmarshalAll (\<lambda>v. unmarshalParam unmarshal K v (s_Items outSchema)) vals of
                          Inl _ \<Rightarrow> Inr (GNil, Some outSchema, Some (PlainErr (''error unmarshaling parameter '' @ quoteQ (pa_Name param))))
                        | Inr xs \<Rightarrow> Inr (GArr xs, Some outSchema, None)))))"

definition contentValues :: "('f, 'x) parameter \<Rightarrow> ('f, 'x) valInput \<Rightarrow> string list option result" where
  "contentValues param input =
    (if pa_In param = ''path'' then Inr (map_option (\<lambda>v. [v]) (map_of (vi_PathParams input) (pa_Name param)))
     else if pa_In param = ''query'' then Inr (map_of (vi_QueryParams input) (pa_Name param))
     else if pa_In param = ''header'' then Inr (map_of (hr_Header (vi_Req input)) (CanonicalHeaderKey (pa_Name param)))
     else if pa_In param = ''cookie'' then Inr (map_option (\<lambda>v. [v]) (reqCookie (hr_Header (vi_Req input)) (pa_Name param)))
     else Inl (''unsupported parameter.in: '' @ quoteQ (pa_In param)))"

text \<open>The error of a missing cookie stays in the named result when the parameter is optional.\<close>

definition ErrNoCookie :: "('f, 'x) oerr" where
  "ErrNoCookie = PlainErr ''http: named cookie not present''"

definition decodeContentParameter :: "(string \<Rightarrow> 'f gval result) \<Rightarrow> ('f, 'x) kin \<Rightarrow> ('f, 'x) parameter \<Rightarrow> ('f, 'x) valInput
    \<Rightarrow> ('f gval \<times> ('f, 'x) schema option \<times> bool \<times> ('f, 'x) oerr option) result" where
  "decodeContentParameter unmarshal K param input =
    (case contentValues param input of
       Inl err \<Rightarrow> Inr (GNil, None, False, Some (PlainErr err))
     | Inr None \<Rightarrow>
         Inr (GNil, None, False,
              if pa_Required param
              then Some (PlainErr (''parameter '' @ quoteQ (pa_Name param) @ '' is required, but missing''))
              else if pa_In param = ''cookie'' then Some ErrNoCookie else None)
     | Inr (Some paramValues) \<Rightarrow>
         map_sum id (\<lambda>(v, s, e). (v, s, True, e)) (defaultContentParameterDecoder unmarshal K param paramValues))"

end
