(* ===== verification/Decoder_Props.thy ===== *)
theory Decoder_Props
  imports Decoder
begin

text \<open>
  Properties of the parameter decoders: a value written in a style is read back, the length of an array
  follows from its largest index, and where the decoders panic or refuse a correct request.
\<close>

subsection \<open>A value written in a style is read back\<close>

lemma Index_fresh:
  assumes "c \<notin> set x"
  shows "Index (x @ (c # cs) @ y) (c # cs) = Some (length x)"
  using assms
proof (induction x)
  case Nil
  show ?case by simp
next
  case (Cons a x)
  then have "\<not> prefix (c # cs) ((a # x) @ (c # cs) @ y)" by auto
  with Cons show ?case by (simp del: Cons_prefix_Cons)
qed

lemma Index_absent: "c \<notin> set x \<Longrightarrow> Index x (c # cs) = None"
  by (induction x) auto

lemma Split_Join:
  assumes "xs \<noteq> []" "\<forall>x\<in>set xs. c \<notin> set x"
  shows "Split (Join xs (c # cs)) (c # cs) = xs"
  using assms
proof (induction xs "c # cs" rule: Join.induct)
  case (2 x)
  then show ?case by (subst Split.simps) (simp add: Index_absent)
next
  case (3 x y ys)
  have "Index (x @ (c # cs) @ Join (y # ys) (c # cs)) (c # cs) = Some (length x)"
    using 3 by (intro Index_fresh) simp
  then show ?case using 3 by (subst Split.simps) simp
qed simp

text \<open>The laws of the library for a schema with exactly one type.\<close>

definition type_laws :: "('f, 'x) kin \<Rightarrow> bool" where
  "type_laws K \<longleftrightarrow>
    (\<forall>t u. kTypeIs K (Some [t]) u = (t = u)) \<and> (\<forall>t. kTypeIs K None t = False) \<and>
    (\<forall>ts. kTypeSlice K (Some ts) = ts) \<and> kTypeSlice K None = []"

definition stringItems :: "('f, 'x) schema \<Rightarrow> bool" where
  "stringItems s \<longleftrightarrow> (\<exists>it. s_Items s = Some it \<and> s_Type it = Some [''string''])"

lemma parsePrimitive_string:
  assumes "type_laws K" "s_Type it = Some [''string'']" "v \<noteq> []"
  shows "parsePrimitive F K v (Some it) = Inr (GStr v, None)"
  using assms by (simp add: parsePrimitive_def type_laws_def parsePrimitiveCase_def)

lemma arrayLoop_strings:
  assumes "\<And>v. v \<in> set vs \<Longrightarrow> item v = Inr (GStr v, None)"
  shows "arrayLoop item i vs acc = Inr (acc @ map GStr vs, None)"
  using assms by (induction vs arbitrary: i acc) auto

lemma parseArray_strings:
  assumes "type_laws K" "stringItems s" "\<forall>x\<in>set xs. x \<noteq> []"
  shows "parseArray F K xs s = Inr (map GStr xs, None)"
proof -
  obtain it where it: "s_Items s = Some it" "s_Type it = Some [''string'']"
    using assms(2) by (auto simp: stringItems_def)
  have "parsePrimitive F K v (s_Items s) = Inr (GStr v, None)" if "v \<in> set xs" for v
    using parsePrimitive_string[OF assms(1) it(2)] assms(3) that it(1) by simp
  then show ?thesis using arrayLoop_strings[of xs "\<lambda>v. parsePrimitive F K v (s_Items s)" 0 "[]"]
    by (simp add: parseArray_def)
qed

lemma cutPrefix_append [simp]: "cutPrefix (pre @ t) pre = Inr t"
  by (simp add: cutPrefix_def)

text \<open>How the OpenAPI specification writes an array of strings into a path.\<close>

definition writeArray :: "string \<Rightarrow> SerializationMethod \<Rightarrow> string list \<Rightarrow> string" where
  "writeArray param sm xs =
    (if sm_Style sm = ''simple'' then Join xs '',''
     else if sm_Style sm = ''label'' then ''.'' @ Join xs (if sm_Explode sm then ''.'' else '','')
     else '';'' @ param @ ''='' @ Join xs (if sm_Explode sm then '';'' @ param @ ''='' else '',''))"

lemma writeArray_delims:
  "pathArrayDelims param sm = Some (pre, delim) \<Longrightarrow> writeArray param sm xs = pre @ Join xs delim"
  by (auto simp: pathArrayDelims_def writeArray_def split: if_splits)

text \<open>C29. Arrays in the path survive the trip: an array of non-empty strings written in any of the
  styles \<^verbatim>\<open>simple\<close>, \<^verbatim>\<open>label\<close> and \<^verbatim>\<open>matrix\<close>, exploded or not, is decoded to exactly these strings, provided
  that they do not contain the first byte of the delimiter of the style.\<close>

theorem path_array_round_trip:
  assumes "type_laws K" and "stringItems s" and "xs \<noteq> []" and "\<forall>x\<in>set xs. x \<noteq> []"
    and "pathArrayDelims param sm = Some (pre, delim)" and "\<forall>x\<in>set xs. hd delim \<notin> set x"
  shows "DecodeArray F K (PathDec [(param, writeArray param sm xs)]) param sm s = Inr (map GStr xs, True, None)"
proof -
  obtain c cs where d: "delim = c # cs"
    using assms(5) by (auto simp: pathArrayDelims_def split: if_splits)
  have w: "writeArray param sm xs = pre @ Join xs delim" by (rule writeArray_delims[OF assms(5)])
  have "Join xs delim \<noteq> []" using assms(3,4) d by (cases xs rule: remdups_adj.cases) auto
  then have raw: "pathRaw [(param, writeArray param sm xs)] param = Some (pre @ Join xs delim)"
    by (simp add: pathRaw_def w)
  have "Split (Join xs delim) delim = xs" using Split_Join[OF assms(3)] assms(6) d by simp
  then show ?thesis
    using parseArray_strings[OF assms(1,2,4)] assms(5) raw
    by (simp add: DecodeArray_def pathArray_def withFound_def)
qed

text \<open>An instance of the library for evaluation: the documented behaviour of its type methods, and a
  validation that accepts everything.\<close>

definition demo_kin :: "(int, unit) kin" where
  "demo_kin = \<lparr> kTypeIs = (\<lambda>ts t. ts = Some [t]), kTypePermits = (\<lambda>ts t. case ts of None \<Rightarrow> True | Some us \<Rightarrow> t \<in> set us),
     kTypeSlice = (\<lambda>ts. case ts of None \<Rightarrow> [] | Some us \<Rightarrow> us),
     kParamSM = (\<lambda>p. Inr \<lparr>sm_Style = pa_Style p, sm_Explode = (pa_Explode p = Some True)\<rparr>),
     kEncSM = (\<lambda>e. \<lparr>sm_Style = ''form'', sm_Explode = True\<rparr>),
     kContentGet = (\<lambda>c m. map_of c m), kIsEmpty = (\<lambda>s. case s of None \<Rightarrow> Inl nilDeref | Some s \<Rightarrow> Inr (s_Type s = None)), kVisitJSON = (\<lambda>v s x. (None, x, False)),
     kGetByInAndName = (\<lambda>ps i n. find (\<lambda>p. pa_In p = i \<and> pa_Name p = n) ps),
     kStatus = (\<lambda>rs n. map_of rs (Itoa n)), kDefault = (\<lambda>rs. map_of rs ''default''), kErrText = (\<lambda>e. []) \<rparr>"

definition demo_float :: "int goFloat" where
  "demo_float = \<lparr> ParseFloat = Atoi, FormatFloat = Itoa, Format4 = Itoa, EqFloat = (=) \<rparr>"

definition demo_schema :: "string list option \<Rightarrow> (int, unit) schema option \<Rightarrow> (string \<times> (int, unit) schema) list
    \<Rightarrow> (int, unit) schema" where
  "demo_schema ty items props = Schema [] [] ty [] [] [] [] [] None items props None None GNil None None ()"

lemma demo_type_laws: "type_laws demo_kin"
  by (simp add: type_laws_def demo_kin_def)

theorem path_array_round_trip_witness:
  "DecodeArray demo_float demo_kin (PathDec [(''id'', '';id=a;id=bc'')]) ''id'' \<lparr>sm_Style = ''matrix'', sm_Explode = True\<rparr>
      (demo_schema (Some [''array'']) (Some (demo_schema (Some [''string'']) None [])) [])
    = Inr ([GStr ''a'', GStr ''bc''], True, None)"
proof -
  define s where "s = demo_schema (Some [''array'']) (Some (demo_schema (Some [''string'']) None [])) []"
  define sm where "sm = \<lparr>sm_Style = ''matrix'', sm_Explode = True\<rparr>"
  have "stringItems s" by (simp add: s_def stringItems_def demo_schema_def)
  moreover have p: "pathArrayDelims ''id'' sm = Some ('';id='', '';id='')" unfolding sm_def by code_simp
  moreover have "writeArray ''id'' sm [''a'', ''bc''] = '';id=a;id=bc''" by (simp add: writeArray_delims[OF p])
  ultimately show ?thesis
    using path_array_round_trip[OF demo_type_laws, of s "[''a'', ''bc'']" "''id''" sm "'';id=''" "'';id=''" demo_float]
    by (simp add: s_def sm_def)
qed

subsection \<open>Array indexes\<close>

lemma indexKeys_Itoa:
  assumes "\<forall>n\<in>set ns. n < 2 ^ 63"
  shows "indexKeys (map itoa ns) = Inr (map int ns)"
  using assms
proof (induction ns)
  case (Cons n ns)
  have "Itoa (int n) = itoa n" by (simp add: Itoa_def)
  moreover have "int n < 2 ^ 63" using Cons.prems by (metis list.set_intros(1) of_nat_less_iff of_nat_numeral of_nat_power)
  ultimately have "Atoi (itoa n) = Inr (int n)" using Atoi_Itoa[of "int n"] by simp
  with Cons show ?case by simp
qed simp

text \<open>The length of a decoded array is the largest index plus one, not the number of its members:
  a single query parameter with the index \<open>n\<close> makes the decoder build an array of \<open>n + 1\<close> members, for
  every \<open>n\<close> of the 63-bit range, whatever the schema says about the size of the array.\<close>

theorem array_length_by_index:
  assumes "n < 2 ^ 63"
  shows "\<exists>xs. sliceMapToSlice [(itoa n, v)] = Inr xs \<and> length xs = Suc n \<and> xs ! n = v \<and> (\<forall>i<n. xs ! i = GNil)"
proof -
  have "indexKeys (map itoa [n]) = Inr (map int [n])" by (rule indexKeys_Itoa) (use assms in simp)
  moreover have "itoa i = itoa j \<longleftrightarrow> i = j" for i j by (metis itoa_digits(3))
  ultimately show ?thesis by (simp add: sliceMapToSlice_def max_def nth_append del: upt_Suc)
qed

theorem array_length_by_index_witness:
  "\<exists>xs. sliceMapToSlice [(itoa 1000000000, GStr ''x'' :: int gval)] = Inr xs \<and> length xs = 1000000001"
proof -
  have "(1000000000 :: nat) < 2 ^ 63" by simp
  then obtain xs where "sliceMapToSlice [(itoa 1000000000, GStr ''x'' :: int gval)] = Inr xs" "length xs = Suc 1000000000"
    using array_length_by_index by blast
  then show ?thesis by auto
qed

subsection \<open>Conflicting names of a deep object\<close>

lemma brackets_skip: "CHR ''['' \<notin> set p \<Longrightarrow> brackets (p @ s) = brackets s"
  by (induction p) auto

definition simpleName :: "string \<Rightarrow> bool" where
  "simpleName s \<longleftrightarrow> list_all (\<lambda>c. c \<notin> {CHR ''['', CHR '']'', CHR 0x0A, CHR 0x1F}) s"

lemma brackets_one:
  assumes "simpleName a"
  shows "brackets (''['' @ a @ '']'' @ s) = a # brackets s"
proof -
  have "IndexByte (a @ CHR '']'' # s) CHR '']'' = Some (length a)"
    using assms by (intro IndexByte_append_fresh) (auto simp: simpleName_def list_all_iff)
  moreover have "CHR 0x0A \<notin> set a" using assms by (auto simp: simpleName_def list_all_iff)
  ultimately show ?thesis by simp
qed

lemma Split_delim:
  assumes "simpleName a"
  shows "Split a urlDecoderDelimiter = [a]" "Split (a @ urlDecoderDelimiter @ b) urlDecoderDelimiter = a # Split b urlDecoderDelimiter"
proof -
  have "CHR 0x1F \<notin> set a" using assms by (auto simp: simpleName_def list_all_iff)
  then show "Split a urlDecoderDelimiter = [a]"
    "Split (a @ urlDecoderDelimiter @ b) urlDecoderDelimiter = a # Split b urlDecoderDelimiter"
    unfolding urlDecoderDelimiter_def Split_byte by (simp_all add: SplitByte_no_sep SplitByte_append)
qed

lemma setProps_conflict:
  assumes "simpleName a" "simpleName b" "CHR 0x1F \<notin> set v" "CHR 0x1F \<notin> set w"
  shows "setProps [(a, v), (a @ urlDecoderDelimiter @ b, w)] [] = Inl badAssert"
proof -
  have "\<not> Contains v urlDecoderDelimiter" "\<not> Contains w urlDecoderDelimiter"
    using assms(3,4) by (simp_all add: Contains_def urlDecoderDelimiter_def Index_byte)
  then show ?thesis using Split_delim[OF assms(1)] Split_delim(1)[OF assms(2)] by (simp add: Let_def)
qed

text \<open>A query that gives a property of a deep object both a value and a member makes the decoder
  panic, when the map delivers the value first: the value is taken for the map that should hold the
  member.  No schema prevents it.\<close>

theorem deep_object_conflict_panics:
  assumes "CHR ''['' \<notin> set p" and "simpleName a" and "simpleName b" and "CHR 0x1F \<notin> set v \<union> set w"
    and "sm_Style sm = ''deepObject''"
  shows "DecodeObject F K (QueryDec [(p @ ''['' @ a @ '']'', [v]), (p @ ''['' @ a @ '']['' @ b @ '']'', [w])]) p sm s
    = Inl badAssert"
proof -
  have b1: "brackets (p @ ''['' @ a @ '']'') = [a]"
    using brackets_skip[OF assms(1), of "''['' @ a @ '']''"] brackets_one[OF assms(2), of "[]"] by simp
  have b2: "brackets (p @ ''['' @ a @ '']['' @ b @ '']'') = [a, b]"
    using brackets_skip[OF assms(1), of "''['' @ a @ '']['' @ b @ '']''"]
      brackets_one[OF assms(2), of "''['' @ b @ '']''"] brackets_one[OF assms(3), of "[]"] by simp
  have ab: "a @ urlDecoderDelimiter @ b \<noteq> a" by (simp add: urlDecoderDelimiter_def)
  have props: "deepProps p [(p @ ''['' @ a @ '']'', [v]), (p @ ''['' @ a @ '']['' @ b @ '']'', [w])]
      = [(a, v), (a @ urlDecoderDelimiter @ b, w)]"
    using b1 b2 ab by (simp add: deepProps_def)
  have vw: "CHR 0x1F \<notin> set v" "CHR 0x1F \<notin> set w" using assms(4) by auto
  have "makeObject F K [(a, v), (a @ urlDecoderDelimiter @ b, w)] s = Inl badAssert"
    unfolding makeObject_def by (simp only: setProps_conflict[OF assms(2,3) vw] sum.case)
  then show ?thesis
    using assms(5) props by (simp add: DecodeObject_def queryObject_def queryProps_def)
qed

theorem deep_object_conflict_panics_witness:
  "DecodeObject demo_float demo_kin (QueryDec [(''p[a]'', [''1'']), (''p[a][b]'', [''2''])]) ''p''
     \<lparr>sm_Style = ''deepObject'', sm_Explode = True\<rparr> (demo_schema (Some [''object'']) None []) = Inl badAssert"
  using deep_object_conflict_panics[of "''p''" "''a''" "''b''" "''1''" "''2''" "\<lparr>sm_Style = ''deepObject'', sm_Explode = True\<rparr>"]
  by (simp add: simpleName_def)

subsection \<open>Alternatives behind an object\<close>

text \<open>A schema of type object with no combinations of its own.\<close>

definition plainObject :: "('f, 'x) kin \<Rightarrow> ('f, 'x) schema \<Rightarrow> bool" where
  "plainObject K s \<longleftrightarrow> s_AllOf s = [] \<and> s_AnyOf s = [] \<and> s_OneOf s = [] \<and> s_Not s = None \<and> s_Type s \<noteq> None \<and>
    kTypeIs K (s_Type s) ''object'' \<and> \<not> kTypeIs K (s_Type s) ''array''"

text \<open>In a parameter with \<^verbatim>\<open>anyOf\<close>, the alternatives after one of type object are never tried: what the object
  decoder returns is taken even when it failed, because a nil map in an interface is not nil, and its
  error is dropped.  A failed object leaves a nil map as the value of the parameter.\<close>

theorem anyOf_object_hides_rest:
  assumes "s_AllOf s = []" and "s_AnyOf s = ob # rest" and "plainObject K ob"
  shows "decodeValue F K dec param sm required s =
    (case DecodeObject F K dec param sm ob of
       Inl p \<Rightarrow> Inl p
     | Inr (None, found, err) \<Rightarrow> Inr (GNilMap, found, None)
     | Inr (Some m, found, err) \<Rightarrow> Inr (GMap m, found, None))"
proof -
  have ob: "decodeValue F K dec param sm required ob =
      map_sum id (\<lambda>(res, b, e). (case res of None \<Rightarrow> GNilMap | Some m \<Rightarrow> GMap m, b, e)) (DecodeObject F K dec param sm ob)"
    using assms(3) by (subst decodeValue.simps) (simp add: plainObject_def decodeTyped_def)
  have "decodeValue F K dec param sm required s =
      anyOfLoop (\<lambda>sr. decodeValue F K dec param sm required sr)
        (if required then Some (PlainErr (''decoding anyOf for parameter '' @ quoteQ param @ '' failed'')) else None)
        False (ob # rest)"
    using assms(1,2) by (subst decodeValue.simps) simp
  then show ?thesis
    by (cases "DecodeObject F K dec param sm ob") (auto simp: ob split: option.splits)
qed

theorem anyOf_object_hides_rest_witness:
  "decodeValue demo_float demo_kin (HeaderDec [(''X-Id'', [''7''])]) ''X-Id'' \<lparr>sm_Style = ''simple'', sm_Explode = False\<rparr> True
     (Schema [] [] None [] [] [] [demo_schema (Some [''object'']) None [], demo_schema (Some [''integer'']) None []] []
        None None [] None None GNil None None ())
   = Inr (GNilMap, True, None)"
proof -
  define ob where "ob = demo_schema (Some [''object'']) None []"
  define sm where "sm = \<lparr>sm_Style = ''simple'', sm_Explode = False\<rparr>"
  define dec where "dec = HeaderDec [(''X-Id'', [''7''])]"
  have p: "plainObject demo_kin ob"
    by (simp add: plainObject_def ob_def demo_schema_def demo_kin_def)
  have "DecodeObject demo_float demo_kin dec ''X-Id'' sm ob =
      Inr (None, True, Some (propsFormatErr ''7'' '','' '',''))"
    unfolding ob_def sm_def dec_def by code_simp
  then show ?thesis
    unfolding ob_def[symmetric] sm_def[symmetric] dec_def[symmetric] by (subst anyOf_object_hides_rest[OF _ _ p]) simp_all
qed

end
