(* ===== verification/Body_Decoder.thy ===== *)
theory Body_Decoder
  imports Decoder_Props
begin

text \<open>
  The decoders of bodies (\<^verbatim>\<open>internal/platform/validator/req_resp_decoder.go\<close>, second part, and
  \<^verbatim>\<open>req_resp_encoder.go\<close>): the registry of decoders by content type, the decoders, and \<^verbatim>\<open>decodeBody\<close>, which a multipart
  body calls again for its parts.  The readers of JSON, XML, YAML, CSV, ZIP and multipart text are
  the fields of \<open>bodyLibs\<close>; what the decoders do with their results is defined here.
\<close>

text \<open>A body: the bytes a reader delivers and the error it ends with.\<close>

type_synonym body = "string \<times> gerror option"

record part =
  pt_Name :: string
  pt_Header :: header
  pt_Body :: body

text \<open>A file in an archive: the error of \<^verbatim>\<open>Open\<close>, or the pieces that the calls of \<^verbatim>\<open>Read\<close> deliver and the
  error after the last one.\<close>

type_synonym zipFile = "(string list \<times> gerror option) result"

record 'f bodyLibs =
  bl_JSON :: "string \<Rightarrow> fjson result"
  bl_XML :: "string \<Rightarrow> (string \<times> 'f gval) list result"
  bl_YAML :: "body \<Rightarrow> 'f gval result"
  bl_MIME :: "string \<Rightarrow> (string \<times> string) list result"
  bl_Parts :: "string \<Rightarrow> body \<Rightarrow> part list \<times> gerror option"
  bl_Zip :: "string \<Rightarrow> zipFile list result"
  bl_Csv :: "body \<Rightarrow> string list list \<times> gerror option"
  bl_Marshal :: "'f gval \<Rightarrow> string result"

text \<open>A decoder returns a value or an error; a panic is on the left of the outer sum.\<close>

type_synonym ('f, 'x) bres = "(('f, 'x) oerr + 'f gval) result"
type_synonym encFn = "(string \<Rightarrow> encodingObj option) option"

subsection \<open>The registry\<close>

datatype BodyDecoder = jsonBodyDecoder | xmlBodyDecoder | yamlBodyDecoder | csvBodyDecoder | plainBodyDecoder
  | zipFileBodyDecoder | FileBodyDecoder | urlencodedBodyDecoder | multipartBodyDecoder

type_synonym bodyDecoders = "(string \<times> BodyDecoder) list"

definition RegisteredBodyDecoder :: "bodyDecoders \<Rightarrow> string \<Rightarrow> BodyDecoder option" where
  "RegisteredBodyDecoder reg contentType = map_of reg contentType"

definition RegisterBodyDecoder :: "bodyDecoders \<Rightarrow> string \<Rightarrow> BodyDecoder option \<Rightarrow> bodyDecoders result" where
  "RegisterBodyDecoder reg contentType decoder =
    (if contentType = [] then Inl ''contentType is empty''
     else case decoder of
       None \<Rightarrow> Inl ''decoder is not defined''
     | Some d \<Rightarrow> Inr (AList.update contentType d reg))"

definition RegisterBodyDecoderSuffix :: "bodyDecoders \<Rightarrow> string \<Rightarrow> BodyDecoder option \<Rightarrow> bodyDecoders result" where
  "RegisterBodyDecoderSuffix reg suff decoder =
    (if suff = [] then Inl ''content type suffix is empty''
     else case decoder of
       None \<Rightarrow> Inl ''decoder is not defined''
     | Some d \<Rightarrow> Inr (AList.update suff d reg))"

definition UnregisterBodyDecoder :: "bodyDecoders \<Rightarrow> string \<Rightarrow> bodyDecoders result" where
  "UnregisterBodyDecoder reg contentType =
    (if contentType = [] then Inl ''contentType is empty'' else Inr (AList.delete contentType reg))"

fun registerAll :: "(bodyDecoders \<Rightarrow> string \<Rightarrow> BodyDecoder option \<Rightarrow> bodyDecoders result) \<Rightarrow> (string \<times> BodyDecoder) list
    \<Rightarrow> bodyDecoders \<Rightarrow> bodyDecoders result" where
  "registerAll f [] reg = Inr reg"
| "registerAll f ((ct, d) # ds) reg = andThen (f reg ct (Some d)) (registerAll f ds)"

text \<open>The function \<^verbatim>\<open>init\<close> of the package.\<close>

definition initBodyDecoders :: "bodyDecoders result" where
  "initBodyDecoders =
    andThen (registerAll RegisterBodyDecoderSuffix
      [(''+json'', jsonBodyDecoder), (''+xml'', xmlBodyDecoder), (''+yaml'', yamlBodyDecoder), (''+csv'', csvBodyDecoder),
       (''+plain'', plainBodyDecoder), (''+zip'', zipFileBodyDecoder)] [])
    (registerAll RegisterBodyDecoder
      [(''image/png'', FileBodyDecoder), (''image/jpeg'', FileBodyDecoder), (''image/gif'', FileBodyDecoder),
       (''image/webp'', FileBodyDecoder), (''image/avif'', FileBodyDecoder), (''image/heic'', FileBodyDecoder),
       (''image/heif'', FileBodyDecoder), (''image/bmp'', FileBodyDecoder), (''image/tiff'', FileBodyDecoder),
       (''image/svg+xml'', FileBodyDecoder),
       (''application/json'', jsonBodyDecoder), (''application/xml'', xmlBodyDecoder),
       (''application/json-patch+json'', jsonBodyDecoder), (''application/octet-stream'', FileBodyDecoder),
       (''application/problem+json'', jsonBodyDecoder), (''application/x-www-form-urlencoded'', urlencodedBodyDecoder),
       (''application/x-yaml'', yamlBodyDecoder), (''application/yaml'', yamlBodyDecoder),
       (''application/zip'', zipFileBodyDecoder), (''multipart/form-data'', multipartBodyDecoder),
       (''text/csv'', csvBodyDecoder), (''text/plain'', plainBodyDecoder)])"

text \<open>\<^verbatim>\<open>parseMediaType\<close> of \<^verbatim>\<open>internal.go\<close>: the media type without parameters, and the part of the subtype
  from its last plus sign on.\<close>

definition parseMediaType :: "string \<Rightarrow> string \<times> string" where
  "parseMediaType contentType =
    (let mediaType = (case IndexByte contentType CHR '';'' of Some i \<Rightarrow> TrimSpace (take i contentType) | None \<Rightarrow> contentType);
         mtSubtype = (case IndexByte mediaType CHR ''/'' of Some i \<Rightarrow> drop (Suc i) mediaType | None \<Rightarrow> []);
         suff = (case LastIndexByte mtSubtype CHR ''+'' of Some i \<Rightarrow> drop i mtSubtype | None \<Rightarrow> [])
     in (mediaType, suff))"

definition getBodyDecoder :: "bodyDecoders \<Rightarrow> string \<Rightarrow> string \<Rightarrow> ('f, 'x) oerr + BodyDecoder" where
  "getBodyDecoder reg mediaType suff =
    (case (if suff \<noteq> [] then map_of reg suff else None) of
       Some decoder \<Rightarrow> Inr decoder
     | None \<Rightarrow>
         (case map_of reg mediaType of
            Some decoder \<Rightarrow> Inr decoder
          | None \<Rightarrow> Inl (ParseErr KindUnsupportedFormat GNil (''unsupported content type '' @ quoteQ mediaType) [] None)))"

subsection \<open>Decoders of text\<close>

definition invalidFormat :: "gerror \<Rightarrow> ('f, 'x) bres" where
  "invalidFormat e = Inr (Inl (ParseErr KindInvalidFormat GNil [] [] (Some (PlainErr e))))"

definition plainDecode :: "body \<Rightarrow> ('f, 'x) bres" where
  "plainDecode body = (case body of (data, None) \<Rightarrow> Inr (Inr (GStr data)) | (_, Some e) \<Rightarrow> invalidFormat e)"

definition multipartPartBodyDecoder :: "'f goFloat \<Rightarrow> ('f, 'x) kin \<Rightarrow> body \<Rightarrow> ('f, 'x) schema option \<Rightarrow> ('f, 'x) bres" where
  "multipartPartBodyDecoder F K body sr =
    (case body of
       (_, Some e) \<Rightarrow> invalidFormat e
     | (data, None) \<Rightarrow>
         (case sr of
            None \<Rightarrow> Inl nilDeref
          | Some s \<Rightarrow>
              if kTypeIs K (s_Type s) ''integer'' \<or> kTypeIs K (s_Type s) ''number'' then
                (case ParseFloat F data of Inl e \<Rightarrow> invalidFormat e | Inr v \<Rightarrow> Inr (Inr (GFloat v)))
              else if kTypeIs K (s_Type s) ''boolean'' then
                (case ParseBool data of Inl e \<Rightarrow> invalidFormat e | Inr b \<Rightarrow> Inr (Inr (GBool b)))
              else Inr (Inr (GStr data))))"

definition jsonDecode :: "'f bodyLibs \<Rightarrow> body \<Rightarrow> ('f, 'x) bres" where
  "jsonDecode L body =
    (case body of
       (_, Some e) \<Rightarrow> invalidFormat e
     | (data, None) \<Rightarrow> (case bl_JSON L data of Inl e \<Rightarrow> invalidFormat e | Inr doc \<Rightarrow> Inr (Inr (convertToMap doc))))"

definition xmlDecode :: "'f bodyLibs \<Rightarrow> body \<Rightarrow> ('f, 'x) bres" where
  "xmlDecode L body =
    (case body of
       (_, Some e) \<Rightarrow> invalidFormat e
     | (data, None) \<Rightarrow> (case bl_XML L data of Inl e \<Rightarrow> invalidFormat e | Inr m \<Rightarrow> Inr (Inr (GMap m))))"

definition yamlDecode :: "'f bodyLibs \<Rightarrow> body \<Rightarrow> ('f, 'x) bres" where
  "yamlDecode L body = (case bl_YAML L body of Inl e \<Rightarrow> invalidFormat e | Inr v \<Rightarrow> Inr (Inr v))"

definition fileDecode :: "body \<Rightarrow> ('f, 'x) bres" where
  "fileDecode body = (case body of (data, None) \<Rightarrow> Inr (Inr (GStr data)) | (_, Some e) \<Rightarrow> Inr (Inl (PlainErr e)))"

text \<open>\<^verbatim>\<open>zipFileBodyDecoder\<close>: one buffer of 256 bytes serves all reads, and every read that delivers
  something appends the whole buffer.\<close>

definition bufferSize :: nat where "bufferSize = 256"

fun zipReads :: "string list \<Rightarrow> string \<times> string \<Rightarrow> string \<times> string" where
  "zipReads [] st = st"
| "zipReads (chunk # chunks) (buffer, content) =
    (let buffer' = chunk @ drop (length chunk) buffer
     in zipReads chunks (buffer', if chunk \<noteq> [] then content @ buffer' else content))"

fun zipFiles :: "zipFile list \<Rightarrow> string \<times> string \<Rightarrow> string result" where
  "zipFiles [] (buffer, content) = Inr content"
| "zipFiles (Inl e # fs) st = Inl e"
| "zipFiles (Inr (chunks, Some e) # fs) st = Inl e"
| "zipFiles (Inr (chunks, None) # fs) st = zipFiles fs (zipReads chunks st)"

definition zipDecode :: "'f bodyLibs \<Rightarrow> body \<Rightarrow> ('f, 'x) bres" where
  "zipDecode L body =
    (case body of
       (_, Some e) \<Rightarrow> Inr (Inl (PlainErr e))
     | (data, None) \<Rightarrow>
         (case bl_Zip L data of
            Inl e \<Rightarrow> Inr (Inl (PlainErr e))
          | Inr fs \<Rightarrow>
              (case zipFiles fs (replicate bufferSize (CHR 0x00), []) of
                 Inl e \<Rightarrow> Inr (Inl (PlainErr e))
               | Inr content \<Rightarrow> Inr (Inr (GStr content)))))"

definition csvDecode :: "'f bodyLibs \<Rightarrow> body \<Rightarrow> ('f, 'x) bres" where
  "csvDecode L body =
    (case bl_Csv L body of
       (_, Some e) \<Rightarrow> Inr (Inl (PlainErr e))
     | (records, None) \<Rightarrow> Inr (Inr (GStr (concat (map (\<lambda>r. Join r '','' @ [CHR 0x0A]) records)))))"

subsection \<open>Forms\<close>

definition decodeProperty :: "'f goFloat \<Rightarrow> ('f, 'x) kin \<Rightarrow> decoder \<Rightarrow> string \<Rightarrow> ('f, 'x) schema \<Rightarrow> encFn \<Rightarrow> ('f, 'x) dres result" where
  "decodeProperty F K dec name prop encFn =
    (let enc = (case encFn of None \<Rightarrow> None | Some f \<Rightarrow> f name)
     in decodeValue F K dec name (kEncSM K enc) False prop)"

text \<open>The properties of one schema: one that cannot be decoded is left out, one that is there already with another
  value is an error.\<close>

fun constructProps :: "'f goFloat \<Rightarrow> ('f, 'x) kin \<Rightarrow> decoder \<Rightarrow> encFn \<Rightarrow> (string \<times> 'f gval) list
    \<Rightarrow> (string \<times> ('f, 'x) schema) list \<Rightarrow> (('f, 'x) oerr + (string \<times> 'f gval) list) result" where
  "constructProps F K dec encFn obj [] = Inr (Inr obj)"
| "constructProps F K dec encFn obj ((name, prop) # props) =
    (case decodeProperty F K dec name prop encFn of
       Inl p \<Rightarrow> Inl p
     | Inr (value, _, Some err) \<Rightarrow> constructProps F K dec encFn obj props
     | Inr (value, _, None) \<Rightarrow>
         if (case map_of obj name of None \<Rightarrow> False | Some existing \<Rightarrow> \<not> isEqual F existing value)
         then Inr (Inl (PlainErr (''conflicting values for property '' @ quoteQ name)))
         else constructProps F K dec encFn (AList.update name value obj) props)"

fun constructLoop :: "('s \<Rightarrow> 'o \<Rightarrow> ('e + 'o) result) \<Rightarrow> 's list \<Rightarrow> 'o \<Rightarrow> ('e + 'o) result" where
  "constructLoop f [] obj = Inr (Inr obj)"
| "constructLoop f (s # ss) obj =
    (case f s obj of
       Inl p \<Rightarrow> Inl p
     | Inr (Inl err) \<Rightarrow> Inr (Inl err)
     | Inr (Inr obj') \<Rightarrow> constructLoop f ss obj')"

lemma constructLoop_cong [fundef_cong]:
  assumes "xs = ys" "o1 = o2" "\<And>x ob. x \<in> set ys \<Longrightarrow> f x ob = g x ob"
  shows "constructLoop f xs o1 = constructLoop g ys o2"
  unfolding assms(1,2) using assms(3)
proof (induction ys arbitrary: o2)
  case (Cons a ys)
  have "f a ob = g a ob" for ob using Cons.prems by simp
  moreover have "constructLoop f ys ob = constructLoop g ys ob" for ob using Cons by simp
  ultimately show ?case by (simp split: sum.split)
qed simp

definition thenObj :: "('e + 'o) result \<Rightarrow> ('o \<Rightarrow> ('e + 'o) result) \<Rightarrow> ('e + 'o) result" where
  "thenObj r f = (case r of Inl p \<Rightarrow> Inl p | Inr (Inl e) \<Rightarrow> Inr (Inl e) | Inr (Inr ob) \<Rightarrow> f ob)"

lemma thenObj_cong [fundef_cong]:
  assumes "r = r'" "\<And>ob. f ob = g ob"
  shows "thenObj r f = thenObj r' g"
  using assms by (simp add: thenObj_def split: sum.split)

text \<open>\<^verbatim>\<open>decodeSchemaConstructs\<close>: the body of its loop, and the loop.\<close>

fun constructsOne :: "'f goFloat \<Rightarrow> ('f, 'x) kin \<Rightarrow> decoder \<Rightarrow> encFn \<Rightarrow> ('f, 'x) schema \<Rightarrow> (string \<times> 'f gval) list
    \<Rightarrow> (('f, 'x) oerr + (string \<times> 'f gval) list) result" where
  "constructsOne F K dec encFn s obj =
    thenObj (constructLoop (\<lambda>sr ob. constructsOne F K dec encFn sr ob) (s_AllOf s) obj) (\<lambda>obj1.
    thenObj (constructLoop (\<lambda>sr ob. constructsOne F K dec encFn sr ob) (s_AnyOf s) obj1) (\<lambda>obj2.
    thenObj (constructLoop (\<lambda>sr ob. constructsOne F K dec encFn sr ob) (s_OneOf s) obj2) (\<lambda>obj3.
    constructProps F K dec encFn obj3 (s_Properties s))))"
declare constructsOne.simps [simp del]

definition decodeSchemaConstructs :: "'f goFloat \<Rightarrow> ('f, 'x) kin \<Rightarrow> decoder \<Rightarrow> encFn \<Rightarrow> ('f, 'x) schema list
    \<Rightarrow> (string \<times> 'f gval) list \<Rightarrow> (('f, 'x) oerr + (string \<times> 'f gval) list) result" where
  "decodeSchemaConstructs F K dec encFn schemas obj = constructLoop (constructsOne F K dec encFn) schemas obj"

text \<open>The types a form may have; an array without items makes the check panic.\<close>

definition badProp :: "string \<Rightarrow> ('f, 'x) oerr" where
  "badProp name = PlainErr (''unsupported schema of request body's property '' @ quoteQ name)"

fun formSchema :: "('f, 'x) kin \<Rightarrow> (string \<times> ('f, 'x) schema) list \<Rightarrow> ('f, 'x) oerr option result" where
  "formSchema K [] = Inr None"
| "formSchema K ((name, prop) # props) =
    (if kTypeIs K (s_Type prop) ''object'' then Inr (Some (badProp name))
     else if kTypeIs K (s_Type prop) ''array'' then
       (case s_Items prop of
          None \<Rightarrow> Inl nilDeref
        | Some items \<Rightarrow>
            if list_ex (kTypeIs K (s_Type items)) [''string'', ''integer'', ''number'', ''boolean''] then formSchema K props
            else Inr (Some (badProp name)))
     else formSchema K props)"

definition unsupportedSchema :: "('f, 'x) oerr" where
  "unsupportedSchema = PlainErr ''unsupported schema of request body''"

definition urlencodedDecode :: "'f goFloat \<Rightarrow> ('f, 'x) kin \<Rightarrow> body \<Rightarrow> ('f, 'x) schema option \<Rightarrow> encFn \<Rightarrow> ('f, 'x) bres" where
  "urlencodedDecode F K body sr encFn =
    (case sr of
       None \<Rightarrow> Inl nilDeref
     | Some s \<Rightarrow>
         if \<not> kTypeIs K (s_Type s) ''object'' then Inr (Inl unsupportedSchema)
         else case formSchema K (s_Properties s) of
           Inl p \<Rightarrow> Inl p
         | Inr (Some err) \<Rightarrow> Inr (Inl err)
         | Inr None \<Rightarrow>
             (case body of
                (_, Some e) \<Rightarrow> Inr (Inl (PlainErr e))
              | (b, None) \<Rightarrow>
                  (case ParseQuery b of
                     (_, Some e) \<Rightarrow> Inr (Inl (PlainErr e))
                   | (vals, None) \<Rightarrow>
                       let dec = QueryDec vals in
                       map_sum id (map_sum id GMap)
                        (thenObj (decodeSchemaConstructs F K dec encFn (s_AllOf s) []) (\<lambda>obj1.
                         thenObj (decodeSchemaConstructs F K dec encFn (s_AnyOf s) obj1) (\<lambda>obj2.
                         thenObj (decodeSchemaConstructs F K dec encFn (s_OneOf s) obj2) (\<lambda>obj3.
                         decodeSchemaConstructs F K dec encFn [s] obj3)))))))"

subsection \<open>Multipart bodies\<close>

text \<open>The schema for a part: the part may be skipped, be undefined, or have a schema (the nil schema
  for an array without items).\<close>

datatype ('f, 'x) partUse = SkipPart | UndefinedPart | UseSchema "('f, 'x) schema option"

fun allOfPart :: "('f, 'x) schema list \<Rightarrow> string \<Rightarrow> ('f, 'x) schema option" where
  "allOfPart [] name = None"
| "allOfPart (sr # srs) name =
    (case map_of (s_Properties sr) name of Some vs \<Rightarrow> Some vs | None \<Rightarrow> allOfPart srs name)"

definition itemsOf :: "('f, 'x) kin \<Rightarrow> ('f, 'x) schema \<Rightarrow> ('f, 'x) schema option" where
  "itemsOf K vs = (if kTypeIs K (s_Type vs) ''array'' then s_Items vs else Some vs)"

definition partSchema :: "('f, 'x) kin \<Rightarrow> ('f, 'x) schema \<Rightarrow> string \<Rightarrow> ('f, 'x) partUse" where
  "partSchema K s name =
    (if s_AllOf s \<noteq> [] then
       (case allOfPart (s_AllOf s) name of Some vs \<Rightarrow> UseSchema (Some vs) | None \<Rightarrow> UndefinedPart)
     else case map_of (s_Properties s) name of
       Some vs \<Rightarrow> UseSchema (itemsOf K vs)
     | None \<Rightarrow>
         (case s_AddHas s of
            Some True \<Rightarrow> SkipPart
          | Some False \<Rightarrow> UndefinedPart
          | None \<Rightarrow>
              (case s_AddSchema s of
                 None \<Rightarrow> UndefinedPart
               | Some a \<Rightarrow>
                   (case map_of (s_Properties a) name of
                      None \<Rightarrow> UndefinedPart
                    | Some vs \<Rightarrow> UseSchema (itemsOf K vs)))))"

definition underPart :: "string \<Rightarrow> ('f, 'x) oerr \<Rightarrow> ('f, 'x) oerr" where
  "underPart name e =
    (if isParseErr e then ParseErr KindOther GNil [] [PStr name] (Some e) else WrapErr (''part '' @ name @ '': '') e)"

definition undefinedPart :: "string \<Rightarrow> ('f, 'x) oerr" where
  "undefinedPart name = ParseErr KindOther GNil [] [] (Some (PlainErr (''part '' @ name @ '': undefined'')))"

text \<open>One part: \<open>decode\<close> is \<^verbatim>\<open>decodeBody\<close> on the part.  Without a content type, or with plain text, the value
  is taken as a string and parsed once more.\<close>

definition partValue :: "'f goFloat \<Rightarrow> ('f, 'x) kin \<Rightarrow> (('f, 'x) schema option \<Rightarrow> ('f, 'x) bres) \<Rightarrow> ('f, 'x) schema \<Rightarrow> part
    \<Rightarrow> (('f, 'x) oerr + 'f gval option) result" where
  "partValue F K decode s part =
    (let name = pt_Name part in
     case partSchema K s name of
       SkipPart \<Rightarrow> Inr (Inr None)
     | UndefinedPart \<Rightarrow> Inr (Inl (undefinedPart name))
     | UseSchema valueSchema \<Rightarrow>
         (case decode valueSchema of
            Inl p \<Rightarrow> Inl p
          | Inr (Inl err) \<Rightarrow> Inr (Inl (underPart name err))
          | Inr (Inr value) \<Rightarrow>
              if hdrGet ''Content-Type'' (pt_Header part) \<in> {[], ''text/plain''} then
                (case value of
                   GStr v \<Rightarrow>
                     (case parsePrimitive F K v valueSchema of
                        Inl p \<Rightarrow> Inl p
                      | Inr (_, Some err) \<Rightarrow> Inr (Inl (underPart name err))
                      | Inr (prim, None) \<Rightarrow> Inr (Inr (Some prim)))
                 | _ \<Rightarrow> Inl badAssert)
              else Inr (Inr (Some value))))"

fun multipartLoop :: "(part \<Rightarrow> (('f, 'x) oerr + 'f gval option) result) \<Rightarrow> (string \<times> 'f gval list) list \<Rightarrow> part list
    \<Rightarrow> gerror option \<Rightarrow> (('f, 'x) oerr + (string \<times> 'f gval list) list) result" where
  "multipartLoop f vals [] None = Inr (Inr vals)"
| "multipartLoop f vals [] (Some e) = Inr (Inl (PlainErr e))"
| "multipartLoop f vals (part # parts) end =
    (case f part of
       Inl p \<Rightarrow> Inl p
     | Inr (Inl err) \<Rightarrow> Inr (Inl err)
     | Inr (Inr None) \<Rightarrow> multipartLoop f vals parts end
     | Inr (Inr (Some v)) \<Rightarrow>
         multipartLoop f (AList.map_default (pt_Name part) [v] (\<lambda>vv. vv @ [v]) vals) parts end)"

definition withAdditional :: "('f, 'x) schema \<Rightarrow> (string \<times> ('f, 'x) schema) list \<Rightarrow> (string \<times> ('f, 'x) schema) list" where
  "withAdditional s props =
    AList.updates (map fst (case s_AddSchema s of None \<Rightarrow> [] | Some a \<Rightarrow> s_Properties a))
      (map snd (case s_AddSchema s of None \<Rightarrow> [] | Some a \<Rightarrow> s_Properties a))
      (AList.updates (map fst (s_Properties s)) (map snd (s_Properties s)) props)"

definition allTheProperties :: "('f, 'x) schema \<Rightarrow> (string \<times> ('f, 'x) schema) list" where
  "allTheProperties s = (if s_AllOf s \<noteq> [] then fold withAdditional (s_AllOf s) [] else withAdditional s [])"

definition formObject :: "('f, 'x) kin \<Rightarrow> (string \<times> ('f, 'x) schema) list \<Rightarrow> (string \<times> 'f gval list) list \<Rightarrow> (string \<times> 'f gval) list" where
  "formObject K props vals =
    fold (\<lambda>(name, prop) obj.
      case map_of vals name of
        Some (v # vv) \<Rightarrow> AList.update name (if kTypeIs K (s_Type prop) ''array'' then GArr (v # vv) else v) obj
      | _ \<Rightarrow> obj) props []"

definition multipartDecode :: "'f bodyLibs \<Rightarrow> 'f goFloat \<Rightarrow> ('f, 'x) kin \<Rightarrow> (part \<Rightarrow> ('f, 'x) schema option \<Rightarrow> encFn \<Rightarrow> ('f, 'x) bres)
    \<Rightarrow> body \<Rightarrow> header \<Rightarrow> ('f, 'x) schema option \<Rightarrow> encFn \<Rightarrow> ('f, 'x) bres" where
  "multipartDecode L F K decode body h sr encFn =
    (case sr of
       None \<Rightarrow> Inl nilDeref
     | Some s \<Rightarrow>
         if \<not> kTypeIs K (s_Type s) ''object'' then Inr (Inl unsupportedSchema)
         else case bl_MIME L (hdrGet ''Content-Type'' h) of
           Inl e \<Rightarrow> Inr (Inl (PlainErr e))
         | Inr params \<Rightarrow>
             (case bl_Parts L (case map_of params ''boundary'' of Some b \<Rightarrow> b | None \<Rightarrow> []) body of
                (parts, end) \<Rightarrow>
                  let value = (\<lambda>part. let enc = (case encFn of None \<Rightarrow> None | Some f \<Rightarrow> f (pt_Name part))
                                       in partValue F K (\<lambda>vs. decode part vs (Some (\<lambda>_. enc))) s part)
                  in map_sum id (map_sum id (\<lambda>vals. GMap (formObject K (allTheProperties s) vals)))
                       (multipartLoop value [] parts end)))"

text \<open>The schema of a part is smaller than the schema of the body.\<close>

lemma map_of_props: "map_of (s_Properties s) name = Some vs \<Longrightarrow> size vs < size s"
  using schema_parts(6)[of "(name, vs)" s] by (auto dest: map_of_SomeD)

lemma allOfPart_size: "allOfPart srs name = Some vs \<Longrightarrow> \<exists>sr \<in> set srs. size vs < size sr"
  by (induction srs) (auto dest: map_of_props split: option.splits)

lemma itemsOf_size: "itemsOf K vs = Some it \<Longrightarrow> size it \<le> size vs"
  by (auto simp: itemsOf_def less_imp_le schema_parts(4) split: if_splits)

lemma partSchema_size: "partSchema K s name = UseSchema (Some vs) \<Longrightarrow> size vs < size s"
  by (auto simp: partSchema_def split: if_splits option.splits bool.splits
      dest!: allOfPart_size itemsOf_size map_of_props schema_parts(1) schema_parts(5))

lemma multipartLoop_cong:
  "(\<And>p. f p = g p) \<Longrightarrow> multipartLoop f vals parts end = multipartLoop g vals parts end"
  by (induction f vals parts "end" rule: multipartLoop.induct) (auto split: sum.splits option.splits)

lemma multipartDecode_cong [fundef_cong]:
  assumes "L = L'" "F = F'" "K = K'" "body = body'" "h = h'" "sr = sr'" "encFn = encFn'"
    and "\<And>s p vs e. sr' = Some s \<Longrightarrow> partSchema K' s (pt_Name p) = UseSchema vs \<Longrightarrow> dec p vs e = dec' p vs e"
  shows "multipartDecode L F K dec body h sr encFn = multipartDecode L' F' K' dec' body' h' sr' encFn'"
proof -
  have "partValue F' K' (\<lambda>vs. dec p vs e) s p = partValue F' K' (\<lambda>vs. dec' p vs e) s p" if "sr' = Some s" for p s e
    using assms(8)[OF that] by (simp add: partValue_def Let_def split: partUse.split)
  then show ?thesis
    unfolding multipartDecode_def assms(1-7)
    by (auto simp: Let_def split: option.split sum.split prod.split intro!: arg_cong[of _ _ "map_sum _ _"] multipartLoop_cong)
qed

subsection \<open>Bodies\<close>

definition mediaTypeOf :: "string \<Rightarrow> ('f, 'x) bres \<Rightarrow> (('f, 'x) oerr + string \<times> 'f gval) result" where
  "mediaTypeOf mediaType r = map_sum id (map_sum id (Pair mediaType)) r"

definition valueOf :: "(('f, 'x) oerr + string \<times> 'f gval) result \<Rightarrow> ('f, 'x) bres" where
  "valueOf r = map_sum id (map_sum id snd) r"

text \<open>\<^verbatim>\<open>decodeBody\<close>; \<open>isPart\<close> tells that the reader is a part of a multipart body.\<close>

function decodeBody :: "'f bodyLibs \<Rightarrow> 'f goFloat \<Rightarrow> ('f, 'x) kin \<Rightarrow> bodyDecoders \<Rightarrow> bool \<Rightarrow> body \<Rightarrow> header
    \<Rightarrow> ('f, 'x) schema option \<Rightarrow> encFn \<Rightarrow> (('f, 'x) oerr + string \<times> 'f gval) result" where
  "decodeBody L F K reg isPart body h sr encFn =
    (let contentType = hdrGet ''Content-Type'' h in
     if contentType = [] \<and> isPart then
       mediaTypeOf (fst (parseMediaType ''text/plain'')) (multipartPartBodyDecoder F K body sr)
     else case parseMediaType contentType of (mediaType, suff) \<Rightarrow>
       case getBodyDecoder reg mediaType suff of
         Inl err \<Rightarrow> Inr (Inl err)
       | Inr decoder \<Rightarrow>
           mediaTypeOf mediaType
            (case decoder of
               jsonBodyDecoder \<Rightarrow> jsonDecode L body
             | xmlBodyDecoder \<Rightarrow> xmlDecode L body
             | yamlBodyDecoder \<Rightarrow> yamlDecode L body
             | csvBodyDecoder \<Rightarrow> csvDecode L body
             | plainBodyDecoder \<Rightarrow> plainDecode body
             | zipFileBodyDecoder \<Rightarrow> zipDecode L body
             | FileBodyDecoder \<Rightarrow> fileDecode body
             | urlencodedBodyDecoder \<Rightarrow> urlencodedDecode F K body sr encFn
             | multipartBodyDecoder \<Rightarrow>
                 multipartDecode L F K
                   (\<lambda>part vs enc. valueOf (decodeBody L F K reg True (pt_Body part) (pt_Header part) vs enc)) body h sr encFn))"
  by pat_completeness auto
termination
proof (relation "measure (\<lambda>(L, F, K, reg, isPart, body, h, sr, encFn). case sr of None \<Rightarrow> 0 | Some s \<Rightarrow> Suc (size s))", goal_cases)
  case 1
  show ?case by simp
next
  case 2
  then show ?case by (auto dest: partSchema_size split: option.splits)
qed
declare decodeBody.simps [simp del]

text \<open>The encoders of \<^verbatim>\<open>req_resp_encoder.go\<close>, a registry of functions.\<close>

type_synonym 'f bodyEncoders = "(string \<times> ('f gval \<Rightarrow> string result)) list"

definition initBodyEncoders :: "'f bodyLibs \<Rightarrow> 'f bodyEncoders" where
  "initBodyEncoders L = [(''application/json'', bl_Marshal L)]"

definition encodeBody :: "'f bodyEncoders \<Rightarrow> 'f gval \<Rightarrow> string \<Rightarrow> ('f, 'x) oerr + string" where
  "encodeBody encoders value mediaType =
    (case map_of encoders mediaType of
       None \<Rightarrow> Inl (ParseErr KindUnsupportedFormat GNil (''unsupported content type '' @ quoteQ mediaType) [] None)
     | Some encoder \<Rightarrow> map_sum PlainErr id (encoder value))"

definition RegisterBodyEncoder :: "'f bodyEncoders \<Rightarrow> string \<Rightarrow> ('f gval \<Rightarrow> string result) option \<Rightarrow> 'f bodyEncoders result" where
  "RegisterBodyEncoder encoders contentType encoder =
    (if contentType = [] then Inl ''contentType is empty''
     else case encoder of
       None \<Rightarrow> Inl ''encoder is not defined''
     | Some f \<Rightarrow> Inr (AList.update contentType f encoders))"

definition UnregisterBodyEncoder :: "'f bodyEncoders \<Rightarrow> string \<Rightarrow> 'f bodyEncoders result" where
  "UnregisterBodyEncoder encoders contentType =
    (if contentType = [] then Inl ''contentType is empty'' else Inr (AList.delete contentType encoders))"

definition RegisteredBodyEncoder :: "'f bodyEncoders \<Rightarrow> string \<Rightarrow> ('f gval \<Rightarrow> string result) option" where
  "RegisteredBodyEncoder encoders contentType = map_of encoders contentType"

subsection \<open>Numbers in a multipart body\<close>

text \<open>C30. A part of a multipart body that has no content type and belongs to a property of type integer or
  number makes the decoder panic whenever its text is a number: the part is decoded to a float
  first and then taken as a string.\<close>

theorem multipart_number_panics:
  assumes "RegisteredBodyDecoder reg ''multipart/form-data'' = Some multipartBodyDecoder"
    and "parseMediaType (hdrGet ''Content-Type'' h) = (''multipart/form-data'', [])"
    and "kTypeIs K (s_Type s) ''object''"
    and "bl_MIME L (hdrGet ''Content-Type'' h) = Inr [(''boundary'', b)]"
    and "bl_Parts L b (data, None) = (p # ps, end)"
    and "partSchema K s (pt_Name p) = UseSchema (Some vs)"
    and "kTypeIs K (s_Type vs) ''integer'' \<or> kTypeIs K (s_Type vs) ''number''"
    and "hdrGet ''Content-Type'' (pt_Header p) = []" and "pt_Body p = (text, None)" and "ParseFloat F text = Inr x"
  shows "decodeBody L F K reg False (data, None) h (Some s) encFn = Inl badAssert"
proof -
  let ?dec = "\<lambda>part sr enc. valueOf (decodeBody L F K reg True (pt_Body part) (pt_Header part) sr enc)"
  have g: "getBodyDecoder reg ''multipart/form-data'' [] = (Inr multipartBodyDecoder :: ('a, 'b) oerr + BodyDecoder)"
    using assms(1) by (simp add: getBodyDecoder_def RegisteredBodyDecoder_def)
  have "?dec p (Some vs) enc = Inr (Inr (GFloat x))" for enc
    using assms(7-10)
    by (subst decodeBody.simps) (auto simp: multipartPartBodyDecoder_def valueOf_def mediaTypeOf_def Let_def)
  then have v: "partValue F K (\<lambda>sr. ?dec p sr enc) s p = Inl badAssert" for enc
    using assms(6,8) by (simp add: partValue_def Let_def)
  have "multipartDecode L F K ?dec (data, None) h (Some s) encFn = Inl badAssert"
    using assms(3-5) by (simp add: multipartDecode_def v Let_def)
  then show ?thesis
    using assms(2) g by (subst decodeBody.simps) (simp add: mediaTypeOf_def Let_def)
qed

text \<open>Libraries for evaluation: a multipart reader that finds the part \<^verbatim>\<open>age\<close> with the text \<^verbatim>\<open>42\<close>, and an
  archive with a file of two pieces.\<close>

definition demo_libs :: "int bodyLibs" where
  "demo_libs = \<lparr> bl_JSON = (\<lambda>s. Inr (FJString s)), bl_XML = (\<lambda>s. Inl ''EOF''), bl_YAML = (\<lambda>b. Inr (GStr (fst b))),
     bl_MIME = (\<lambda>s. Inr [(''boundary'', ''b'')]),
     bl_Parts = (\<lambda>b body. ([\<lparr>pt_Name = ''age'', pt_Header = [], pt_Body = (''42'', None)\<rparr>], None)),
     bl_Zip = (\<lambda>s. Inr [Inr ([''abc'', ''d''], None)]), bl_Csv = (\<lambda>b. ([], None)), bl_Marshal = (\<lambda>v. Inr []) \<rparr>"

theorem multipart_number_panics_witness:
  "decodeBody demo_libs demo_float demo_kin [(''multipart/form-data'', multipartBodyDecoder)] False (''data'', None)
     [(''Content-Type'', [''multipart/form-data; boundary=b''])]
     (Some (demo_schema (Some [''object'']) None [(''age'', demo_schema (Some [''integer'']) None [])])) None = Inl badAssert"
proof -
  let ?vs = "demo_schema (Some [''integer'']) None []"
  let ?s = "demo_schema (Some [''object'']) None [(''age'', ?vs)]"
  let ?p = "\<lparr>pt_Name = ''age'', pt_Header = [], pt_Body = (''42'', None)\<rparr>"
  have h: "hdrGet ''Content-Type'' [(''Content-Type'', [''multipart/form-data; boundary=b''])] = ''multipart/form-data; boundary=b''"
    by code_simp
  have m: "parseMediaType ''multipart/form-data; boundary=b'' = (''multipart/form-data'', [])" by code_simp
  have a: "Atoi ''42'' = Inr 42" by code_simp
  have e: "hdrGet ''Content-Type'' [] = []" by code_simp
  show ?thesis
    using multipart_number_panics[of "[(''multipart/form-data'', multipartBodyDecoder)]"
        "[(''Content-Type'', [''multipart/form-data; boundary=b''])]" demo_kin ?s demo_libs "''b''" "''data''" ?p "[]" None ?vs
        "''42''" demo_float 42 None] h m a e
    by (simp add: RegisteredBodyDecoder_def demo_kin_def demo_libs_def demo_schema_def partSchema_def itemsOf_def demo_float_def)
qed

subsection \<open>The text of an archive\<close>

lemma zipReads_length:
  assumes "length buffer = bufferSize" "\<forall>c\<in>set chunks. length c \<le> bufferSize"
  shows "length (fst (zipReads chunks (buffer, content))) = bufferSize \<and>
    length (snd (zipReads chunks (buffer, content))) = length content + bufferSize * length (filter (\<lambda>c. c \<noteq> []) chunks)"
  using assms
proof (induction chunks arbitrary: buffer content)
  case (Cons c cs)
  have "length (c @ drop (length c) buffer) = bufferSize" using Cons.prems by simp
  then show ?case using Cons by (simp add: Let_def)
qed simp

lemma zipFiles_length:
  assumes "length buffer = bufferSize" "\<forall>cs\<in>set css. \<forall>c\<in>set cs. length c \<le> bufferSize"
  shows "\<exists>text. zipFiles (map (\<lambda>cs. Inr (cs, None)) css) (buffer, content) = Inr text \<and>
    length text = length content + bufferSize * length (filter (\<lambda>c. c \<noteq> []) (concat css))"
  using assms
proof (induction css arbitrary: buffer content)
  case (Cons cs css)
  obtain b' c' where bc: "zipReads cs (buffer, content) = (b', c')" by fastforce
  have l: "length b' = bufferSize" "length c' = length content + bufferSize * length (filter (\<lambda>c. c \<noteq> []) cs)"
    using zipReads_length[of buffer cs content] Cons.prems bc by auto
  show ?case using Cons.IH[OF l(1), of c'] Cons.prems(2) l(2) bc by (auto simp: algebra_simps)
qed simp

text \<open>The text of an archive is not the text of its files: every read that delivers something adds a
  whole buffer of 256 bytes, however short the piece is, so the length of the decoded value depends
  only on the number of pieces.\<close>

theorem zip_text_is_padded:
  assumes "bl_Zip L data = Inr (map (\<lambda>cs. Inr (cs, None)) css)" and "\<forall>cs\<in>set css. \<forall>c\<in>set cs. length c \<le> 256"
  shows "\<exists>text. zipDecode L (data, None) = Inr (Inr (GStr text)) \<and>
    length text = 256 * length (filter (\<lambda>c. c \<noteq> []) (concat css))"
  using zipFiles_length[of "replicate bufferSize (CHR 0x00)" css "[]"] assms
  by (auto simp: zipDecode_def bufferSize_def)

theorem zip_text_is_padded_witness:
  "\<exists>text. zipDecode demo_libs (''PK'', None) = Inr (Inr (GStr text)) \<and> length text = 512"
proof -
  have "bl_Zip demo_libs ''PK'' = Inr (map (\<lambda>cs. Inr (cs, None)) [[''abc'', ''d'']])" by (simp add: demo_libs_def)
  from zip_text_is_padded[OF this] show ?thesis by simp
qed

subsection \<open>Forms of strings\<close>

definition plainString :: "('f, 'x) schema \<Rightarrow> bool" where
  "plainString s \<longleftrightarrow> s_AllOf s = [] \<and> s_AnyOf s = [] \<and> s_OneOf s = [] \<and> s_Not s = None \<and> s_Type s = Some [''string'']"

text \<open>The value of a field: the first one that was sent; an empty text counts as no value.\<close>

definition formValue :: "urlvalues \<Rightarrow> string \<Rightarrow> 'f gval" where
  "formValue vals name = (if valGet name vals = [] then GNil else GStr (valGet name vals))"

lemma decodeProperty_string:
  assumes "type_laws K" "sm_Style (kEncSM K None) = ''form''" "plainString prop"
  shows "\<exists>ok. decodeProperty F K (QueryDec vals) name prop None = Inr (formValue vals name, ok, None)"
proof -
  have t: "kTypeIs K (s_Type prop) ''array'' = False" "kTypeIs K (s_Type prop) ''object'' = False"
    using assms(1,3) by (simp_all add: type_laws_def plainString_def)
  have p: "parsePrimitive F K v (Some prop) = Inr (if v = [] then GNil else GStr v, None)" for v
    using parsePrimitive_string[OF assms(1)] assms(3) by (cases "v = []") (simp_all add: plainString_def parsePrimitive_def)
  have "decodeValue F K (QueryDec vals) name (kEncSM K None) False prop =
      queryPrimitive F K vals name (kEncSM K None) prop"
    using assms(3) by (subst decodeValue.simps) (simp add: plainString_def decodeTyped_def DecodePrimitive_def assms(1)[unfolded type_laws_def])
  moreover have "\<exists>ok. queryPrimitive F K vals name (kEncSM K None) prop = Inr (formValue vals name, ok, None)"
    using assms(2,3)
    by (cases "valValues name vals") (auto simp: queryPrimitive_def plainString_def formValue_def valGet_def p withFound_def Let_def)
  ultimately show ?thesis by (simp add: decodeProperty_def)
qed

lemma update_fresh: "k \<notin> fst ` set al \<Longrightarrow> AList.update k v al = al @ [(k, v)]"
  by (induction al) auto

lemma constructProps_strings:
  assumes "type_laws K" "sm_Style (kEncSM K None) = ''form''"
  shows "\<lbrakk>\<forall>kv\<in>set props. plainString (snd kv); distinct (map fst props); fst ` set obj \<inter> fst ` set props = {}\<rbrakk> \<Longrightarrow>
    constructProps F K (QueryDec vals) None obj props =
      Inr (Inr (obj @ map (\<lambda>kv. (fst kv, formValue vals (fst kv))) props))"
proof (induction props arbitrary: obj)
  case (Cons kv props)
  obtain name pr where kv: "kv = (name, pr)" by (cases kv)
  obtain ok where d: "decodeProperty F K (QueryDec vals) name pr None = Inr (formValue vals name, ok, None)"
    using decodeProperty_string[OF assms, of pr F vals name] Cons.prems(1) kv by auto
  have fresh: "name \<notin> fst ` set obj" using Cons.prems(3) kv by auto
  then have "map_of obj name = None" by (simp add: map_of_eq_None_iff)
  moreover have "constructProps F K (QueryDec vals) None (obj @ [(name, formValue vals name)]) props =
      Inr (Inr ((obj @ [(name, formValue vals name)]) @ map (\<lambda>kv. (fst kv, formValue vals (fst kv))) props))"
    using Cons.prems kv by (intro Cons.IH) auto
  ultimately show ?case by (simp add: kv d update_fresh[OF fresh])
qed simp

lemma formSchema_strings:
  assumes "type_laws K" shows "\<forall>kv\<in>set props. plainString (snd kv) \<Longrightarrow> formSchema K props = Inr None"
  using assms by (induction props rule: list.induct) (auto simp: plainString_def type_laws_def)

text \<open>C31. A form survives the trip: when every property of the schema is a string, the body that \<^verbatim>\<open>url.Values.Encode\<close>
  writes for any values is decoded to the object that has each property of the schema with the first
  value sent for it, or nil; names that the schema does not have are left out.\<close>

theorem urlencoded_round_trip:
  assumes "type_laws K" and "sm_Style (kEncSM K None) = ''form''" and "s_Type s = Some [''object'']"
    and "s_AllOf s = []" and "s_AnyOf s = []" and "s_OneOf s = []"
    and "\<forall>kv\<in>set (s_Properties s). plainString (snd kv)" and "distinct (map fst (s_Properties s))" and "distinct (map fst vals)"
  shows "urlencodedDecode F K (Encode vals, None) (Some s) None =
    Inr (Inr (GMap (map (\<lambda>kv. (fst kv, formValue vals (fst kv))) (s_Properties s))))"
proof -
  obtain vs where q: "ParseQuery (Encode vals) = (vs, None)" "valValues k vs = valValues k vals" for k
    using ParseQuery_Encode[OF assms(9)] by (metis prod.collapse)
  have fv: "(formValue vs :: string \<Rightarrow> 'a gval) = formValue vals" by (rule ext) (simp add: formValue_def valGet_def q(2))
  have ty: "kTypeIs K (s_Type s) ''object''" using assms(1,3) by (simp add: type_laws_def)
  have "decodeSchemaConstructs F K (QueryDec vs) None [s] [] =
      Inr (Inr (map (\<lambda>kv. (fst kv, formValue vals (fst kv))) (s_Properties s)))"
    using constructProps_strings[OF assms(1,2,7,8), of "[]" F vs] assms(4-6)
    by (subst decodeSchemaConstructs_def, simp, subst constructsOne.simps) (simp add: thenObj_def fv)
  then show ?thesis
    using ty formSchema_strings[OF assms(1,7)] q(1) assms(4-6)
    by (simp add: urlencodedDecode_def decodeSchemaConstructs_def thenObj_def)
qed

theorem urlencoded_round_trip_witness:
  "urlencodedDecode demo_float demo_kin (Encode [(''a'', [''x&y'']), (''c'', [''z''])], None)
     (Some (demo_schema (Some [''object'']) None
       [(''a'', demo_schema (Some [''string'']) None []), (''b'', demo_schema (Some [''string'']) None [])])) None =
   Inr (Inr (GMap [(''a'', GStr ''x&y''), (''b'', GNil)]))"
proof -
  let ?s = "demo_schema (Some [''object'']) None
       [(''a'', demo_schema (Some [''string'']) None []), (''b'', demo_schema (Some [''string'']) None [])]"
  have "(formValue [(''a'', [''x&y'']), (''c'', [''z''])] ''a'' :: int gval) = GStr ''x&y''"
    "(formValue [(''a'', [''x&y'']), (''c'', [''z''])] ''b'' :: int gval) = GNil" by code_simp+
  then show ?thesis
    using urlencoded_round_trip[OF demo_type_laws, of ?s "[(''a'', [''x&y'']), (''c'', [''z''])]" demo_float]
    by (simp add: demo_schema_def demo_kin_def plainString_def)
qed

end
