(* ===== verification/Validate.thy ===== *)
theory Validate
  imports Body_Decoder
begin

text \<open>
  The validation of requests and responses against an operation of the document
  (\<^verbatim>\<open>validate_request.go\<close> and \<^verbatim>\<open>validate_response.go\<close> of \<^verbatim>\<open>internal/platform/validator\<close>).  A validator
  changes the request it is given when it fills in default values, so the input is an argument and a
  result.  The authentication function of the options has a state of its own.  A panic is on the left
  of the outer sum.
\<close>

text \<open>What the validators are built with: the libraries, the numbers and the two registries.\<close>

record ('f, 'x) venv =
  ev_L :: "'f bodyLibs"
  ev_F :: "'f goFloat"
  ev_K :: "('f, 'x) kin"
  ev_Decoders :: bodyDecoders
  ev_Encoders :: "'f bodyEncoders"
  ev_Unmarshal :: "string \<Rightarrow> 'f gval result"

type_synonym ('f, 'x, 's) authFunc = "securityScheme \<Rightarrow> string list \<Rightarrow> httpReq \<Rightarrow> 's \<Rightarrow> ('f, 'x) oerr option \<times> 's"

text \<open>The options of the OpenAPI library that the validators read.\<close>

record ('f, 'x, 's) options =
  vo_MultiError :: bool
  vo_SkipSettingDefaults :: bool
  vo_ExcludeRequestQueryParams :: bool
  vo_ExcludeRequestBody :: bool
  vo_ExcludeReadOnlyValidations :: bool
  vo_ExcludeResponseBody :: bool
  vo_IncludeResponseStatus :: bool
  vo_AuthenticationFunc :: "('f, 'x, 's) authFunc option"

definition noOptions :: "('f, 'x, 's) options" where
  "noOptions = \<lparr> vo_MultiError = False, vo_SkipSettingDefaults = False, vo_ExcludeRequestQueryParams = False,
     vo_ExcludeRequestBody = False, vo_ExcludeReadOnlyValidations = False, vo_ExcludeResponseBody = False,
     vo_IncludeResponseStatus = False, vo_AuthenticationFunc = None \<rparr>"

definition orDefault :: "('f, 'x, 's) options option \<Rightarrow> ('f, 'x, 's) options" where
  "orDefault ov = (case ov of None \<Rightarrow> noOptions | Some opts \<Rightarrow> opts)"

definition ErrAuthenticationServiceMissing :: "('f, 'x) oerr" where
  "ErrAuthenticationServiceMissing = PlainErr ''missing AuthenticationFunc''"

definition ErrInvalidRequired :: "('f, 'x) oerr" where
  "ErrInvalidRequired = PlainErr ''value is required but missing''"

definition ErrInvalidEmptyValue :: "('f, 'x) oerr" where
  "ErrInvalidEmptyValue = PlainErr ''empty value is not allowed''"

subsection \<open>Security\<close>

text \<open>The loop over the schemes of one requirement, in the order of their names.\<close>

fun schemeLoop :: "('f, 'x, 's) authFunc \<Rightarrow> (string \<times> securityScheme) list \<Rightarrow> securityRequirement \<Rightarrow> httpReq \<Rightarrow> string list \<Rightarrow> 's
    \<Rightarrow> ('f, 'x) oerr option \<times> 's" where
  "schemeLoop f schemes sr req [] st = (None, st)"
| "schemeLoop f schemes sr req (name # names) st =
    (case map_of schemes name of
       None \<Rightarrow> (Some (RequestErr None None [] (Some (PlainErr (''security scheme '' @ quoteQ name @ '' is not declared'')))), st)
     | Some scheme \<Rightarrow>
         (case f scheme (case map_of sr name of None \<Rightarrow> [] | Some scopes \<Rightarrow> scopes) req st of
            (Some err, st') \<Rightarrow> (Some err, st')
          | (None, st') \<Rightarrow> schemeLoop f schemes sr req names st'))"

definition validateSecurityRequirement :: "('f, 'x, 's) options option \<Rightarrow> ('f, 'x) valInput \<Rightarrow> securityRequirement \<Rightarrow> 's
    \<Rightarrow> ('f, 'x) oerr option \<times> 's" where
  "validateSecurityRequirement opts input sr st =
    (case vo_AuthenticationFunc (orDefault opts) of
       None \<Rightarrow> (Some ErrAuthenticationServiceMissing, st)
     | Some f \<Rightarrow> schemeLoop f (rt_SecuritySchemes (vi_Route input)) sr (vi_Req input) (sort (map fst sr)) st)"

fun requirementLoop :: "(securityRequirement \<Rightarrow> 's \<Rightarrow> ('f, 'x) oerr option \<times> 's) \<Rightarrow> securityRequirement list
    \<Rightarrow> ('f, 'x) oerr list \<Rightarrow> 's \<Rightarrow> ('f, 'x) oerr list option \<times> 's" where
  "requirementLoop f [] errs st = (Some errs, st)"
| "requirementLoop f (sr # srs) errs st =
    (case f sr st of
       (Some err, st') \<Rightarrow> requirementLoop f srs (errs @ [err]) st'
     | (None, st') \<Rightarrow> (None, st'))"

definition ValidateSecurityRequirements :: "('f, 'x, 's) options option \<Rightarrow> ('f, 'x) valInput \<Rightarrow> securityRequirement list \<Rightarrow> 's
    \<Rightarrow> ('f, 'x) oerr option \<times> 's" where
  "ValidateSecurityRequirements opts input srs st =
    (if srs = [] then (None, st)
     else case requirementLoop (validateSecurityRequirement opts input) srs [] st of
       (None, st') \<Rightarrow> (None, st')
     | (Some errs, st') \<Rightarrow> (Some (SecurityErr srs errs), st'))"

subsection \<open>Parameters\<close>

definition appendToQueryValues :: "'f goFloat \<Rightarrow> urlvalues \<Rightarrow> string \<Rightarrow> 'f gval list \<Rightarrow> urlvalues" where
  "appendToQueryValues F q parameterName v = fold (\<lambda>i. valAdd parameterName (sprintV F i)) v q"

definition joinValues :: "'f goFloat \<Rightarrow> 'f gval list \<Rightarrow> string \<Rightarrow> string" where
  "joinValues F vals sep = Join (map (sprintV F) vals) sep"

definition populateDefaultQueryParameters :: "'f goFloat \<Rightarrow> urlvalues \<Rightarrow> string \<Rightarrow> 'f gval \<Rightarrow> bool \<Rightarrow> urlvalues" where
  "populateDefaultQueryParameters F q parameterName value explode =
    (let list = (\<lambda>t. if explode then appendToQueryValues F q parameterName t
                      else valAdd parameterName (joinValues F t '','') q)
     in case value of
          GArr t \<Rightarrow> list t
        | GNilArr \<Rightarrow> list []
        | _ \<Rightarrow> valAdd parameterName (sprintV F value) q)"

text \<open>The default of a schema: the one of its first part in \<^verbatim>\<open>allOf\<close> that has one replaces its own.\<close>

definition defaultValue :: "('f, 'x) schema \<Rightarrow> 'f gval" where
  "defaultValue s =
    (case find (\<lambda>d. d \<noteq> GNil) (map s_Default (s_AllOf s)) of None \<Rightarrow> s_Default s | Some d \<Rightarrow> d)"

definition setDefault :: "'f goFloat \<Rightarrow> ('f, 'x) parameter \<Rightarrow> 'f gval \<Rightarrow> httpReq \<Rightarrow> httpReq" where
  "setDefault F param value req =
    (if pa_In param = ''query'' then
       req\<lparr>hr_RawQuery := Encode (populateDefaultQueryParameters F (fst (ParseQuery (hr_RawQuery req))) (pa_Name param) value
              (pa_Explode param = Some True))\<rparr>
     else if pa_In param = ''header'' then req\<lparr>hr_Header := hdrAdd (pa_Name param) (sprintV F value) (hr_Header req)\<rparr>
     else if pa_In param = ''cookie'' then req\<lparr>hr_Header := addCookie (pa_Name param) (sprintV F value) (hr_Header req)\<rparr>
     else req)"

text \<open>The value, the schema and the presence of a parameter.\<close>

definition decodeParameter :: "('f, 'x) venv \<Rightarrow> ('f, 'x) parameter \<Rightarrow> ('f, 'x) valInput
    \<Rightarrow> ('f gval \<times> ('f, 'x) schema option \<times> bool \<times> ('f, 'x) oerr option) result" where
  "decodeParameter E param input =
    (case pa_Content param of
       Some _ \<Rightarrow> decodeContentParameter (ev_Unmarshal E) (ev_K E) param input
     | None \<Rightarrow>
         map_sum id (\<lambda>(value, found, err). (value, pa_Schema param, found, err))
           (decodeStyledParameter (ev_F E) (ev_K E) param input))"

definition paramError :: "('f, 'x) parameter \<Rightarrow> string \<Rightarrow> ('f, 'x) oerr \<Rightarrow> ('f, 'x) oerr" where
  "paramError param reason err = RequestErr (Some param) None reason (Some err)"

text \<open>The checks on the value, after defaults.\<close>

definition checkValue :: "('f, 'x) venv \<Rightarrow> bool \<Rightarrow> ('f, 'x) parameter \<Rightarrow> 'f gval \<Rightarrow> ('f, 'x) schema option \<Rightarrow> bool
    \<Rightarrow> ('f, 'x) oerr option result" where
  "checkValue E multi param value schema found =
    (if pa_Required param \<and> \<not> found
     then Inr (Some (paramError param ''value is required but missing'' ErrInvalidRequired))
     else if isNilValue value then
       (case kIsEmpty (ev_K E) schema of
          Inl p \<Rightarrow> Inl p
        | Inr isEmpty \<Rightarrow>
            if isEmpty \<and> found then Inr None
            else if \<not> pa_AllowEmptyValue param \<and> found
            then Inr (Some (paramError param ''empty value is not allowed'' ErrInvalidEmptyValue))
            else Inr None)
     else case schema of
       None \<Rightarrow> Inr None
     | Some s \<Rightarrow> Inr (map_option (paramError param []) (fst (kVisitJSON (ev_K E) (VisitPlain multi) s value))))"

definition ValidateParameter :: "('f, 'x) venv \<Rightarrow> ('f, 'x, 's) options option \<Rightarrow> ('f, 'x) parameter \<Rightarrow> ('f, 'x) valInput
    \<Rightarrow> (('f, 'x) oerr option \<times> ('f, 'x) valInput) result" where
  "ValidateParameter E opts param input =
    (if pa_Schema param = None \<and> pa_Content param = None then Inr (None, input)
     else case decodeParameter E param input of
       Inl p \<Rightarrow> Inl p
     | Inr (_, _, _, Some err) \<Rightarrow> Inr (Some (paramError param [] err), input)
     | Inr (value, schema, found, None) \<Rightarrow>
         let dflt = (case schema of
                       Some s \<Rightarrow> if \<not> vo_SkipSettingDefaults (orDefault opts) \<and> value = GNil then defaultValue s else GNil
                     | None \<Rightarrow> GNil);
             value' = (if value = GNil then dflt else value);
             input' = (if dflt \<noteq> GNil then input\<lparr>vi_Req := setDefault (ev_F E) param dflt (vi_Req input)\<rparr> else input)
         in map_sum id (\<lambda>err. (err, input')) (checkValue E (vo_MultiError (orDefault opts)) param value' schema found))"

subsection \<open>Request bodies\<close>

definition getSchemaIdentifier :: "('f, 'x) schema \<Rightarrow> string" where
  "getSchemaIdentifier s = (if TrimSpace (s_Ref s) = [] then TrimSpace (s_Title s) else TrimSpace (s_Ref s))"

definition prependSpaceIfNeeded :: "string \<Rightarrow> string" where
  "prependSpaceIfNeeded value = (if value \<noteq> [] then '' '' @ value else value)"

definition bodyError :: "('f, 'x) requestBody \<Rightarrow> string \<Rightarrow> ('f, 'x) oerr option \<Rightarrow> ('f, 'x) oerr" where
  "bodyError rb reason err = RequestErr None (Some rb) reason err"

text \<open>The bytes of the body, and the request with the body put back.\<close>

definition putBody :: "string \<Rightarrow> httpReq \<Rightarrow> httpReq" where
  "putBody data req = req\<lparr>hr_Body := Some (data, None), hr_GetBody := Some (Inr (data, None)), hr_ContentLength := int (length data)\<rparr>"

definition readBody :: "httpReq \<Rightarrow> (gerror + string) \<times> httpReq" where
  "readBody req =
    (case hr_Body req of
       None \<Rightarrow> (Inr [], req)
     | Some (_, Some err) \<Rightarrow> (Inl err, req)
     | Some (data, None) \<Rightarrow>
         (Inr data, case hr_GetBody req of
                      Some (Inr body) \<Rightarrow> req\<lparr>hr_Body := Some body\<rparr>
                    | _ \<Rightarrow> putBody data req))"

text \<open>The decoded body against the schema; defaults that the library wrote into the value go back into the
  request.\<close>

definition checkBody :: "('f, 'x) venv \<Rightarrow> ('f, 'x, 's) options \<Rightarrow> ('f, 'x) requestBody \<Rightarrow> ('f, 'x) mediaType \<Rightarrow> ('f, 'x) schema
    \<Rightarrow> string \<Rightarrow> httpReq \<Rightarrow> (('f, 'x) oerr option \<times> httpReq) result" where
  "checkBody E opts rb ct s data req =
    (case decodeBody (ev_L E) (ev_F E) (ev_K E) (ev_Decoders E) False (data, None) (hr_Header req) (Some s)
            (Some (map_of (mt_Encoding ct))) of
       Inl p \<Rightarrow> Inl p
     | Inr (Inl err) \<Rightarrow> Inr (Some (bodyError rb ''failed to decode request body'' (Some err)), req)
     | Inr (Inr (mediaType, value)) \<Rightarrow>
         (case kVisitJSON (ev_K E)
                 (VisitRequest (\<not> vo_SkipSettingDefaults opts) (vo_MultiError opts) (vo_ExcludeReadOnlyValidations opts)) s value of
            (Some err, _, _) \<Rightarrow>
              Inr (Some (bodyError rb (''doesn't match schema '' @ prependSpaceIfNeeded (getSchemaIdentifier s)) (Some err)), req)
          | (None, value', defaultsSet) \<Rightarrow>
              if \<not> vo_SkipSettingDefaults opts \<and> defaultsSet then
                (case encodeBody (ev_Encoders E) value' mediaType of
                   Inl err \<Rightarrow> Inr (Some (bodyError rb ''rewriting failed'' (Some err)), req)
                 | Inr data' \<Rightarrow> Inr (None, putBody data' req))
              else Inr (None, req)))"

definition ValidateRequestBody :: "('f, 'x) venv \<Rightarrow> ('f, 'x, 's) options option \<Rightarrow> ('f, 'x) requestBody \<Rightarrow> ('f, 'x) valInput
    \<Rightarrow> (('f, 'x) oerr option \<times> ('f, 'x) valInput) result" where
  "ValidateRequestBody E opts rb input =
    map_sum id (\<lambda>(err, req). (err, input\<lparr>vi_Req := req\<rparr>))
     (case readBody (vi_Req input) of
        (Inl err, req) \<Rightarrow> Inr (Some (bodyError rb ''reading failed'' (Some (PlainErr err))), req)
      | (Inr data, req) \<Rightarrow>
          if data = [] then
            Inr (if rb_Required rb then Some (bodyError rb [] (Some ErrInvalidRequired)) else None, req)
          else if rb_Content rb = [] then Inr (None, req)
          else let inputMIME = hdrGet ''Content-Type'' (hr_Header req) in
            case kContentGet (ev_K E) (rb_Content rb) inputMIME of
              None \<Rightarrow> Inr (Some (bodyError rb (''header Content-Type has unexpected value '' @ quoteQ inputMIME) None), req)
            | Some ct \<Rightarrow>
                (case mt_Schema ct of
                   None \<Rightarrow> Inr (None, req)
                 | Some s \<Rightarrow> checkBody E (orDefault opts) rb ct s data req))"

subsection \<open>Requests\<close>

text \<open>A loop over parameters: with \<^verbatim>\<open>MultiError\<close> the errors are collected, otherwise the first one is returned
  (on the left).\<close>

fun paramLoop :: "bool \<Rightarrow> ('p \<Rightarrow> 'i \<Rightarrow> ('e option \<times> 'i) result) \<Rightarrow> 'p list \<Rightarrow> 'e list \<Rightarrow> 'i \<Rightarrow> (('e + 'e list) \<times> 'i) result" where
  "paramLoop multi f [] me input = Inr (Inr me, input)"
| "paramLoop multi f (p # ps) me input =
    (case f p input of
       Inl pn \<Rightarrow> Inl pn
     | Inr (None, input') \<Rightarrow> paramLoop multi f ps me input'
     | Inr (Some err, input') \<Rightarrow>
         if multi then paramLoop multi f ps (me @ [err]) input' else Inr (Inl err, input'))"

definition pathItemParams :: "('f, 'x) venv \<Rightarrow> ('f, 'x) route \<Rightarrow> ('f, 'x) parameter list" where
  "pathItemParams E route =
    filter (\<lambda>p. kGetByInAndName (ev_K E) (op_Parameters (rt_Operation route)) (pa_In p) (pa_Name p) = None) (rt_PathParameters route)"

definition operationParams :: "('f, 'x, 's) options option \<Rightarrow> ('f, 'x) route \<Rightarrow> ('f, 'x) parameter list" where
  "operationParams opts route =
    filter (\<lambda>p. \<not> (vo_ExcludeRequestQueryParams (orDefault opts) \<and> pa_In p = ''query'')) (op_Parameters (rt_Operation route))"

text \<open>The part of \<^verbatim>\<open>ValidateRequest\<close> after the security requirements; \<open>me\<close> are the errors so far.\<close>

definition validateRest :: "('f, 'x) venv \<Rightarrow> ('f, 'x, 's) options option \<Rightarrow> ('f, 'x) oerr list \<Rightarrow> ('f, 'x) valInput
    \<Rightarrow> (('f, 'x) oerr option \<times> ('f, 'x) valInput) result" where
  "validateRest E opts me0 input =
    (let multi = vo_MultiError (orDefault opts); route = vi_Route input in
     case paramLoop multi (ValidateParameter E opts) (pathItemParams E route @ operationParams opts route) me0 input of
       Inl p \<Rightarrow> Inl p
     | Inr (Inl err, input') \<Rightarrow> Inr (Some err, input')
     | Inr (Inr me, input') \<Rightarrow>
         (case (case op_RequestBody (rt_Operation route) of
                  Some rb \<Rightarrow> if vo_ExcludeRequestBody (orDefault opts) then Inr (None, input')
                             else ValidateRequestBody E opts rb input'
                | None \<Rightarrow> Inr (None, input')) of
            Inl p \<Rightarrow> Inl p
          | Inr (Some err, input'') \<Rightarrow> Inr (Some (if multi then MultiErr (me @ [err]) else err), input'')
          | Inr (None, input'') \<Rightarrow> Inr (if me \<noteq> [] then Some (MultiErr me) else None, input'')))"

definition securityOf :: "('f, 'x) route \<Rightarrow> securityRequirement list" where
  "securityOf route = (case op_Security (rt_Operation route) of Some srs \<Rightarrow> srs | None \<Rightarrow> rt_Security route)"

definition ValidateRequest :: "('f, 'x) venv \<Rightarrow> ('f, 'x, 's) options option \<Rightarrow> ('f, 'x) valInput \<Rightarrow> 's
    \<Rightarrow> (('f, 'x) oerr option \<times> ('f, 'x) valInput) result \<times> 's" where
  "ValidateRequest E opts input st =
    (case ValidateSecurityRequirements opts input (securityOf (vi_Route input)) st of
       (None, st') \<Rightarrow> (validateRest E opts [] input, st')
     | (Some err, st') \<Rightarrow>
         (if vo_MultiError (orDefault opts) then validateRest E opts [err] input else Inr (Some err, input), st'))"

subsection \<open>Responses\<close>

record ('f, 'x) respInput =
  ri_Method :: string
  ri_Route :: "('f, 'x) route"
  ri_Status :: int
  ri_Header :: header
  ri_Body :: body

definition responseError :: "string \<Rightarrow> ('f, 'x) oerr option \<Rightarrow> ('f, 'x) oerr" where
  "responseError reason err = ResponseErr reason err"

definition validateResponseHeader :: "('f, 'x) venv \<Rightarrow> bool \<Rightarrow> string \<Rightarrow> ('f, 'x) parameter \<Rightarrow> header \<Rightarrow> ('f, 'x) oerr option result" where
  "validateResponseHeader E multi headerName hp h =
    (case kParamSM (ev_K E) hp of
       Inl err \<Rightarrow> Inr (Some (responseError (''unable to get header '' @ quoteQ headerName @ '' serialization method'') (Some (PlainErr err))))
     | Inr sm \<Rightarrow>
         (case pa_Schema hp of
            None \<Rightarrow> Inl nilDeref
          | Some s \<Rightarrow>
              (case decodeValue (ev_F E) (ev_K E) (HeaderDec h) headerName sm (pa_Required hp) s of
                 Inl p \<Rightarrow> Inl p
               | Inr (_, _, Some err) \<Rightarrow> Inr (Some (responseError (''unable to decode header '' @ quoteQ headerName @ '' value'') (Some err)))
               | Inr (value, found, None) \<Rightarrow>
                   Inr (if found then
                          map_option (\<lambda>err. responseError (''response header '' @ quoteQ headerName @ '' doesn't match schema'') (Some err))
                            (fst (kVisitJSON (ev_K E) (VisitPlain multi) s value))
                        else if pa_Required hp
                        then Some (responseError (''response header '' @ quoteQ headerName @ '' missing'') None)
                        else None))))"

fun headerLoop :: "(string \<Rightarrow> ('f, 'x) oerr option result) \<Rightarrow> string list \<Rightarrow> ('f, 'x) oerr option result" where
  "headerLoop f [] = Inr None"
| "headerLoop f (h # hs) =
    (case f h of Inl p \<Rightarrow> Inl p | Inr (Some err) \<Rightarrow> Inr (Some err) | Inr None \<Rightarrow> headerLoop f hs)"

definition responseBody :: "('f, 'x) venv \<Rightarrow> bool \<Rightarrow> ('f, 'x) response \<Rightarrow> ('f, 'x) respInput \<Rightarrow> ('f, 'x) oerr option result" where
  "responseBody E multi resp input =
    (let inputMIME = hdrGet ''Content-Type'' (ri_Header input) in
     case kContentGet (ev_K E) (rp_Content resp) inputMIME of
       None \<Rightarrow> Inr (Some (responseError (''response header Content-Type has unexpected value: '' @ quoteQ inputMIME) None))
     | Some ct \<Rightarrow>
         (case mt_Schema ct of
            None \<Rightarrow> Inr None
          | Some s \<Rightarrow>
              (case ri_Body input of
                 (_, Some err) \<Rightarrow> Inr (Some (responseError ''failed to read response body'' (Some (PlainErr err))))
               | (data, None) \<Rightarrow>
                   (case decodeBody (ev_L E) (ev_F E) (ev_K E) (ev_Decoders E) False (data, None) (ri_Header input) (Some s)
                           (Some (map_of (mt_Encoding ct))) of
                      Inl p \<Rightarrow> Inl p
                    | Inr (Inl err) \<Rightarrow> Inr (Some (responseError ''failed to decode response body'' (Some err)))
                    | Inr (Inr (_, value)) \<Rightarrow>
                        Inr (map_option (\<lambda>err. responseError (''response body doesn't match schema'' @
                                prependSpaceIfNeeded (getSchemaIdentifier s)) (Some err))
                              (fst (kVisitJSON (ev_K E) (VisitResponse multi) s value)))))))"

text \<open>A response of the document is \<^term>\<open>Some None\<close> when its reference was not resolved.\<close>

definition ValidateResponse :: "('f, 'x) venv \<Rightarrow> ('f, 'x, 's) options option \<Rightarrow> ('f, 'x) respInput \<Rightarrow> ('f, 'x) oerr option result" where
  "ValidateResponse E opts input =
    (let responses = op_Responses (rt_Operation (ri_Route input)); multi = vo_MultiError (orDefault opts) in
     if ri_Method input = ''HEAD'' \<or> responses = [] then Inr None
     else case (case kStatus (ev_K E) responses (ri_Status input) of None \<Rightarrow> kDefault (ev_K E) responses | r \<Rightarrow> r) of
       None \<Rightarrow> Inr (if vo_IncludeResponseStatus (orDefault opts) then Some (responseError ''status is not supported'' None) else None)
     | Some None \<Rightarrow> Inr (Some (responseError ''response has not been resolved'' None))
     | Some (Some resp) \<Rightarrow>
         (case headerLoop (\<lambda>hn. case map_of (rp_Headers resp) hn of
                              None \<Rightarrow> Inr None
                            | Some hp \<Rightarrow> validateResponseHeader E multi hn hp (ri_Header input))
                 (sort (filter (\<lambda>k. k \<noteq> ''Content-Type'') (map fst (rp_Headers resp)))) of
            Inl p \<Rightarrow> Inl p
          | Inr (Some err) \<Rightarrow> Inr (Some err)
          | Inr None \<Rightarrow>
              if vo_ExcludeResponseBody (orDefault opts) \<or> rp_Content resp = [] then Inr None
              else responseBody E multi resp input))"

subsection \<open>What an accepted request fulfils\<close>

text \<open>The parts of the input that parameters leave alone.\<close>

definition keeps :: "('f, 'x) valInput \<Rightarrow> ('f, 'x) valInput \<Rightarrow> bool" where
  "keeps input input' \<longleftrightarrow> vi_PathParams input' = vi_PathParams input \<and> vi_QueryParams input' = vi_QueryParams input \<and>
    vi_Route input' = vi_Route input \<and> hr_Body (vi_Req input') = hr_Body (vi_Req input)"

lemma keeps_refl [simp]: "keeps input input"
  by (simp add: keeps_def)

lemma keeps_trans: "keeps a b \<Longrightarrow> keeps b c \<Longrightarrow> keeps a c"
  by (simp add: keeps_def)

lemma keeps_setDefault [simp]: "keeps input (input\<lparr>vi_Req := setDefault F p v (vi_Req input)\<rparr>)"
  by (simp add: keeps_def setDefault_def)

lemma map_sum_InrD: "map_sum id g r = Inr y \<Longrightarrow> \<exists>x. r = Inr x \<and> y = g x"
  by (cases r) auto

lemma ValidateParameter_keeps: "ValidateParameter E opts p input = Inr (e, input') \<Longrightarrow> keeps input input'"
  unfolding ValidateParameter_def
  by (auto simp: Let_def split: if_splits sum.splits prod.splits option.splits dest!: map_sum_InrD)

lemma paramLoop_accepts:
  assumes f: "\<And>p i e i'. f p i = Inr (e, i') \<Longrightarrow> R i i'" and R: "\<And>i. R i i" "\<And>a b c. R a b \<Longrightarrow> R b c \<Longrightarrow> R a c"
  shows "paramLoop multi f ps me0 i0 = Inr (Inr me, i1) \<Longrightarrow>
    R i0 i1 \<and> length me0 \<le> length me \<and> (length me = length me0 \<longrightarrow> (\<forall>p\<in>set ps. \<exists>i i'. R i0 i \<and> f p i = Inr (None, i')))"
proof (induction ps arbitrary: me0 i0)
  case Nil
  then show ?case using R(1) by simp
next
  case (Cons p ps)
  then obtain e i where fp: "f p i0 = Inr (e, i)" by (auto split: sum.splits)
  have "R i0 i" using f[OF fp] .
  then have up: "R i j \<Longrightarrow> R i0 j" for j using R(2) by blast
  show ?case
  proof (cases e)
    case None
    with Cons.prems fp have "paramLoop multi f ps me0 i = Inr (Inr me, i1)" by simp
    from Cons.IH[OF this] show ?thesis using up fp None R(1) by (metis set_ConsD)
  next
    case (Some err)
    with Cons.prems fp have "paramLoop multi f ps (me0 @ [err]) i = Inr (Inr me, i1)" by (simp split: if_splits)
    from Cons.IH[OF this] show ?thesis using up by auto
  qed
qed

lemma ValidateParameter_styled:
  assumes "ValidateParameter E opts p input = Inr (None, input')" and "pa_Content p = None" and "pa_Schema p = Some s"
  shows "\<exists>v found. decodeStyledParameter (ev_F E) (ev_K E) p input = Inr (v, found, None) \<and> (pa_Required p \<longrightarrow> found) \<and>
    (\<not> isNilValue v \<longrightarrow> fst (kVisitJSON (ev_K E) (VisitPlain (vo_MultiError (orDefault opts))) s v) = None)"
proof -
  have nil: "isNilValue GNil" by (simp add: isNilValue_def)
  show ?thesis
    using assms nil unfolding ValidateParameter_def decodeParameter_def checkValue_def
    by (cases "decodeStyledParameter (ev_F E) (ev_K E) p input")
      (auto simp: Let_def split: if_splits sum.splits prod.splits option.splits dest!: map_sum_InrD)
qed

lemma decodeStyled_keeps:
  "keeps input input' \<Longrightarrow> pa_In p \<in> {''path'', ''query''} \<Longrightarrow>
    decodeStyledParameter F K p input' = decodeStyledParameter F K p input"
  by (auto simp: keeps_def decodeStyledParameter_def Let_def split: sum.split option.split)

text \<open>A body that is accepted: it is there when it must be, its content type is one of the operation, and it is
  decoded to a value that the schema accepts.\<close>

definition bodyOK :: "('f, 'x) venv \<Rightarrow> ('f, 'x, 's) options \<Rightarrow> ('f, 'x) requestBody \<Rightarrow> header \<Rightarrow> string \<Rightarrow> bool" where
  "bodyOK E opts rb h data \<longleftrightarrow>
    (if data = [] then \<not> rb_Required rb
     else rb_Content rb = [] \<or>
       (case kContentGet (ev_K E) (rb_Content rb) (hdrGet ''Content-Type'' h) of
          None \<Rightarrow> False
        | Some ct \<Rightarrow>
            (case mt_Schema ct of
               None \<Rightarrow> True
             | Some s \<Rightarrow>
                 (case decodeBody (ev_L E) (ev_F E) (ev_K E) (ev_Decoders E) False (data, None) h (Some s) (Some (map_of (mt_Encoding ct))) of
                    Inr (Inr (mt, v)) \<Rightarrow>
                      fst (kVisitJSON (ev_K E) (VisitRequest (\<not> vo_SkipSettingDefaults opts) (vo_MultiError opts)
                             (vo_ExcludeReadOnlyValidations opts)) s v) = None
                  | _ \<Rightarrow> False))))"

definition bodyBytes :: "httpReq \<Rightarrow> string option" where
  "bodyBytes req = (case hr_Body req of None \<Rightarrow> Some [] | Some (data, None) \<Rightarrow> Some data | Some (_, Some _) \<Rightarrow> None)"

lemma readBody_header: "readBody req = (r, req') \<Longrightarrow> hr_Header req' = hr_Header req"
  by (auto simp: readBody_def putBody_def split: option.splits sum.splits prod.splits)

lemma readBody_bytes: "readBody req = (Inr data, req') \<Longrightarrow> bodyBytes req = Some data"
  by (auto simp: readBody_def bodyBytes_def split: option.splits prod.splits)

lemma checkBody_OK:
  assumes "checkBody E opts rb ct s data req = Inr (None, req')" and "data \<noteq> []" and "mt_Schema ct = Some s"
    and "kContentGet (ev_K E) (rb_Content rb) (hdrGet ''Content-Type'' (hr_Header req)) = Some ct"
  shows "hr_Header req' = hr_Header req \<and> bodyOK E opts rb (hr_Header req) data"
  using assms unfolding checkBody_def bodyOK_def
  by (auto simp: putBody_def split: sum.splits prod.splits option.splits if_splits)

lemma ValidateRequestBody_OK:
  assumes "ValidateRequestBody E opts rb input = Inr (None, input')"
  shows "\<exists>data. bodyBytes (vi_Req input) = Some data \<and> bodyOK E (orDefault opts) rb (hr_Header (vi_Req input')) data"
proof -
  obtain r req where rb: "readBody (vi_Req input) = (r, req)" by fastforce
  obtain data where r: "r = Inr data" using assms rb by (cases r) (auto simp: ValidateRequestBody_def)
  have d: "bodyBytes (vi_Req input) = Some data" and h: "hr_Header req = hr_Header (vi_Req input)"
    using readBody_bytes readBody_header rb r by blast+
  show ?thesis
  proof (cases "data = [] \<or> rb_Content rb = []")
    case True
    then show ?thesis
      using assms rb r d by (auto simp: ValidateRequestBody_def bodyOK_def split: if_splits)
  next
    case False
    then obtain ct where ct: "kContentGet (ev_K E) (rb_Content rb) (hdrGet ''Content-Type'' (hr_Header req)) = Some ct"
      using assms rb r by (auto simp: ValidateRequestBody_def Let_def split: option.splits)
    show ?thesis
    proof (cases "mt_Schema ct")
      case None
      then show ?thesis using assms rb r d ct False by (auto simp: ValidateRequestBody_def bodyOK_def Let_def)
    next
      case (Some s)
      then obtain req' where "checkBody E (orDefault opts) rb ct s data req = Inr (None, req')" "vi_Req input' = req'"
        using assms rb r ct False by (auto simp: ValidateRequestBody_def Let_def dest!: map_sum_InrD)
      from checkBody_OK[OF this(1) _ Some ct] this(2) show ?thesis using d False by auto
    qed
  qed
qed

lemma requirementLoop_None:
  "fst (requirementLoop f srs errs st) = None \<Longrightarrow> \<exists>sr\<in>set srs. \<exists>st'. fst (f sr st') = None"
proof (induction f srs errs st rule: requirementLoop.induct)
  case (2 f sr srs errs st)
  then show ?case by (cases "f sr st"; cases "fst (f sr st)") (auto, metis fst_conv)
qed simp

lemma ValidateSecurity_None:
  assumes "fst (ValidateSecurityRequirements opts input srs st) = None"
  shows "srs = [] \<or> (\<exists>sr\<in>set srs. \<exists>st'. fst (validateSecurityRequirement opts input sr st') = None)"
  using assms requirementLoop_None[of "validateSecurityRequirement opts input" srs "[]" st]
  by (cases "requirementLoop (validateSecurityRequirement opts input) srs [] st")
    (auto simp: ValidateSecurityRequirements_def split: if_splits option.splits)

lemma validateRest_None:
  assumes "validateRest E opts me0 input = Inr (None, input')"
  shows "me0 = [] \<and> (\<exists>input1. keeps input input1 \<and>
    (\<forall>p\<in>set (pathItemParams E (vi_Route input) @ operationParams opts (vi_Route input)).
      \<exists>i i'. keeps input i \<and> ValidateParameter E opts p i = Inr (None, i')) \<and>
    (\<forall>rb. op_RequestBody (rt_Operation (vi_Route input)) = Some rb \<and> \<not> vo_ExcludeRequestBody (orDefault opts) \<longrightarrow>
      ValidateRequestBody E opts rb input1 = Inr (None, input')))"
proof -
  let ?ps = "pathItemParams E (vi_Route input) @ operationParams opts (vi_Route input)"
  obtain me i1 where l: "paramLoop (vo_MultiError (orDefault opts)) (ValidateParameter E opts) ?ps me0 input = Inr (Inr me, i1)"
    using assms by (auto simp: validateRest_def Let_def split: sum.splits prod.splits)
  have me: "me = []" using assms l
    by (auto simp: validateRest_def Let_def split: sum.splits prod.splits option.splits if_splits)
  have "keeps input i1 \<and> length me0 \<le> length me \<and> (length me = length me0 \<longrightarrow>
      (\<forall>p\<in>set ?ps. \<exists>i i'. keeps input i \<and> ValidateParameter E opts p i = Inr (None, i')))"
    by (rule paramLoop_accepts[OF _ _ _ l]) (auto intro: ValidateParameter_keeps keeps_trans)
  moreover have "ValidateRequestBody E opts rb i1 = Inr (None, input')"
    if "op_RequestBody (rt_Operation (vi_Route input)) = Some rb" "\<not> vo_ExcludeRequestBody (orDefault opts)" for rb
    using assms l me that by (auto simp: validateRest_def Let_def split: sum.splits prod.splits option.splits)
  ultimately show ?thesis using me by auto
qed

text \<open>A request that meets its operation; \<open>input'\<close> is the input after the validation.\<close>

definition requestOK :: "('f, 'x) venv \<Rightarrow> ('f, 'x, 's) options option \<Rightarrow> ('f, 'x) valInput \<Rightarrow> ('f, 'x) valInput \<Rightarrow> bool" where
  "requestOK E opts input input' \<longleftrightarrow>
    (securityOf (vi_Route input) = [] \<or>
      (\<exists>sr\<in>set (securityOf (vi_Route input)). \<exists>st'. fst (validateSecurityRequirement opts input sr st') = None)) \<and>
    (\<forall>p\<in>set (pathItemParams E (vi_Route input) @ operationParams opts (vi_Route input)). \<forall>s.
      pa_In p \<in> {''path'', ''query''} \<and> pa_Content p = None \<and> pa_Schema p = Some s \<longrightarrow>
      (\<exists>v found. decodeStyledParameter (ev_F E) (ev_K E) p input = Inr (v, found, None) \<and> (pa_Required p \<longrightarrow> found) \<and>
        (\<not> isNilValue v \<longrightarrow> fst (kVisitJSON (ev_K E) (VisitPlain (vo_MultiError (orDefault opts))) s v) = None))) \<and>
    (\<forall>rb. op_RequestBody (rt_Operation (vi_Route input)) = Some rb \<and> \<not> vo_ExcludeRequestBody (orDefault opts) \<longrightarrow>
      (\<exists>data. bodyBytes (vi_Req input) = Some data \<and> bodyOK E (orDefault opts) rb (hr_Header (vi_Req input')) data))"

lemma ValidateRequest_requestOK:
  assumes "fst (ValidateRequest E opts input st) = Inr (None, input')"
  shows "requestOK E opts input input'"
proof -
  obtain se st1 where v: "ValidateSecurityRequirements opts input (securityOf (vi_Route input)) st = (se, st1)" by fastforce
  have se: "se = None"
  proof (cases se)
    case (Some err)
    then have "validateRest E opts [err] input = Inr (None, input')"
      using assms v by (simp add: ValidateRequest_def split: if_splits)
    then show ?thesis using validateRest_None by fastforce
  qed
  with v assms have rest: "validateRest E opts [] input = Inr (None, input')" by (simp add: ValidateRequest_def)
  obtain i1 where i1: "keeps input i1"
    and ps: "\<forall>p\<in>set (pathItemParams E (vi_Route input) @ operationParams opts (vi_Route input)).
      \<exists>i i'. keeps input i \<and> ValidateParameter E opts p i = Inr (None, i')"
    and body: "\<forall>rb. op_RequestBody (rt_Operation (vi_Route input)) = Some rb \<and> \<not> vo_ExcludeRequestBody (orDefault opts) \<longrightarrow>
      ValidateRequestBody E opts rb i1 = Inr (None, input')"
    using validateRest_None[OF rest] by blast
  have bb: "bodyBytes (vi_Req i1) = bodyBytes (vi_Req input)" using i1 by (simp add: keeps_def bodyBytes_def)
  have b: "\<forall>rb. op_RequestBody (rt_Operation (vi_Route input)) = Some rb \<and>
      \<not> vo_ExcludeRequestBody (orDefault opts) \<longrightarrow>
      (\<exists>data. bodyBytes (vi_Req input) = Some data \<and> bodyOK E (orDefault opts) rb (hr_Header (vi_Req input')) data)"
    using body ValidateRequestBody_OK[of E opts _ i1 input'] by (simp add: bb)
  have pf: "\<exists>v found. decodeStyledParameter (ev_F E) (ev_K E) p input = Inr (v, found, None) \<and> (pa_Required p \<longrightarrow> found) \<and>
        (\<not> isNilValue v \<longrightarrow> fst (kVisitJSON (ev_K E) (VisitPlain (vo_MultiError (orDefault opts))) s v) = None)"
    if "p \<in> set (pathItemParams E (vi_Route input) @ operationParams opts (vi_Route input))"
      "pa_In p \<in> {''path'', ''query''}" "pa_Content p = None" "pa_Schema p = Some s" for p s
  proof -
    note t = that
    obtain i i' where i: "keeps input i" "ValidateParameter E opts p i = Inr (None, i')" using bspec[OF ps t(1)] by blast
    show ?thesis using ValidateParameter_styled[OF i(2) that(3,4)] unfolding decodeStyled_keeps[OF i(1) that(2)] .
  qed
  have sf: "securityOf (vi_Route input) = [] \<or>
      (\<exists>sr\<in>set (securityOf (vi_Route input)). \<exists>st'. fst (validateSecurityRequirement opts input sr st') = None)"
    by (rule ValidateSecurity_None[of _ _ _ st]) (simp add: v se)
  show ?thesis unfolding requestOK_def by (intro conjI sf b ballI allI impI pf) simp_all
qed

text \<open>C2. What an accepted request fulfils.  If \<^verbatim>\<open>ValidateRequest\<close> returns no error, then one of the security
  requirements in force is fulfilled, unless there are none; every path and query parameter that counts is decoded
  without error, is present when it is required, and has a value that its schema accepts; and the
  body is present when it is required, has a declared content type, and is decoded to a value that the schema
  accepts.\<close>

theorem ValidateRequest_accepts:
  assumes "fst (ValidateRequest E opts input st) = Inr (None, input')"
  shows "(securityOf (vi_Route input) = [] \<or>
      (\<exists>sr\<in>set (securityOf (vi_Route input)). \<exists>st'. fst (validateSecurityRequirement opts input sr st') = None)) \<and>
    (\<forall>p\<in>set (pathItemParams E (vi_Route input) @ operationParams opts (vi_Route input)). \<forall>s.
      pa_In p \<in> {''path'', ''query''} \<and> pa_Content p = None \<and> pa_Schema p = Some s \<longrightarrow>
      (\<exists>v found. decodeStyledParameter (ev_F E) (ev_K E) p input = Inr (v, found, None) \<and> (pa_Required p \<longrightarrow> found) \<and>
        (\<not> isNilValue v \<longrightarrow> fst (kVisitJSON (ev_K E) (VisitPlain (vo_MultiError (orDefault opts))) s v) = None))) \<and>
    (\<forall>rb. op_RequestBody (rt_Operation (vi_Route input)) = Some rb \<and> \<not> vo_ExcludeRequestBody (orDefault opts) \<longrightarrow>
      (\<exists>data. bodyBytes (vi_Req input) = Some data \<and> bodyOK E (orDefault opts) rb (hr_Header (vi_Req input')) data))"
  using ValidateRequest_requestOK[OF assms] unfolding requestOK_def .

text \<open>An environment, an operation with a required query parameter and a request for it.\<close>

definition demo_venv :: "(int, unit) venv" where
  "demo_venv = \<lparr> ev_L = demo_libs, ev_F = demo_float, ev_K = demo_kin, ev_Decoders = [], ev_Encoders = [], ev_Unmarshal = (\<lambda>s. Inr (GStr s)) \<rparr>"

definition demo_param :: "string \<Rightarrow> (int, unit) parameter" where
  "demo_param where_in = \<lparr> pa_Name = ''id'', pa_In = where_in, pa_Required = True, pa_AllowEmptyValue = False, pa_Style = ''form'',
     pa_Explode = Some True, pa_Schema = Some (demo_schema (Some [''integer'']) None []), pa_Content = None \<rparr>"

definition demo_route :: "(int, unit) parameter list \<Rightarrow> (int, unit) requestBody option \<Rightarrow> (int, unit) route" where
  "demo_route ps rb = \<lparr> rt_Operation = \<lparr> op_Parameters = ps, op_Security = None, op_RequestBody = rb, op_Responses = [] \<rparr>,
     rt_PathParameters = [], rt_Security = [], rt_SecuritySchemes = [] \<rparr>"

definition demo_input :: "urlvalues \<Rightarrow> (int, unit) parameter list \<Rightarrow> (int, unit) requestBody option \<Rightarrow> (int, unit) valInput" where
  "demo_input q ps rb = \<lparr> vi_Req = \<lparr> hr_Method = ''GET'', hr_RawQuery = Encode q, hr_Header = [], hr_Body = None, hr_GetBody = None,
       hr_ContentLength = 0 \<rparr>, vi_PathParams = [], vi_QueryParams = q, vi_Route = demo_route ps rb \<rparr>"

theorem ValidateRequest_accepts_witness:
  "fst (ValidateRequest demo_venv (None :: (int, unit, unit) options option) (demo_input [(''id'', [''7''])] [demo_param ''query''] None) ()) =
     Inr (None, demo_input [(''id'', [''7''])] [demo_param ''query''] None) \<and>
   (\<exists>v. decodeStyledParameter demo_float demo_kin (demo_param ''query'') (demo_input [(''id'', [''7''])] [demo_param ''query''] None) =
     Inr (v, True, None))"
proof -
  let ?p = "demo_param ''query''" and ?o = "None :: (int, unit, unit) options option"
  let ?i = "demo_input [(''id'', [''7''])] [?p] None"
  have d: "decodeParameter demo_venv ?p ?i = Inr (GInt64 7, Some (demo_schema (Some [''integer'']) None []), True, None)" by code_simp
  have "ValidateParameter demo_venv ?o ?p ?i = Inr (None, ?i)"
    unfolding ValidateParameter_def d
    by (simp add: demo_param_def checkValue_def isNilValue_def demo_venv_def demo_kin_def Let_def)
  moreover have "vi_Route ?i = demo_route [?p] None" by (simp add: demo_input_def)
  ultimately have r: "fst (ValidateRequest demo_venv ?o ?i ()) = Inr (None, ?i)"
    by (simp add: ValidateRequest_def ValidateSecurityRequirements_def validateRest_def securityOf_def pathItemParams_def
        operationParams_def orDefault_def noOptions_def Let_def demo_route_def)
  have m: "?p \<in> set (pathItemParams demo_venv (vi_Route ?i) @ operationParams ?o (vi_Route ?i))"
    by (simp add: operationParams_def orDefault_def noOptions_def demo_input_def demo_route_def)
  have s: "pa_In ?p \<in> {''path'', ''query''} \<and> pa_Content ?p = None \<and> pa_Schema ?p = Some (demo_schema (Some [''integer'']) None [])"
    by (simp add: demo_param_def)
  have q: "pa_Required ?p" "ev_F demo_venv = demo_float" "ev_K demo_venv = demo_kin" by (simp_all add: demo_param_def demo_venv_def)
  show ?thesis
    using ValidateRequest_accepts[OF r, THEN conjunct2, THEN conjunct1, rule_format, OF m s] q r by auto
qed

text \<open>An optional cookie parameter with a content must be sent after all: when the cookie is missing,
  the validation of the parameter fails, because the error of the lookup stays in the named result.\<close>

theorem optional_content_cookie_rejected:
  assumes "pa_In p = ''cookie''" and "pa_Content p = Some c" and "\<not> pa_Required p"
    and "reqCookie (hr_Header (vi_Req input)) (pa_Name p) = None"
  shows "ValidateParameter E opts p input = Inr (Some (RequestErr (Some p) None [] (Some ErrNoCookie)), input)"
  using assms by (simp add: ValidateParameter_def decodeParameter_def decodeContentParameter_def contentValues_def paramError_def)

theorem optional_content_cookie_rejected_witness:
  "ValidateParameter demo_venv (None :: (int, unit, unit) options option)
     ((demo_param ''cookie'')\<lparr>pa_Content := Some [], pa_Required := False\<rparr>) (demo_input [] [] None) =
   Inr (Some (RequestErr (Some ((demo_param ''cookie'')\<lparr>pa_Content := Some [], pa_Required := False\<rparr>)) None [] (Some ErrNoCookie)),
     demo_input [] [] None)"
proof -
  have "reqCookie [] ''id'' = None" by code_simp
  then show ?thesis
    by (intro optional_content_cookie_rejected) (simp_all add: demo_param_def demo_input_def)
qed

end
