(* ===== verification/Unknown_Params.thy ===== *)
theory Unknown_Params
  imports Validate
begin

text \<open>
  The search for parameters that the document does not declare (\<^verbatim>\<open>unknown_parameters_request.go\<close>).  What the
  function reads from the request context is the record \<open>upReq\<close>; the maps it walks through are visited in
  the order of the association list.
\<close>

definition ErrUnknownQueryParameter :: string where
  "ErrUnknownQueryParameter = ''query parameter not defined in the OpenAPI specification''"

definition ErrUnknownBodyParameter :: string where
  "ErrUnknownBodyParameter = ''body parameter not defined in the OpenAPI specification''"

definition ErrDecodingFailed :: "('f, 'x) oerr" where
  "ErrDecodingFailed = PlainErr ''the decoder returned the error''"

definition ErrMaxDepthExceeded :: "('f, 'x) oerr" where
  "ErrMaxDepthExceeded = PlainErr ''maximum JSON nesting depth exceeded''"

definition maxJSONArrayDepth :: nat where "maxJSONArrayDepth = 32"
definition maxJSONArrayElements :: nat where "maxJSONArrayElements = 10000"

record RequestParameterDetails =
  rd_Name :: string
  rd_Placeholder :: string
  rd_Type :: string

record RequestUnknownParameterError =
  up_Parameters :: "RequestParameterDetails list"
  up_Message :: string

text \<open>\<^verbatim>\<open>identifyData\<close>: text is looked at as a number first.  The numbers of a JSON body have a type of their own and
  count as unknown.\<close>

definition identifyText :: "'f goFloat \<Rightarrow> string \<Rightarrow> string" where
  "identifyText F v =
    (case Atoi v of
       Inr _ \<Rightarrow> ''integer''
     | Inl _ \<Rightarrow> (case ParseFloat F v of Inr _ \<Rightarrow> ''float'' | Inl _ \<Rightarrow> ''string''))"

definition identifyData :: "'f goFloat \<Rightarrow> 'f gval \<Rightarrow> string" where
  "identifyData F data =
    (case data of GStr v \<Rightarrow> identifyText F v | GFloat _ \<Rightarrow> ''float'' | _ \<Rightarrow> ''unknown'')"

definition bodyParam :: "'f goFloat \<Rightarrow> string \<Rightarrow> 'f gval \<Rightarrow> RequestParameterDetails" where
  "bodyParam F name value = \<lparr> rd_Name = name, rd_Placeholder = ''body'', rd_Type = identifyData F value \<rparr>"

subsection \<open>Bodies\<close>

text \<open>The properties of the schema; a nil schema is dereferenced only when there is something to look up.\<close>

definition propNames :: "('f, 'x) schema option \<Rightarrow> 'a list \<Rightarrow> string list result" where
  "propNames sr wanted =
    (case sr of Some s \<Rightarrow> Inr (map fst (s_Properties s)) | None \<Rightarrow> if wanted = [] then Inr [] else Inl nilDeref)"

definition unknownIn :: "'f goFloat \<Rightarrow> string list \<Rightarrow> (string \<times> 'f gval) list \<Rightarrow> RequestParameterDetails list" where
  "unknownIn F known m = map (\<lambda>(name, value). bodyParam F name value) (filter (\<lambda>kv. fst kv \<notin> set known) m)"

type_synonym ('f, 'x) upRes = "(RequestParameterDetails list \<times> ('f, 'x) oerr option) result"

fun unknownLoop :: "('v \<Rightarrow> ('f, 'x) upRes) \<Rightarrow> RequestParameterDetails list \<Rightarrow> 'v list \<Rightarrow> ('f, 'x) upRes" where
  "unknownLoop f acc [] = Inr (acc, None)"
| "unknownLoop f acc (v # vs) =
    (case f v of
       Inl p \<Rightarrow> Inl p
     | Inr (_, Some err) \<Rightarrow> Inr ([], Some err)
     | Inr (current, None) \<Rightarrow> unknownLoop f (acc @ current) vs)"

lemma unknownLoop_cong [fundef_cong]:
  assumes "xs = ys" "\<And>x. x \<in> set ys \<Longrightarrow> f x = g x"
  shows "unknownLoop f acc xs = unknownLoop g acc ys"
  unfolding assms(1) using assms(2)
proof (induction ys arbitrary: acc)
  case (Cons a ys)
  have "f a = g a" using Cons.prems by simp
  moreover have "unknownLoop f acc ys = unknownLoop g acc ys" for acc using Cons by simp
  ultimately show ?case by (simp split: sum.split option.split prod.split)
qed simp

text \<open>Arrays are searched member by member, up to a number of members and a depth.\<close>

function findUnknownParamsInJSONBody :: "'f goFloat \<Rightarrow> ('f, 'x) schema option \<Rightarrow> 'f gval \<Rightarrow> nat \<Rightarrow> ('f, 'x) upRes" where
  "findUnknownParamsInJSONBody F sr decodedBody depth =
    (if depth > maxJSONArrayDepth then Inr ([], Some ErrMaxDepthExceeded)
     else case decodedBody of
       GArr paramLists \<Rightarrow>
         unknownLoop (\<lambda>v. findUnknownParamsInJSONBody F sr v (depth + 1)) [] (take maxJSONArrayElements paramLists)
     | GNilArr \<Rightarrow> Inr ([], None)
     | GMap paramList \<Rightarrow>
         map_sum id (\<lambda>known. (unknownIn F known paramList, None)) (propNames sr paramList)
     | GNilMap \<Rightarrow> Inr ([], None)
     | _ \<Rightarrow> Inr ([], Some ErrDecodingFailed))"
  by pat_completeness auto
termination
  by (relation "measure (\<lambda>(F, sr, v, depth). Suc maxJSONArrayDepth - depth)") (auto simp: maxJSONArrayDepth_def)
declare findUnknownParamsInJSONBody.simps [simp del]

text \<open>The kinds of bodies; \<open>postArgs\<close> are the arguments that the server library finds in a form.\<close>

definition unknownCSV :: "'f goFloat \<Rightarrow> ('f, 'x) schema option \<Rightarrow> 'f gval \<Rightarrow> ('f, 'x) upRes" where
  "unknownCSV F sr value =
    (case value of
       GStr paramStr \<Rightarrow>
         let titleRecord = Split (hd (Split paramStr [CHR 0x0A])) '',''
         in map_sum id (\<lambda>known. (map (\<lambda>r. bodyParam F r value) (filter (\<lambda>r. r \<notin> set known) titleRecord), None))
              (propNames sr titleRecord)
     | _ \<Rightarrow> Inr ([], Some ErrDecodingFailed))"

definition unknownForm :: "'f goFloat \<Rightarrow> (string \<times> string) list \<Rightarrow> 'f gval \<Rightarrow> ('f, 'x) upRes" where
  "unknownForm F postArgs value =
    (case value of
       GMap paramList \<Rightarrow>
         Inr (map (\<lambda>(k, v). bodyParam F k (GStr v)) (filter (\<lambda>kv. fst kv \<notin> fst ` set paramList) postArgs), None)
     | GNilMap \<Rightarrow> Inr (map (\<lambda>(k, v). bodyParam F k (GStr v)) postArgs, None)
     | _ \<Rightarrow> Inr ([], Some ErrDecodingFailed))"

definition unknownNames :: "'f goFloat \<Rightarrow> string list \<Rightarrow> (string \<times> 'f gval) list \<Rightarrow> RequestParameterDetails list" where
  "unknownNames F propKeys m =
    map (\<lambda>(name, value). bodyParam F name value) (filter (\<lambda>kv. ToLower (fst kv) \<notin> set propKeys) m)"

definition unknownXML :: "'f goFloat \<Rightarrow> ('f, 'x) schema option \<Rightarrow> 'f gval \<Rightarrow> ('f, 'x) upRes" where
  "unknownXML F sr value =
    (case sr of
       None \<Rightarrow> Inl nilDeref
     | Some s \<Rightarrow>
         let propKeys = map (ToLower \<circ> fst) (s_Properties s)
         in case value of
              GMap [(_, GMap params)] \<Rightarrow> Inr (unknownNames F propKeys params, None)
            | GMap [(_, _)] \<Rightarrow> Inr ([], None)
            | GMap paramList \<Rightarrow> Inr (unknownNames F propKeys paramList, None)
            | GNilMap \<Rightarrow> Inr ([], None)
            | _ \<Rightarrow> Inr ([], Some ErrDecodingFailed))"

definition unknownBody :: "'f goFloat \<Rightarrow> ('f, 'x) schema option \<Rightarrow> (string \<times> string) list \<Rightarrow> string \<Rightarrow> 'f gval \<Rightarrow> ('f, 'x) upRes" where
  "unknownBody F sr postArgs mediaType value =
    (case parseMediaType mediaType of (mType, suff) \<Rightarrow>
       if mType = ''text/plain'' \<or> suff = ''+plain'' then Inr ([], None)
       else if mType = ''text/csv'' \<or> suff = ''+csv'' then unknownCSV F sr value
       else if mType = ''application/x-www-form-urlencoded'' then unknownForm F postArgs value
       else if mType = ''application/json'' \<or> mType = ''multipart/form-data'' \<or> suff = ''+json''
       then findUnknownParamsInJSONBody F sr value 0
       else if mType = ''application/xml'' \<or> suff = ''+xml'' then unknownXML F sr value
       else Inr ([], Some ErrDecodingFailed))"

subsection \<open>Requests\<close>

text \<open>What is read from the request context.\<close>

record upReq =
  uq_QueryArgs :: "(string \<times> string) list"
  uq_Body :: string
  uq_ContentType :: string
  uq_PostArgs :: "(string \<times> string) list"

definition specParams :: "('f, 'x) route \<Rightarrow> string list" where
  "specParams route = map (\<lambda>p. pa_Name p @ pa_In p) (rt_PathParameters route @ op_Parameters (rt_Operation route))"

definition knownQuery :: "('f, 'x) route \<Rightarrow> string \<Rightarrow> bool" where
  "knownQuery route key \<longleftrightarrow>
    (case IndexByte key CHR ''['' of
       Some i \<Rightarrow> i > 0 \<and> take i key @ ''query'' \<in> set (specParams route)
     | None \<Rightarrow> False) \<or>
    key @ ''query'' \<in> set (specParams route)"

definition unknownQuery :: "'f goFloat \<Rightarrow> ('f, 'x) route \<Rightarrow> (string \<times> string) list \<Rightarrow> RequestParameterDetails list" where
  "unknownQuery F route args =
    map (\<lambda>(k, v). \<lparr> rd_Name = k, rd_Placeholder = ''query'', rd_Type = identifyText F v \<rparr>)
      (filter (\<lambda>kv. \<not> knownQuery route (fst kv)) args)"

definition foundParams :: "string \<Rightarrow> RequestParameterDetails list \<Rightarrow> RequestUnknownParameterError list" where
  "foundParams msg ps = (if ps = [] then [] else [\<lparr> up_Parameters = ps, up_Message = msg \<rparr>])"

definition ValidateUnknownRequestParameters :: "('f, 'x) venv \<Rightarrow> ('f, 'x) route \<Rightarrow> header \<Rightarrow> upReq
    \<Rightarrow> (RequestUnknownParameterError list \<times> ('f, 'x) oerr option) result" where
  "ValidateUnknownRequestParameters E route h rq =
    (let found = foundParams ErrUnknownQueryParameter (unknownQuery (ev_F E) route (uq_QueryArgs rq)) in
     case op_RequestBody (rt_Operation route) of
       None \<Rightarrow> Inr (found, None)
     | Some rb \<Rightarrow>
         if rb_Content rb = [] \<or> uq_Body rq = [] then Inr (found, None)
         else case kContentGet (ev_K E) (rb_Content rb) (uq_ContentType rq) of
           None \<Rightarrow> Inr (found, None)
         | Some ct \<Rightarrow>
             (case decodeBody (ev_L E) (ev_F E) (ev_K E) (ev_Decoders E) False (uq_Body rq, None) h (mt_Schema ct)
                     (Some (map_of (mt_Encoding ct))) of
                Inl p \<Rightarrow> Inl p
              | Inr (Inl err) \<Rightarrow> Inr (found, Some err)
              | Inr (Inr (mediaType, value)) \<Rightarrow>
                  (case unknownBody (ev_F E) (mt_Schema ct) (uq_PostArgs rq) mediaType value of
                     Inl p \<Rightarrow> Inl p
                   | Inr (_, Some err) \<Rightarrow> Inr (found, Some err)
                   | Inr (ps, None) \<Rightarrow> Inr (found @ foundParams ErrUnknownBodyParameter ps, None))))"

subsection \<open>Properties\<close>



end
