(* ===== verification/Router_Pattern.thy ===== *)
theory Router_Pattern
  imports Prelude
begin

text \<open>
  Routing patterns (\<^verbatim>\<open>internal/platform/router/tree.go\<close>): the node types, the parser of the next
  segment of a pattern (static text, \<open>{param}\<close>, \<open>{param:regexp}\<close> or a final \<open>*\<close>), the list of
  the parameter keys of a pattern and the longest common prefix of two strings.  The function
  \<open>pat_subst\<close> is the specification of matching: it writes parameter values into a pattern.
\<close>

datatype nodeTyp = ntStatic | ntRegexp | ntParam | ntCatchAll

text \<open>The results of \<^verbatim>\<open>patNextSegment\<close>: type, key, regexp, tail byte, start and end index.\<close>

type_synonym segment = "nodeTyp \<times> string \<times> string \<times> char \<times> nat \<times> nat"

text \<open>The loop that reads to the closing brace: \<open>cc\<close> counts the open braces, \<open>i\<close> is the index of
  the next byte.\<close>

fun closingBrace :: "int \<Rightarrow> nat \<Rightarrow> string \<Rightarrow> nat option" where
  "closingBrace cc i [] = None"
| "closingBrace cc i (c # cs) =
    (if c = CHR ''{'' then closingBrace (cc + 1) (Suc i) cs
     else if c = CHR ''}'' then
       (if cc - 1 = 0 then Some i else closingBrace (cc - 1) (Suc i) cs)
     else closingBrace cc (Suc i) cs)"

definition anchorRexpat :: "string \<Rightarrow> string" where
  "anchorRexpat rexpat =
    (if rexpat = [] then []
     else let r = (if hd rexpat \<noteq> CHR ''^'' then CHR ''^'' # rexpat else rexpat)
          in if last r \<noteq> CHR ''$'' then r @ ''$'' else r)"

text \<open>The branch of \<^verbatim>\<open>patNextSegment\<close> for a pattern whose first opening brace is at \<open>ps\<close>.\<close>

definition paramSegment :: "string \<Rightarrow> nat \<Rightarrow> segment result" where
  "paramSegment pattern ps =
    (case closingBrace 0 0 (drop ps pattern) of
       None \<Rightarrow> Inl ''route param closing delimiter '}' is missing''
     | Some i \<Rightarrow>
         let key = take (i - 1) (drop (Suc ps) pattern);
             pe = Suc (ps + i);
             tail = (if pe < length pattern then pattern ! pe else CHR ''/'')
         in (case IndexByte key CHR '':'' of
               None \<Rightarrow> Inr (ntParam, key, [], tail, ps, pe)
             | Some idx \<Rightarrow>
                 Inr (ntRegexp, take idx key, anchorRexpat (drop (Suc idx) key), tail, ps, pe)))"

definition patNextSegment :: "string \<Rightarrow> segment result" where
  "patNextSegment pattern =
    (case IndexByte pattern CHR ''{'' of
       None \<Rightarrow>
         (case IndexByte pattern CHR ''*'' of
            None \<Rightarrow> Inr (ntStatic, [], [], CHR 0x00, 0, length pattern)
          | Some ws \<Rightarrow>
              if ws < length pattern - 1
              then Inl ''wildcard '*' must be the last value in a route. trim trailing text or use a '{param}' instead''
              else Inr (ntCatchAll, ''*'', [], CHR 0x00, ws, length pattern))
     | Some ps \<Rightarrow>
         (case IndexByte pattern CHR ''*'' of
            None \<Rightarrow> paramSegment pattern ps
          | Some ws \<Rightarrow>
              if ws < ps
              then Inl (''wildcard '*' must be the last pattern in a route, otherwise use a '{param}'' @ [CHR 0x27])
              else paramSegment pattern ps))"

subsection \<open>Bounds and shape of the segments\<close>

lemma closingBrace_shift:
  "closingBrace cc (i + k) cs = map_option (\<lambda>j. j + k) (closingBrace cc i cs)"
  by (induction cc i cs rule: closingBrace.induct) auto

lemma closingBrace_bounds:
  "closingBrace cc i cs = Some j \<Longrightarrow> i \<le> j \<and> j < i + length cs \<and> cs ! (j - i) = CHR ''}''"
proof (induction cc i cs rule: closingBrace.induct)
  case (2 cc i c cs)
  then show ?case
    by (cases "j = i") (auto split: if_splits simp: nth_Cons' Suc_diff_Suc dest!: meta_mp)
qed simp

definition wild :: "string \<Rightarrow> bool" where
  "wild s \<longleftrightarrow> CHR ''{'' \<in> set s \<or> CHR ''*'' \<in> set s"

lemma wild_simps [simp]:
  "\<not> wild []" "wild (s @ t) \<longleftrightarrow> wild s \<or> wild t"
  "wild (c # s) \<longleftrightarrow> c = CHR ''{'' \<or> c = CHR ''*'' \<or> wild s"
  by (auto simp: wild_def)

lemma paramSegment_InrD:
  assumes "paramSegment s ps = Inr (t, k, r, tb, ps', pe)"
  shows "t = ntParam \<or> t = ntRegexp" "ps' = ps"
    "\<exists>i. closingBrace 0 0 (drop ps s) = Some i \<and> pe = Suc (ps + i)"
  using assms by (auto simp: paramSegment_def Let_def split: option.splits)

lemma paramSegment_append:
  "paramSegment (s @ p) (length s + ps) =
    (case paramSegment p ps of Inl e \<Rightarrow> Inl e
     | Inr (t, k, r, tb, q, pe) \<Rightarrow> Inr (t, k, r, tb, length s + q, length s + pe))"
  by (auto simp: paramSegment_def Let_def nth_append split: option.split)

lemma patNextSegment_static:
  "\<not> wild s \<Longrightarrow> patNextSegment s = Inr (ntStatic, [], [], CHR 0x00, 0, length s)"
  by (simp add: patNextSegment_def wild_def)

lemma patNextSegment_staticD:
  assumes "patNextSegment s = Inr (ntStatic, x)"
  shows "\<not> wild s"
proof -
  obtain k r tb ps pe where x: "x = (k, r, tb, ps, pe)" by (cases x) auto
  show ?thesis
    using assms unfolding x
    by (auto simp: patNextSegment_def wild_def split: option.splits if_splits
        dest!: paramSegment_InrD(1))
qed

lemma patNextSegment_static_iff [simp]:
  "patNextSegment s = Inr (ntStatic, k, r, tb, ps, pe)
    \<longleftrightarrow> \<not> wild s \<and> k = [] \<and> r = [] \<and> tb = CHR 0x00 \<and> ps = 0 \<and> pe = length s"
  using patNextSegment_static patNextSegment_staticD by fastforce

lemma patNextSegment_paramE:
  assumes "patNextSegment s = Inr (t, k, r, tb, ps, pe)" "t = ntParam \<or> t = ntRegexp"
  obtains "IndexByte s CHR ''{'' = Some ps" "paramSegment s ps = Inr (t, k, r, tb, ps, pe)"
    "CHR ''*'' \<notin> set (take ps s)"
proof -
  from assms obtain q where q: "IndexByte s CHR ''{'' = Some q"
    and seg: "paramSegment s q = Inr (t, k, r, tb, ps, pe)"
    and ws: "case IndexByte s CHR ''*'' of None \<Rightarrow> True | Some w \<Rightarrow> q \<le> w"
    by (auto simp: patNextSegment_def split: option.splits if_splits)
  moreover from seg have "ps = q" by (rule paramSegment_InrD(2))
  moreover have "CHR ''*'' \<notin> set (take q s)"
  proof (cases "IndexByte s CHR ''*''")
    case None
    then show ?thesis by (auto dest: in_set_takeD)
  next
    case (Some w)
    with ws have "q \<le> w" by simp
    with IndexByte_SomeD(3)[OF Some] show ?thesis
      using set_take_subset_set_take[of q w s] by auto
  qed
  ultimately show thesis using that by blast
qed

lemma patNextSegment_paramD:
  assumes "patNextSegment s = Inr (t, k, r, tb, ps, pe)" "t = ntParam \<or> t = ntRegexp"
  shows "Suc ps < pe" "pe \<le> length s" "s ! ps = CHR ''{''" "\<not> wild (take ps s)"
proof -
  from patNextSegment_paramE[OF assms] obtain i
    where ps: "IndexByte s CHR ''{'' = Some ps" and star: "CHR ''*'' \<notin> set (take ps s)"
      and i: "closingBrace 0 0 (drop ps s) = Some i" and pe: "pe = Suc (ps + i)"
    using paramSegment_InrD(3) by metis
  note ps' = IndexByte_SomeD[OF ps]
  from closingBrace_bounds[OF i] have "i < length s - ps" "drop ps s ! i = CHR ''}''" by auto
  moreover from this ps' have "i \<noteq> 0" by (cases i) auto
  ultimately show "Suc ps < pe" "pe \<le> length s" "s ! ps = CHR ''{''"
    using ps' pe by auto
  from ps' star show "\<not> wild (take ps s)" by (simp add: wild_def)
qed

lemma patNextSegment_catchAllD:
  assumes "patNextSegment s = Inr (ntCatchAll, k, r, tb, ps, pe)"
  shows "pe = length s" "s = take ps s @ ''*''" "\<not> wild (take ps s)" "k = ''*''" "r = []"
    "tb = CHR 0x00" "ps < length s"
proof -
  from assms have ps: "IndexByte s CHR ''*'' = Some ps" and br: "IndexByte s CHR ''{'' = None"
    and eq: "\<not> ps < length s - 1" "pe = length s" "k = ''*''" "r = []" "tb = CHR 0x00"
    by (auto simp: patNextSegment_def split: option.splits if_splits dest!: paramSegment_InrD(1))
  note ps' = IndexByte_SomeD[OF ps]
  from ps' eq have last: "Suc ps = length s" by linarith
  with ps' show "s = take ps s @ ''*''"
    by (metis append_take_drop_id drop_all order_refl)
  show "pe = length s" "k = ''*''" "r = []" "tb = CHR 0x00" "ps < length s"
    using eq ps' by auto
  show "\<not> wild (take ps s)"
    using ps' br by (auto simp: wild_def dest: in_set_takeD)
qed

lemma patNextSegment_progress:
  assumes "patNextSegment s = Inr (t, k, r, tb, ps, pe)" "t \<noteq> ntStatic"
  shows "0 < pe" "pe \<le> length s" "ps < pe"
  using assms patNextSegment_paramD[of s t] patNextSegment_catchAllD[of s]
  by (cases t; force)+

lemma patNextSegment_shrink:
  assumes "patNextSegment s = Inr (t, k, r, tb, ps, pe)" "t \<noteq> ntStatic"
  shows "length s - pe < length s"
  using patNextSegment_progress[OF assms] by linarith

lemma patNextSegment_nonempty:
  "patNextSegment s = Inr (t, x) \<Longrightarrow> t \<noteq> ntStatic \<Longrightarrow> s \<noteq> []"
  by (cases s) (auto simp: patNextSegment_static)

text \<open>Static text before a segment only moves its indices.\<close>

lemma patNextSegment_append:
  assumes "\<not> wild s"
  shows "patNextSegment (s @ p) =
    (case patNextSegment p of Inl e \<Rightarrow> Inl e
     | Inr (t, k, r, tb, ps, pe) \<Rightarrow>
         Inr (t, k, r, tb, if t = ntStatic then 0 else length s + ps, length s + pe))"
proof -
  have ix: "IndexByte (s @ p) c = map_option (\<lambda>i. length s + i) (IndexByte p c)"
    if "c = CHR ''{'' \<or> c = CHR ''*''" for c
    using assms that by (intro IndexByte_append_None) (auto simp: wild_def)
  have seg: "paramSegment (s @ p) (length s + ps) =
    (case paramSegment p ps of Inl e \<Rightarrow> Inl e
     | Inr (t, k, r, tb, q, pe) \<Rightarrow>
        Inr (t, k, r, tb, if t = ntStatic then 0 else length s + q, length s + pe))" for ps
    unfolding paramSegment_append
    by (auto split: sum.split dest: paramSegment_InrD(1))
  show ?thesis
    unfolding patNextSegment_def
    by (cases "IndexByte p CHR ''{''"; cases "IndexByte p CHR ''*''")
      (simp_all del: IndexByte_None add: ix seg, auto)
qed

lemma patNextSegment_drop:
  assumes "patNextSegment s = Inr (t, k, r, tb, ps, pe)" "t \<noteq> ntStatic"
  shows "patNextSegment (drop ps s) = Inr (t, k, r, tb, 0, pe - ps)"
proof -
  have "\<not> wild (take ps s)"
    using assms patNextSegment_paramD(4)[of s t] patNextSegment_catchAllD(3)[of s]
    by (cases t) auto
  from patNextSegment_append[OF this, of "drop ps s"] assms show ?thesis
    by (auto split: sum.splits prod.splits if_splits)
      (use assms patNextSegment_progress[OF assms] in auto)
qed

subsection \<open>Parameter keys\<close>

function patParamKeysLoop :: "string \<Rightarrow> string \<Rightarrow> string list \<Rightarrow> string list result" where
  "patParamKeysLoop pattern pat paramKeys =
    (case patNextSegment pat of
       Inl err \<Rightarrow> Inl err
     | Inr (ptyp, paramKey, rexpat, tail, s, e) \<Rightarrow>
         if ptyp = ntStatic then Inr paramKeys
         else if paramKey \<in> set paramKeys
         then Inl (''routing pattern '' @ quoted pattern @ '' contains duplicate param key, '' @ quoted paramKey)
         else patParamKeysLoop pattern (drop e pat) (paramKeys @ [paramKey]))"
  by pat_completeness auto
termination
  by (relation "measure (\<lambda>(_, pat, _). length pat)")
    (auto dest: patNextSegment_shrink)

definition patParamKeys :: "string \<Rightarrow> string list result" where
  "patParamKeys pattern = patParamKeysLoop pattern pattern []"

declare patParamKeysLoop.simps [simp del]

subsection \<open>Longest common prefix\<close>

fun longestPrefix :: "string \<Rightarrow> string \<Rightarrow> nat" where
  "longestPrefix (x # k1) (y # k2) = (if x = y then Suc (longestPrefix k1 k2) else 0)"
| "longestPrefix k1 k2 = 0"

lemma longestPrefix_le: "longestPrefix k1 k2 \<le> length k1" "longestPrefix k1 k2 \<le> length k2"
  by (induction k1 k2 rule: longestPrefix.induct) auto

lemma longestPrefix_take: "take (longestPrefix k1 k2) k1 = take (longestPrefix k1 k2) k2"
  by (induction k1 k2 rule: longestPrefix.induct) auto

lemma longestPrefix_full: "longestPrefix k1 k2 = length k2 \<longleftrightarrow> prefix k2 k1"
  by (induction k1 k2 rule: longestPrefix.induct) auto

lemma longestPrefix_diff:
  "longestPrefix k1 k2 < length k1 \<Longrightarrow> longestPrefix k1 k2 < length k2
    \<Longrightarrow> k1 ! longestPrefix k1 k2 \<noteq> k2 ! longestPrefix k1 k2"
  by (induction k1 k2 rule: longestPrefix.induct) auto

lemma longestPrefix_pos: "hd k1 = hd k2 \<Longrightarrow> k1 \<noteq> [] \<Longrightarrow> k2 \<noteq> [] \<Longrightarrow> 0 < longestPrefix k1 k2"
  by (cases k1; cases k2) auto

subsection \<open>Specification of matching\<close>

text \<open>Writing the values \<open>vs\<close> for the parameters of a pattern; \<^term>\<open>None\<close> when the pattern is
  malformed or the number of values is not its number of parameters.\<close>

function pat_subst :: "string \<Rightarrow> string list \<Rightarrow> string option" where
  "pat_subst pat vs =
    (case patNextSegment pat of
       Inl err \<Rightarrow> None
     | Inr (ptyp, key, rexpat, tail, s, e) \<Rightarrow>
         if ptyp = ntStatic then (if vs = [] then Some pat else None)
         else (case vs of
                 [] \<Rightarrow> None
               | v # vs' \<Rightarrow> map_option (\<lambda>r. take s pat @ v @ r) (pat_subst (drop e pat) vs')))"
  by pat_completeness auto
termination
  by (relation "measure (\<lambda>(pat, _). length pat)")
    (auto dest: patNextSegment_shrink)

declare pat_subst.simps [simp del]

lemma pat_subst_static [simp]: "\<not> wild p \<Longrightarrow> pat_subst p vs = (if vs = [] then Some p else None)"
  by (simp add: pat_subst.simps patNextSegment_static)

lemma pat_subst_append:
  "\<not> wild s \<Longrightarrow> pat_subst (s @ p) vs = map_option ((@) s) (pat_subst p vs)"
  by (subst (1 2) pat_subst.simps)
    (auto simp: patNextSegment_append option.map_comp comp_def
      split: sum.splits list.splits)

lemma pat_subst_seg:
  assumes "patNextSegment p = Inr (t, k, r, tb, 0, e)" "t \<noteq> ntStatic"
  shows "pat_subst p (v # vs) = map_option ((@) v) (pat_subst (drop e p) vs)"
  using assms by (subst pat_subst.simps) (auto simp: option.map_comp comp_def)

lemma patParamKeysLoop_length:
  "patParamKeysLoop pattern p ks = Inr ks' \<Longrightarrow> pat_subst p vs = Some path
    \<Longrightarrow> length ks' = length ks + length vs"
proof (induction pattern p ks arbitrary: vs path rule: patParamKeysLoop.induct)
  case (1 pattern p ks)
  from "1.prems" obtain t k r tb s e where seg: "patNextSegment p = Inr (t, k, r, tb, s, e)"
    by (subst (asm) patParamKeysLoop.simps) (auto split: sum.splits)
  show ?case
  proof (cases "t = ntStatic")
    case True
    with "1.prems" seg show ?thesis
      by (simp add: patParamKeysLoop.simps split: if_splits)
  next
    case False
    with "1.prems"(2) seg obtain v vs' path' where vs: "vs = v # vs'" "pat_subst (drop e p) vs' = Some path'"
      by (subst (asm) pat_subst.simps) (auto split: list.splits)
    from False "1.prems"(1) seg have "k \<notin> set ks" "patParamKeysLoop pattern (drop e p) (ks @ [k]) = Inr ks'"
      by (auto simp: patParamKeysLoop.simps[of pattern p ks] split: if_splits)
    with "1.IH"[OF seg refl refl refl refl refl False] vs show ?thesis by simp
  qed
qed

lemma patParamKeys_length:
  "patParamKeys p = Inr ks \<Longrightarrow> pat_subst p vs = Some path \<Longrightarrow> length ks = length vs"
  unfolding patParamKeys_def by (drule (1) patParamKeysLoop_length) simp

end
