(* ===== verification/Router_Tree.thy ===== *)
theory Router_Tree
  imports Router_Pattern "HOL-Library.AList"
begin

unbundle bit_operations_syntax

text \<open>
  The radix tree of the router (\<^verbatim>\<open>internal/platform/router/tree.go\<close> and the routing context of
  \<^verbatim>\<open>context.go\<close>).  A node is a record of its scalar fields with its four lists of children, one
  per node type, in the order of the array \<^verbatim>\<open>children\<close>.  The code mutates nodes through pointers;
  here an operation returns the updated node, and the tree after a failed operation is returned
  with the error.  The package variables \<^verbatim>\<open>methodMap\<close> and \<^verbatim>\<open>mALL\<close> and the function
  \<^verbatim>\<open>regexp.Compile\<close> are the fields of \<open>router_env\<close>.
\<close>

subsection \<open>Methods\<close>

type_synonym methodTyp = "64 word"

text \<open>The constants \<^verbatim>\<open>1 << iota\<close>.\<close>

definition method_bit :: "nat \<Rightarrow> methodTyp" where "method_bit i = push_bit i 1"

definition mSTUB :: methodTyp where "mSTUB = method_bit 0"
definition mCONNECT :: methodTyp where "mCONNECT = method_bit 1"
definition mDELETE :: methodTyp where "mDELETE = method_bit 2"
definition mGET :: methodTyp where "mGET = method_bit 3"
definition mHEAD :: methodTyp where "mHEAD = method_bit 4"
definition mOPTIONS :: methodTyp where "mOPTIONS = method_bit 5"
definition mPATCH :: methodTyp where "mPATCH = method_bit 6"
definition mPOST :: methodTyp where "mPOST = method_bit 7"
definition mPUT :: methodTyp where "mPUT = method_bit 8"
definition mTRACE :: methodTyp where "mTRACE = method_bit 9"

lemmas method_consts = mSTUB_def mCONNECT_def mDELETE_def mGET_def mHEAD_def mOPTIONS_def
  mPATCH_def mPOST_def mPUT_def mTRACE_def

lemma bit_method_bit: "bit (method_bit k) i \<longleftrightarrow> i = k \<and> k < 64"
  unfolding method_bit_def bit_push_bit_iff by (auto simp: bit_1_iff)

text \<open>A compiled regular expression is its \<^verbatim>\<open>MatchString\<close>.\<close>

record router_env =
  methodMap :: "(string \<times> methodTyp) list"
  mALL :: methodTyp
  regexp_Compile :: "string \<Rightarrow> (string \<Rightarrow> bool) option"

definition initial_env :: "(string \<Rightarrow> (string \<Rightarrow> bool) option) \<Rightarrow> router_env" where
  "initial_env rc =
    \<lparr> methodMap =
        [(''CONNECT'', mCONNECT), (''DELETE'', mDELETE), (''GET'', mGET), (''HEAD'', mHEAD),
         (''OPTIONS'', mOPTIONS), (''PATCH'', mPATCH), (''POST'', mPOST), (''PUT'', mPUT),
         (''TRACE'', mTRACE)],
      mALL = mCONNECT OR mDELETE OR mGET OR mHEAD OR mOPTIONS OR mPATCH OR mPOST OR mPUT OR mTRACE,
      regexp_Compile = rc \<rparr>"

definition RegisterMethod :: "router_env \<Rightarrow> string \<Rightarrow> router_env \<times> gerror option" where
  "RegisterMethod env method0 =
    (if method0 = [] then (env, None)
     else let method = ToUpper method0 in
       case map_of (methodMap env) method of
         Some _ \<Rightarrow> (env, None)
       | None \<Rightarrow>
           let n = length (methodMap env) in
           if n > 64 - 2 then (env, Some ''max number of methods reached (64)'')
           else let mt = push_bit n 2 in
             (env\<lparr>methodMap := methodMap env @ [(method, mt)], mALL := mALL env OR mt\<rparr>, None))"

definition methodTypString :: "router_env \<Rightarrow> methodTyp \<Rightarrow> string" where
  "methodTypString env method =
    (case find (\<lambda>(s, t). method = t) (methodMap env) of Some (s, t) \<Rightarrow> s | None \<Rightarrow> [])"

subsection \<open>Nodes\<close>

record Actions =
  act_Request :: string
  act_Response :: string

record 'h endpoint =
  ep_handler :: "'h option"
  ep_pattern :: string
  ep_actions :: "Actions option"
  ep_paramKeys :: "string list"

text \<open>The Go map \<^verbatim>\<open>endpoints\<close> as an association list without duplicate keys.\<close>

type_synonym 'h endpoints = "(methodTyp \<times> 'h endpoint) list"

record ('h, 's) ndata =
  nd_subroutes :: "'s option"
  nd_rex :: "(string \<Rightarrow> bool) option"
  nd_endpoints :: "'h endpoints option"
  nd_prefix :: string
  nd_tail :: char
  nd_typ :: nodeTyp
  nd_label :: char

datatype ('h, 's) node =
  Node (nd: "('h, 's) ndata")
    (kids_static: "('h, 's) node list") (kids_regexp: "('h, 's) node list")
    (kids_param: "('h, 's) node list") (kids_catchAll: "('h, 's) node list")

abbreviation "prefix_of n \<equiv> nd_prefix (nd n)"
abbreviation "label_of n \<equiv> nd_label (nd n)"
abbreviation "tail_of n \<equiv> nd_tail (nd n)"
abbreviation "typ_of n \<equiv> nd_typ (nd n)"
abbreviation "rex_of n \<equiv> nd_rex (nd n)"
abbreviation "endpoints_of n \<equiv> nd_endpoints (nd n)"

fun children :: "('h, 's) node \<Rightarrow> nodeTyp \<Rightarrow> ('h, 's) node list" where
  "children (Node d S R P C) ntStatic = S"
| "children (Node d S R P C) ntRegexp = R"
| "children (Node d S R P C) ntParam = P"
| "children (Node d S R P C) ntCatchAll = C"

fun set_children :: "('h, 's) node \<Rightarrow> nodeTyp \<Rightarrow> ('h, 's) node list \<Rightarrow> ('h, 's) node" where
  "set_children (Node d S R P C) ntStatic X = Node d X R P C"
| "set_children (Node d S R P C) ntRegexp X = Node d S X P C"
| "set_children (Node d S R P C) ntParam X = Node d S R X C"
| "set_children (Node d S R P C) ntCatchAll X = Node d S R P X"

fun map_nd :: "(('h, 's) ndata \<Rightarrow> ('h, 's) ndata) \<Rightarrow> ('h, 's) node \<Rightarrow> ('h, 's) node" where
  "map_nd f (Node d S R P C) = Node (f d) S R P C"

text \<open>A fresh node \<^verbatim>\<open>&node{...}\<close>: the fields that are not named are zero.\<close>

definition new_node :: "nodeTyp \<Rightarrow> char \<Rightarrow> char \<Rightarrow> string \<Rightarrow> ('h, 's) node" where
  "new_node t l tb p =
    Node \<lparr> nd_subroutes = None, nd_rex = None, nd_endpoints = None, nd_prefix = p, nd_tail = tb,
           nd_typ = t, nd_label = l \<rparr> [] [] [] []"

definition emptyNode :: "('h, 's) node" where
  "emptyNode = new_node ntStatic CHR 0x00 CHR 0x00 []"

definition isLeaf :: "('h, 's) node \<Rightarrow> bool" where
  "isLeaf n \<longleftrightarrow> endpoints_of n \<noteq> None"

subsection \<open>Lists of nodes\<close>

text \<open>\<^verbatim>\<open>sort.Sort\<close> by label.  The labels of static siblings are distinct, so the result does not
  depend on the algorithm; among equal labels the order is the stable one, which is what the
  insertion sort of Go's library gives for up to twelve elements.\<close>

definition tailSort :: "('h, 's) node list \<Rightarrow> ('h, 's) node list" where
  "tailSort ns =
    (case find_index (\<lambda>n. typ_of n \<noteq> ntStatic \<and> tail_of n = CHR ''/'') (rev ns) of
       None \<Rightarrow> ns
     | Some k \<Rightarrow> let i = length ns - 1 - k; j = length ns - 1 in ns[i := ns ! j, j := ns ! i])"

definition nodesSort :: "('h, 's) node list \<Rightarrow> ('h, 's) node list" where
  "nodesSort ns = tailSort (sort_key label_of ns)"

text \<open>The binary search of \<^verbatim>\<open>nodes.findEdge\<close>: the value of \<open>idx\<close> when the loop ends.\<close>

function findEdgeLoop :: "('h, 's) node list \<Rightarrow> char \<Rightarrow> int \<Rightarrow> int \<Rightarrow> int \<Rightarrow> int" where
  "findEdgeLoop ns label i j idx0 =
    (if i \<le> j then
       let idx = i + (j - i) div 2 in
       if label > label_of (ns ! nat idx) then findEdgeLoop ns label (idx + 1) j idx
       else if label < label_of (ns ! nat idx) then findEdgeLoop ns label i (idx - 1) idx
       else idx
     else idx0)"
  by pat_completeness auto
termination
  by (relation "measure (\<lambda>(ns, label, i, j, idx). nat (j - i + 1))") auto

declare findEdgeLoop.simps [simp del]

definition findEdge :: "('h, 's) node list \<Rightarrow> char \<Rightarrow> ('h, 's) node option" where
  "findEdge ns label =
    (let idx = nat (findEdgeLoop ns label 0 (int (length ns) - 1) 0)
     in if label_of (ns ! idx) \<noteq> label then None else Some (ns ! idx))"

definition getEdge :: "('h, 's) node \<Rightarrow> nodeTyp \<Rightarrow> char \<Rightarrow> char \<Rightarrow> string \<Rightarrow> nat option" where
  "getEdge n ntyp label tail pfx =
    find_index (\<lambda>c. label_of c = label \<and> tail_of c = tail
      \<and> \<not> (ntyp = ntRegexp \<and> prefix_of c \<noteq> pfx)) (children n ntyp)"

definition replaceChild :: "('h, 's) node \<Rightarrow> char \<Rightarrow> char \<Rightarrow> ('h, 's) node \<Rightarrow> ('h, 's) node result" where
  "replaceChild n label tail child =
    (let cs = children n (typ_of child) in
     case find_index (\<lambda>c. label_of c = label \<and> tail_of c = tail) cs of
       None \<Rightarrow> Inl ''replacing missing child''
     | Some i \<Rightarrow> Inr (set_children n (typ_of child)
         (cs[i := map_nd (\<lambda>d. d\<lparr>nd_label := label, nd_tail := tail\<rparr>) child])))"

subsection \<open>Endpoints\<close>

definition emptyEndpoint :: "'h endpoint" where
  "emptyEndpoint = \<lparr> ep_handler = None, ep_pattern = [], ep_actions = None, ep_paramKeys = [] \<rparr>"

definition Value :: "'h endpoints \<Rightarrow> methodTyp \<Rightarrow> 'h endpoint" where
  "Value s method = (case map_of s method of None \<Rightarrow> emptyEndpoint | Some mh \<Rightarrow> mh)"

text \<open>An assignment through the pointer that \<^verbatim>\<open>Value\<close> returns.\<close>

definition modifyValue :: "('h endpoint \<Rightarrow> 'h endpoint) \<Rightarrow> methodTyp \<Rightarrow> 'h endpoints \<Rightarrow> 'h endpoints" where
  "modifyValue f m s = AList.update m (f (Value s m)) s"

definition setEndpoint :: "router_env \<Rightarrow> methodTyp \<Rightarrow> Actions option \<Rightarrow> 'h option \<Rightarrow> string
    \<Rightarrow> ('h, 's) node \<Rightarrow> ('h, 's) node \<times> gerror option" where
  "setEndpoint env method actions handler pattern n =
    (let eps0 = (case endpoints_of n of None \<Rightarrow> [] | Some eps \<Rightarrow> eps) in
     case patParamKeys pattern of
       Inl err \<Rightarrow> (map_nd (\<lambda>d. d\<lparr>nd_endpoints := Some eps0\<rparr>) n, Some err)
     | Inr paramKeys \<Rightarrow>
         let set_all = (\<lambda>h. h\<lparr>ep_handler := handler, ep_actions := actions, ep_pattern := pattern,
                              ep_paramKeys := paramKeys\<rparr>);
             eps1 = (if method AND mSTUB = mSTUB
                     then modifyValue (\<lambda>h. h\<lparr>ep_handler := handler\<rparr>) mSTUB eps0 else eps0);
             eps2 = (if method AND mALL env = mALL env
                     then fold (modifyValue set_all) (map snd (methodMap env))
                            (modifyValue set_all (mALL env) eps1)
                     else modifyValue set_all method eps1)
         in (map_nd (\<lambda>d. d\<lparr>nd_endpoints := Some eps2\<rparr>) n, None))"

subsection \<open>Insertion\<close>

definition appendChild :: "('h, 's) node \<Rightarrow> ('h, 's) node \<Rightarrow> ('h, 's) node" where
  "appendChild n child =
    set_children n (typ_of child) (nodesSort (children n (typ_of child) @ [child]))"

text \<open>The regular expression of a regexp segment is compiled into the node.\<close>

definition compileSeg :: "router_env \<Rightarrow> nodeTyp \<Rightarrow> string \<Rightarrow> ('h, 's) node \<Rightarrow> ('h, 's) node result" where
  "compileSeg env segTyp segRexpat child =
    (if segTyp = ntRegexp then
       (case regexp_Compile env segRexpat of
          None \<Rightarrow> Inl (''invalid regexp pattern '' @ quoted segRexpat @ '' in route param'')
        | Some rex \<Rightarrow> Inr (map_nd (\<lambda>d. d\<lparr>nd_prefix := segRexpat, nd_rex := Some rex\<rparr>) child))
     else Inr child)"

text \<open>\<^verbatim>\<open>addChild\<close> returns a pointer to the node that ends the pattern, on which its caller then calls
  \<^verbatim>\<open>setEndpoint\<close>; here that later update of the node is the argument \<open>hn\<close>.  An error leaves the
  parent as it was.\<close>

function addChild :: "router_env \<Rightarrow> (('h, 's) node \<Rightarrow> ('h, 's) node) \<Rightarrow> ('h, 's) node
    \<Rightarrow> ('h, 's) node \<Rightarrow> string \<Rightarrow> ('h, 's) node result" where
  "addChild env hn n child search =
    (case patNextSegment search of
       Inl err \<Rightarrow> Inl err
     | Inr (segTyp, key, segRexpat, segTail, segStartIdx, segEndIdx) \<Rightarrow>
         if segTyp = ntStatic then Inr (appendChild n (hn child))
         else case compileSeg env segTyp segRexpat child of
             Inl err \<Rightarrow> Inl err
           | Inr child1 \<Rightarrow>
               if segStartIdx = 0 then
                 let child2 = map_nd (\<lambda>d. d\<lparr>nd_typ := segTyp, nd_tail := segTail\<rparr>) child1;
                     start = (if segTyp = ntCatchAll then length search else segEndIdx)
                 in if start \<noteq> length search then
                      let search' = drop start search
                      in case addChild env hn child2
                                (new_node ntStatic (hd search') CHR 0x00 search') search' of
                           Inl err \<Rightarrow> Inl err
                         | Inr child3 \<Rightarrow> Inr (appendChild n child3)
                    else Inr (appendChild n (hn child2))
               else
                 let child2 = map_nd (\<lambda>d. d\<lparr>nd_typ := ntStatic, nd_prefix := take segStartIdx search,
                                            nd_rex := None\<rparr>) child1;
                     search' = drop segStartIdx search
                 in case addChild env hn child2 (new_node segTyp (hd search') segTail []) search' of
                      Inl err \<Rightarrow> Inl err
                    | Inr child3 \<Rightarrow> Inr (appendChild n child3))"
  by pat_completeness auto
termination
  by (relation "measure (\<lambda>(env, hn, n, child, search). length search)")
    (auto dest: patNextSegment_shrink patNextSegment_nonempty split: if_splits)

declare addChild.simps [simp del]

definition updateChild :: "('h, 's) node \<Rightarrow> nodeTyp \<Rightarrow> nat \<Rightarrow> ('h, 's) node \<Rightarrow> ('h, 's) node" where
  "updateChild n t i c = set_children n t ((children n t)[i := c])"

lemma size_children:
  "c \<in> set (children n t) \<Longrightarrow> size c < size n"
  by (cases n; cases t)
    (auto dest!: size_list_estimation'[where f = size, OF _ order_refl])

lemma size_children_nth [termination_simp]:
  "i < length (children n t) \<Longrightarrow> size (children n t ! i) < size n"
  by (rule size_children[of _ n t]) simp

lemma getEdge_mem:
  "getEdge n t l tb p = Some i \<Longrightarrow> i < length (children n t) \<and> children n t ! i \<in> set (children n t)"
  unfolding getEdge_def by (drule find_index_length) simp

text \<open>The part of \<^verbatim>\<open>insertRoute\<close> that splits the static child \<open>c\<close> of \<open>n\<close> after \<open>cp\<close> common bytes.\<close>

definition splitNode :: "router_env \<Rightarrow> methodTyp \<Rightarrow> Actions option \<Rightarrow> 'h option \<Rightarrow> string
    \<Rightarrow> ('h, 's) node \<Rightarrow> string \<Rightarrow> char \<Rightarrow> ('h, 's) node \<Rightarrow> nat \<Rightarrow> ('h, 's) node \<times> gerror option" where
  "splitNode env method actions handler pattern n search segTail c cp =
    (let child = new_node ntStatic CHR 0x00 CHR 0x00 (take cp search);
         put = (\<lambda>child. case replaceChild n (hd search) segTail child of Inl err \<Rightarrow> n | Inr n' \<Rightarrow> n')
     in case replaceChild n (hd search) segTail child of
          Inl err \<Rightarrow> (n, Some err)
        | Inr _ \<Rightarrow>
            let c' = map_nd (\<lambda>d. d\<lparr>nd_label := nd_prefix d ! cp, nd_prefix := drop cp (nd_prefix d)\<rparr>) c
            in case addChild env id child c' (prefix_of c') of
                 Inl err \<Rightarrow> (put child, Some err)
               | Inr child1 \<Rightarrow>
                   let search' = drop cp search in
                   if search' = [] then
                     (let (child2, err) = setEndpoint env method actions handler pattern child1
                      in (put child2, err))
                   else
                     case addChild env (\<lambda>hn. fst (setEndpoint env method actions handler pattern hn))
                            child1 (new_node ntStatic (hd search') CHR 0x00 search') search' of
                       Inl err \<Rightarrow> (put child1, Some err)
                     | Inr child2 \<Rightarrow>
                         (put child2, snd (setEndpoint env method actions handler pattern child2)))"

text \<open>The segment at the head of the rest of the pattern, parsed only where a wild node is next.\<close>

definition insertSegment :: "string \<Rightarrow> segment result" where
  "insertSegment search =
    (if hd search = CHR ''{'' \<or> hd search = CHR ''*'' then patNextSegment search
     else Inr (ntStatic, [], [], CHR 0x00, 0, 0))"

text \<open>\<^verbatim>\<open>insertRoute\<close>: the loop descends from \<open>n\<close>; the result is the updated subtree with the error.
  The error of \<^verbatim>\<open>setEndpoint\<close> depends on the pattern only, so it may be read off any node.\<close>

function insertRoute :: "router_env \<Rightarrow> methodTyp \<Rightarrow> string \<Rightarrow> Actions option \<Rightarrow> 'h option
    \<Rightarrow> ('h, 's) node \<Rightarrow> string \<Rightarrow> ('h, 's) node \<times> gerror option" where
  "insertRoute env method pattern actions handler n search =
    (if search = [] then setEndpoint env method actions handler pattern n
     else let label = hd search in
       case insertSegment search of
         Inl err \<Rightarrow> (n, Some err)
       | Inr (segTyp, key, segRexpat, segTail, segStartIdx, segEndIdx) \<Rightarrow>
           let pfx = (if segTyp = ntRegexp then segRexpat else []) in
           case getEdge n segTyp label segTail pfx of
             None \<Rightarrow>
               (case addChild env (\<lambda>hn. fst (setEndpoint env method actions handler pattern hn)) n
                       (new_node ntStatic label segTail search) search of
                  Inl err \<Rightarrow> (n, Some err)
                | Inr n' \<Rightarrow> (n', snd (setEndpoint env method actions handler pattern n')))
           | Some i \<Rightarrow>
               let c = children n segTyp ! i in
               if typ_of c \<noteq> ntStatic then
                 (let (c', err) = insertRoute env method pattern actions handler c (drop segEndIdx search)
                  in (updateChild n segTyp i c', err))
               else let cp = longestPrefix search (prefix_of c) in
                 if cp = length (prefix_of c) then
                   (let (c', err) = insertRoute env method pattern actions handler c (drop cp search)
                    in (updateChild n segTyp i c', err))
                 else splitNode env method actions handler pattern n search segTail c cp)"
  by pat_completeness auto
termination
  by (relation "measure (\<lambda>(env, method, pattern, actions, handler, n, search). size n)")
    (auto dest!: getEdge_mem simp: size_children_nth)

declare insertRoute.simps [simp del]

subsection \<open>The routing context\<close>

text \<open>\<^verbatim>\<open>Context\<close> of \<^verbatim>\<open>context.go\<close>; its field \<^verbatim>\<open>Routes\<close> is never read and is left out.\<close>

record RouteParams =
  Keys :: "string list"
  Values :: "string list"

record Context =
  RoutePath :: string
  RouteMethod :: string
  URLParams :: RouteParams
  routeParams :: RouteParams
  routePattern :: string
  RoutePatterns :: "string list"
  methodNotAllowed :: bool
  methodsAllowed :: "methodTyp list"

definition NewRouteContext :: Context where
  "NewRouteContext =
    \<lparr> RoutePath = [], RouteMethod = [], URLParams = \<lparr> Keys = [], Values = [] \<rparr>,
      routeParams = \<lparr> Keys = [], Values = [] \<rparr>, routePattern = [], RoutePatterns = [],
      methodNotAllowed = False, methodsAllowed = [] \<rparr>"

definition setValues :: "string list \<Rightarrow> Context \<Rightarrow> Context" where
  "setValues vs rctx = rctx\<lparr>routeParams := (routeParams rctx)\<lparr>Values := vs\<rparr>\<rparr>"

definition addKeys :: "string list \<Rightarrow> Context \<Rightarrow> Context" where
  "addKeys ks rctx = rctx\<lparr>routeParams := (routeParams rctx)\<lparr>Keys := Keys (routeParams rctx) @ ks\<rparr>\<rparr>"

abbreviation "rvalues rctx \<equiv> Values (routeParams rctx)"
abbreviation "rkeys rctx \<equiv> Keys (routeParams rctx)"

subsection \<open>Lookup\<close>

text \<open>The handler check of a node that ends the path: the context with its parameter keys when
  the node has a handler for the method, and otherwise the context with the allowed methods
  noted.\<close>

definition leafHandler :: "('h, 's) node \<Rightarrow> methodTyp \<Rightarrow> 'h endpoint option" where
  "leafHandler xn method =
    (case endpoints_of xn of
       None \<Rightarrow> None
     | Some eps \<Rightarrow> (case map_of eps method of
                      None \<Rightarrow> None
                    | Some h \<Rightarrow> if ep_handler h \<noteq> None then Some h else None))"

definition noteMethods :: "router_env \<Rightarrow> ('h, 's) node \<Rightarrow> Context \<Rightarrow> Context" where
  "noteMethods env xn rctx =
    (case endpoints_of xn of
       None \<Rightarrow> rctx
     | Some eps \<Rightarrow> rctx\<lparr>
         methodsAllowed := methodsAllowed rctx @ filter (\<lambda>e. \<not> (e = mALL env \<or> e = mSTUB)) (map fst eps),
         methodNotAllowed := True\<rparr>)"

definition checkLeaf :: "router_env \<Rightarrow> ('h, 's) node \<Rightarrow> methodTyp \<Rightarrow> string \<Rightarrow> Context \<Rightarrow> bool \<times> Context" where
  "checkLeaf env xn method xsearch rctx =
    (if xsearch = [] then
       (case leafHandler xn method of
          Some h \<Rightarrow> (True, addKeys (ep_paramKeys h) rctx)
        | None \<Rightarrow> (False, noteMethods env xn rctx))
     else (False, rctx))"

text \<open>The value of a parameter node: \<^term>\<open>Some p\<close> when the first \<open>p\<close> bytes are taken, \<^term>\<open>None\<close> for
  \<^verbatim>\<open>continue\<close>.\<close>

definition paramValue :: "nodeTyp \<Rightarrow> ('h, 's) node \<Rightarrow> string \<Rightarrow> nat option" where
  "paramValue ntyp xn xsearch =
    (case (case IndexByte xsearch (tail_of xn) of
             None \<Rightarrow> if tail_of xn = CHR ''/'' then Some (length xsearch) else None
           | Some p \<Rightarrow> if ntyp = ntRegexp \<and> p = 0 then None else Some p) of
       None \<Rightarrow> None
     | Some p \<Rightarrow>
         (case (if ntyp = ntRegexp then rex_of xn else None) of
            Some rex \<Rightarrow> if rex (take p xsearch) then Some p else None
          | None \<Rightarrow> if CHR ''/'' \<in> set (take p xsearch) then None else Some p))"

lemma findEdgeLoop_range:
  "0 \<le> i \<Longrightarrow> j < int (length ns) \<Longrightarrow> 0 \<le> idx \<Longrightarrow> idx < int (length ns) \<Longrightarrow>
    0 \<le> findEdgeLoop ns label i j idx \<and> findEdgeLoop ns label i j idx < int (length ns)"
proof (induction ns label i j idx rule: findEdgeLoop.induct)
  case (1 ns label i j idx)
  show ?case
    by (subst (1 2) findEdgeLoop.simps) (use 1 in \<open>auto simp: Let_def\<close>)
qed

lemma findEdge_mem:
  assumes "ns \<noteq> []" "findEdge ns label = Some c"
  shows "c \<in> set ns"
proof -
  let ?idx = "findEdgeLoop ns label 0 (int (length ns) - 1) 0"
  have "0 \<le> ?idx \<and> ?idx < int (length ns)"
    using assms(1) by (intro findEdgeLoop_range) (auto simp: Suc_leI)
  then have "nat ?idx < length ns" by linarith
  moreover have "c = ns ! nat ?idx"
    using assms(2) by (auto simp: findEdge_def Let_def split: if_splits)
  ultimately show ?thesis by simp
qed

lemma size_children_ends:
  "children n t \<noteq> [] \<Longrightarrow> size (hd (children n t)) < size n"
  "children n t \<noteq> [] \<Longrightarrow> size (last (children n t)) < size n"
  by (auto intro: size_children[of _ n t])

lemma size_children_list: "size_list size (children n t) < size n"
  by (cases n; cases t) auto

text \<open>\<^verbatim>\<open>findRoute\<close> runs over the four groups of children; \<open>findParams\<close> is its loop over the parameter
  nodes and \<open>findNext\<close> the code after the switch.\<close>

function (sequential)
  findRoute :: "router_env \<Rightarrow> ('h, 's) node \<Rightarrow> Context \<Rightarrow> methodTyp \<Rightarrow> string
    \<Rightarrow> ('h, 's) node option \<times> Context" and
  findGroups :: "router_env \<Rightarrow> nodeTyp list \<Rightarrow> ('h, 's) node \<Rightarrow> Context \<Rightarrow> methodTyp \<Rightarrow> string
    \<Rightarrow> ('h, 's) node option \<times> Context" and
  findParams :: "router_env \<Rightarrow> nodeTyp \<Rightarrow> ('h, 's) node list \<Rightarrow> Context \<Rightarrow> methodTyp \<Rightarrow> string
    \<Rightarrow> ('h, 's) node option \<times> Context" and
  findNext :: "router_env \<Rightarrow> ('h, 's) node \<Rightarrow> Context \<Rightarrow> methodTyp \<Rightarrow> string
    \<Rightarrow> ('h, 's) node option \<times> Context"
where
  "findRoute env n rctx method path =
    findGroups env [ntStatic, ntRegexp, ntParam, ntCatchAll] n rctx method path"
| "findGroups env [] n rctx method search = (None, rctx)"
| "findGroups env (ntyp # ts) n rctx method search =
    (let nds = children n ntyp in
     if nds = [] then findGroups env ts n rctx method search
     else case ntyp of
       ntStatic \<Rightarrow>
         (case findEdge nds (if search \<noteq> [] then hd search else CHR 0x00) of
            None \<Rightarrow> findGroups env ts n rctx method search
          | Some xn \<Rightarrow>
              if \<not> prefix (prefix_of xn) search then findGroups env ts n rctx method search
              else (case findNext env xn rctx method (drop (length (prefix_of xn)) search) of
                      (Some fin, rctx') \<Rightarrow> (Some fin, rctx')
                    | (None, rctx') \<Rightarrow> findGroups env ts n rctx' method search))
     | ntCatchAll \<Rightarrow>
         (case findNext env (hd nds) (setValues (rvalues rctx @ [search]) rctx) method [] of
            (Some fin, rctx') \<Rightarrow> (Some fin, rctx')
          | (None, rctx') \<Rightarrow> findGroups env ts n rctx' method search)
     | _ \<Rightarrow>
         if search = [] then findGroups env ts n rctx method search
         else (case findParams env ntyp nds rctx method search of
                 (Some fin, rctx') \<Rightarrow> (Some fin, rctx')
               | (None, rctx') \<Rightarrow>
                   (case findNext env (last nds) (setValues (rvalues rctx' @ [[]]) rctx') method search of
                      (Some fin, rctx'') \<Rightarrow> (Some fin, rctx'')
                    | (None, rctx'') \<Rightarrow> findGroups env ts n rctx'' method search)))"
| "findParams env ntyp [] rctx method search = (None, rctx)"
| "findParams env ntyp (xn # nds) rctx method search =
    (case paramValue ntyp xn search of
       None \<Rightarrow> findParams env ntyp nds rctx method search
     | Some p \<Rightarrow>
         let prevlen = length (rvalues rctx);
             rctx1 = setValues (rvalues rctx @ [take p search]) rctx;
             xsearch = drop p search
         in case checkLeaf env xn method xsearch rctx1 of
              (True, rctx2) \<Rightarrow> (Some xn, rctx2)
            | (False, rctx2) \<Rightarrow>
                (case findRoute env xn rctx2 method xsearch of
                   (Some fin, rctx3) \<Rightarrow> (Some fin, rctx3)
                 | (None, rctx3) \<Rightarrow>
                     findParams env ntyp nds (setValues (take prevlen (rvalues rctx3)) rctx3) method search))"
| "findNext env xn rctx method xsearch =
    (case checkLeaf env xn method xsearch rctx of
       (True, rctx1) \<Rightarrow> (Some xn, rctx1)
     | (False, rctx1) \<Rightarrow>
         (case findRoute env xn rctx1 method xsearch of
            (Some fin, rctx2) \<Rightarrow> (Some fin, rctx2)
          | (None, rctx2) \<Rightarrow>
              (None, if typ_of xn \<noteq> ntStatic then setValues (butlast (rvalues rctx2)) rctx2 else rctx2)))"
  by pat_completeness auto
termination
  by (relation "measures
      [\<lambda>x. case x of Inl (Inl (e, n, _)) \<Rightarrow> size n
         | Inl (Inr (e, ts, n, _)) \<Rightarrow> size n
         | Inr (Inl (e, t, nds, _)) \<Rightarrow> size_list size nds
         | Inr (Inr (e, xn, _)) \<Rightarrow> size xn,
       \<lambda>x. case x of Inl (Inl _) \<Rightarrow> 10
         | Inl (Inr (e, ts, _)) \<Rightarrow> length ts
         | Inr (Inl _) \<Rightarrow> 0
         | Inr (Inr _) \<Rightarrow> 11]")
    (auto simp: size_children_list size_children_ends intro: size_children findEdge_mem)

declare findRoute.simps [simp del] findGroups.simps [simp del] findParams.simps(2) [simp del]
  findNext.simps [simp del]

definition FindRouteWithActions :: "router_env \<Rightarrow> ('h, 's) node \<Rightarrow> Context \<Rightarrow> methodTyp \<Rightarrow> string
    \<Rightarrow> (('h, 's) node option \<times> 'h option \<times> Actions option) \<times> Context" where
  "FindRouteWithActions env n rctx0 method path =
    (let rctx = rctx0\<lparr>routePattern := [], routeParams := \<lparr>Keys = [], Values = []\<rparr>\<rparr> in
     case findRoute env n rctx method path of
       (None, rctx1) \<Rightarrow> ((None, None, None), rctx1)
     | (Some rn, rctx1) \<Rightarrow>
         let rctx2 = rctx1\<lparr>URLParams := \<lparr>Keys = Keys (URLParams rctx1) @ rkeys rctx1,
                                          Values = Values (URLParams rctx1) @ rvalues rctx1\<rparr>\<rparr>;
             ep = Value (case endpoints_of rn of Some eps \<Rightarrow> eps | None \<Rightarrow> []) method;
             rctx3 = (if ep_pattern ep \<noteq> []
                      then rctx2\<lparr>routePattern := ep_pattern ep,
                                 RoutePatterns := RoutePatterns rctx2 @ [ep_pattern ep]\<rparr>
                      else rctx2)
         in ((Some rn, ep_handler ep, ep_actions ep), rctx3))"

definition FindRoute :: "router_env \<Rightarrow> ('h, 's) node \<Rightarrow> Context \<Rightarrow> methodTyp \<Rightarrow> string
    \<Rightarrow> (('h, 's) node option \<times> 'h endpoints option \<times> 'h option) \<times> Context" where
  "FindRoute env n rctx0 method path =
    (let rctx = rctx0\<lparr>routePattern := [], routeParams := \<lparr>Keys = [], Values = []\<rparr>\<rparr> in
     case findRoute env n rctx method path of
       (None, rctx1) \<Rightarrow> ((None, None, None), rctx1)
     | (Some rn, rctx1) \<Rightarrow>
         let rctx2 = rctx1\<lparr>URLParams := \<lparr>Keys = Keys (URLParams rctx1) @ rkeys rctx1,
                                          Values = Values (URLParams rctx1) @ rvalues rctx1\<rparr>\<rparr>;
             ep = Value (case endpoints_of rn of Some eps \<Rightarrow> eps | None \<Rightarrow> []) method;
             rctx3 = (if ep_pattern ep \<noteq> []
                      then rctx2\<lparr>routePattern := ep_pattern ep,
                                 RoutePatterns := RoutePatterns rctx2 @ [ep_pattern ep]\<rparr>
                      else rctx2)
         in ((Some rn, endpoints_of rn, ep_handler ep), rctx3))"

end
