(* ===== verification/Router_Correct.thy ===== *)
theory Router_Correct
  imports Router_Tree "HOL-Library.Multiset"
begin

text \<open>
  Correctness of the radix tree.  The invariant \<open>wf_node\<close> says that a tree is ordered as the binary
  search needs it and that the pattern stored in an endpoint is spelled by the edges from the
  root to its node.  It is kept by \<^const>\<open>insertRoute\<close>, errors included.
\<close>

subsection \<open>What an edge spells\<close>

text \<open>The edge to node \<open>c\<close> takes a segment from the front of a pattern.\<close>

definition consume :: "('h, 's) node \<Rightarrow> string \<Rightarrow> string option" where
  "consume c s =
    (if typ_of c = ntStatic
     then if prefix (prefix_of c) s then Some (drop (length (prefix_of c)) s) else None
     else case patNextSegment s of
       Inl e \<Rightarrow> None
     | Inr (t, k, r, tb, ps, pe) \<Rightarrow>
         if t = typ_of c \<and> ps = 0 \<and> tb = tail_of c \<and> (t = ntRegexp \<longrightarrow> r = prefix_of c)
         then Some (drop pe s) else None)"

definition through :: "(string \<Rightarrow> string option) \<Rightarrow> ('h, 's) node \<Rightarrow> string \<Rightarrow> string option" where
  "through K c p = Option.bind (K p) (consume c)"

definition kid_ok :: "router_env \<Rightarrow> nodeTyp \<Rightarrow> ('h, 's) node \<Rightarrow> bool" where
  "kid_ok env t c \<longleftrightarrow> typ_of c = t \<and>
    (case t of
       ntStatic \<Rightarrow> tail_of c = CHR 0x00 \<and> prefix_of c \<noteq> [] \<and> \<not> wild (prefix_of c)
                   \<and> label_of c = hd (prefix_of c)
     | ntRegexp \<Rightarrow> (\<exists>rex. rex_of c = Some rex \<and> regexp_Compile env (prefix_of c) = Some rex)
     | ntParam \<Rightarrow> True
     | ntCatchAll \<Rightarrow> True)"

text \<open>An endpoint that was registered: method, pattern, handler and actions.\<close>

type_synonym 'h registration = "methodTyp \<times> string \<times> 'h option \<times> Actions option"

definition eps_ok :: "'h registration set \<Rightarrow> (string \<Rightarrow> string option) \<Rightarrow> 'h endpoints option \<Rightarrow> bool" where
  "eps_ok G K eo \<longleftrightarrow>
    (\<forall>eps. eo = Some eps \<longrightarrow>
      (\<forall>m e. map_of eps m = Some e \<longrightarrow> K (ep_pattern e) = Some [] \<and>
        patParamKeys (ep_pattern e) = Inr (ep_paramKeys e) \<and>
        (m, ep_pattern e, ep_handler e, ep_actions e) \<in> G))"

function wf_node :: "router_env \<Rightarrow> 'h registration set \<Rightarrow> (string \<Rightarrow> string option)
    \<Rightarrow> ('h, 's) node \<Rightarrow> bool" where
  "wf_node env G K n \<longleftrightarrow>
    nd_subroutes (nd n) = None
    \<and> eps_ok G K (endpoints_of n)
    \<and> sorted_wrt (<) (map label_of (children n ntStatic))
    \<and> (\<forall>t. \<forall>c\<in>set (children n t). kid_ok env t c \<and> wf_node env G (through K c) c)"
  by pat_completeness auto
termination
  by (relation "measure (\<lambda>(env, G, K, n). size n)") (auto intro: size_children)

declare wf_node.simps [simp del]

lemma wf_nodeI:
  assumes "nd_subroutes (nd n) = None" "eps_ok G K (endpoints_of n)"
    "sorted_wrt (<) (map label_of (children n ntStatic))"
    "\<And>t c. c \<in> set (children n t) \<Longrightarrow> kid_ok env t c \<and> wf_node env G (through K c) c"
  shows "wf_node env G K n"
  using assms by (subst wf_node.simps) blast

lemma wf_nodeD:
  assumes "wf_node env G K n"
  shows "eps_ok G K (endpoints_of n)" "sorted_wrt (<) (map label_of (children n ntStatic))"
    "c \<in> set (children n t) \<Longrightarrow> kid_ok env t c"
    "c \<in> set (children n t) \<Longrightarrow> wf_node env G (through K c) c"
    "nd_subroutes (nd n) = None"
  using assms by (subst (asm) wf_node.simps; blast)+

lemma wf_node_mono: "wf_node env G K n \<Longrightarrow> G \<subseteq> G' \<Longrightarrow> wf_node env G' K n"
proof (induction env G K n rule: wf_node.induct)
  case (1 env G K n)
  show ?case
    by (rule wf_nodeI)
      (use 1 wf_nodeD[OF "1.prems"(1)] in \<open>auto simp: eps_ok_def, blast?\<close>)
qed

subsection \<open>Field updates\<close>

lemma nd_set_children [simp]: "nd (set_children n t X) = nd n"
  by (cases n; cases t) auto

lemma children_set_children [simp]:
  "children (set_children n t X) t' = (if t' = t then X else children n t')"
  by (cases n; cases t; cases t') auto

lemma nd_map_nd [simp]: "nd (map_nd f n) = f (nd n)"
  by (cases n) auto

lemma children_map_nd [simp]: "children (map_nd f n) t = children n t"
  by (cases n; cases t) auto

lemma nd_new_node [simp]:
  "nd (new_node t l tb p) = \<lparr> nd_subroutes = None, nd_rex = None, nd_endpoints = None,
    nd_prefix = p, nd_tail = tb, nd_typ = t, nd_label = l \<rparr>"
  by (simp add: new_node_def)

lemma children_new_node [simp]: "children (new_node t l tb p) t' = []"
  by (cases t') (auto simp: new_node_def)

text \<open>Two nodes that differ at most in their endpoints and children.\<close>

definition same_edge :: "('h, 's) node \<Rightarrow> ('h, 's) node \<Rightarrow> bool" where
  "same_edge a b \<longleftrightarrow> typ_of a = typ_of b \<and> prefix_of a = prefix_of b \<and> tail_of a = tail_of b
    \<and> label_of a = label_of b \<and> rex_of a = rex_of b"

lemma same_edge_refl [simp]: "same_edge a a"
  by (simp add: same_edge_def)

lemma same_edge_consume: "same_edge a b \<Longrightarrow> consume a = consume b"
  by (rule ext) (auto simp: same_edge_def consume_def split: sum.split)

lemma same_edge_through: "same_edge a b \<Longrightarrow> through K a = through K b"
  by (simp add: through_def fun_eq_iff same_edge_consume)

lemma same_edge_kid_ok: "same_edge a b \<Longrightarrow> kid_ok env t a = kid_ok env t b"
  by (auto simp: same_edge_def kid_ok_def split: nodeTyp.splits)

subsection \<open>Sorting keeps the children\<close>

lemma mset_tailSort [simp]: "mset (tailSort ns) = mset ns"
proof (cases "find_index (\<lambda>n. typ_of n \<noteq> ntStatic \<and> tail_of n = CHR ''/'') (rev ns)")
  case None
  then show ?thesis by (simp add: tailSort_def del: find_index_None)
next
  case (Some k)
  then have "k < length ns" using find_index_length by fastforce
  with Some show ?thesis
    by (simp add: tailSort_def Let_def mset_swap)
qed

lemma set_nodesSort [simp]: "set (nodesSort ns) = set ns"
  unfolding nodesSort_def by (metis mset_tailSort set_mset_mset mset_sort set_sort)

lemma nodesSort_single [simp]: "nodesSort [c] = [c]"
  by (simp add: nodesSort_def tailSort_def)

lemma nodesSort_static:
  assumes "\<And>c. c \<in> set ns \<Longrightarrow> typ_of c = ntStatic"
  shows "nodesSort ns = sort_key label_of ns"
proof -
  have "find_index (\<lambda>n. typ_of n \<noteq> ntStatic \<and> tail_of n = CHR ''/'') (rev (sort_key label_of ns)) = None"
    using assms by simp
  then show ?thesis unfolding nodesSort_def tailSort_def by (simp only: option.case)
qed

lemma sorted_append_fresh:
  assumes "sorted_wrt (<) (map label_of ns)" "label_of c \<notin> label_of ` set ns"
  shows "sorted_wrt (<) (map label_of (sort_key label_of (ns @ [c])))"
  using assms
  by (simp add: strict_sorted_iff distinct_map inj_on_def)
    (metis (no_types, lifting) image_eqI)

subsection \<open>The invariant is kept by the steps of an insertion\<close>

lemma wf_appendChild:
  assumes n: "wf_node env G K n" and kid: "kid_ok env (typ_of c) c"
    and c: "wf_node env G (through K c) c"
    and fresh: "typ_of c = ntStatic \<Longrightarrow> label_of c \<notin> label_of ` set (children n ntStatic)"
  shows "wf_node env G K (appendChild n c)"
proof (rule wf_nodeI)
  show "nd_subroutes (nd (appendChild n c)) = None" "eps_ok G K (endpoints_of (appendChild n c))"
    using wf_nodeD(1,5)[OF n] by (simp_all add: appendChild_def)
  have st: "typ_of x = ntStatic" if "x \<in> set (children n ntStatic)" for x
    using wf_nodeD(3)[OF n that] by (simp add: kid_ok_def)
  show "sorted_wrt (<) (map label_of (children (appendChild n c) ntStatic))"
  proof (cases "typ_of c = ntStatic")
    case True
    then have "nodesSort (children n ntStatic @ [c]) = sort_key label_of (children n ntStatic @ [c])"
      by (intro nodesSort_static) (auto dest: st)
    with True show ?thesis
      using sorted_append_fresh[OF wf_nodeD(2)[OF n] fresh[OF True]]
      by (simp add: appendChild_def)
  qed (use wf_nodeD(2)[OF n] in \<open>simp add: appendChild_def\<close>)
  show "kid_ok env t x \<and> wf_node env G (through K x) x"
    if "x \<in> set (children (appendChild n c) t)" for t x
    using that kid c wf_nodeD(3,4)[OF n]
    by (auto simp: appendChild_def split: if_splits)
qed

lemma wf_replace_kid:
  assumes n: "wf_node env G K n" and i: "i < length (children n t)"
    and lab: "label_of c = label_of (children n t ! i)"
    and kid: "kid_ok env t c" and c: "wf_node env G (through K c) c"
  shows "wf_node env G K (set_children n t ((children n t)[i := c]))"
proof (rule wf_nodeI)
  have "map label_of ((children n t)[i := c]) = map label_of (children n t)"
    using i lab by (simp add: map_update) (metis list_update_id map_update)
  then show "sorted_wrt (<) (map label_of (children (set_children n t ((children n t)[i := c])) ntStatic))"
    using wf_nodeD(2)[OF n] by (cases "t = ntStatic") simp_all
  show "kid_ok env t' x \<and> wf_node env G (through K x) x"
    if "x \<in> set (children (set_children n t ((children n t)[i := c])) t')" for t' x
    using that kid c wf_nodeD(3,4)[OF n]
    by (auto split: if_splits elim!: in_set_updateE)
qed (use wf_nodeD(1,5)[OF n] in simp_all)

text \<open>An update of the node that ends a pattern, as \<^const>\<open>addChild\<close> passes it down.\<close>

definition good_hn :: "router_env \<Rightarrow> 'h registration set \<Rightarrow> string \<Rightarrow> (('h, 's) node \<Rightarrow> ('h, 's) node) \<Rightarrow> bool" where
  "good_hn env G pattern hn \<longleftrightarrow>
    (\<forall>x. same_edge (hn x) x) \<and>
    (\<forall>K x. wf_node env G K x \<longrightarrow> K pattern = Some [] \<longrightarrow> wf_node env G K (hn x))"

lemma wf_map_endpoints:
  assumes "wf_node env G K n" "eps_ok G K eo"
  shows "wf_node env G K (map_nd (\<lambda>d. d\<lparr>nd_endpoints := eo\<rparr>) n)"
  by (rule wf_nodeI) (use assms wf_nodeD[OF assms(1)] in auto)

lemma map_of_modifyValue:
  "map_of (modifyValue f m s) m' = (if m' = m then Some (f (Value s m)) else map_of s m')"
  by (simp add: modifyValue_def update_conv')

text \<open>The methods under which the multiplexer registers endpoints.\<close>

definition plain_method :: "router_env \<Rightarrow> methodTyp \<Rightarrow> bool" where
  "plain_method env m \<longleftrightarrow> m AND mSTUB \<noteq> mSTUB \<and> m AND mALL env \<noteq> mALL env"

text \<open>An endpoint may be set when it is among the registrations, or when its parameter keys are
  refused, in which case \<^const>\<open>setEndpoint\<close> stores nothing.\<close>

definition admitted :: "'h registration set \<Rightarrow> methodTyp \<Rightarrow> string \<Rightarrow> 'h option \<Rightarrow> Actions option \<Rightarrow> bool" where
  "admitted G m pattern h a \<longleftrightarrow> (m, pattern, h, a) \<in> G \<or> (\<exists>e. patParamKeys pattern = Inl e)"

lemma good_setEndpoint:
  assumes "plain_method env m" "admitted G m pattern h a"
  shows "good_hn env G pattern (\<lambda>x. fst (setEndpoint env m a h pattern x))"
proof -
  have eps: "eps_ok G K (endpoints_of (fst (setEndpoint env m a h pattern x)))"
    if wf: "wf_node env G K x" and K: "K pattern = Some []" for K and x :: "('a, 'b) node"
    using wf_nodeD(1)[OF wf] K assms
    by (auto simp: setEndpoint_def Let_def eps_ok_def plain_method_def admitted_def map_of_modifyValue
        split: sum.splits option.splits)
  have upd: "\<exists>eo. fst (setEndpoint env m a h pattern x) = map_nd (\<lambda>d. d\<lparr>nd_endpoints := eo\<rparr>) x" for x :: "('a, 'b) node"
    by (auto simp: setEndpoint_def Let_def split: sum.splits)
  show ?thesis unfolding good_hn_def
  proof (intro conjI allI impI)
    fix x :: "('a, 'b) node" show "same_edge (fst (setEndpoint env m a h pattern x)) x"
      using upd[of x] by (auto simp: same_edge_def)
  next
    fix K and x :: "('a, 'b) node" assume "wf_node env G K x" "K pattern = Some []"
    with eps[OF this] upd[of x] show "wf_node env G K (fst (setEndpoint env m a h pattern x))"
      by (auto intro: wf_map_endpoints)
  qed
qed

lemma wf_childless:
  "(\<And>t. children n t = []) \<Longrightarrow> endpoints_of n = None \<Longrightarrow> nd_subroutes (nd n) = None \<Longrightarrow> wf_node env G K n"
  by (rule wf_nodeI) (auto simp: eps_ok_def)

lemma addChild_nd: "addChild env hn n child search = Inr n' \<Longrightarrow> nd n' = nd n"
  by (subst (asm) addChild.simps)
    (auto simp: appendChild_def Let_def split: sum.splits if_splits)

lemma patNextSegment_not_wild_take:
  assumes "patNextSegment s = Inr (t, k, r, tb, ps, pe)" "t \<noteq> ntStatic"
  shows "\<not> wild (take ps s)"
  using assms patNextSegment_paramD(4)[of s t] patNextSegment_catchAllD(3)[of s] by (cases t) auto

lemma patNextSegment_hd_wild:
  assumes "patNextSegment s = Inr (t, k, r, tb, ps, pe)" "t \<noteq> ntStatic"
  shows "wild [hd s] \<longleftrightarrow> ps = 0"
proof -
  have ne: "s \<noteq> []" using patNextSegment_nonempty[OF assms] .
  have at: "s ! ps = CHR ''{'' \<or> s ! ps = CHR ''*''"
    using assms patNextSegment_paramD(3)[of s t] patNextSegment_catchAllD(2,7)[of s]
    by (cases t) (auto simp: nth_append min_def, metis length_append_singleton length_take less_irrefl_nat min.absorb2 nat_less_le nth_append_length order.order_iff_strict)
  show ?thesis
  proof
    assume "ps = 0"
    with at ne show "wild [hd s]" by (auto simp: hd_conv_nth)
  next
    assume "wild [hd s]"
    with patNextSegment_not_wild_take[OF assms] ne show "ps = 0" by (cases ps; cases s) auto
  qed
qed

lemma wf_append_leaf:
  assumes hn: "good_hn env G pattern hn" and n: "wf_node env G K n"
    and K: "K pattern = Some s" and c: "\<And>t. children c t = []" "endpoints_of c = None" "nd_subroutes (nd c) = None"
    and kid: "kid_ok env (typ_of c) c" and con: "consume c s = Some []"
    and fresh: "typ_of c = ntStatic \<Longrightarrow> label_of c \<notin> label_of ` set (children n ntStatic)"
  shows "wf_node env G K (appendChild n (hn c))"
proof -
  from hn have se: "same_edge (hn c) c" by (simp add: good_hn_def)
  moreover have "wf_node env G (through K c) (hn c)"
    using hn wf_childless[OF c] K con by (simp add: good_hn_def through_def)
  ultimately show ?thesis
    using n kid fresh
    by (intro wf_appendChild)
      (auto simp: same_edge_through[OF se] same_edge_kid_ok[OF se] same_edge_def)
qed

lemma wf_append_sub:
  assumes "wf_node env G K n" "nd c' = nd c" "wf_node env G (through K c) c'"
    "kid_ok env (typ_of c) c"
    "typ_of c = ntStatic \<Longrightarrow> label_of c \<notin> label_of ` set (children n ntStatic)"
  shows "wf_node env G K (appendChild n c')"
proof -
  have se: "same_edge c' c" using assms(2) by (simp add: same_edge_def)
  show ?thesis
    using assms by (intro wf_appendChild)
      (auto simp: same_edge_through[OF se] same_edge_kid_ok[OF se])
qed

lemma compileSegD:
  assumes "compileSeg env st r child = Inr child1"
  shows "children child1 = children child"
    "endpoints_of child1 = endpoints_of child \<and> nd_subroutes (nd child1) = nd_subroutes (nd child)"
    "label_of child1 = label_of child"
    "st = ntRegexp \<Longrightarrow> prefix_of child1 = r \<and> (\<exists>rex. rex_of child1 = Some rex \<and> regexp_Compile env r = Some rex)"
    "st \<noteq> ntRegexp \<Longrightarrow> child1 = child"
  using assms by (auto simp: compileSeg_def split: if_splits option.splits)

lemma addChild_segE:
  assumes add: "addChild env hn n child search = Inr n'"
    and seg: "patNextSegment search = Inr (st, k, r, stail, 0, pe)" and st: "st \<noteq> ntStatic"
    and child: "child = new_node t (hd search) tb pfx"
  obtains c where "\<And>t. children c t = []" "endpoints_of c = None \<and> nd_subroutes (nd c) = None" "typ_of c = st"
    "kid_ok env st c" "consume c search = Some (drop pe search)"
    "pe = length search \<Longrightarrow> n' = appendChild n (hn c)"
    "pe < length search \<Longrightarrow> \<exists>c'. addChild env hn c
        (new_node ntStatic (hd (drop pe search)) CHR 0x00 (drop pe search)) (drop pe search) = Inr c'
        \<and> n' = appendChild n c'"
proof -
  from add seg st obtain child1 where c1: "compileSeg env st r child = Inr child1"
    by (subst (asm) addChild.simps) (auto split: sum.splits)
  note c1D = compileSegD[OF c1]
  define c where "c = map_nd (\<lambda>d. d\<lparr>nd_typ := st, nd_tail := stail\<rparr>) child1"
  have pe: "pe \<le> length search" "st = ntCatchAll \<Longrightarrow> pe = length search"
    using patNextSegment_progress(2)[OF seg st] patNextSegment_catchAllD(1)[of search] seg by auto
  show thesis
  proof (rule that[of c])
    show "children c t = []" for t using c1D(1) child by (simp add: c_def)
    show "endpoints_of c = None \<and> nd_subroutes (nd c) = None" "typ_of c = st" using c1D(2) child by (simp_all add: c_def)
    show "kid_ok env st c" using c1D(4,5) child st
      by (auto simp: c_def kid_ok_def split: nodeTyp.splits)
    show "consume c search = Some (drop pe search)"
      using seg st c1D(4) by (auto simp: consume_def c_def)
    show "n' = appendChild n (hn c)" if "pe = length search"
      using add seg st c1 that by (subst (asm) addChild.simps) (simp add: c_def)
    show "\<exists>c'. addChild env hn c
        (new_node ntStatic (hd (drop pe search)) CHR 0x00 (drop pe search)) (drop pe search) = Inr c'
        \<and> n' = appendChild n c'" if "pe < length search"
      using add seg st c1 that pe
      by (subst (asm) addChild.simps) (auto simp: c_def Let_def split: sum.splits if_splits)
  qed
qed

lemma addChild_prefixE:
  assumes add: "addChild env hn n child search = Inr n'"
    and seg: "patNextSegment search = Inr (st, k, r, stail, ps, pe)" and st: "st \<noteq> ntStatic"
    and ps: "0 < ps"
    and child: "child = new_node ntStatic (hd search) CHR 0x00 search"
  obtains c c' where "\<And>t. children c t = []" "endpoints_of c = None \<and> nd_subroutes (nd c) = None" "typ_of c = ntStatic"
    "label_of c = hd search" "kid_ok env ntStatic c" "consume c search = Some (drop ps search)"
    "addChild env hn c (new_node st (hd (drop ps search)) stail []) (drop ps search) = Inr c'"
    "n' = appendChild n c'"
proof -
  from add seg st obtain child1 where c1: "compileSeg env st r child = Inr child1"
    by (subst (asm) addChild.simps) (auto split: sum.splits)
  note c1D = compileSegD[OF c1]
  define c where "c = map_nd (\<lambda>d. d\<lparr>nd_typ := ntStatic, nd_prefix := take ps search, nd_rex := None\<rparr>) child1"
  obtain c' where c': "addChild env hn c (new_node st (hd (drop ps search)) stail []) (drop ps search) = Inr c'"
    "n' = appendChild n c'"
    using add seg st c1 ps
    by (subst (asm) addChild.simps) (auto simp: c_def Let_def split: sum.splits if_splits)
  have ne: "search \<noteq> []" using patNextSegment_nonempty[OF seg st] .
  have tl: "tail_of child1 = CHR 0x00"
    using c1 child by (auto simp: compileSeg_def split: if_splits option.splits)
  have len: "length (take ps search) = ps"
    using patNextSegment_progress[OF seg st] by simp
  show thesis
  proof (rule that[OF _ _ _ _ _ _ c'])
    show "children c t = []" for t using c1D(1) child by (simp add: c_def)
    show "endpoints_of c = None \<and> nd_subroutes (nd c) = None" "typ_of c = ntStatic" "label_of c = hd search"
      using c1D(2,3) child by (simp_all add: c_def)
    show "kid_ok env ntStatic c"
      using c1D(3) child ps ne patNextSegment_not_wild_take[OF seg st] tl
      by (simp add: c_def kid_ok_def hd_take)
    show "consume c search = Some (drop ps search)"
      using len by (simp add: consume_def c_def take_is_prefix)
  qed
qed

lemma wf_addChild:
  assumes hn: "good_hn env G pattern hn"
  shows "addChild env hn n child search = Inr n' \<Longrightarrow> wf_node env G K n \<Longrightarrow> K pattern = Some search
    \<Longrightarrow> search \<noteq> [] \<Longrightarrow> child = new_node t (hd search) tb pfx
    \<Longrightarrow> (\<not> wild [hd search] \<Longrightarrow> t = ntStatic \<and> tb = CHR 0x00 \<and> pfx = search
          \<and> hd search \<notin> label_of ` set (children n ntStatic))
    \<Longrightarrow> wf_node env G K n'"
proof (induction "length search" arbitrary: n child search n' K t tb pfx rule: less_induct)
  case less
  obtain st k r stail ps pe where seg: "patNextSegment search = Inr (st, k, r, stail, ps, pe)"
    using less.prems(1) by (subst (asm) addChild.simps) (auto split: sum.splits)
  show ?case
  proof (cases "st = ntStatic")
    case True
    with seg have nw: "\<not> wild search" by simp
    then have hd: "\<not> wild [hd search]" using less.prems(4) by (cases search) auto
    have "n' = appendChild n (hn child)"
      using less.prems(1) seg True by (subst (asm) addChild.simps) simp
    then show ?thesis
      using less.prems(2-5) less.prems(6)[OF hd] nw
      by (auto intro!: wf_append_leaf[OF hn, where s = search] simp: kid_ok_def consume_def)
  next
    case st: False
    note prog = patNextSegment_progress[OF seg st]
    show ?thesis
    proof (cases "ps = 0")
      case True
      with seg have seg0: "patNextSegment search = Inr (st, k, r, stail, 0, pe)" by simp
      obtain c where c: "\<And>t. children c t = []" "endpoints_of c = None \<and> nd_subroutes (nd c) = None" "typ_of c = st"
        "kid_ok env st c" "consume c search = Some (drop pe search)"
        and leaf: "pe = length search \<Longrightarrow> n' = appendChild n (hn c)"
        and sub: "pe < length search \<Longrightarrow> \<exists>c'. addChild env hn c
            (new_node ntStatic (hd (drop pe search)) CHR 0x00 (drop pe search)) (drop pe search) = Inr c'
            \<and> n' = appendChild n c'"
        using addChild_segE[OF less.prems(1) seg0 st less.prems(5)] by metis
      show ?thesis
      proof (cases "pe = length search")
        case True
        with leaf c less.prems(2,3) st show ?thesis
          by (auto intro!: wf_append_leaf[OF hn, where s = search])
      next
        case False
        with prog have lt: "pe < length search" by simp
        from sub[OF this] obtain c' where c': "addChild env hn c
            (new_node ntStatic (hd (drop pe search)) CHR 0x00 (drop pe search)) (drop pe search) = Inr c'"
          "n' = appendChild n c'" by blast
        have "wf_node env G (through K c) c'"
          by (rule less.hyps[OF _ c'(1) _ _ _ refl])
            (use lt prog c less.prems(3) in \<open>auto simp: through_def intro: wf_childless\<close>)
        with c'(2) addChild_nd[OF c'(1)] less.prems(2) c st show ?thesis
          by (auto intro!: wf_append_sub[of env G K n c' c])
      qed
    next
      case False
      then have nw: "\<not> wild [hd search]" using patNextSegment_hd_wild[OF seg st] by simp
      note child = less.prems(6)[OF nw]
      have ps: "0 < ps" using False by simp
      obtain c c' where c: "\<And>t. children c t = []" "endpoints_of c = None \<and> nd_subroutes (nd c) = None" "typ_of c = ntStatic"
        "label_of c = hd search" "kid_ok env ntStatic c" "consume c search = Some (drop ps search)"
        and c': "addChild env hn c (new_node st (hd (drop ps search)) stail []) (drop ps search) = Inr c'"
        "n' = appendChild n c'"
        using addChild_prefixE[OF less.prems(1) seg st ps] less.prems(5) child by metis
      have "wild [hd (drop ps search)]"
        using patNextSegment_hd_wild[OF patNextSegment_drop[OF seg st] st] by simp
      then have "wf_node env G (through K c) c'"
        by (intro less.hyps[OF _ c'(1) _ _ _ refl])
          (use ps prog c less.prems(3) in \<open>auto simp: through_def intro: wf_childless\<close>)
      then show ?thesis
        unfolding c'(2) using addChild_nd[OF c'(1)] less.prems(2) c child
        by (intro wf_append_sub[of env G K n c' c]) simp_all
    qed
  qed
qed

lemma wf_map_nd:
  "nd_endpoints (f (nd n)) = endpoints_of n \<Longrightarrow> nd_subroutes (f (nd n)) = nd_subroutes (nd n) \<Longrightarrow> wf_node env G K (map_nd f n) = wf_node env G K n"
  by (subst (1 2) wf_node.simps) simp

lemma setEndpoint_same_edge: "same_edge (fst (setEndpoint env m a h pattern x)) x"
  by (auto simp: setEndpoint_def Let_def same_edge_def split: sum.splits)

lemma replaceChild_static:
  assumes "getEdge n ntStatic l CHR 0x00 pfx = Some i" "typ_of x = ntStatic"
  shows "replaceChild n l CHR 0x00 x = Inr (set_children n ntStatic
    ((children n ntStatic)[i := map_nd (\<lambda>d. d\<lparr>nd_label := l, nd_tail := CHR 0x00\<rparr>) x]))"
  using assms by (simp add: getEdge_def replaceChild_def)

lemma consume_split:
  assumes "typ_of a = ntStatic" "typ_of b = ntStatic" "typ_of c = ntStatic"
    "prefix_of c = prefix_of a @ prefix_of b"
  shows "through (through K a) b = through K c"
  using assms
  by (auto simp: through_def fun_eq_iff consume_def prefix_def bind_eq_None_conv
      split: Option.bind_splits)

lemma getEdge_kid:
  assumes "wf_node env G K n" "getEdge n t l tb pfx = Some i" "c = children n t ! i"
  shows "i < length (children n t)" "kid_ok env t c" "wf_node env G (through K c) c"
    "label_of c = l" "tail_of c = tb" "t = ntRegexp \<Longrightarrow> prefix_of c = pfx"
proof -
  from getEdge_mem[OF assms(2)] have i: "i < length (children n t)" "c \<in> set (children n t)"
    using assms(3) by auto
  with wf_nodeD(3,4)[OF assms(1) i(2)]
  show "i < length (children n t)" "kid_ok env t c" "wf_node env G (through K c) c" by auto
  show "label_of c = l" "tail_of c = tb" "t = ntRegexp \<Longrightarrow> prefix_of c = pfx"
    using find_index_SomeD[OF assms(2)[unfolded getEdge_def]] assms(3) by auto
qed

lemma wf_put:
  assumes n: "wf_node env G K n" and edge: "getEdge n ntStatic l CHR 0x00 pfx = Some i"
    and x: "same_edge x (new_node ntStatic l' tb' p)" and p: "p \<noteq> []" "\<not> wild p" "l = hd p"
    and wf: "wf_node env G (through K x) x"
  shows "wf_node env G K (set_children n ntStatic ((children n ntStatic)[i :=
    map_nd (\<lambda>d. d\<lparr>nd_label := l, nd_tail := CHR 0x00\<rparr>) x]))"
proof -
  let ?x = "map_nd (\<lambda>d. d\<lparr>nd_label := l, nd_tail := CHR 0x00\<rparr>) x"
  have con: "consume ?x = consume x" using x by (auto simp: consume_def same_edge_def)
  have thr: "through K ?x = through K x" unfolding through_def con ..
  have "wf_node env G (through K ?x) ?x" unfolding thr using wf by (simp add: wf_map_nd)
  moreover have "kid_ok env ntStatic ?x" using x p by (simp add: kid_ok_def same_edge_def)
  ultimately show ?thesis
    using getEdge_kid(1,4)[OF n edge refl] by (intro wf_replace_kid[OF n]) simp_all
qed

lemma same_edge_trans: "same_edge a b \<Longrightarrow> same_edge b c \<Longrightarrow> same_edge a c"
  by (simp add: same_edge_def)

lemma same_edge_nd: "nd a = nd b \<Longrightarrow> same_edge a b"
  by (simp add: same_edge_def)

text \<open>The two halves of a split node.\<close>

lemma split_halves:
  assumes n: "wf_node env G K n" and edge: "getEdge n ntStatic (hd search) CHR 0x00 [] = Some i"
    and c: "c = children n ntStatic ! i" and cp: "cp = longestPrefix search (prefix_of c)"
    and lt: "cp \<noteq> length (prefix_of c)" and ne: "search \<noteq> []"
    and child: "child = new_node ntStatic CHR 0x00 CHR 0x00 (take cp search)"
    and c': "c' = map_nd (\<lambda>d. d\<lparr>nd_label := nd_prefix d ! cp, nd_prefix := drop cp (nd_prefix d)\<rparr>) c"
  shows "0 < cp" "cp \<le> length search" "\<not> wild (take cp search)" "take cp search \<noteq> []"
    "hd (take cp search) = hd search"
    "addChild env id child c' (prefix_of c') = Inr (appendChild child c')"
    "wf_node env G (through K child) (appendChild child c')"
    "children (appendChild child c') ntStatic = [c']"
    "label_of c' = prefix_of c ! cp"
proof -
  note kid = getEdge_kid[OF n edge c]
  from kid(2,4) have st: "typ_of c = ntStatic" "prefix_of c \<noteq> []" "\<not> wild (prefix_of c)"
    "hd (prefix_of c) = hd search" "tail_of c = CHR 0x00"
    by (auto simp: kid_ok_def)
  note le = longestPrefix_le[of search "prefix_of c", folded cp]
  have take: "take cp search = take cp (prefix_of c)"
    unfolding cp by (rule longestPrefix_take)
  have splitp: "prefix_of c = take cp search @ prefix_of c'"
    by (simp add: take c')
  show pos: "0 < cp" using longestPrefix_pos[of search "prefix_of c"] st ne cp by simp
  show "cp \<le> length search" using le by simp
  show "\<not> wild (take cp search)" using st(3) splitp by (metis wild_simps(2))
  show "take cp search \<noteq> []" "hd (take cp search) = hd search" using pos ne by auto
  have w': "\<not> wild (prefix_of c')" using st(3) splitp by (metis wild_simps(2))
  have ne': "prefix_of c' \<noteq> []" using le lt by (simp add: c')
  have lab: "label_of c' = prefix_of c ! cp" "hd (prefix_of c') = prefix_of c ! cp"
    using le lt by (simp_all add: c' hd_drop_conv_nth)
  then show "label_of c' = prefix_of c ! cp" by simp
  show add: "addChild env id child c' (prefix_of c') = Inr (appendChild child c')"
    using w' by (subst addChild.simps) (simp add: patNextSegment_static)
  have kid': "kid_ok env ntStatic c'" using st lab ne' w' by (simp add: kid_ok_def c')
  have "through (through K child) c' = through K c"
    using splitp st by (intro consume_split) (simp_all add: child c')
  then have "wf_node env G (through (through K child) c') c'"
    using kid(3) by (simp add: c' wf_map_nd)
  then show "wf_node env G (through K child) (appendChild child c')"
    using kid' st by (intro wf_appendChild wf_childless[of child]) (simp_all add: child c')
  show "children (appendChild child c') ntStatic = [c']"
    using st by (simp add: appendChild_def child c')
qed

lemma split_diff:
  assumes "cp = longestPrefix search p" "cp \<noteq> length p" "drop cp search \<noteq> []"
  shows "hd (drop cp search) \<noteq> p ! cp"
  using assms longestPrefix_diff[of search p] longestPrefix_le(2)[of search p]
  by (simp add: hd_drop_conv_nth)

text \<open>The result of a split: the child \<open>c\<close> is replaced by its upper half \<open>x\<close>, which carries the new
  endpoint or the rest of the pattern.\<close>

lemma splitNode_result:
  fixes n c :: "('h, 's) node"
  assumes n: "wf_node env G K n" and edge: "getEdge n ntStatic (hd search) CHR 0x00 [] = Some i"
    and c: "c = children n ntStatic ! i" and cp: "cp = longestPrefix search (prefix_of c)"
    and lt: "cp \<noteq> length (prefix_of c)" and ne: "search \<noteq> []"
    and child: "child = new_node ntStatic CHR 0x00 CHR 0x00 (take cp search)"
    and c': "c' = map_nd (\<lambda>d. d\<lparr>nd_label := nd_prefix d ! cp, nd_prefix := drop cp (nd_prefix d)\<rparr>) c"
    and hn: "hn = (\<lambda>x. fst (setEndpoint env m a h pattern x))"
  obtains x where "same_edge x child"
    "fst (splitNode env m a h pattern n search CHR 0x00 c cp) =
      set_children n ntStatic ((children n ntStatic)[i :=
        map_nd (\<lambda>d. d\<lparr>nd_label := hd search, nd_tail := CHR 0x00\<rparr>) x])"
    "drop cp search = [] \<longrightarrow> x = hn (appendChild child c')"
    "drop cp search \<noteq> [] \<longrightarrow> x = (case addChild env hn (appendChild child c')
        (new_node ntStatic (hd (drop cp search)) CHR 0x00 (drop cp search)) (drop cp search) of
          Inl _ \<Rightarrow> appendChild child c' | Inr x \<Rightarrow> x)"
    "snd (splitNode env m a h pattern n search CHR 0x00 c cp) =
      (if drop cp search = [] then snd (setEndpoint env m a h pattern (appendChild child c'))
       else case addChild env hn (appendChild child c')
        (new_node ntStatic (hd (drop cp search)) CHR 0x00 (drop cp search)) (drop cp search) of
          Inl e \<Rightarrow> Some e | Inr y \<Rightarrow> snd (setEndpoint env m a h pattern y))"
proof -
  define put where "put x = set_children n ntStatic ((children n ntStatic)[i :=
    map_nd (\<lambda>d. d\<lparr>nd_label := hd search, nd_tail := CHR 0x00\<rparr>) x])" for x
  let ?child1 = "appendChild child c'"
  note add = split_halves(6)[OF n edge c cp lt ne child c']
  have repl: "replaceChild n (hd search) CHR 0x00 x = Inr (put x)" if "same_edge x child" for x
    using replaceChild_static[OF edge, of x] that by (simp add: put_def same_edge_def child)
  have e1: "same_edge ?child1 child" by (simp add: same_edge_nd appendChild_def)
  note unf = splitNode_def Let_def child[symmetric] c'[symmetric] hn[symmetric]
  show thesis
  proof (cases "drop cp search = []")
    case True
    have e2: "same_edge (hn ?child1) child"
      unfolding hn by (rule same_edge_trans[OF setEndpoint_same_edge e1])
    have "fst (splitNode env m a h pattern n search CHR 0x00 c cp) = put (hn ?child1)"
      "snd (splitNode env m a h pattern n search CHR 0x00 c cp) = snd (setEndpoint env m a h pattern ?child1)"
      unfolding unf using True add repl[OF e2] repl[OF same_edge_refl] by (simp_all add: split_def hn)
    with that[OF e2] True show thesis by (simp add: put_def)
  next
    case False
    define x where "x = (case addChild env hn ?child1
        (new_node ntStatic (hd (drop cp search)) CHR 0x00 (drop cp search)) (drop cp search) of
          Inl _ \<Rightarrow> ?child1 | Inr x \<Rightarrow> x)"
    have e2: "same_edge x child"
      using e1 by (auto simp: x_def same_edge_def split: sum.split dest!: addChild_nd)
    have "fst (splitNode env m a h pattern n search CHR 0x00 c cp) = put x"
      "snd (splitNode env m a h pattern n search CHR 0x00 c cp) = (case addChild env hn ?child1
        (new_node ntStatic (hd (drop cp search)) CHR 0x00 (drop cp search)) (drop cp search) of
          Inl e \<Rightarrow> Some e | Inr y \<Rightarrow> snd (setEndpoint env m a h pattern y))"
      unfolding unf using False add repl[OF e2] repl[OF e1] repl[OF same_edge_refl]
      by (auto simp: x_def split: sum.splits)
    with that[OF e2] False show thesis by (simp add: put_def x_def)
  qed
qed

lemma setEndpoint_err: "snd (setEndpoint env m a h pattern x) \<noteq> None \<Longrightarrow> admitted G m pattern h a"
  by (auto simp: setEndpoint_def Let_def admitted_def split: sum.splits)

lemma wf_splitNode:
  fixes n c :: "('h, 's) node"
  assumes n: "wf_node env G K n" and edge: "getEdge n ntStatic (hd search) CHR 0x00 [] = Some i"
    and c: "c = children n ntStatic ! i" and cp: "cp = longestPrefix search (prefix_of c)"
    and lt: "cp \<noteq> length (prefix_of c)" and ne: "search \<noteq> []"
    and K: "K pattern = Some search"
    and m: "plain_method env m"
    and ok: "admitted G m pattern h a \<or> snd (splitNode env m a h pattern n search CHR 0x00 c cp) \<noteq> None"
  shows "wf_node env G K (fst (splitNode env m a h pattern n search CHR 0x00 c cp))"
proof -
  define child where "child = (new_node ntStatic CHR 0x00 CHR 0x00 (take cp search) :: ('h, 's) node)"
  define c' where "c' = map_nd (\<lambda>d. d\<lparr>nd_label := nd_prefix d ! cp, nd_prefix := drop cp (nd_prefix d)\<rparr>) c"
  define hn where "hn = (\<lambda>x :: ('h, 's) node. fst (setEndpoint env m a h pattern x))"
  note halves = split_halves[OF n edge c cp lt ne child_def c'_def]
  have good: "good_hn env G pattern hn" if "admitted G m pattern h a"
    unfolding hn_def by (rule good_setEndpoint[OF m that])
  obtain x where x: "same_edge x child"
    "fst (splitNode env m a h pattern n search CHR 0x00 c cp) =
      set_children n ntStatic ((children n ntStatic)[i :=
        map_nd (\<lambda>d. d\<lparr>nd_label := hd search, nd_tail := CHR 0x00\<rparr>) x])"
    and nil: "drop cp search = [] \<longrightarrow> x = hn (appendChild child c')"
    and rest: "drop cp search \<noteq> [] \<longrightarrow> x = (case addChild env hn (appendChild child c')
        (new_node ntStatic (hd (drop cp search)) CHR 0x00 (drop cp search)) (drop cp search) of
          Inl _ \<Rightarrow> appendChild child c' | Inr x \<Rightarrow> x)"
    and err: "snd (splitNode env m a h pattern n search CHR 0x00 c cp) =
      (if drop cp search = [] then snd (setEndpoint env m a h pattern (appendChild child c'))
       else case addChild env hn (appendChild child c')
        (new_node ntStatic (hd (drop cp search)) CHR 0x00 (drop cp search)) (drop cp search) of
          Inl e \<Rightarrow> Some e | Inr y \<Rightarrow> snd (setEndpoint env m a h pattern y))"
    by (rule splitNode_result[OF n edge c cp lt ne child_def c'_def hn_def])
  have thr: "through K child pattern = Some (drop cp search)"
    using K halves(2) by (simp add: through_def consume_def child_def take_is_prefix)
  have "wf_node env G (through K child) x"
  proof (cases "drop cp search = []")
    case True
    with ok err have "admitted G m pattern h a" by (auto intro: setEndpoint_err)
    with True nil good halves(7) thr show ?thesis by (simp add: good_hn_def)
  next
    case False
    have "hd (drop cp search) \<notin> label_of ` set (children (appendChild child c') ntStatic)"
      using split_diff[OF cp lt] False halves(8,9) by simp
    then have "wf_node env G (through K child) y" if "admitted G m pattern h a" "addChild env hn (appendChild child c')
        (new_node ntStatic (hd (drop cp search)) CHR 0x00 (drop cp search)) (drop cp search) = Inr y" for y
      using wf_addChild[OF good[OF that(1)] that(2) halves(7) thr False refl] by simp
    then show ?thesis
      using rest False halves(7) ok err by (auto split: sum.splits intro: setEndpoint_err)
  qed
  then show ?thesis
    unfolding x(2) using halves(3-5) same_edge_through[OF x(1)]
    by (intro wf_put[OF n edge x(1)[unfolded child_def]]) simp_all
qed

lemma splitNode_nd: "nd (fst (splitNode env m a h pattern n search tb c cp)) = nd n"
  by (auto simp: splitNode_def Let_def replaceChild_def split_def split: sum.splits option.splits)

lemma insertSegmentD:
  assumes "insertSegment s = Inr (st, k, r, stail, ps, pe)" "s \<noteq> []"
  shows "st = ntStatic \<Longrightarrow> \<not> wild [hd s] \<and> stail = CHR 0x00 \<and> r = []"
    "st \<noteq> ntStatic \<Longrightarrow> wild [hd s] \<and> ps = 0 \<and> patNextSegment s = Inr (st, k, r, stail, ps, pe)"
  using assms patNextSegment_hd_wild[of s st k r stail ps pe]
  by (cases s; auto simp: insertSegment_def split: if_splits)+

text \<open>The branches of \<^const>\<open>insertRoute\<close>.\<close>

lemma insertRoute_Nil: "insertRoute env m pattern a h n [] = setEndpoint env m a h pattern n"
  by (simp add: insertRoute.simps)

lemma insertRoute_bad:
  "search \<noteq> [] \<Longrightarrow> insertSegment search = Inl e \<Longrightarrow> insertRoute env m pattern a h n search = (n, Some e)"
  by (simp add: insertRoute.simps Let_def)

lemma insertRoute_new:
  assumes "search \<noteq> []" "insertSegment search = Inr (st, k, r, stail, ps, pe)"
    "getEdge n st (hd search) stail (if st = ntRegexp then r else []) = None"
  shows "insertRoute env m pattern a h n search =
    (case addChild env (\<lambda>hn. fst (setEndpoint env m a h pattern hn)) n
            (new_node ntStatic (hd search) stail search) search of
       Inl err \<Rightarrow> (n, Some err)
     | Inr n' \<Rightarrow> (n', snd (setEndpoint env m a h pattern n')))"
  using assms by (subst insertRoute.simps) (simp add: Let_def)

lemma insertRoute_down:
  assumes "search \<noteq> []" "insertSegment search = Inr (st, k, r, stail, ps, pe)"
    "getEdge n st (hd search) stail (if st = ntRegexp then r else []) = Some i"
    "c = children n st ! i"
    "typ_of c \<noteq> ntStatic \<and> s' = drop pe search \<or>
     typ_of c = ntStatic \<and> longestPrefix search (prefix_of c) = length (prefix_of c)
       \<and> s' = drop (length (prefix_of c)) search"
  shows "insertRoute env m pattern a h n search =
    (updateChild n st i (fst (insertRoute env m pattern a h c s')), snd (insertRoute env m pattern a h c s'))"
  using assms by (subst insertRoute.simps) (auto simp: Let_def split_def)

lemma insertRoute_split:
  assumes "search \<noteq> []" "insertSegment search = Inr (st, k, r, stail, ps, pe)"
    "getEdge n st (hd search) stail (if st = ntRegexp then r else []) = Some i"
    "c = children n st ! i" "typ_of c = ntStatic"
    "longestPrefix search (prefix_of c) \<noteq> length (prefix_of c)"
  shows "insertRoute env m pattern a h n search =
    splitNode env m a h pattern n search stail c (longestPrefix search (prefix_of c))"
  using assms by (subst insertRoute.simps) (simp add: Let_def)

lemma insertRoute_cases [case_names Nil Bad New Down Split]:
  fixes n :: "('h, 's) node"
  obtains "search = []"
  | e where "search \<noteq> []" "insertSegment search = Inl e"
  | st k r stail ps pe where "search \<noteq> []" "insertSegment search = Inr (st, k, r, stail, ps, pe)"
      "getEdge n st (hd search) stail (if st = ntRegexp then r else []) = None"
  | st k r stail ps pe i c s' where "search \<noteq> []"
      "insertSegment search = Inr (st, k, r, stail, ps, pe)"
      "getEdge n st (hd search) stail (if st = ntRegexp then r else []) = Some i"
      "c = children n st ! i"
      "typ_of c \<noteq> ntStatic \<and> s' = drop pe search \<or>
       typ_of c = ntStatic \<and> longestPrefix search (prefix_of c) = length (prefix_of c)
         \<and> s' = drop (length (prefix_of c)) search"
  | st k r stail ps pe i c where "search \<noteq> []"
      "insertSegment search = Inr (st, k, r, stail, ps, pe)"
      "getEdge n st (hd search) stail (if st = ntRegexp then r else []) = Some i"
      "c = children n st ! i" "typ_of c = ntStatic"
      "longestPrefix search (prefix_of c) \<noteq> length (prefix_of c)"
proof (cases "search = []")
  case True
  with that(1) show thesis by blast
next
  case ne: False
  show thesis
  proof (cases "insertSegment search")
    case (Inl e)
    with ne that(2) show thesis by blast
  next
    case (Inr x)
    obtain st k r stail ps pe where "x = (st, k, r, stail, ps, pe)" by (rule prod_cases6)
    with Inr have seg: "insertSegment search = Inr (st, k, r, stail, ps, pe)" by simp
    show thesis
    proof (cases "getEdge n st (hd search) stail (if st = ntRegexp then r else [])")
      case None
      from that(3)[OF ne seg this] show thesis .
    next
      case (Some i)
      from that(4)[OF ne seg Some refl] that(5)[OF ne seg Some refl] show thesis by blast
    qed
  qed
qed

lemma insertRoute_same_edge: "same_edge (fst (insertRoute env m pattern a h n search)) n"
proof (cases rule: insertRoute_cases[where search = search and n = n])
  case (New st k r stail ps pe)
  show ?thesis
    unfolding insertRoute_new[OF New] by (auto split: sum.split intro!: same_edge_nd addChild_nd)
next
  case (Down st k r stail ps pe i c s')
  show ?thesis unfolding insertRoute_down[OF Down] by (simp add: updateChild_def same_edge_nd)
qed (simp_all add: insertRoute_Nil insertRoute_bad insertRoute_split setEndpoint_same_edge
    splitNode_nd same_edge_nd)

lemma wf_updateChild:
  assumes n: "wf_node env G K n" and i: "i < length (children n t)" and c: "c = children n t ! i"
    and se: "same_edge c' c" and wf: "wf_node env G (through K c) c'"
  shows "wf_node env G K (updateChild n t i c')"
  unfolding updateChild_def
proof (rule wf_replace_kid[OF n i])
  show "label_of c' = label_of (children n t ! i)" using se c by (simp add: same_edge_def)
  show "kid_ok env t c'"
    unfolding same_edge_kid_ok[OF se] using wf_nodeD(3)[OF n] i c by simp
  show "wf_node env G (through K c') c'" unfolding same_edge_through[OF se] by (rule wf)
qed

text \<open>When the loop goes down, the edge takes its part of the pattern.\<close>

lemma insert_down_consume:
  assumes n: "wf_node env G K n" and ne: "search \<noteq> []"
    and seg: "insertSegment search = Inr (st, k, r, stail, ps, pe)"
    and edge: "getEdge n st (hd search) stail (if st = ntRegexp then r else []) = Some i"
    and c: "c = children n st ! i"
  shows "typ_of c \<noteq> ntStatic \<Longrightarrow> consume c search = Some (drop pe search)"
    "typ_of c = ntStatic \<Longrightarrow> longestPrefix search (prefix_of c) = length (prefix_of c)
      \<Longrightarrow> consume c search = Some (drop (length (prefix_of c)) search)"
    "typ_of c = st"
proof -
  note kid = getEdge_kid[OF n edge c]
  then show "typ_of c = st" by (simp add: kid_ok_def)
  then show "typ_of c \<noteq> ntStatic \<Longrightarrow> consume c search = Some (drop pe search)"
    using insertSegmentD(2)[OF seg ne] kid(5,6) by (auto simp: consume_def)
  show "typ_of c = ntStatic \<Longrightarrow> longestPrefix search (prefix_of c) = length (prefix_of c)
      \<Longrightarrow> consume c search = Some (drop (length (prefix_of c)) search)"
    by (simp add: consume_def longestPrefix_full)
qed

lemma getEdge_fresh:
  assumes n: "wf_node env G K n" and ne: "search \<noteq> []"
    and seg: "insertSegment search = Inr (st, k, r, stail, ps, pe)"
    and edge: "getEdge n st (hd search) stail (if st = ntRegexp then r else []) = None"
    and nw: "\<not> wild [hd search]"
  shows "hd search \<notin> label_of ` set (children n ntStatic)" "stail = CHR 0x00"
proof -
  from nw insertSegmentD(2)[OF seg ne] have st: "st = ntStatic" by blast
  with insertSegmentD(1)[OF seg ne] show "stail = CHR 0x00" by simp
  with st edge show "hd search \<notin> label_of ` set (children n ntStatic)"
    using wf_nodeD(3)[OF n, of _ ntStatic] by (auto simp: getEdge_def kid_ok_def)
qed

theorem wf_insertRoute:
  fixes n :: "('h, 's) node"
  assumes m: "plain_method env m"
  shows "wf_node env G K n \<Longrightarrow> K pattern = Some search
    \<Longrightarrow> admitted G m pattern h a \<or> snd (insertRoute env m pattern a h n search) \<noteq> None
    \<Longrightarrow> wf_node env G K (fst (insertRoute env m pattern a h n search))"
proof (induction "size n" arbitrary: n search K rule: less_induct)
  case less
  have hn: "good_hn env G pattern (\<lambda>x :: ('h, 's) node. fst (setEndpoint env m a h pattern x))"
    if "admitted G m pattern h a"
    by (rule good_setEndpoint[OF m that])
  show ?case
  proof (cases rule: insertRoute_cases[where search = search and n = n])
    case Nil
    with less.prems(3) have "admitted G m pattern h a"
      by (auto simp: insertRoute_Nil intro: setEndpoint_err)
    with Nil hn less.prems show ?thesis by (simp add: insertRoute_Nil good_hn_def)
  next
    case (Bad e)
    with less.prems(1) show ?thesis by (simp add: insertRoute_bad)
  next
    case (New st k r stail ps pe)
    let ?add = "addChild env (\<lambda>hn. fst (setEndpoint env m a h pattern hn)) n
        (new_node ntStatic (hd search) stail search) search"
    show ?thesis
    proof (cases ?add)
      case (Inl e)
      with less.prems(1) show ?thesis unfolding insertRoute_new[OF New] by simp
    next
      case (Inr n')
      with less.prems(3) have "admitted G m pattern h a"
        unfolding insertRoute_new[OF New] by (auto intro: setEndpoint_err)
      from wf_addChild[OF hn[OF this] Inr less.prems(1,2) New(1) refl] Inr
        getEdge_fresh[OF less.prems(1) New]
      show ?thesis unfolding insertRoute_new[OF New] by simp
    qed
  next
    case (Down st k r stail ps pe i c s')
    note kid = getEdge_kid[OF less.prems(1) Down(3,4)]
    have "size c < size n" unfolding Down(4) using kid(1) by (rule size_children_nth)
    moreover have "consume c search = Some s'"
      using insert_down_consume[OF less.prems(1) Down(1-4)] Down(5) by auto
    ultimately show ?thesis
      unfolding insertRoute_down[OF Down] fst_conv using less.hyps[OF _ kid(3)] less.prems(2,3)
      by (intro wf_updateChild[OF less.prems(1) kid(1) Down(4) insertRoute_same_edge])
        (simp add: through_def insertRoute_down[OF Down])
  next
    case (Split st k r stail ps pe i c)
    with insert_down_consume(3)[OF less.prems(1) Split(1-4)] insertSegmentD(1)[OF Split(2,1)]
    have st: "st = ntStatic" "stail = CHR 0x00" by auto
    with wf_splitNode[OF less.prems(1) _ Split(4)[unfolded st] refl Split(6,1) less.prems(2) m] Split(3) less.prems(3)
    show ?thesis unfolding insertRoute_split[OF Split] by simp
  qed
qed

end
