(* ===== verification/Router_Find.thy ===== *)
theory Router_Find
  imports Router_Correct
begin

text \<open>
  Soundness of the lookup: a node that \<^const>\<open>findRoute\<close> returns carries an endpoint whose pattern,
  with the collected values written for its parameters, is the path; a failed lookup leaves the
  collected values as they were.
\<close>

subsection \<open>Matching a path\<close>

text \<open>The values a pattern admits for its parameters: no slash for \<open>{param}\<close>; a match of the
  regular expression, or the empty string, for \<open>{param:regexp}\<close>.\<close>

function pat_vals_ok :: "router_env \<Rightarrow> string \<Rightarrow> string list \<Rightarrow> bool" where
  "pat_vals_ok env pat vs =
    (case patNextSegment pat of
       Inl err \<Rightarrow> False
     | Inr (ptyp, key, rexpat, tail, s, e) \<Rightarrow>
         if ptyp = ntStatic then vs = []
         else (case vs of
                 [] \<Rightarrow> False
               | v # vs' \<Rightarrow>
                   (ptyp = ntParam \<longrightarrow> CHR ''/'' \<notin> set v) \<and>
                   (ptyp = ntRegexp \<longrightarrow> v = [] \<or>
                      (case regexp_Compile env rexpat of None \<Rightarrow> False | Some rex \<Rightarrow> rex v)) \<and>
                   pat_vals_ok env (drop e pat) vs'))"
  by pat_completeness auto
termination
  by (relation "measure (\<lambda>(env, pat, _). length pat)") (auto dest: patNextSegment_shrink)

declare pat_vals_ok.simps [simp del]

definition pat_match :: "router_env \<Rightarrow> string \<Rightarrow> string list \<Rightarrow> string \<Rightarrow> bool" where
  "pat_match env pat vs path \<longleftrightarrow> pat_subst pat vs = Some path \<and> pat_vals_ok env pat vs"

lemma pat_match_Nil [simp]: "pat_match env [] [] []"
  by (simp add: pat_match_def pat_vals_ok.simps patNextSegment_static)

lemma pat_match_static:
  assumes "\<not> wild p" "pat_match env rest vs s"
  shows "pat_match env (p @ rest) vs (p @ s)"
proof -
  have "pat_vals_ok env (p @ rest) vs = pat_vals_ok env rest vs"
    by (subst (1 2) pat_vals_ok.simps) (auto simp: patNextSegment_append[OF assms(1)] split: sum.splits list.splits)
  with assms show ?thesis by (simp add: pat_match_def pat_subst_append)
qed

lemma pat_match_seg:
  assumes "patNextSegment p = Inr (t, k, r, tb, 0, e)" "t \<noteq> ntStatic"
    "t = ntParam \<Longrightarrow> CHR ''/'' \<notin> set v"
    "t = ntRegexp \<Longrightarrow> v = [] \<or> (\<exists>rex. regexp_Compile env r = Some rex \<and> rex v)"
    "pat_match env (drop e p) vs s"
  shows "pat_match env p (v # vs) (v @ s)"
  using assms pat_subst_seg[OF assms(1,2), of v vs]
  by (auto simp: pat_match_def pat_vals_ok.simps[of env p])

subsection \<open>Results of a lookup\<close>

definition found :: "router_env \<Rightarrow> 'h registration set \<Rightarrow> (string \<Rightarrow> string option) \<Rightarrow> methodTyp
    \<Rightarrow> string \<Rightarrow> Context \<Rightarrow> ('h, 's) node \<Rightarrow> Context \<Rightarrow> bool" where
  "found env G K m path rctx leaf rctx' \<longleftrightarrow>
    nd_subroutes (nd leaf) = None \<and>
    (\<exists>h rest vs. leafHandler leaf m = Some h \<and> K (ep_pattern h) = Some rest
      \<and> pat_match env rest vs path \<and> rvalues rctx' = rvalues rctx @ vs
      \<and> rkeys rctx' = rkeys rctx @ ep_paramKeys h
      \<and> patParamKeys (ep_pattern h) = Inr (ep_paramKeys h)
      \<and> (m, ep_pattern h, ep_handler h, ep_actions h) \<in> G)"

definition lookup_ok :: "router_env \<Rightarrow> 'h registration set \<Rightarrow> (string \<Rightarrow> string option) \<Rightarrow> methodTyp
    \<Rightarrow> string \<Rightarrow> Context \<Rightarrow> ('h, 's) node option \<times> Context \<Rightarrow> bool" where
  "lookup_ok env G K m path rctx res \<longleftrightarrow>
    (case res of
       (Some leaf, rctx') \<Rightarrow> found env G K m path rctx leaf rctx'
     | (None, rctx') \<Rightarrow> routeParams rctx' = routeParams rctx)"

lemma routeParams_simps [simp]:
  "routeParams (setValues vs rctx) = (routeParams rctx)\<lparr>Values := vs\<rparr>"
  "routeParams (addKeys ks rctx) = (routeParams rctx)\<lparr>Keys := rkeys rctx @ ks\<rparr>"
  "routeParams (noteMethods env xn rctx) = routeParams rctx"
  by (auto simp: setValues_def addKeys_def noteMethods_def split: option.splits)

text \<open>What the lookup below the child \<open>c\<close> found, seen from its parent.\<close>

lemma found_edge:
  assumes f: "found env G (through K c) m s rctx1 leaf rctx'" and kid: "kid_ok env t c"
    and vals: "rvalues rctx1 = rvalues rctx @ ws" "rkeys rctx1 = rkeys rctx"
    and edge: "t = ntStatic \<Longrightarrow> ws = [] \<and> path = prefix_of c @ s"
      "t \<noteq> ntStatic \<Longrightarrow> \<exists>v. ws = [v] \<and> path = v @ s \<and> (t = ntParam \<longrightarrow> CHR ''/'' \<notin> set v)
        \<and> (t = ntRegexp \<longrightarrow> v = [] \<or> (\<exists>rex. rex_of c = Some rex \<and> rex v))"
  shows "found env G K m path rctx leaf rctx'"
proof -
  from f obtain h rest vs where h: "leafHandler leaf m = Some h"
    "through K c (ep_pattern h) = Some rest" "pat_match env rest vs s"
    "rvalues rctx' = rvalues rctx1 @ vs" "rkeys rctx' = rkeys rctx1 @ ep_paramKeys h"
    "patParamKeys (ep_pattern h) = Inr (ep_paramKeys h)"
    "(m, ep_pattern h, ep_handler h, ep_actions h) \<in> G"
    by (auto simp: found_def)
  from h(2) obtain p where p: "K (ep_pattern h) = Some p" "consume c p = Some rest"
    by (auto simp: through_def bind_eq_Some_conv)
  have "pat_match env p (ws @ vs) path"
  proof (cases "t = ntStatic")
    case True
    with kid p(2) have "p = prefix_of c @ rest" "\<not> wild (prefix_of c)"
      by (auto simp: kid_ok_def consume_def prefix_def split: if_splits)
    with True edge(1) h(3) show ?thesis by (simp add: pat_match_static)
  next
    case False
    from edge(2)[OF False] obtain v where v: "ws = [v]" "path = v @ s" "t = ntParam \<longrightarrow> CHR ''/'' \<notin> set v"
      "t = ntRegexp \<longrightarrow> v = [] \<or> (\<exists>rex. rex_of c = Some rex \<and> rex v)" by (elim exE conjE)
    from False kid p(2) obtain k r tb e where seg: "patNextSegment p = Inr (t, k, r, tb, 0, e)"
      and rest: "rest = drop e p" and r: "t = ntRegexp \<longrightarrow> r = prefix_of c"
      by (auto simp: kid_ok_def consume_def split: sum.splits if_splits)
    have "t = ntRegexp \<Longrightarrow> v = [] \<or> (\<exists>rex. regexp_Compile env r = Some rex \<and> rex v)"
      using v(4) r kid by (auto simp: kid_ok_def)
    with pat_match_seg[OF seg False _ _ h(3)[unfolded rest]] v show ?thesis by simp
  qed
  with h p(1) vals f show ?thesis by (auto simp: found_def)
qed

lemma leafHandlerD:
  assumes "leafHandler xn m = Some h"
  obtains eps where "endpoints_of xn = Some eps" "map_of eps m = Some h" "ep_handler h \<noteq> None"
  using assms by (auto simp: leafHandler_def split: option.splits if_splits)

lemma checkLeaf_found:
  assumes "checkLeaf env xn m s rctx = (True, rctx')" "wf_node env G K xn"
  shows "found env G K m s rctx xn rctx'"
proof -
  from assms(1) obtain h where h: "leafHandler xn m = Some h" "s = []" "rctx' = addKeys (ep_paramKeys h) rctx"
    by (auto simp: checkLeaf_def split: if_splits option.splits)
  from h(1) obtain eps where "endpoints_of xn = Some eps" "map_of eps m = Some h"
    by (rule leafHandlerD)
  with wf_nodeD(1)[OF assms(2)] have "K (ep_pattern h) = Some []"
    "patParamKeys (ep_pattern h) = Inr (ep_paramKeys h)"
    "(m, ep_pattern h, ep_handler h, ep_actions h) \<in> G" by (simp_all add: eps_ok_def)
  with h show ?thesis
    unfolding found_def using wf_nodeD(5)[OF assms(2)]
    by (intro conjI exI[of _ h] exI[of _ "[]"]) simp_all
qed

lemma checkLeaf_missed:
  "checkLeaf env xn m s rctx = (False, rctx') \<Longrightarrow> routeParams rctx' = routeParams rctx"
  by (auto simp: checkLeaf_def split: if_splits option.splits)

lemma paramValue_ok:
  assumes "paramValue t xn s = Some p" "kid_ok env t xn" "t = ntParam \<or> t = ntRegexp"
  shows "t = ntParam \<Longrightarrow> CHR ''/'' \<notin> set (take p s)"
    "t = ntRegexp \<Longrightarrow> \<exists>rex. rex_of xn = Some rex \<and> rex (take p s)"
proof -
  obtain q where "(case (if t = ntRegexp then rex_of xn else None) of
            Some rex \<Rightarrow> if rex (take q s) then Some q else None
          | None \<Rightarrow> if CHR ''/'' \<in> set (take q s) then None else Some q) = Some p"
    using assms(1) unfolding paramValue_def by (auto split: option.splits)
  moreover from assms(2) have "t = ntRegexp \<Longrightarrow> \<exists>rex. rex_of xn = Some rex"
    by (auto simp: kid_ok_def)
  ultimately show "t = ntParam \<Longrightarrow> CHR ''/'' \<notin> set (take p s)"
    "t = ntRegexp \<Longrightarrow> \<exists>rex. rex_of xn = Some rex \<and> rex (take p s)"
    by (auto split: if_splits)
qed


lemma lookup_ok_cong:
  "routeParams rctx1 = routeParams rctx \<Longrightarrow> lookup_ok env G K m path rctx1 res = lookup_ok env G K m path rctx res"
  by (simp add: lookup_ok_def found_def split: prod.split option.split)

definition next_ok :: "router_env \<Rightarrow> 'h registration set \<Rightarrow> (string \<Rightarrow> string option) \<Rightarrow> methodTyp
    \<Rightarrow> string \<Rightarrow> Context \<Rightarrow> ('h, 's) node \<Rightarrow> ('h, 's) node option \<times> Context \<Rightarrow> bool" where
  "next_ok env G K m path rctx xn res \<longleftrightarrow>
    (case res of
       (Some leaf, rctx') \<Rightarrow> found env G K m path rctx leaf rctx'
     | (None, rctx') \<Rightarrow> routeParams rctx' = (routeParams rctx)\<lparr>Values :=
           if typ_of xn \<noteq> ntStatic then butlast (rvalues rctx) else rvalues rctx\<rparr>)"

lemma lookup_then:
  assumes "lookup_ok env G K m path rctx R"
    and "\<And>rctx'. R = (None, rctx') \<Longrightarrow> lookup_ok env G K m path rctx' (k rctx')"
  shows "lookup_ok env G K m path rctx
    (case R of (Some fin, rctx') \<Rightarrow> (Some fin, rctx') | (None, rctx') \<Rightarrow> k rctx')"
proof (cases "fst R")
  case None
  then obtain rctx' where R: "R = (None, rctx')" by (cases R) auto
  with assms(1) have "routeParams rctx' = routeParams rctx" by (simp add: lookup_ok_def)
  with assms(2)[OF R] R show ?thesis by (simp add: lookup_ok_cong[of rctx' rctx])
next
  case (Some leaf)
  with assms(1) show ?thesis by (cases R) simp
qed

lemma lookup_next:
  assumes kid: "kid_ok env t c" and R: "next_ok env G (through K c) m s rctx1 c R"
    and vals: "routeParams rctx1 = (routeParams rctx)\<lparr>Values := rvalues rctx @ ws\<rparr>"
    and edge: "t = ntStatic \<Longrightarrow> ws = [] \<and> path = prefix_of c @ s"
      "t \<noteq> ntStatic \<Longrightarrow> \<exists>v. ws = [v] \<and> path = v @ s \<and> (t = ntParam \<longrightarrow> CHR ''/'' \<notin> set v)
        \<and> (t = ntRegexp \<longrightarrow> v = [] \<or> (\<exists>rex. rex_of c = Some rex \<and> rex v))"
    and k: "\<And>rctx'. R = (None, rctx') \<Longrightarrow> lookup_ok env G K m path rctx' (k rctx')"
  shows "lookup_ok env G K m path rctx
    (case R of (Some fin, rctx') \<Rightarrow> (Some fin, rctx') | (None, rctx') \<Rightarrow> k rctx')"
proof (rule lookup_then)
  obtain fo rctx' where R': "R = (fo, rctx')" by (cases R)
  show "lookup_ok env G K m path rctx R"
  proof (cases fo)
    case (Some leaf)
    with R R' have "found env G (through K c) m s rctx1 leaf rctx'" by (simp add: next_ok_def)
    from found_edge[OF this kid _ _ edge] vals Some R' show ?thesis by (simp add: lookup_ok_def)
  next
    case None
    have "(if typ_of c \<noteq> ntStatic then butlast (rvalues rctx @ ws) else rvalues rctx @ ws) = rvalues rctx"
      using edge kid by (cases "t = ntStatic") (auto simp: kid_ok_def)
    with R R' None vals show ?thesis
      by (cases "typ_of c = ntStatic") (simp_all add: lookup_ok_def next_ok_def)
  qed
qed (rule k)

subsection \<open>Soundness\<close>

text \<open>The three helpers of \<^const>\<open>findRoute\<close> are sound when the lookups below the children are.\<close>

lemma findNext_ok:
  assumes xn: "wf_node env G K xn"
    and rec: "\<And>rctx. lookup_ok env G K m path rctx (findRoute env xn rctx m path)"
  shows "next_ok env G K m path rctx xn (findNext env xn rctx m path)"
proof -
  obtain b rctx1 where cl: "checkLeaf env xn m path rctx = (b, rctx1)" by fastforce
  show ?thesis
  proof (cases b)
    case True
    with cl checkLeaf_found[OF _ xn] show ?thesis by (simp add: findNext.simps next_ok_def)
  next
    case False
    with cl have rp: "routeParams rctx1 = routeParams rctx" by (simp add: checkLeaf_missed)
    from rec[of rctx1] have "lookup_ok env G K m path rctx (findRoute env xn rctx1 m path)"
      by (simp add: lookup_ok_cong[OF rp])
    with cl False show ?thesis
      by (auto simp: findNext.simps next_ok_def lookup_ok_def split: prod.splits option.splits)
  qed
qed

lemma findParams_ok:
  assumes "\<And>c. c \<in> set nds \<Longrightarrow> kid_ok env t c \<and> wf_node env G (through K c) c"
    and "\<And>c rctx path. c \<in> set nds \<Longrightarrow>
      lookup_ok env G (through K c) m path rctx (findRoute env c rctx m path)"
    and t: "t = ntParam \<or> t = ntRegexp"
  shows "lookup_ok env G K m path rctx (findParams env t nds rctx m path)"
  using assms(1,2)
proof (induction nds arbitrary: rctx)
  case Nil
  then show ?case by (simp add: lookup_ok_def)
next
  case (Cons xn nds)
  have rest: "lookup_ok env G K m path rctx (findParams env t nds rctx m path)" for rctx
    using Cons.prems by (intro Cons.IH) auto
  show ?case
  proof (cases "paramValue t xn path")
    case None
    with rest show ?thesis by (simp add: findParams.simps)
  next
    case (Some p)
    have xn: "kid_ok env t xn" "wf_node env G (through K xn) xn" using Cons.prems(1) by auto
    define rctx1 where "rctx1 = setValues (rvalues rctx @ [take p path]) rctx"
    obtain b rctx2 where cl: "checkLeaf env xn m (drop p path) rctx1 = (b, rctx2)" by fastforce
    have up: "lookup_ok env G K m path rctx (Some leaf, rctx')"
      if "found env G (through K xn) m (drop p path) rctx1 leaf rctx'" for leaf rctx'
      using found_edge[OF that xn(1), where ws = "[take p path]" and rctx = rctx and path = path]
        paramValue_ok[OF Some xn(1) t] t
      by (auto simp: lookup_ok_def rctx1_def)
    show ?thesis
    proof (cases b)
      case True
      with cl Some up[OF checkLeaf_found[OF _ xn(2)]] show ?thesis
        by (simp add: findParams.simps rctx1_def Let_def)
    next
      case False
      with cl have rp: "routeParams rctx2 = routeParams rctx1" by (simp add: checkLeaf_missed)
      have sub: "lookup_ok env G (through K xn) m (drop p path) rctx1 (findRoute env xn rctx2 m (drop p path))"
        using Cons.prems(2)[of xn] by (simp add: lookup_ok_cong[OF rp, symmetric])
      obtain fo rctx3 where fr: "findRoute env xn rctx2 m (drop p path) = (fo, rctx3)" by fastforce
      have step: "findParams env t (xn # nds) rctx m path =
          (case fo of Some fin \<Rightarrow> (Some fin, rctx3)
           | None \<Rightarrow> findParams env t nds (setValues (take (length (rvalues rctx)) (rvalues rctx3)) rctx3) m path)"
        using cl False Some fr
        by (simp add: findParams.simps rctx1_def[symmetric] Let_def split: option.split)
      show ?thesis
      proof (cases fo)
        case None
        with sub fr have "routeParams rctx3 = routeParams rctx1" by (simp add: lookup_ok_def)
        then have same: "routeParams (setValues (take (length (rvalues rctx)) (rvalues rctx3)) rctx3) = routeParams rctx"
          by (simp add: rctx1_def)
        from rest[of "setValues (take (length (rvalues rctx)) (rvalues rctx3)) rctx3"]
        show ?thesis unfolding step None option.case by (simp only: lookup_ok_cong[OF same])
      next
        case (Some leaf)
        with sub fr up show ?thesis unfolding step by (simp add: lookup_ok_def)
      qed
    qed
  qed
qed

lemma findGroups_ok:
  assumes n: "wf_node env G K n"
    and rec: "\<And>t c rctx path. c \<in> set (children n t) \<Longrightarrow>
      lookup_ok env G (through K c) m path rctx (findRoute env c rctx m path)"
  shows "lookup_ok env G K m path rctx (findGroups env ts n rctx m path)"
proof (induction ts arbitrary: rctx)
  case Nil
  then show ?case by (simp add: findGroups.simps lookup_ok_def)
next
  case (Cons t ts)
  note kids = wf_nodeD(3,4)[OF n]
  have nxt: "next_ok env G (through K c) m s rctx c (findNext env c rctx m s)"
    if "c \<in> set (children n t)" for c s rctx
    using that kids(2) rec by (intro findNext_ok) auto
  show ?case
  proof (cases "children n t = []")
    case True
    with Cons.IH show ?thesis by (simp add: findGroups.simps)
  next
    case ne: False
    have wild: "lookup_ok env G K m path rctx
        (case findParams env t (children n t) rctx m path of
           (Some fin, rctx') \<Rightarrow> (Some fin, rctx')
         | (None, rctx') \<Rightarrow>
             (case findNext env (last (children n t)) (setValues (rvalues rctx' @ [[]]) rctx') m path of
                (Some fin, rctx'') \<Rightarrow> (Some fin, rctx'')
              | (None, rctx'') \<Rightarrow> findGroups env ts n rctx'' m path))"
      if "t = ntParam \<or> t = ntRegexp"
    proof (rule lookup_then)
      show "lookup_ok env G K m path rctx (findParams env t (children n t) rctx m path)"
        by (rule findParams_ok[OF _ rec that]) (use kids in auto)
      show "lookup_ok env G K m path rctx'
          (case findNext env (last (children n t)) (setValues (rvalues rctx' @ [[]]) rctx') m path of
             (Some fin, rctx'') \<Rightarrow> (Some fin, rctx'')
           | (None, rctx'') \<Rightarrow> findGroups env ts n rctx'' m path)" for rctx'
        by (rule lookup_next[OF kids(1)[of _ t] nxt, where ws = "[[]]"]) (use ne that Cons.IH in auto)
    qed
    have static: "lookup_ok env G K m path rctx
        (case findNext env xn rctx m (drop (length (prefix_of xn)) path) of
           (Some fin, rctx') \<Rightarrow> (Some fin, rctx')
         | (None, rctx') \<Rightarrow> findGroups env ts n rctx' m path)"
      if "t = ntStatic" "findEdge (children n t) l = Some xn" "prefix (prefix_of xn) path" for l xn
      by (rule lookup_next[OF kids(1)[of _ t] nxt, where ws = "[]"])
        (use that findEdge_mem[OF ne] Cons.IH in \<open>auto simp: prefix_drop_append\<close>)
    have catch: "lookup_ok env G K m path rctx
        (case findNext env (hd (children n t)) (setValues (rvalues rctx @ [path]) rctx) m [] of
           (Some fin, rctx') \<Rightarrow> (Some fin, rctx')
         | (None, rctx') \<Rightarrow> findGroups env ts n rctx' m path)"
      if "t = ntCatchAll"
      by (rule lookup_next[OF kids(1)[of _ t] nxt, where ws = "[path]"]) (use ne that Cons.IH in auto)
    show ?thesis
      using ne Cons.IH wild catch static
      by (cases t) (auto simp: findGroups.simps Let_def split: option.split)
  qed
qed

theorem findRoute_ok:
  "wf_node env G K n \<Longrightarrow> lookup_ok env G K m path rctx (findRoute env n rctx m path)"
proof (induction "size n" arbitrary: n K path rctx rule: less_induct)
  case less
  show ?case
    unfolding findRoute.simps
    by (rule findGroups_ok[OF less.prems])
      (use less.hyps[OF size_children] wf_nodeD(4)[OF less.prems] in blast)
qed

subsection \<open>What a lookup leaves alone\<close>

text \<open>A lookup touches only the parameters of the current route and the notes on methods.\<close>

definition frame :: "Context \<Rightarrow> RouteParams \<times> string list \<times> string \<times> string \<times> string" where
  "frame c = (URLParams c, RoutePatterns c, routePattern c, RoutePath c, RouteMethod c)"

lemma frame_simps [simp]:
  "frame (setValues vs c) = frame c" "frame (addKeys ks c) = frame c" "frame (noteMethods env xn c) = frame c"
  by (auto simp: frame_def setValues_def addKeys_def noteMethods_def split: option.splits)

lemma checkLeaf_frame: "checkLeaf env xn m s c = (b, c') \<Longrightarrow> frame c' = frame c"
  by (auto simp: checkLeaf_def split: if_splits option.splits)

lemma findNext_frame:
  assumes "\<And>c s. frame (snd (findRoute env xn c m s)) = frame c"
  shows "frame (snd (findNext env xn c m s)) = frame c"
  using assms[of _ s] 
  by (auto simp: findNext.simps split: prod.split bool.split option.split dest!: checkLeaf_frame)
     (metis snd_conv frame_simps(1))+

lemma findParams_frame:
  assumes "\<And>xn c s. xn \<in> set nds \<Longrightarrow> frame (snd (findRoute env xn c m s)) = frame c"
  shows "frame (snd (findParams env t nds c m s)) = frame c"
  using assms
proof (induction nds arbitrary: c)
  case (Cons xn nds)
  have rest: "frame (snd (findParams env t nds c m s)) = frame c" for c
    using Cons.prems by (intro Cons.IH) auto
  have hd: "frame (snd (findRoute env xn c m s)) = frame c" for c s using Cons.prems by simp
  show ?case
  proof (cases "paramValue t xn s")
    case None
    then show ?thesis by (simp add: findParams.simps rest)
  next
    case (Some p)
    obtain b c1 where cl: "checkLeaf env xn m (drop p s) (setValues (rvalues c @ [take p s]) c) = (b, c1)" by fastforce
    obtain fo c2 where fr: "findRoute env xn c1 m (drop p s) = (fo, c2)" by fastforce
    from checkLeaf_frame[OF cl] hd[of c1 "drop p s"] fr Some cl rest show ?thesis
      by (auto simp: findParams.simps Let_def split: bool.split option.split)
  qed
qed simp

lemma findGroups_frame:
  assumes "\<And>t xn c s. xn \<in> set (children n t) \<Longrightarrow> frame (snd (findRoute env xn c m s)) = frame c"
  shows "frame (snd (findGroups env ts n c m s)) = frame c"
proof (induction ts arbitrary: c)
  case Nil
  then show ?case by (simp add: findGroups.simps)
next
  case (Cons t ts)
  have nx: "frame c' = frame c" if "findNext env xn c m s = (fo, c')" "xn \<in> set (children n t')" for t' xn c s fo c'
    using findNext_frame[of env xn m c s] assms that by force
  have pa: "frame c' = frame c" if "findParams env t' (children n t') c m s = (fo, c')" for t' c s fo c'
    using findParams_frame[of "children n t'" env m t' c s] assms that by force
  note nx' = nx[OF _ hd_in_set] nx[OF _ last_in_set] nx[OF _ findEdge_mem]
  show ?case
    using Cons.IH
    by (cases t) (auto simp: findGroups.simps Let_def split: option.split prod.split dest: pa nx',
        (drule nx'(2), simp, drule pa, simp)+)
qed

lemma findRoute_frame: "frame (snd (findRoute env n c m s)) = frame c"
proof (induction "size n" arbitrary: n c s rule: less_induct)
  case less
  show ?case unfolding findRoute.simps
    by (rule findGroups_frame) (use less size_children in blast)
qed

end
