(* ===== verification/Router_Static.thy ===== *)
theory Router_Static
  imports Router_Find
begin

text \<open>
  Static routes.  The binary search over the children agrees with a linear search; a path that is
  registered as a pattern without parameters is always found, whatever other routes there are; and
  an insertion changes the static routes of the tree at its own pattern and method only.
\<close>

subsection \<open>The binary search\<close>

lemma findEdgeLoop_hit:
  fixes ns :: "('h, 's) node list"
  assumes "sorted_wrt (<) (map label_of ns)" "k < length ns" "label_of (ns ! k) = l"
  shows "0 \<le> i \<Longrightarrow> i \<le> int k \<Longrightarrow> int k \<le> j \<Longrightarrow> j < int (length ns) \<Longrightarrow> findEdgeLoop ns l i j idx = int k"
proof (induction "nat (j - i)" arbitrary: i j idx rule: less_induct)
  case less
  define mid where "mid = i + (j - i) div 2"
  have mid: "i \<le> mid" "mid \<le> j" using less.prems by (auto simp: mid_def)
  have lt: "label_of (ns ! a) < label_of (ns ! b)" if "a < b" "b < length ns" for a b
    using sorted_wrt_nth_less[OF assms(1), of a b] that by simp
  consider "int k = mid" | "mid < int k" | "int k < mid" by linarith
  then show ?case
  proof cases
    case 1
    then show ?thesis using less.prems assms(3) mid
      by (subst findEdgeLoop.simps) (auto simp: mid_def[symmetric] Let_def)
  next
    case 2
    have "label_of (ns ! nat mid) < l" using lt[of "nat mid" k] 2 mid less.prems assms by simp
    then show ?thesis
      using 2 mid less.prems less.hyps[of j "mid + 1"]
      by (subst findEdgeLoop.simps) (auto simp: mid_def[symmetric] Let_def)
  next
    case 3
    have "l < label_of (ns ! nat mid)" using lt[of k "nat mid"] 3 mid less.prems assms
      by (simp add: nat_less_iff)
    then show ?thesis
      using 3 mid less.prems less.hyps[of "mid - 1" i]
      by (subst findEdgeLoop.simps) (auto simp: mid_def[symmetric] Let_def)
  qed
qed

lemma sorted_labels_unique:
  assumes "sorted_wrt (<) (map label_of ns)" "c \<in> set ns" "d \<in> set ns" "label_of c = label_of d"
  shows "c = d"
  using assms by (metis distinct_map inj_on_def strict_sorted_iff)

lemma find_label:
  assumes "sorted_wrt (<) (map label_of ns)"
  shows "find (\<lambda>c. label_of c = l) ns = Some c \<longleftrightarrow> c \<in> set ns \<and> label_of c = l"
proof
  assume "find (\<lambda>c. label_of c = l) ns = Some c"
  then show "c \<in> set ns \<and> label_of c = l" by (auto simp: find_Some_iff)
next
  assume c: "c \<in> set ns \<and> label_of c = l"
  show "find (\<lambda>c. label_of c = l) ns = Some c"
  proof (cases "find (\<lambda>c. label_of c = l) ns")
    case None
    with c show ?thesis by (auto simp: find_None_iff)
  next
    case (Some d)
    then have "d \<in> set ns" "label_of d = l" by (auto simp: find_Some_iff)
    with c Some sorted_labels_unique[OF assms] show ?thesis by simp
  qed
qed

lemma find_label_None:
  "find (\<lambda>c. label_of c = l) ns = None \<longleftrightarrow> l \<notin> label_of ` set ns"
  by (auto simp: find_None_iff)

lemma option_eqI: "(\<And>c. x = Some c \<longleftrightarrow> y = Some c) \<Longrightarrow> x = y"
  by (cases x; cases y) auto

lemma findEdge_label: "findEdge ns l = Some c \<Longrightarrow> label_of c = l"
  by (auto simp: findEdge_def Let_def split: if_splits)

theorem findEdge_linear:
  assumes "sorted_wrt (<) (map label_of ns)" "ns \<noteq> []"
  shows "findEdge ns l = find (\<lambda>c. label_of c = l) ns"
proof (cases "l \<in> label_of ` set ns")
  case True
  then obtain k where k: "k < length ns" "label_of (ns ! k) = l"
    by (auto simp: in_set_conv_nth)
  have "findEdgeLoop ns l 0 (int (length ns) - 1) 0 = int k"
    using findEdgeLoop_hit[OF assms(1) k] k(1) by simp
  then have "findEdge ns l = Some (ns ! k)" by (simp add: findEdge_def k)
  moreover have "find (\<lambda>c. label_of c = l) ns = Some (ns ! k)"
    using k by (simp add: find_label[OF assms(1)])
  ultimately show ?thesis by simp
next
  case False
  then have "findEdge ns l = None"
    using findEdge_mem[OF assms(2), of l] findEdge_label[of ns l] by (cases "findEdge ns l") auto
  with False show ?thesis by (simp add: find_label_None[THEN iffD2])
qed
subsection \<open>The static routes of a tree\<close>

function slookup :: "('h, 's) node \<Rightarrow> string \<Rightarrow> methodTyp \<Rightarrow> 'h endpoint option" where
  "slookup n s m =
    (if s = [] then leafHandler n m
     else case find (\<lambda>c. label_of c = hd s) (children n ntStatic) of
       None \<Rightarrow> None
     | Some c \<Rightarrow> if prefix (prefix_of c) s then slookup c (drop (length (prefix_of c)) s) m else None)"
  by pat_completeness auto
termination
  by (relation "measure (\<lambda>(n, s, m). size n)") (auto simp: find_Some_iff intro: size_children_nth)

declare slookup.simps [simp del]

lemma slookup_Nil [simp]: "slookup n [] m = leafHandler n m"
  by (simp add: slookup.simps)

lemma slookup_static_children:
  "s \<noteq> [] \<Longrightarrow> children n ntStatic = children n' ntStatic \<Longrightarrow> slookup n s m = slookup n' s m"
  by (simp add: slookup.simps)

text \<open>Whatever is registered for the exact path is what the lookup returns.\<close>

theorem findRoute_static:
  "wf_node env G K n \<Longrightarrow> s \<noteq> [] \<Longrightarrow> slookup n s m = Some h
    \<Longrightarrow> \<exists>leaf rctx'. findRoute env n rctx m s = (Some leaf, rctx') \<and> leafHandler leaf m = Some h"
proof (induction "size n" arbitrary: n s K rctx rule: less_induct)
  case less
  from less.prems(2,3) obtain c where c: "find (\<lambda>c. label_of c = hd s) (children n ntStatic) = Some c"
    "prefix (prefix_of c) s" "slookup c (drop (length (prefix_of c)) s) m = Some h"
    by (subst (asm) slookup.simps) (auto split: option.splits if_splits)
  from c(1) have mem: "c \<in> set (children n ntStatic)" by (auto simp: find_Some_iff)
  then have ne: "children n ntStatic \<noteq> []" by auto
  let ?s = "drop (length (prefix_of c)) s"
  have "\<exists>leaf rctx'. findNext env c rctx m ?s = (Some leaf, rctx') \<and> leafHandler leaf m = Some h"
  proof (cases "?s = []")
    case True
    with c(3) show ?thesis by (simp add: findNext.simps checkLeaf_def)
  next
    case False
    from less.hyps[OF size_children[OF mem] wf_nodeD(4)[OF less.prems(1) mem] False c(3), of rctx]
    obtain leaf rctx' where "findRoute env c rctx m ?s = (Some leaf, rctx')" "leafHandler leaf m = Some h"
      by blast
    with False show ?thesis by (simp add: findNext.simps checkLeaf_def)
  qed
  then show ?case
    using less.prems(2) ne c(1,2) findEdge_linear[OF wf_nodeD(2)[OF less.prems(1)] ne]
    by (auto simp: findRoute.simps findGroups.simps Let_def)
qed

subsection \<open>What an insertion does to the static routes\<close>

definition newEndpoint :: "string \<Rightarrow> 'h option \<Rightarrow> Actions option \<Rightarrow> 'h endpoint option" where
  "newEndpoint pattern h a =
    (case patParamKeys pattern of
       Inl err \<Rightarrow> None
     | Inr ks \<Rightarrow> Some \<lparr> ep_handler = h, ep_pattern = pattern, ep_actions = a, ep_paramKeys = ks \<rparr>)"

definition supdate :: "'h endpoint option \<Rightarrow> bool \<Rightarrow> 'h endpoint option \<Rightarrow> 'h endpoint option" where
  "supdate new hit old = (if hit \<and> new \<noteq> None then new else old)"

lemma leafHandler_setEndpoint:
  assumes "plain_method env m" "h \<noteq> None"
  shows "leafHandler (fst (setEndpoint env m a h pattern x)) m' =
    supdate (newEndpoint pattern h a) (m' = m) (leafHandler x m')"
  using assms
  by (auto simp: setEndpoint_def leafHandler_def newEndpoint_def supdate_def plain_method_def
      map_of_modifyValue Let_def split: sum.splits option.splits)

lemma setEndpoint_children: "children (fst (setEndpoint env m a h pattern x)) t = children x t"
  by (auto simp: setEndpoint_def Let_def split: sum.splits)

lemma setEndpoint_edge [simp]:
  "typ_of (fst (setEndpoint env m a h pattern x)) = typ_of x"
  "prefix_of (fst (setEndpoint env m a h pattern x)) = prefix_of x"
  "label_of (fst (setEndpoint env m a h pattern x)) = label_of x"
  using setEndpoint_same_edge[of env m a h pattern x] by (simp_all add: same_edge_def)

lemma slookup_setEndpoint:
  assumes "plain_method env m" "h \<noteq> None"
  shows "slookup (fst (setEndpoint env m a h pattern x)) q m' =
    supdate (newEndpoint pattern h a) (q = [] \<and> m' = m) (slookup x q m')"
proof (cases "q = []")
  case True
  then show ?thesis using leafHandler_setEndpoint[OF assms] by simp
next
  case False
  with slookup_static_children[OF False setEndpoint_children] show ?thesis
    by (simp add: supdate_def)
qed

lemma leafHandler_new_node [simp]: "leafHandler (new_node t l tb p) m = None"
  by (simp add: leafHandler_def)

lemma slookup_childless: "children n ntStatic = [] \<Longrightarrow> endpoints_of n = None \<Longrightarrow> slookup n q m = None"
  by (subst slookup.simps) (simp add: leafHandler_def)

text \<open>The view through the child with label \<open>l\<close>.\<close>

lemma slookup_kid:
  assumes "sorted_wrt (<) (map label_of (children n ntStatic))" "c \<in> set (children n ntStatic)"
    "q \<noteq> []" "hd q = label_of c"
  shows "slookup n q m = (if prefix (prefix_of c) q then slookup c (drop (length (prefix_of c)) q) m else None)"
proof -
  have "find (\<lambda>c. label_of c = hd q) (children n ntStatic) = Some c"
    using assms find_label[OF assms(1), of "hd q" c] by simp
  with assms(3) show ?thesis by (subst slookup.simps) simp
qed

lemma slookup_no_kid:
  "q \<noteq> [] \<Longrightarrow> hd q \<notin> label_of ` set (children n ntStatic) \<Longrightarrow> slookup n q m = None"
  by (subst slookup.simps) (simp add: find_label_None[THEN iffD2])

lemma slookup_other:
  assumes "sorted_wrt (<) (map label_of (children n ntStatic))"
    "sorted_wrt (<) (map label_of (children n' ntStatic))"
    "\<And>c. label_of c \<noteq> l \<Longrightarrow> c \<in> set (children n ntStatic) \<longleftrightarrow> c \<in> set (children n' ntStatic)"
    "hd q \<noteq> l" "q \<noteq> []"
  shows "slookup n' q m = slookup n q m"
proof -
  have "find (\<lambda>c. label_of c = hd q) (children n' ntStatic) = Some c
      \<longleftrightarrow> find (\<lambda>c. label_of c = hd q) (children n ntStatic) = Some c" for c
    unfolding find_label[OF assms(1)] find_label[OF assms(2)] using assms(3,4) by auto
  then have "find (\<lambda>c. label_of c = hd q) (children n' ntStatic) = find (\<lambda>c. label_of c = hd q) (children n ntStatic)"
    by (rule option_eqI)
  with assms(5) show ?thesis by (subst (1 2) slookup.simps) simp
qed

lemma slookup_appendChild:
  assumes n: "wf_node env G K n" and n': "wf_node env G K (appendChild n c)"
    and fresh: "typ_of c = ntStatic \<Longrightarrow> label_of c \<notin> label_of ` set (children n ntStatic)"
  shows "slookup (appendChild n c) q m =
    (if typ_of c = ntStatic \<and> q \<noteq> [] \<and> hd q = label_of c
     then if prefix (prefix_of c) q then slookup c (drop (length (prefix_of c)) q) m else None
     else slookup n q m)"
proof (cases "q = []")
  case True
  then show ?thesis by (simp add: leafHandler_def appendChild_def)
next
  case q: False
  show ?thesis
  proof (cases "typ_of c = ntStatic")
    case False
    then have "children (appendChild n c) ntStatic = children n ntStatic"
      by (simp add: appendChild_def)
    with False slookup_static_children[OF q this] show ?thesis by simp
  next
    case True
    then have kids: "set (children (appendChild n c) ntStatic) = insert c (set (children n ntStatic))"
      by (simp add: appendChild_def)
    show ?thesis
    proof (cases "hd q = label_of c")
      case hd: True
      with slookup_kid[OF wf_nodeD(2)[OF n'], of c q] kids q True show ?thesis by simp
    next
      case False
      with slookup_other[OF wf_nodeD(2)[OF n] wf_nodeD(2)[OF n'], of "label_of c" q] kids q show ?thesis
        by auto
    qed
  qed
qed

lemma addChild_wild_first:
  fixes n :: "('h, 's) node"
  assumes add: "addChild env hn n (new_node t (hd search) tb pfx) search = Inr n'"
    and seg: "patNextSegment search = Inr (st, k, r, stail, 0, pe)" and st: "st \<noteq> ntStatic"
    and hn: "\<And>x. same_edge (hn x) x"
  shows "\<exists>x. n' = appendChild n x \<and> typ_of x \<noteq> ntStatic"
proof -
  obtain c :: "('h, 's) node" where c: "typ_of c = st"
    and leaf: "pe = length search \<Longrightarrow> n' = appendChild n (hn c)"
    and sub: "pe < length search \<Longrightarrow> \<exists>c'. addChild env hn c
        (new_node ntStatic (hd (drop pe search)) CHR 0x00 (drop pe search)) (drop pe search) = Inr c'
        \<and> n' = appendChild n c'"
    using addChild_segE[OF add seg st refl] by metis
  show ?thesis
  proof (cases "pe = length search")
    case True
    with leaf c st hn[of c] show ?thesis by (auto simp: same_edge_def)
  next
    case False
    with patNextSegment_progress(2)[OF seg st] have "pe < length search" by simp
    from sub[OF this] obtain c' where "nd c' = nd c" "n' = appendChild n c'"
      using addChild_nd by blast
    with c st show ?thesis by auto
  qed
qed

text \<open>An update function for the endpoint of a pattern, with its effect on the static routes.\<close>

lemma slookup_addChild:
  fixes n :: "('h, 's) node"
  assumes m: "plain_method env m" "admitted G m pattern h a" "h \<noteq> None"
    and add: "addChild env (\<lambda>x. fst (setEndpoint env m a h pattern x)) n (new_node t (hd s) tb pfx) s = Inr n'"
    and n: "wf_node env G K n" and K: "K pattern = Some s" and ne: "s \<noteq> []"
    and fresh: "\<not> wild [hd s] \<Longrightarrow> t = ntStatic \<and> tb = CHR 0x00 \<and> pfx = s
          \<and> hd s \<notin> label_of ` set (children n ntStatic)"
  shows "slookup n' q m' = supdate (newEndpoint pattern h a) (\<not> wild s \<and> q = s \<and> m' = m) (slookup n q m')"
proof -
  let ?hn = "\<lambda>x :: ('h, 's) node. fst (setEndpoint env m a h pattern x)"
  have n': "wf_node env G K n'"
    using wf_addChild[OF good_setEndpoint[OF m(1,2)] add n K ne refl] fresh by blast
  obtain st k r stail ps pe where seg: "patNextSegment s = Inr (st, k, r, stail, ps, pe)"
    using add by (subst (asm) addChild.simps) (auto split: sum.splits)
  consider "st = ntStatic" | "st \<noteq> ntStatic" "ps = 0" | "st \<noteq> ntStatic" "0 < ps" by blast
  then show ?thesis
  proof cases
    case 1
    with seg have nw: "\<not> wild s" by simp
    then have "\<not> wild [hd s]" using ne by (cases s) auto
    note fr = fresh[OF this]
    let ?c = "?hn (new_node ntStatic (hd s) CHR 0x00 s)"
    have edge: "typ_of ?c = ntStatic" "label_of ?c = hd s" "prefix_of ?c = s" by simp_all
    have eq: "n' = appendChild n ?c" using add seg 1 fr by (subst (asm) addChild.simps) simp
    have "slookup n q m' = None" if "q \<noteq> []" "hd q = hd s"
      using that fr by (intro slookup_no_kid) auto
    then show ?thesis
      using slookup_appendChild[OF n n'[unfolded eq], of q m'] fr edge ne nw
      by (auto simp: eq slookup_setEndpoint[OF m(1,3)] leafHandler_setEndpoint[OF m(1,3)]
          slookup_childless supdate_def prefix_def)
  next
    case 2
    then have "wild s" using seg by (metis patNextSegment_static Inr_inject Pair_inject)
    from 2 seg add obtain x where "n' = appendChild n x" "typ_of x \<noteq> ntStatic"
      using addChild_wild_first[of env ?hn n t s tb pfx n' st k r stail pe] setEndpoint_same_edge by metis
    with \<open>wild s\<close> n' slookup_appendChild[OF n, of x q m'] show ?thesis by (simp add: supdate_def)
  next
    case 3
    then have "wild s" using seg by (metis patNextSegment_static Inr_inject Pair_inject)
    have nw: "\<not> wild [hd s]" using patNextSegment_hd_wild[OF seg 3(1)] 3(2) by simp
    note fr = fresh[OF this]
    obtain c c' where c: "\<And>t. children c t = []" "endpoints_of c = None \<and> nd_subroutes (nd c) = None" "typ_of c = ntStatic" "label_of c = hd s"
      and c': "addChild env ?hn c (new_node st (hd (drop ps s)) stail []) (drop ps s) = Inr c'"
      "n' = appendChild n c'"
      using addChild_prefixE[OF add seg 3] fr by metis
    from addChild_wild_first[OF c'(1) patNextSegment_drop[OF seg 3(1)] 3(1) setEndpoint_same_edge]
    obtain x where x: "c' = appendChild c x" "typ_of x \<noteq> ntStatic" by blast
    then have "children c' ntStatic = []" "nd c' = nd c" using c by (simp_all add: appendChild_def)
    then have sub: "slookup c' r m' = None" for r using c by (intro slookup_childless) simp_all
    have "slookup n q m' = None" if "q \<noteq> []" "hd q = hd s"
      using that fr by (intro slookup_no_kid) auto
    then show ?thesis
      using slookup_appendChild[OF n n'[unfolded c'(2)], of q m'] fr c addChild_nd[OF c'(1)] sub \<open>wild s\<close>
      by (auto simp: c'(2) supdate_def)
  qed
qed

lemma addChild_static_Inr: "\<not> wild s \<Longrightarrow> \<exists>n'. addChild env hn n c s = Inr n'"
  by (subst addChild.simps) (simp add: patNextSegment_static)

lemma slookup_map_nd:
  "nd_endpoints (f (nd n)) = endpoints_of n \<Longrightarrow> slookup (map_nd f n) q m = slookup n q m"
  by (subst (1 2) slookup.simps) (simp add: leafHandler_def)

text \<open>The upper half of a split node and what it shows of the lower half.\<close>

lemma slookup_halves:
  assumes n: "wf_node env G K n" and edge: "getEdge n ntStatic (hd search) CHR 0x00 [] = Some i"
    and c: "c = children n ntStatic ! i" and cp: "cp = longestPrefix search (prefix_of c)"
    and lt: "cp \<noteq> length (prefix_of c)" and ne: "search \<noteq> []"
    and child: "child = new_node ntStatic CHR 0x00 CHR 0x00 (take cp search)"
    and c': "c' = map_nd (\<lambda>d. d\<lparr>nd_label := nd_prefix d ! cp, nd_prefix := drop cp (nd_prefix d)\<rparr>) c"
  shows "slookup (appendChild child c') r m =
    (if prefix (prefix_of c) (take cp search @ r) then slookup c (drop (length (prefix_of c)) (take cp search @ r)) m
     else None)"
proof -
  note halves = split_halves[OF n edge c cp lt ne child c']
  have kid: "kid_ok env ntStatic c" by (rule getEdge_kid(2)[OF n edge c])
  have le: "cp \<le> length (prefix_of c)" using longestPrefix_le(2) cp by simp
  have splitp: "prefix_of c = take cp search @ prefix_of c'"
    using longestPrefix_take[of search "prefix_of c"] cp by (simp add: c')
  have st: "typ_of c' = ntStatic" using kid by (simp add: c' kid_ok_def)
  have ne': "prefix_of c' \<noteq> []" "hd (prefix_of c') = label_of c'"
    using le lt by (simp_all add: c' hd_drop_conv_nth)
  have low: "slookup (appendChild child c') r m =
    (if r \<noteq> [] \<and> hd r = label_of c' then if prefix (prefix_of c') r then slookup c' (drop (length (prefix_of c')) r) m else None
     else None)"
    using slookup_appendChild[OF wf_childless halves(7), of r m] st
    by (simp add: child slookup_childless)
  have "slookup c' x m = slookup c x m" for x by (simp add: c' slookup_map_nd)
  moreover have "prefix (prefix_of c) (take cp search @ r) \<longleftrightarrow> prefix (prefix_of c') r"
    unfolding splitp by simp
  moreover have "r \<noteq> [] \<and> hd r = label_of c'" if "prefix (prefix_of c') r"
    using that ne' by (auto simp: prefix_def)
  moreover have "drop (length (prefix_of c)) (take cp search @ r) = drop (length (prefix_of c')) r"
    unfolding splitp by simp
  ultimately show ?thesis unfolding low by auto
qed

text \<open>Replacing a static child by one with the same label.\<close>

lemma slookup_replace_kid:
  assumes n: "wf_node env G K n" and n': "wf_node env G K (set_children n ntStatic ((children n ntStatic)[i := x]))"
    and i: "i < length (children n ntStatic)" and c: "c = children n ntStatic ! i" and l: "label_of x = label_of c"
    and hit: "\<And>q. q \<noteq> [] \<Longrightarrow> hd q = label_of c \<Longrightarrow>
      (if prefix (prefix_of x) q then slookup x (drop (length (prefix_of x)) q) m else None) =
      f q (if prefix (prefix_of c) q then slookup c (drop (length (prefix_of c)) q) m else None)"
    and miss: "\<And>q y. \<not> (q \<noteq> [] \<and> hd q = label_of c) \<Longrightarrow> f q y = y"
  shows "slookup (set_children n ntStatic ((children n ntStatic)[i := x])) q m = f q (slookup n q m)"
proof (cases "q = []")
  case True
  then show ?thesis using miss[of q] by (simp add: leafHandler_def)
next
  case q: False
  note so = wf_nodeD(2)[OF n] and so' = wf_nodeD(2)[OF n']
  show ?thesis
  proof (cases "hd q = label_of c")
    case True
    have "x \<in> set ((children n ntStatic)[i := x])" using i by (simp add: set_update_memI)
    with slookup_kid[OF so', of x q m] slookup_kid[OF so, of c q m] q True l i c hit[OF q True]
    show ?thesis by simp
  next
    case False
    have "d \<in> set (children n ntStatic) \<longleftrightarrow> d \<in> set ((children n ntStatic)[i := x])"
      if "label_of d \<noteq> label_of c" for d
      using that l c i by (auto simp: in_set_conv_nth nth_list_update)
    with slookup_other[OF so so', of "label_of c" q m] False q miss[of q] show ?thesis by simp
  qed
qed

lemma slookup_splitNode:
  fixes n c :: "('h, 's) node"
  assumes n: "wf_node env G K n" and edge: "getEdge n ntStatic (hd search) CHR 0x00 [] = Some i"
    and c: "c = children n ntStatic ! i" and cp: "cp = longestPrefix search (prefix_of c)"
    and lt: "cp \<noteq> length (prefix_of c)" and ne: "search \<noteq> []"
    and K: "K pattern = Some search"
    and m: "plain_method env m" "admitted G m pattern h a" "h \<noteq> None"
  shows "slookup (fst (splitNode env m a h pattern n search CHR 0x00 c cp)) q m' =
    supdate (newEndpoint pattern h a) (\<not> wild search \<and> q = search \<and> m' = m) (slookup n q m')"
proof -
  define child where "child = (new_node ntStatic CHR 0x00 CHR 0x00 (take cp search) :: ('h, 's) node)"
  define c' where "c' = map_nd (\<lambda>d. d\<lparr>nd_label := nd_prefix d ! cp, nd_prefix := drop cp (nd_prefix d)\<rparr>) c"
  define hn where "hn = (\<lambda>x :: ('h, 's) node. fst (setEndpoint env m a h pattern x))"
  define new where "new = newEndpoint pattern h a"
  note halves = split_halves[OF n edge c cp lt ne child_def c'_def]
  note kid = getEdge_kid[OF n edge c]
  obtain x where x: "same_edge x child"
    "fst (splitNode env m a h pattern n search CHR 0x00 c cp) =
      set_children n ntStatic ((children n ntStatic)[i :=
        map_nd (\<lambda>d. d\<lparr>nd_label := hd search, nd_tail := CHR 0x00\<rparr>) x])"
    and nil: "drop cp search = [] \<longrightarrow> x = hn (appendChild child c')"
    and rest: "drop cp search \<noteq> [] \<longrightarrow> x = (case addChild env hn (appendChild child c')
        (new_node ntStatic (hd (drop cp search)) CHR 0x00 (drop cp search)) (drop cp search) of
          Inl _ \<Rightarrow> appendChild child c' | Inr x \<Rightarrow> x)"
    by (rule splitNode_result[OF n edge c cp lt ne child_def c'_def hn_def])
  have thr: "through K child pattern = Some (drop cp search)"
    using K halves(2) by (simp add: through_def consume_def child_def take_is_prefix)
  have sx: "slookup x r m' = supdate new (\<not> wild (drop cp search) \<and> r = drop cp search \<and> m' = m)
      (slookup (appendChild child c') r m')" for r
  proof (cases "drop cp search = []")
    case True
    with nil show ?thesis by (simp add: hn_def slookup_setEndpoint[OF m(1,3)] new_def)
  next
    case False
    have fresh: "hd (drop cp search) \<notin> label_of ` set (children (appendChild child c') ntStatic)"
      using split_diff[OF cp lt] False halves(8,9) by simp
    show ?thesis
    proof (cases "addChild env hn (appendChild child c')
        (new_node ntStatic (hd (drop cp search)) CHR 0x00 (drop cp search)) (drop cp search)")
      case (Inl e)
      then have "wild (drop cp search)" using addChild_static_Inr by (metis sum.distinct(1))
      with Inl rest False show ?thesis by (simp add: supdate_def)
    next
      case (Inr y)
      with slookup_addChild[OF m Inr[unfolded hn_def] halves(7) thr False] fresh rest False
      show ?thesis by (simp add: new_def)
    qed
  qed
  have wild: "wild search \<longleftrightarrow> wild (drop cp search)"
    using halves(3) by (metis append_take_drop_id wild_simps(2))
  have px: "prefix_of x = take cp search" using x(1) by (simp add: same_edge_def child_def)
  show ?thesis
    unfolding x(2) new_def[symmetric]
  proof (rule slookup_replace_kid[OF n _ kid(1) c, where f = "\<lambda>q. supdate new (\<not> wild search \<and> q = search \<and> m' = m)"])
    show "wf_node env G K (set_children n ntStatic ((children n ntStatic)[i :=
        map_nd (\<lambda>d. d\<lparr>nd_label := hd search, nd_tail := CHR 0x00\<rparr>) x]))"
      using wf_splitNode[OF n edge c cp lt ne K m(1) disjI1[OF m(2)]] x(2) by simp
    fix q assume "q \<noteq> []" "hd q = label_of c"
    let ?x = "map_nd (\<lambda>d. d\<lparr>nd_label := hd search, nd_tail := CHR 0x00\<rparr>) x"
    have up: "slookup ?x r m' = slookup x r m'" for r by (simp add: slookup_map_nd)
    show "(if prefix (prefix_of ?x) q then slookup ?x (drop (length (prefix_of ?x)) q) m' else None) =
      supdate new (\<not> wild search \<and> q = search \<and> m' = m)
        (if prefix (prefix_of c) q then slookup c (drop (length (prefix_of c)) q) m' else None)"
    proof (cases "prefix (take cp search) q")
      case True
      then obtain r where q: "q = take cp search @ r" by (auto simp: prefix_def)
      have "q = search \<longleftrightarrow> r = drop cp search" unfolding q by (metis append_take_drop_id same_append_eq)
      then show ?thesis
        using sx[of r] px wild
        by (simp add: up q slookup_halves[OF n edge c cp lt ne child_def c'_def])
    next
      case False
      have "prefix (take cp search) (prefix_of c)"
        using longestPrefix_take[of search "prefix_of c"] cp by (simp add: take_is_prefix)
      with False have "\<not> prefix (prefix_of c) q" by (metis prefix_order.trans)
      moreover have "q \<noteq> search" using False by (auto simp: take_is_prefix)
      ultimately show ?thesis using False px by (simp add: supdate_def)
    qed
  qed (use kid(4) ne in \<open>auto simp: supdate_def\<close>)
qed

text \<open>Going down one edge, given the law for the child.\<close>

lemma slookup_down:
  fixes n c c' :: "('h, 's) node"
  assumes n: "wf_node env G K n" and ne: "search \<noteq> []"
    and seg: "insertSegment search = Inr (st, k, r, stail, ps, pe)"
    and edge: "getEdge n st (hd search) stail (if st = ntRegexp then r else []) = Some i"
    and c: "c = children n st ! i"
    and s': "typ_of c \<noteq> ntStatic \<and> s' = drop pe search \<or>
       typ_of c = ntStatic \<and> longestPrefix search (prefix_of c) = length (prefix_of c)
         \<and> s' = drop (length (prefix_of c)) search"
    and wf: "wf_node env G K (updateChild n st i c')" and se: "same_edge c' c"
    and law: "\<And>q. slookup c' q m' = supdate new (\<not> wild s' \<and> q = s' \<and> m' = m) (slookup c q m')"
  shows "slookup (updateChild n st i c') q m' =
    supdate new (\<not> wild search \<and> q = search \<and> m' = m) (slookup n q m')"
proof (cases "st = ntStatic")
  case False
  then have "wild search" using insertSegmentD(2)[OF seg ne] ne by (cases search) auto
  moreover have "children (updateChild n st i c') ntStatic = children n ntStatic" "nd (updateChild n st i c') = nd n"
    using False by (simp_all add: updateChild_def)
  ultimately show ?thesis
    by (cases "q = []") (auto simp: supdate_def leafHandler_def dest: slookup_static_children)
next
  case True
  note kid = getEdge_kid[OF n edge c]
  have st: "typ_of c = ntStatic" using kid(2) True by (simp add: kid_ok_def)
  with s' have pre: "search = prefix_of c @ s'" by (metis longestPrefix_full prefix_drop_append)
  have nw: "\<not> wild (prefix_of c)" "label_of c = hd search" "prefix_of c \<noteq> []"
    using kid(2,4) True by (simp_all add: kid_ok_def)
  have e: "prefix_of c' = prefix_of c" "label_of c' = label_of c"
    using se by (simp_all add: same_edge_def)
  have "slookup (set_children n ntStatic ((children n ntStatic)[i := c'])) q m' =
      supdate new (\<not> wild search \<and> q = search \<and> m' = m) (slookup n q m')"
  proof (rule slookup_replace_kid[OF n _ _ c[unfolded True] e(2),
        where f = "\<lambda>q. supdate new (\<not> wild search \<and> q = search \<and> m' = m)"])
    fix q
    show "(if prefix (prefix_of c') q then slookup c' (drop (length (prefix_of c')) q) m' else None) =
      supdate new (\<not> wild search \<and> q = search \<and> m' = m)
       (if prefix (prefix_of c) q then slookup c (drop (length (prefix_of c)) q) m' else None)"
      unfolding e law pre using nw by (auto simp: supdate_def prefix_def)
  qed (use wf kid(1) True nw ne in \<open>auto simp: updateChild_def supdate_def\<close>)
  then show ?thesis using True by (simp add: updateChild_def)
qed

theorem slookup_insertRoute:
  fixes n :: "('h, 's) node"
  assumes m: "plain_method env m" "admitted G m pattern h a" "h \<noteq> None"
  shows "wf_node env G K n \<Longrightarrow> K pattern = Some search \<Longrightarrow>
    slookup (fst (insertRoute env m pattern a h n search)) q m' =
      supdate (newEndpoint pattern h a) (\<not> wild search \<and> q = search \<and> m' = m) (slookup n q m')"
proof (induction "size n" arbitrary: n search K q rule: less_induct)
  case less
  show ?case
  proof (cases rule: insertRoute_cases[where search = search and n = n])
    case Nil
    then show ?thesis by (simp add: insertRoute_Nil slookup_setEndpoint[OF m(1,3)])
  next
    case (Bad e)
    then have "wild search" by (cases search) (auto simp: insertSegment_def split: if_splits)
    with Bad show ?thesis by (simp add: insertRoute_bad supdate_def)
  next
    case (New st k r stail ps pe)
    let ?add = "addChild env (\<lambda>hn. fst (setEndpoint env m a h pattern hn)) n
      (new_node ntStatic (hd search) stail search) search"
    show ?thesis
    proof (cases ?add)
      case (Inl e)
      then have "wild search" using addChild_static_Inr by (metis sum.distinct(1))
      with Inl show ?thesis unfolding insertRoute_new[OF New] by (simp add: supdate_def)
    next
      case (Inr n')
      with slookup_addChild[OF m Inr less.prems New(1)] getEdge_fresh[OF less.prems(1) New]
      show ?thesis unfolding insertRoute_new[OF New] by simp
    qed
  next
    case (Down st k r stail ps pe i c s')
    note kid = getEdge_kid[OF less.prems(1) Down(3,4)]
    note con = insert_down_consume[OF less.prems(1) Down(1-4)]
    let ?c = "fst (insertRoute env m pattern a h c s')"
    have wf: "wf_node env G K (updateChild n st i ?c)"
      using wf_insertRoute[OF m(1) less.prems disjI1[OF m(2)]] unfolding insertRoute_down[OF Down] by simp
    have small: "size c < size n" unfolding Down(4) using kid(1) by (rule size_children_nth)
    show ?thesis
      unfolding insertRoute_down[OF Down] fst_conv
      by (rule slookup_down[OF less.prems(1) Down wf insertRoute_same_edge])
        (rule less.hyps[OF small kid(3)], use con Down(5) less.prems(2) in \<open>auto simp: through_def\<close>)
  next
    case (Split st k r stail ps pe i c)
    with insert_down_consume(3)[OF less.prems(1) Split(1-4)] insertSegmentD(1)[OF Split(2,1)]
    have st: "st = ntStatic" "stail = CHR 0x00" by auto
    with slookup_splitNode[OF less.prems(1) _ Split(4)[unfolded st] refl Split(6,1) less.prems(2) m] Split(3)
    show ?thesis unfolding insertRoute_split[OF Split] by simp
  qed
qed

end
