(* ===== verification/Router_Mux.thy ===== *)
theory Router_Mux
  imports Router_Static
begin

text \<open>
  The multiplexer (\<^verbatim>\<open>internal/platform/router/mux.go\<close>) and the routing context
  (\<^verbatim>\<open>context.go\<close>), with the contract of the \<^verbatim>\<open>Router\<close> interface of \<^verbatim>\<open>chi.go\<close> as a locale that the
  multiplexer interprets.
\<close>

subsection \<open>Operations\<close>

record ('h, 's) Mux =
  mux_tree :: "('h, 's) node"

definition NewMux :: "('h, 's) Mux" where
  "NewMux = \<lparr> mux_tree = emptyNode \<rparr>"

definition InsertRoute :: "router_env \<Rightarrow> methodTyp \<Rightarrow> string \<Rightarrow> 'h option \<Rightarrow> ('h, 's) node
    \<Rightarrow> ('h, 's) node \<times> gerror option" where
  "InsertRoute env method pattern handler n = insertRoute env method pattern None handler n pattern"

definition InsertRouteWithActions :: "router_env \<Rightarrow> methodTyp \<Rightarrow> string \<Rightarrow> Actions option \<Rightarrow> 'h option
    \<Rightarrow> ('h, 's) node \<Rightarrow> ('h, 's) node \<times> gerror option" where
  "InsertRouteWithActions env method pattern actions handler n =
    insertRoute env method pattern actions handler n pattern"

definition handle :: "router_env \<Rightarrow> ('h, 's) Mux \<Rightarrow> methodTyp \<Rightarrow> string \<Rightarrow> 'h option
    \<Rightarrow> ('h, 's) Mux \<times> gerror option" where
  "handle env mx method pattern handler =
    (if pattern = [] \<or> hd pattern \<noteq> CHR ''/''
     then (mx, Some (''routing pattern must begin with '/' in '' @ quoted pattern))
     else let (t, err) = InsertRoute env method pattern handler (mux_tree mx)
          in (mx\<lparr>mux_tree := t\<rparr>, err))"

definition handleWithActions :: "router_env \<Rightarrow> ('h, 's) Mux \<Rightarrow> methodTyp \<Rightarrow> string \<Rightarrow> Actions option
    \<Rightarrow> 'h option \<Rightarrow> ('h, 's) Mux \<times> gerror option" where
  "handleWithActions env mx method pattern actions handler =
    (if pattern = [] \<or> hd pattern \<noteq> CHR ''/''
     then (mx, Some (''routing pattern must begin with '/' in '' @ quoted pattern))
     else let (t, err) = InsertRouteWithActions env method pattern actions handler (mux_tree mx)
          in (mx\<lparr>mux_tree := t\<rparr>, err))"

definition AddEndpoint :: "router_env \<Rightarrow> ('h, 's) Mux \<Rightarrow> string \<Rightarrow> string \<Rightarrow> 'h option
    \<Rightarrow> ('h, 's) Mux \<times> gerror option" where
  "AddEndpoint env mx method pattern handler =
    (case map_of (methodMap env) (ToUpper method) of
       None \<Rightarrow> (mx, Some (quoted method @ '' http method is not supported''))
     | Some m \<Rightarrow> handle env mx m pattern handler)"

definition AddEndpointWithActions :: "router_env \<Rightarrow> ('h, 's) Mux \<Rightarrow> string \<Rightarrow> string \<Rightarrow> Actions option
    \<Rightarrow> 'h option \<Rightarrow> ('h, 's) Mux \<times> gerror option" where
  "AddEndpointWithActions env mx method pattern actions handler =
    (case map_of (methodMap env) (ToUpper method) of
       None \<Rightarrow> (mx, Some (quoted method @ '' http method is not supported''))
     | Some m \<Rightarrow> handleWithActions env mx m pattern actions handler)"

definition nextRoutePath :: "Context \<Rightarrow> string" where
  "nextRoutePath rctx =
    (let ks = rkeys rctx; vs = rvalues rctx; nx = length ks - 1 in
     if ks \<noteq> [] \<and> ks ! nx = ''*'' \<and> length vs > nx then ''/'' @ vs ! nx else ''/'')"

text \<open>The lookups; \<open>sub\<close> is the lookup of a mounted sub-router (the interface \<^verbatim>\<open>Routes\<close>).\<close>

definition Find :: "router_env \<Rightarrow> ('s \<Rightarrow> Context \<Rightarrow> string \<Rightarrow> string \<Rightarrow> 'h option \<times> Context)
    \<Rightarrow> ('h, 's) Mux \<Rightarrow> Context \<Rightarrow> string \<Rightarrow> string \<Rightarrow> 'h option \<times> Context" where
  "Find env sub mx rctx method path =
    (case map_of (methodMap env) method of
       None \<Rightarrow> (None, rctx)
     | Some m \<Rightarrow>
         (case FindRoute env (mux_tree mx) rctx m path of
            ((None, eps, h), rctx') \<Rightarrow> (h, rctx')
          | ((Some n, eps, h), rctx') \<Rightarrow>
              (case nd_subroutes (nd n) of
                 None \<Rightarrow> (h, rctx')
               | Some s \<Rightarrow>
                   let rctx'' = rctx'\<lparr>RoutePath := nextRoutePath rctx'\<rparr>
                   in sub s rctx'' method (RoutePath rctx''))))"

definition FindWithActions :: "router_env
    \<Rightarrow> ('s \<Rightarrow> Context \<Rightarrow> string \<Rightarrow> string \<Rightarrow> ('h option \<times> Actions option) \<times> Context)
    \<Rightarrow> ('h, 's) Mux \<Rightarrow> Context \<Rightarrow> string \<Rightarrow> string \<Rightarrow> ('h option \<times> Actions option) \<times> Context" where
  "FindWithActions env sub mx rctx method path =
    (case map_of (methodMap env) method of
       None \<Rightarrow> ((None, None), rctx)
     | Some m \<Rightarrow>
         (case FindRouteWithActions env (mux_tree mx) rctx m path of
            ((None, h, a), rctx') \<Rightarrow> ((h, a), rctx')
          | ((Some n, h, a), rctx') \<Rightarrow>
              (case nd_subroutes (nd n) of
                 None \<Rightarrow> ((h, a), rctx')
               | Some s \<Rightarrow>
                   let rctx'' = rctx'\<lparr>RoutePath := nextRoutePath rctx'\<rparr>
                   in sub s rctx'' method (RoutePath rctx''))))"

subsection \<open>The routing context\<close>

definition Reset :: "Context \<Rightarrow> Context" where
  "Reset x = x\<lparr> RoutePath := [], RouteMethod := [], RoutePatterns := [],
    URLParams := \<lparr> Keys = [], Values = [] \<rparr>, routePattern := [],
    routeParams := \<lparr> Keys = [], Values = [] \<rparr>, methodNotAllowed := False, methodsAllowed := [] \<rparr>"

definition RouteParams_Add :: "RouteParams \<Rightarrow> string \<Rightarrow> string \<Rightarrow> RouteParams" where
  "RouteParams_Add s key val = \<lparr> Keys = Keys s @ [key], Values = Values s @ [val] \<rparr>"

text \<open>The last value of a key; \<^term>\<open>None\<close> is the panic of an index out of range.\<close>

definition URLParam :: "Context \<Rightarrow> string \<Rightarrow> string option" where
  "URLParam x key =
    (let ks = Keys (URLParams x); vs = Values (URLParams x) in
     case find_index (\<lambda>k. k = key) (rev ks) of
       None \<Rightarrow> Some []
     | Some j \<Rightarrow> let k = length ks - 1 - j in if k < length vs then Some (vs ! k) else None)"

fun allParamsLoop :: "string list \<Rightarrow> string list \<Rightarrow> (string \<rightharpoonup> string) \<Rightarrow> (string \<rightharpoonup> string) option" where
  "allParamsLoop [] vs params = Some params"
| "allParamsLoop (k # ks) [] params = None"
| "allParamsLoop (k # ks) (v # vs) params = allParamsLoop ks vs (params(k \<mapsto> v))"

text \<open>\<^verbatim>\<open>AllURLParams\<close> of a request whose routing context is \<open>x\<close>; again \<^term>\<open>None\<close> is a panic.\<close>

definition AllURLParams :: "Context \<Rightarrow> (string \<rightharpoonup> string) option" where
  "AllURLParams x = allParamsLoop (Keys (URLParams x)) (Values (URLParams x)) Map.empty"

function replaceWildcards :: "string \<Rightarrow> string" where
  "replaceWildcards p =
    (if Contains p ''/*/'' then replaceWildcards (ReplaceAll p ''/*/'' ''/'') else p)"
  by pat_completeness auto
termination
  by (relation "measure length") (auto simp: ReplaceAll_shrinks)

declare replaceWildcards.simps [simp del]

definition RoutePattern :: "Context \<Rightarrow> string" where
  "RoutePattern x =
    (let p = replaceWildcards (Join (RoutePatterns x) [])
     in if p \<noteq> ''/'' then TrimSuffix (TrimSuffix p ''//'') ''/'' else p)"

subsection \<open>Method bits\<close>

text \<open>The methods are the bits 1, 2, \<open>\<dots>\<close> in the order of their registration.\<close>

definition env_ok :: "router_env \<Rightarrow> bool" where
  "env_ok env \<longleftrightarrow>
    map snd (methodMap env) = map (\<lambda>i. method_bit (Suc i)) [0..<length (methodMap env)]
    \<and> 9 \<le> length (methodMap env) \<and> length (methodMap env) < 64
    \<and> distinct (map fst (methodMap env))
    \<and> (\<forall>i. bit (mALL env) i \<longleftrightarrow> 1 \<le> i \<and> i \<le> length (methodMap env))"

lemma env_ok_initial: "env_ok (initial_env rc)"
proof -
  have "bit (mALL (initial_env rc)) i \<longleftrightarrow> 1 \<le> i \<and> i \<le> 9" for i
    by (simp add: initial_env_def method_consts bit_or_iff bit_method_bit) presburger
  then show ?thesis
    by (simp add: env_ok_def) (simp add: initial_env_def method_consts upt_rec numeral_eq_Suc)
qed

lemma env_ok_bit:
  assumes "env_ok env" "(s, m) \<in> set (methodMap env)"
  obtains k where "1 \<le> k" "k < 64" "m = method_bit k"
proof -
  from assms(2) have "m \<in> set (map snd (methodMap env))" by force
  with assms(1) obtain i where "i < length (methodMap env)" "m = method_bit (Suc i)"
    by (auto simp: env_ok_def)
  with assms(1) that[of "Suc i"] show thesis by (simp add: env_ok_def)
qed

lemma method_bit_inject: "i < 64 \<Longrightarrow> j < 64 \<Longrightarrow> method_bit i = method_bit j \<longleftrightarrow> i = j"
  using bit_method_bit by metis

lemma env_ok_inj:
  assumes "env_ok env" "map_of (methodMap env) s = Some m" "map_of (methodMap env) s' = Some m"
  shows "s = s'"
proof -
  have "distinct (map snd (methodMap env))"
    using assms(1) by (auto simp: env_ok_def distinct_map inj_on_def method_bit_inject)
  then show ?thesis
    using map_of_SomeD[OF assms(2)] map_of_SomeD[OF assms(3)]
    by (metis distinct_map inj_onD prod.inject snd_conv)
qed

lemma env_ok_plain:
  assumes "env_ok env" "map_of (methodMap env) s = Some m"
  shows "plain_method env m"
proof -
  from map_of_SomeD[OF assms(2)] obtain k where k: "1 \<le> k" "k < 64" "m = method_bit k"
    by (rule env_ok_bit[OF assms(1)])
  then have "\<not> bit (m AND mSTUB) 0" "\<not> bit (m AND mALL env) 1 \<or> \<not> bit (m AND mALL env) 2"
    by (auto simp: bit_and_iff bit_method_bit)
  moreover have "bit mSTUB 0" "bit (mALL env) 1" "bit (mALL env) 2"
    using assms(1) by (auto simp: mSTUB_def env_ok_def bit_method_bit)
  ultimately show ?thesis unfolding plain_method_def by metis
qed

lemma RegisterMethod_env_ok:
  assumes "env_ok env"
  shows "env_ok (fst (RegisterMethod env method))"
proof (cases "method = [] \<or> map_of (methodMap env) (ToUpper method) \<noteq> None \<or> length (methodMap env) > 62")
  case True
  with assms show ?thesis by (auto simp: RegisterMethod_def Let_def split: option.splits)
next
  case False
  let ?n = "length (methodMap env)"
  have mt: "push_bit ?n 2 = method_bit (Suc ?n)"
    by (simp add: push_bit_eq_mult method_bit_def)
  have fst: "fst (RegisterMethod env method) =
    env\<lparr>methodMap := methodMap env @ [(ToUpper method, method_bit (Suc ?n))],
        mALL := mALL env OR method_bit (Suc ?n)\<rparr>"
    using False by (auto simp: RegisterMethod_def Let_def mt split: option.splits)
  have fresh: "ToUpper method \<notin> fst ` set (methodMap env)"
    using False by (simp add: map_of_eq_None_iff)
  have "bit (mALL env OR method_bit (Suc ?n)) i \<longleftrightarrow> 1 \<le> i \<and> i \<le> Suc ?n" for i
    using assms False by (auto simp: env_ok_def bit_or_iff bit_method_bit)
  with assms False fresh show ?thesis by (auto simp: fst env_ok_def)
qed

subsection \<open>The invariant of the multiplexer\<close>

text \<open>\<open>G\<close> holds the registrations that may be in the tree.\<close>

definition mux_ok :: "router_env \<Rightarrow> 'h registration set \<Rightarrow> ('h, 's) Mux \<Rightarrow> bool" where
  "mux_ok env G mx \<longleftrightarrow> wf_node env G Some (mux_tree mx)"

lemma mux_ok_new: "mux_ok env G NewMux"
  unfolding mux_ok_def NewMux_def emptyNode_def by (simp add: wf_childless)

lemma AddEndpoint_actions: "AddEndpoint env mx me p h = AddEndpointWithActions env mx me p None h"
  by (simp add: AddEndpoint_def AddEndpointWithActions_def handle_def handleWithActions_def
      InsertRoute_def InsertRouteWithActions_def split: option.split)

text \<open>An addition either stops before the tree or is one \<^const>\<open>insertRoute\<close>.\<close>

lemma AddEndpointWithActionsE:
  assumes "AddEndpointWithActions env mx me p a h = (mx', err)"
  obtains "mx' = mx" "err \<noteq> None" "map_of (methodMap env) (ToUpper me) = None \<or> p = [] \<or> hd p \<noteq> CHR ''/''"
  | m where "map_of (methodMap env) (ToUpper me) = Some m" "p \<noteq> []"
      "mux_tree mx' = fst (insertRoute env m p a h (mux_tree mx) p)"
      "err = snd (insertRoute env m p a h (mux_tree mx) p)"
  using assms
  by (auto simp: AddEndpointWithActions_def handleWithActions_def InsertRouteWithActions_def split_def Let_def
      split: option.splits if_splits)

lemma mux_ok_add:
  assumes env: "env_ok env" and ok: "mux_ok env G mx"
    and add: "AddEndpointWithActions env mx me p a h = (mx', err)"
    and G: "\<And>m. err = None \<Longrightarrow> map_of (methodMap env) (ToUpper me) = Some m \<Longrightarrow> (m, p, h, a) \<in> G'"
    and sub: "G \<subseteq> G'"
  shows "mux_ok env G' mx'"
  using add
proof (cases rule: AddEndpointWithActionsE)
  case 1
  with ok wf_node_mono[OF _ sub] show ?thesis by (simp add: mux_ok_def)
next
  case (2 m)
  have "admitted G' m p h a \<or> err \<noteq> None" using G 2(1) by (auto simp: admitted_def)
  with wf_insertRoute[OF env_ok_plain[OF env 2(1)] wf_node_mono[OF ok[unfolded mux_ok_def] sub]] 2
  show ?thesis by (simp add: mux_ok_def)
qed

subsection \<open>Lookups\<close>

lemma mux_find:
  assumes ok: "mux_ok env G mx" and m: "map_of (methodMap env) method = Some m"
    and find: "FindWithActions env sub mx rctx method path = ((Some h, a), rctx')"
  obtains p vs ks where "(m, p, Some h, a) \<in> G" "pat_match env p vs path" "patParamKeys p = Inr ks"
    "URLParams rctx' = \<lparr> Keys = Keys (URLParams rctx) @ ks, Values = Values (URLParams rctx) @ vs \<rparr>"
proof -
  let ?r = "rctx\<lparr>routePattern := [], routeParams := \<lparr>Keys = [], Values = []\<rparr>\<rparr>"
  obtain fo rctx1 where fr: "findRoute env (mux_tree mx) ?r m path = (fo, rctx1)" by fastforce
  from findRoute_ok[OF ok[unfolded mux_ok_def], of m path ?r] fr
  have lk: "lookup_ok env G Some m path ?r (fo, rctx1)" by simp
  show thesis
  proof (cases fo)
    case None
    with find m fr show thesis by (simp add: FindWithActions_def FindRouteWithActions_def)
  next
    case (Some leaf)
    from lk Some obtain e vs where e: "leafHandler leaf m = Some e" "pat_match env (ep_pattern e) vs path"
      "rvalues rctx1 = vs" "rkeys rctx1 = ep_paramKeys e" "patParamKeys (ep_pattern e) = Inr (ep_paramKeys e)"
      "(m, ep_pattern e, ep_handler e, ep_actions e) \<in> G" "nd_subroutes (nd leaf) = None"
      by (auto simp: lookup_ok_def found_def)
    from e(1) obtain eps where eps: "endpoints_of leaf = Some eps" "map_of eps m = Some e"
      by (rule leafHandlerD)
    have url: "URLParams rctx1 = URLParams rctx"
      using findRoute_frame[of env "mux_tree mx" ?r m path] fr by (simp add: frame_def)
    show thesis
      using find m fr Some e eps url
      by (intro that[of "ep_pattern e" vs "ep_paramKeys e"])
        (auto simp: FindWithActions_def FindRouteWithActions_def Let_def Value_def split: if_splits)
  qed
qed

text \<open>The static routes of a multiplexer, by method name and path.\<close>

definition staticRoutes :: "router_env \<Rightarrow> ('h, 's) Mux \<Rightarrow> string \<times> string \<Rightarrow> ('h \<times> Actions option) option" where
  "staticRoutes env mx = (\<lambda>(method, path).
    case map_of (methodMap env) method of
      None \<Rightarrow> None
    | Some m \<Rightarrow>
        (case slookup (mux_tree mx) path m of
           None \<Rightarrow> None
         | Some e \<Rightarrow> (case ep_handler e of None \<Rightarrow> None | Some h \<Rightarrow> Some (h, ep_actions e))))"

lemma staticRoutes_new: "staticRoutes env NewMux = (\<lambda>_. None)"
  unfolding staticRoutes_def NewMux_def emptyNode_def
  by (auto simp: fun_eq_iff slookup_childless split: option.split)

lemma find_staticRoutes:
  assumes ok: "mux_ok env G mx" and r: "staticRoutes env mx (method, path) = Some (h, a)" and ne: "path \<noteq> []"
  shows "fst (FindWithActions env sub mx rctx method path) = (Some h, a)"
proof -
  from r obtain m e where m: "map_of (methodMap env) method = Some m"
    and e: "slookup (mux_tree mx) path m = Some e" "ep_handler e = Some h" "ep_actions e = a"
    by (auto simp: staticRoutes_def split: option.splits)
  let ?r = "rctx\<lparr>routePattern := [], routeParams := \<lparr>Keys = [], Values = []\<rparr>\<rparr>"
  from findRoute_static[OF ok[unfolded mux_ok_def] ne e(1), of ?r]
  obtain leaf rctx1 where fr: "findRoute env (mux_tree mx) ?r m path = (Some leaf, rctx1)"
    and lh: "leafHandler leaf m = Some e" by blast
  from findRoute_ok[OF ok[unfolded mux_ok_def], of m path ?r] fr
  have "nd_subroutes (nd leaf) = None" by (simp add: lookup_ok_def found_def)
  moreover from lh obtain eps where "endpoints_of leaf = Some eps" "map_of eps m = Some e"
    by (rule leafHandlerD)
  ultimately show ?thesis
    using m fr e by (simp add: FindWithActions_def FindRouteWithActions_def Let_def Value_def)
qed

subsection \<open>Additions and the static routes\<close>

lemma patParamKeys_static: "\<not> wild p \<Longrightarrow> patParamKeys p = Inr []"
  by (simp add: patParamKeys_def patParamKeysLoop.simps patNextSegment_static)

lemma setEndpoint_static_ok: "\<not> wild p \<Longrightarrow> snd (setEndpoint env m a h p x) = None"
  by (simp add: setEndpoint_def Let_def patParamKeys_static)

lemma splitNode_static_ok:
  assumes n: "wf_node env G K n" and edge: "getEdge n ntStatic (hd search) CHR 0x00 [] = Some i"
    and c: "c = children n ntStatic ! i" and cp: "cp = longestPrefix search (prefix_of c)"
    and lt: "cp \<noteq> length (prefix_of c)" and ne: "search \<noteq> []"
    and nw: "\<not> wild search" "\<not> wild pattern"
  shows "snd (splitNode env m a h pattern n search CHR 0x00 c cp) = None"
proof (rule splitNode_result[OF n edge c cp lt ne refl refl refl, of m a h pattern])
  define child where "child = appendChild (new_node ntStatic CHR 0x00 CHR 0x00 (take cp search))
    (map_nd (\<lambda>d. d\<lparr>nd_label := nd_prefix d ! cp, nd_prefix := drop cp (nd_prefix d)\<rparr>) c)"
  assume "snd (splitNode env m a h pattern n search CHR 0x00 c cp) =
      (if drop cp search = [] then snd (setEndpoint env m a h pattern (appendChild
          (new_node ntStatic CHR 0x00 CHR 0x00 (take cp search))
          (map_nd (\<lambda>d. d\<lparr>nd_label := nd_prefix d ! cp, nd_prefix := drop cp (nd_prefix d)\<rparr>) c)))
       else case addChild env (\<lambda>x. fst (setEndpoint env m a h pattern x)) (appendChild
          (new_node ntStatic CHR 0x00 CHR 0x00 (take cp search))
          (map_nd (\<lambda>d. d\<lparr>nd_label := nd_prefix d ! cp, nd_prefix := drop cp (nd_prefix d)\<rparr>) c))
        (new_node ntStatic (hd (drop cp search)) CHR 0x00 (drop cp search)) (drop cp search) of
          Inl e \<Rightarrow> Some e | Inr y \<Rightarrow> snd (setEndpoint env m a h pattern y))"
  moreover have "\<not> wild (drop cp search)" using nw(1) by (auto simp: wild_def dest: in_set_dropD)
  then obtain y where "addChild env (\<lambda>x. fst (setEndpoint env m a h pattern x)) child
      (new_node ntStatic (hd (drop cp search)) CHR 0x00 (drop cp search)) (drop cp search) = Inr y"
    using addChild_static_Inr by blast
  ultimately show ?thesis by (simp add: setEndpoint_static_ok[OF nw(2)] child_def)
qed

lemma insertRoute_static_ok:
  assumes "\<not> wild pattern"
  shows "wf_node env G K n \<Longrightarrow> \<not> wild search \<Longrightarrow> snd (insertRoute env m pattern a h n search) = None"
proof (induction "size n" arbitrary: n search K rule: less_induct)
  case less
  show ?case
  proof (cases rule: insertRoute_cases[where search = search and n = n])
    case Nil
    then show ?thesis by (simp add: insertRoute_Nil setEndpoint_static_ok assms)
  next
    case (Bad e)
    with less.prems(2) show ?thesis by (cases search) (auto simp: insertSegment_def)
  next
    case (New st k r stail ps pe)
    obtain n' where "addChild env (\<lambda>hn. fst (setEndpoint env m a h pattern hn)) n
      (new_node ntStatic (hd search) stail search) search = Inr n'"
      using addChild_static_Inr[OF less.prems(2)] by blast
    then show ?thesis unfolding insertRoute_new[OF New] by (simp add: setEndpoint_static_ok assms)
  next
    case (Down st k r stail ps pe i c s')
    note kid = getEdge_kid[OF less.prems(1) Down(3,4)]
    have small: "size c < size n" unfolding Down(4) using kid(1) by (rule size_children_nth)
    have "\<not> wild s'" using Down(5) less.prems(2) by (auto simp: wild_def dest: in_set_dropD)
    from less.hyps[OF small kid(3) this] show ?thesis unfolding insertRoute_down[OF Down] by simp
  next
    case (Split st k r stail ps pe i c)
    with insert_down_consume(3)[OF less.prems(1) Split(1-4)] insertSegmentD(1)[OF Split(2,1)]
    have st: "st = ntStatic" "stail = CHR 0x00" by auto
    with splitNode_static_ok[OF less.prems(1) _ Split(4)[unfolded st] refl Split(6,1) less.prems(2) assms] Split(3)
    show ?thesis unfolding insertRoute_split[OF Split] by simp
  qed
qed

text \<open>The effect of an addition: a successful addition of a pattern without parameters updates its
  own entry; every other addition, successful or not, leaves the static routes as they are.\<close>

lemma staticRoutes_add:
  assumes env: "env_ok env" and ok: "mux_ok env G mx"
    and add: "AddEndpointWithActions env mx me p a (Some h) = (mx', err)"
  shows "staticRoutes env mx' =
    (if err = None \<and> \<not> wild p then (staticRoutes env mx)((ToUpper me, p) \<mapsto> (h, a)) else staticRoutes env mx)"
  using add
proof (cases rule: AddEndpointWithActionsE)
  case 1
  then show ?thesis by auto
next
  case (2 m)
  note wf = wf_node_mono[OF ok[unfolded mux_ok_def] subset_insertI[of G "(m, p, Some h, a)"]]
  have adm: "admitted (insert (m, p, Some h, a) G) m p (Some h) a" by (simp add: admitted_def)
  have law: "slookup (mux_tree mx') q m' =
      supdate (newEndpoint p (Some h) a) (\<not> wild p \<and> q = p \<and> m' = m) (slookup (mux_tree mx) q m')" for q m'
    using slookup_insertRoute[OF env_ok_plain[OF env 2(1)] adm _ wf refl] 2(3) by simp
  have err: "\<not> wild p \<Longrightarrow> err = None" using insertRoute_static_ok[OF _ wf] 2(4) by simp
  have inj: "map_of (methodMap env) me' = Some m \<longleftrightarrow> me' = ToUpper me" for me'
    using env_ok_inj[OF env _ 2(1)] 2(1) by blast
  show ?thesis
  proof (cases "wild p")
    case True
    then have eq: "slookup (mux_tree mx') = slookup (mux_tree mx)" by (simp add: fun_eq_iff law supdate_def)
    show ?thesis unfolding staticRoutes_def eq using True by simp
  next
    case False
    show ?thesis
    proof (rule ext)
      fix x :: "string \<times> string"
      obtain me' q where x: "x = (me', q)" by (cases x)
      show "staticRoutes env mx' x = (if err = None \<and> \<not> wild p
          then (staticRoutes env mx)((ToUpper me, p) \<mapsto> (h, a)) else staticRoutes env mx) x"
        using inj[of me'] False err
        by (auto simp: x staticRoutes_def law supdate_def newEndpoint_def patParamKeys_static split: option.split)
    qed
  qed
qed

subsection \<open>The contract of a router\<close>

text \<open>Adding routes one after the other, as the handlers do at start: a refused route is skipped.
  The second component lists the accepted routes.\<close>

fun registerAll :: "('r \<Rightarrow> string \<Rightarrow> string \<Rightarrow> 'a \<Rightarrow> 'h \<Rightarrow> 'r \<times> gerror option) \<Rightarrow> 'r
    \<Rightarrow> (string \<times> string \<times> 'a \<times> 'h) list \<Rightarrow> 'r \<times> (string \<times> string \<times> 'a \<times> 'h) list" where
  "registerAll add r [] = (r, [])"
| "registerAll add r ((m, p, a, h) # rs) =
    (let (r', err) = add r m p a h; (r'', acc) = registerAll add r' rs
     in (r'', if err = None then (ToUpper m, p, a, h) # acc else acc))"

locale endpoint_router =
  fixes new :: 'r
    and add :: "'r \<Rightarrow> string \<Rightarrow> string \<Rightarrow> 'a \<Rightarrow> 'h \<Rightarrow> 'r \<times> gerror option"
    and find :: "'r \<Rightarrow> string \<Rightarrow> string \<Rightarrow> ('h \<times> 'a) option"
    and routes :: "'r \<Rightarrow> string \<times> string \<Rightarrow> ('h \<times> 'a) option"
    and invar :: "(string \<times> string \<times> 'a \<times> 'h) set \<Rightarrow> 'r \<Rightarrow> bool"
    and exact :: "string \<Rightarrow> bool"
    and matches :: "string \<Rightarrow> string \<Rightarrow> bool"
  assumes invar_new: "invar {} new"
    and invar_add: "invar A r \<Longrightarrow> add r m p a h = (r', err)
      \<Longrightarrow> invar (if err = None then insert (ToUpper m, p, a, h) A else A) r'"
    and routes_new: "routes new = (\<lambda>_. None)"
    and routes_add: "invar A r \<Longrightarrow> add r m p a h = (r', err)
      \<Longrightarrow> routes r' = (if err = None \<and> exact p then (routes r)((ToUpper m, p) \<mapsto> (h, a)) else routes r)"
    and find_routes: "invar A r \<Longrightarrow> q \<noteq> [] \<Longrightarrow> routes r (m, q) = Some x \<Longrightarrow> find r m q = Some x"
    and find_matches: "invar A r \<Longrightarrow> find r m q = Some (h, a) \<Longrightarrow> \<exists>p. (m, p, a, h) \<in> A \<and> matches p q"
begin

lemma registerAll_invar:
  "registerAll add r rs = (r', acc) \<Longrightarrow> invar A r \<Longrightarrow> invar (A \<union> set acc) r'"
proof (induction rs arbitrary: r A r' acc)
  case (Cons x rs)
  obtain m p a h where x: "x = (m, p, a, h)" by (cases x)
  obtain r1 err where add: "add r m p a h = (r1, err)" by fastforce
  obtain acc1 where rs: "registerAll add r1 rs = (r', acc1)"
    and acc: "acc = (if err = None then (ToUpper m, p, a, h) # acc1 else acc1)"
    using Cons.prems(1) add by (auto simp: x split: prod.splits)
  from Cons.IH[OF rs invar_add[OF Cons.prems(2) add]] acc show ?case by (auto split: if_splits)
qed simp

lemma registerAll_routes:
  "registerAll add r rs = (r', acc) \<Longrightarrow> invar A r \<Longrightarrow>
    routes r' = routes r ++ map_of (rev [((m, p), (h, a)). (m, p, a, h) \<leftarrow> acc, exact p])"
proof (induction rs arbitrary: r A r' acc)
  case (Cons x rs)
  obtain m p a h where x: "x = (m, p, a, h)" by (cases x)
  obtain r1 err where add: "add r m p a h = (r1, err)" by fastforce
  obtain acc1 where rs: "registerAll add r1 rs = (r', acc1)"
    and acc: "acc = (if err = None then (ToUpper m, p, a, h) # acc1 else acc1)"
    using Cons.prems(1) add by (auto simp: x split: prod.splits)
  from Cons.IH[OF rs invar_add[OF Cons.prems(2) add]] routes_add[OF Cons.prems(2) add] acc
  show ?case by (auto simp: map_add_upd_left[symmetric] fun_eq_iff map_add_def split: option.splits)
qed (auto simp: fun_eq_iff)

text \<open>The last accepted registration of an exact path is what a lookup of the path returns.\<close>

lemma registered_found:
  assumes "registerAll add new rs = (r, xs @ (m, p, a, h) # ys)" "exact p" "p \<noteq> []"
    "\<forall>y\<in>set ys. (fst y, fst (snd y)) \<noteq> (m, p)"
  shows "find r m p = Some (h, a)"
proof (rule find_routes)
  from registerAll_invar[OF assms(1) invar_new] show "invar (set (xs @ (m, p, a, h) # ys)) r" by simp
  have "(m, p) \<notin> fst ` set (rev [((m, p), (h, a)). (m, p, a, h) \<leftarrow> ys, exact p])"
    using assms(4) by force
  then have "map_of (rev [((m, p), (h, a)). (m, p, a, h) \<leftarrow> ys, exact p]) (m, p) = None"
    by (simp add: map_of_eq_None_iff)
  with registerAll_routes[OF assms(1) invar_new] assms(2) routes_new
  show "routes r (m, p) = Some (h, a)" by (simp add: map_add_def)
qed (use assms in auto)

lemma found_registered:
  assumes "registerAll add new rs = (r, acc)" "find r m q = Some (h, a)"
  shows "\<exists>p. (m, p, a, h) \<in> set acc \<and> matches p q"
  using find_matches[OF registerAll_invar[OF assms(1) invar_new] assms(2)] by simp

end

subsection \<open>The multiplexer as a router\<close>

definition addRoute :: "(string \<Rightarrow> (string \<Rightarrow> bool) option) \<Rightarrow> ('h, 's) Mux \<Rightarrow> string \<Rightarrow> string
    \<Rightarrow> Actions option \<Rightarrow> 'h \<Rightarrow> ('h, 's) Mux \<times> gerror option" where
  "addRoute rc mx m p a h = AddEndpointWithActions (initial_env rc) mx m p a (Some h)"

text \<open>A lookup with a fresh routing context; there are no sub-routers, so \<open>sub\<close> is arbitrary.\<close>

definition routeFor :: "(string \<Rightarrow> (string \<Rightarrow> bool) option)
    \<Rightarrow> ('s \<Rightarrow> Context \<Rightarrow> string \<Rightarrow> string \<Rightarrow> ('h option \<times> Actions option) \<times> Context)
    \<Rightarrow> ('h, 's) Mux \<Rightarrow> string \<Rightarrow> string \<Rightarrow> ('h \<times> Actions option) option" where
  "routeFor rc sub mx m path =
    (case FindWithActions (initial_env rc) sub mx NewRouteContext m path of
       ((Some h, a), rctx) \<Rightarrow> Some (h, a) | ((None, a), rctx) \<Rightarrow> None)"

definition mux_regs :: "router_env \<Rightarrow> (string \<times> string \<times> Actions option \<times> 'h) set \<Rightarrow> 'h registration set" where
  "mux_regs env A = {(m, p, Some h, a) | me m p h a. (me, p, a, h) \<in> A \<and> map_of (methodMap env) me = Some m}"

definition mux_invar :: "(string \<Rightarrow> (string \<Rightarrow> bool) option)
    \<Rightarrow> (string \<times> string \<times> Actions option \<times> 'h) set \<Rightarrow> ('h, 's) Mux \<Rightarrow> bool" where
  "mux_invar rc A mx \<longleftrightarrow> mux_ok (initial_env rc) (mux_regs (initial_env rc) A) mx"

lemma mux_find_reg:
  assumes "mux_invar rc A mx" "FindWithActions (initial_env rc) sub mx rctx me path = ((Some h, a), rctx')"
  obtains p vs ks where "(me, p, a, h) \<in> A" "pat_match (initial_env rc) p vs path" "patParamKeys p = Inr ks"
    "URLParams rctx' = \<lparr> Keys = Keys (URLParams rctx) @ ks, Values = Values (URLParams rctx) @ vs \<rparr>"
proof -
  from assms(2) obtain m where m: "map_of (methodMap (initial_env rc)) me = Some m"
    by (auto simp: FindWithActions_def split: option.splits)
  from assms(1)[unfolded mux_invar_def] m assms(2) show thesis
  proof (rule mux_find)
    fix p vs ks
    assume r: "(m, p, Some h, a) \<in> mux_regs (initial_env rc) A" and rest: "pat_match (initial_env rc) p vs path"
      "patParamKeys p = Inr ks"
      "URLParams rctx' = \<lparr> Keys = Keys (URLParams rctx) @ ks, Values = Values (URLParams rctx) @ vs \<rparr>"
    from r obtain me' where "(me', p, a, h) \<in> A" "map_of (methodMap (initial_env rc)) me' = Some m"
      by (auto simp: mux_regs_def)
    with env_ok_inj[OF env_ok_initial m] rest show thesis by (metis that)
  qed
qed

interpretation mux: endpoint_router NewMux "addRoute rc" "routeFor rc sub" "staticRoutes (initial_env rc)"
  "mux_invar rc" "\<lambda>p. \<not> wild p" "\<lambda>p q. \<exists>vs. pat_match (initial_env rc) p vs q"
  for rc sub
proof (unfold_locales, goal_cases)
  case 1
  show ?case by (simp add: mux_invar_def mux_ok_new)
next
  case (2 A r m p a h r' err)
  then show ?case
    unfolding mux_invar_def addRoute_def
    by (elim mux_ok_add[OF env_ok_initial]) (auto simp: mux_regs_def)
next
  case 3
  show ?case by (rule staticRoutes_new)
next
  case (4 A r m p a h r' err)
  then show ?case
    unfolding mux_invar_def addRoute_def by (elim staticRoutes_add[OF env_ok_initial])
next
  case (5 A r q m x)
  obtain h a where x: "x = (h, a)" by (cases x)
  from find_staticRoutes[OF 5(1)[unfolded mux_invar_def] 5(3)[unfolded x] 5(2), of sub NewRouteContext]
  show ?case by (auto simp: routeFor_def x split: prod.split option.split)
next
  case (6 A r m q h a)
  from 6(2) obtain rctx' where "FindWithActions (initial_env rc) sub r NewRouteContext m q = ((Some h, a), rctx')"
    by (auto simp: routeFor_def split: prod.splits option.splits)
  from mux_find_reg[OF 6(1) this] show ?case by blast
qed

subsection \<open>Reading the parameters\<close>

lemma patParamKeysLoop_distinct:
  "patParamKeysLoop pattern pat ks = Inr ks' \<Longrightarrow> distinct ks \<Longrightarrow> distinct ks'"
proof (induction pattern pat ks rule: patParamKeysLoop.induct)
  case (1 pattern pat ks)
  then show ?case
    by (subst (asm) (2) patParamKeysLoop.simps) (auto split: sum.splits if_splits)
qed

lemma patParamKeys_distinct: "patParamKeys p = Inr ks \<Longrightarrow> distinct ks"
  unfolding patParamKeys_def by (drule patParamKeysLoop_distinct) simp_all

lemma allParamsLoop_acc:
  "length ks = length vs \<Longrightarrow> distinct ks \<Longrightarrow> allParamsLoop ks vs params = Some (params ++ map_of (zip ks vs))"
  by (induction ks vs params rule: allParamsLoop.induct)
    (auto simp: fun_eq_iff map_add_def split: option.splits dest: map_of_SomeD set_zip_leftD)

lemma allParamsLoop_zip:
  "length ks = length vs \<Longrightarrow> distinct ks \<Longrightarrow> allParamsLoop ks vs Map.empty = Some (map_of (zip ks vs))"
  by (simp add: allParamsLoop_acc)

lemma URLParam_zip:
  assumes len: "length ks = length vs" and "distinct ks" and "k \<in> set ks"
  shows "(case find_index (\<lambda>x. x = k) (rev ks) of
       None \<Rightarrow> Some []
     | Some j \<Rightarrow> if length ks - 1 - j < length vs then Some (vs ! (length ks - 1 - j)) else None) = map_of (zip ks vs) k"
proof -
  obtain j where j: "find_index (\<lambda>x. x = k) (rev ks) = Some j"
    using assms(3) by (cases "find_index (\<lambda>x. x = k) (rev ks)") auto
  from find_index_SomeD[OF j] have jl: "j < length ks" "rev ks ! j = k" by auto
  then have i: "length ks - 1 - j < length vs" "ks ! (length ks - 1 - j) = k"
    using len by (auto simp: rev_nth)
  then have "map_of (zip ks vs) k = Some (vs ! (length ks - 1 - j))"
    using map_of_zip_nth[OF len assms(2), of "length ks - 1 - j"] by simp
  with j i show ?thesis by simp
qed

lemma replaceWildcards_step:
  "\<not> Contains p ''/*/'' \<Longrightarrow> replaceWildcards p = p"
  "Contains p ''/*/'' \<Longrightarrow> replaceWildcards p = replaceWildcards (ReplaceAll p ''/*/'' ''/'')"
  by (simp_all add: replaceWildcards.simps)

subsection \<open>Properties\<close>

text \<open>C6.  Dispatch is sound: after any sequence of registrations, of which some may have been
  refused, a request is only routed to a handler and actions that were accepted under the same
  method with a pattern that matches the path.  Writing the collected values for the parameters
  of that pattern gives back the path, every value of a plain parameter is free of slashes, and
  the URL parameters of the request are the keys of the pattern with these values.\<close>

theorem dispatch_sound:
  fixes rs :: "(string \<times> string \<times> Actions option \<times> 'h) list" and mx :: "('h, 's) Mux"
  assumes "registerAll (addRoute rc) NewMux rs = (mx, acc)"
    "FindWithActions (initial_env rc) sub mx NewRouteContext me path = ((Some h, a), rctx)"
  shows "\<exists>p vs ks. (me, p, a, h) \<in> set acc \<and> pat_subst p vs = Some path
    \<and> pat_vals_ok (initial_env rc) p vs \<and> patParamKeys p = Inr ks \<and> length ks = length vs
    \<and> URLParams rctx = \<lparr> Keys = ks, Values = vs \<rparr>"
proof -
  from mux.registerAll_invar[OF assms(1) mux.invar_new] have "mux_invar rc (set acc) mx" by simp
  from this assms(2) obtain p vs ks where "(me, p, a, h) \<in> set acc" "pat_match (initial_env rc) p vs path"
    "patParamKeys p = Inr ks" "URLParams rctx = \<lparr> Keys = ks, Values = vs \<rparr>"
    by (rule mux_find_reg) (simp add: NewRouteContext_def)
  then show ?thesis using patParamKeys_length by (auto simp: pat_match_def)
qed

text \<open>A small routing table, on which the properties are instantiated: a static route beside
  parameter, regexp and catch-all routes, and a registration that is refused.\<close>

definition digits :: "string \<Rightarrow> bool" where
  "digits s \<longleftrightarrow> s \<noteq> [] \<and> list_all (\<lambda>c. CHR ''0'' \<le> c \<and> c \<le> CHR ''9'') s"

definition demo_rc :: "string \<Rightarrow> (string \<Rightarrow> bool) option" where
  "demo_rc r = (if r = ''^[0-9]+$'' then Some digits else None)"

definition demo_routes :: "(string \<times> string \<times> Actions option \<times> nat) list" where
  "demo_routes =
    [(''get'', ''/users/me'', None, 1), (''GET'', ''/users/{id}'', None, 2),
     (''GET'', ''/users/{a}/{a}'', None, 3), (''GET'', ''/n/{id:[0-9]+}/x'', None, 4),
     (''POST'', ''/files/*'', None, 5)]"

definition demo_sub :: "unit \<Rightarrow> Context \<Rightarrow> string \<Rightarrow> string \<Rightarrow> (nat option \<times> Actions option) \<times> Context" where
  "demo_sub s c m p = ((None, None), c)"

definition demo_mux :: "(nat, unit) Mux" where
  "demo_mux = fst (registerAll (addRoute demo_rc) NewMux demo_routes)"

lemma demo_registered:
  "registerAll (addRoute demo_rc) NewMux demo_routes =
    (demo_mux, [(''GET'', ''/users/me'', None, 1), (''GET'', ''/users/{id}'', None, 2),
      (''GET'', ''/n/{id:[0-9]+}/x'', None, 4), (''POST'', ''/files/*'', None, 5)])"
proof -
  have "snd (registerAll (addRoute demo_rc) (NewMux :: (nat, unit) Mux) demo_routes) =
    [(''GET'', ''/users/me'', None, 1), (''GET'', ''/users/{id}'', None, 2),
      (''GET'', ''/n/{id:[0-9]+}/x'', None, 4), (''POST'', ''/files/*'', None, 5)]"
    by code_simp
  then show ?thesis by (simp add: demo_mux_def prod_eq_iff)
qed

theorem dispatch_sound_witness:
  "\<exists>p vs ks. (''GET'', p, None, 2) \<in> set (snd (registerAll (addRoute demo_rc) (NewMux :: (nat, unit) Mux) demo_routes))
    \<and> pat_subst p vs = Some ''/users/42'' \<and> pat_vals_ok (initial_env demo_rc) p vs \<and> patParamKeys p = Inr ks
    \<and> length ks = length vs
    \<and> URLParams (snd (FindWithActions (initial_env demo_rc) demo_sub demo_mux NewRouteContext ''GET'' ''/users/42''))
        = \<lparr> Keys = ks, Values = vs \<rparr>"
proof -
  have "fst (FindWithActions (initial_env demo_rc) demo_sub demo_mux NewRouteContext ''GET'' ''/users/42'') = (Some 2, None)"
    by code_simp
  then have "FindWithActions (initial_env demo_rc) demo_sub demo_mux NewRouteContext ''GET'' ''/users/42'' =
    ((Some 2, None), snd (FindWithActions (initial_env demo_rc) demo_sub demo_mux NewRouteContext ''GET'' ''/users/42''))"
    by (simp add: prod_eq_iff)
  from dispatch_sound[OF demo_registered this] show ?thesis by (simp add: demo_registered)
qed

text \<open>C16.  Static routes are served: the handler and actions last accepted under a method for a
  path without parameters are what a request with that method and exactly that path gets, in the
  presence of any other static, parameter, regexp or catch-all routes and of refused ones.\<close>

theorem static_route_served:
  fixes rs :: "(string \<times> string \<times> Actions option \<times> 'h) list" and mx :: "('h, 's) Mux"
  assumes "registerAll (addRoute rc) NewMux rs = (mx, xs @ (me, p, a, h) # ys)"
    "\<not> wild p" "p \<noteq> []" "\<forall>y\<in>set ys. (fst y, fst (snd y)) \<noteq> (me, p)"
  shows "routeFor rc sub mx me p = Some (h, a)"
  by (rule mux.registered_found[OF assms])

theorem static_route_served_witness:
  "routeFor demo_rc demo_sub demo_mux ''GET'' ''/users/me'' = Some (1, None)"
  by (rule static_route_served[where xs = "[]", unfolded append_Nil, OF demo_registered])
    (simp_all add: wild_def)

text \<open>C17.  The table of static routes is updated like a map: a successful registration of a path
  without parameters changes the entry of its own method and path and no other, and every other
  registration, of a pattern with parameters or one that fails, changes nothing.\<close>

theorem static_table_refines_map:
  fixes mx :: "('h, 's) Mux"
  assumes "registerAll (addRoute rc) NewMux rs = (mx, acc)" "addRoute rc mx me p a h = (mx', err)"
  shows "staticRoutes (initial_env rc) mx' =
    (if err = None \<and> \<not> wild p then (staticRoutes (initial_env rc) mx)((ToUpper me, p) \<mapsto> (h, a))
     else staticRoutes (initial_env rc) mx)"
  by (rule mux.routes_add[OF mux.registerAll_invar[OF assms(1) mux.invar_new] assms(2)])

theorem static_table_refines_map_witness:
  "staticRoutes (initial_env demo_rc) (fst (addRoute demo_rc demo_mux ''put'' ''/users/me'' None 9)) =
    (staticRoutes (initial_env demo_rc) demo_mux)((''PUT'', ''/users/me'') \<mapsto> (9, None))"
proof -
  have "snd (addRoute demo_rc demo_mux ''put'' ''/users/me'' None 9) = None" by code_simp
  then have "addRoute demo_rc demo_mux ''put'' ''/users/me'' None 9 =
    (fst (addRoute demo_rc demo_mux ''put'' ''/users/me'' None 9), None)" by (simp add: prod_eq_iff)
  moreover have "ToUpper ''put'' = ''PUT''" by code_simp
  ultimately show ?thesis
    using static_table_refines_map[OF demo_registered, of "''put''" "''/users/me''" None 9]
    by (simp add: wild_def)
qed

text \<open>C18.  The URL parameters of a routed request can be read without a panic: \<^const>\<open>AllURLParams\<close>
  never indexes past the values, it has exactly the keys of the matched pattern, and
  \<^const>\<open>URLParam\<close> returns for each key the value that \<^const>\<open>AllURLParams\<close> holds.\<close>

theorem url_params_total:
  fixes rs :: "(string \<times> string \<times> Actions option \<times> 'h) list" and mx :: "('h, 's) Mux"
  assumes "registerAll (addRoute rc) NewMux rs = (mx, acc)"
    "FindWithActions (initial_env rc) sub mx NewRouteContext me path = ((Some h, a), rctx)"
  shows "\<exists>params p ks. AllURLParams rctx = Some params \<and> (me, p, a, h) \<in> set acc \<and> patParamKeys p = Inr ks
    \<and> dom params = set ks \<and> (\<forall>k\<in>set ks. URLParam rctx k = params k)"
proof -
  from mux.registerAll_invar[OF assms(1) mux.invar_new] have "mux_invar rc (set acc) mx" by simp
  from this assms(2) obtain p vs ks where p: "(me, p, a, h) \<in> set acc" "pat_match (initial_env rc) p vs path"
    "patParamKeys p = Inr ks" and url: "URLParams rctx = \<lparr> Keys = ks, Values = vs \<rparr>"
    by (rule mux_find_reg) (simp add: NewRouteContext_def)
  have len: "length ks = length vs" using p patParamKeys_length by (auto simp: pat_match_def)
  have "distinct ks" by (rule patParamKeys_distinct[OF p(3)])
  have all: "AllURLParams rctx = Some (map_of (zip ks vs))"
    using allParamsLoop_zip[OF len \<open>distinct ks\<close>] by (simp add: AllURLParams_def url)
  have "URLParam rctx k = map_of (zip ks vs) k" if "k \<in> set ks" for k
    unfolding URLParam_def Let_def url RouteParams.select_convs
    by (rule URLParam_zip[OF len \<open>distinct ks\<close> that])
  with all p len show ?thesis by (intro exI[of _ "map_of (zip ks vs)"] exI[of _ p] exI[of _ ks]) simp
qed

theorem url_params_total_witness:
  "\<exists>params p ks. AllURLParams (snd (FindWithActions (initial_env demo_rc) demo_sub demo_mux NewRouteContext ''GET'' ''/n/7/x''))
      = Some params \<and> (''GET'', p, None, 4) \<in> set (snd (registerAll (addRoute demo_rc) (NewMux :: (nat, unit) Mux) demo_routes))
    \<and> patParamKeys p = Inr ks \<and> dom params = set ks
    \<and> (\<forall>k\<in>set ks. URLParam (snd (FindWithActions (initial_env demo_rc) demo_sub demo_mux NewRouteContext ''GET'' ''/n/7/x'')) k = params k)"
proof -
  have "fst (FindWithActions (initial_env demo_rc) demo_sub demo_mux NewRouteContext ''GET'' ''/n/7/x'') = (Some 4, None)"
    by code_simp
  then have "FindWithActions (initial_env demo_rc) demo_sub demo_mux NewRouteContext ''GET'' ''/n/7/x'' =
    ((Some 4, None), snd (FindWithActions (initial_env demo_rc) demo_sub demo_mux NewRouteContext ''GET'' ''/n/7/x''))"
    by (simp add: prod_eq_iff)
  from url_params_total[OF demo_registered this] show ?thesis by (simp add: demo_registered)
qed

text \<open>The binary search over the children of a node finds exactly what a linear search over
  the labels finds, on every list with strictly increasing labels.\<close>

theorem findEdge_equals_linear_search:
  assumes "sorted_wrt (<) (map label_of ns)" "ns \<noteq> []"
  shows "findEdge ns l = find (\<lambda>c. label_of c = l) ns"
  by (rule findEdge_linear[OF assms])

theorem findEdge_equals_linear_search_witness:
  "findEdge (children (mux_tree demo_mux) ntStatic) CHR ''/'' =
    find (\<lambda>c. label_of c = CHR ''/'') (children (mux_tree demo_mux) ntStatic)"
proof (rule findEdge_equals_linear_search)
  have "map label_of (children (mux_tree demo_mux) ntStatic) = ''/''" by code_simp
  then show "sorted_wrt (<) (map label_of (children (mux_tree demo_mux) ntStatic))"
    "children (mux_tree demo_mux) ntStatic \<noteq> []" by auto
qed

text \<open>Registering a custom method keeps the methods apart: names and bits stay distinct, no
  method gets the bit of the stub or covers all methods, the new name is known afterwards and
  the known names keep their bits.\<close>

theorem RegisterMethod_distinct:
  assumes "env_ok env" "RegisterMethod env me = (env', None)" "me \<noteq> []"
  shows "env_ok env' \<and> (\<exists>m. map_of (methodMap env') (ToUpper me) = Some m)
    \<and> (\<forall>s m. map_of (methodMap env) s = Some m \<longrightarrow> map_of (methodMap env') s = Some m)
    \<and> (\<forall>s s' m. map_of (methodMap env') s = Some m \<longrightarrow> plain_method env' m
        \<and> (map_of (methodMap env') s' = Some m \<longrightarrow> s = s'))"
proof -
  have ok: "env_ok env'" using RegisterMethod_env_ok[OF assms(1), of me] assms(2) by simp
  have "(\<exists>m. map_of (methodMap env') (ToUpper me) = Some m)
    \<and> (\<forall>s m. map_of (methodMap env) s = Some m \<longrightarrow> map_of (methodMap env') s = Some m)"
    using assms(2,3) by (auto simp: RegisterMethod_def Let_def map_add_Some_iff split: option.splits if_splits)
  with ok env_ok_plain[OF ok] env_ok_inj[OF ok] show ?thesis by blast
qed

theorem RegisterMethod_distinct_witness:
  "env_ok (fst (RegisterMethod (initial_env demo_rc) ''purge''))
    \<and> (\<exists>m. map_of (methodMap (fst (RegisterMethod (initial_env demo_rc) ''purge''))) (ToUpper ''purge'') = Some m)"
proof -
  have "snd (RegisterMethod (initial_env demo_rc) ''purge'') = None" by code_simp
  then have "RegisterMethod (initial_env demo_rc) ''purge'' = (fst (RegisterMethod (initial_env demo_rc) ''purge''), None)"
    by (simp add: prod_eq_iff)
  from RegisterMethod_distinct[OF env_ok_initial this] show ?thesis by blast
qed

text \<open>The displayed pattern of a route has no inner wildcard left: the replacement of
  \<open>/*/\<close> by \<open>/\<close> is repeated until none occurs, and it terminates on every pattern.\<close>

theorem replaceWildcards_complete: "\<not> Contains (replaceWildcards p) ''/*/''"
proof (induction p rule: replaceWildcards.induct)
  case (1 p)
  then show ?case by (cases "Contains p ''/*/''") (simp_all add: replaceWildcards_step)
qed

text \<open>A regexp parameter does not exclude the empty value: the route \<open>/n/{id:[0-9]+}/x\<close> serves
  the path \<open>/n//x\<close>, although the expression does not match the empty string.  After the loop over
  the parameter nodes the last node is tried once more with an empty value that is not checked.\<close>

theorem regexp_param_empty_value:
  "routeFor demo_rc demo_sub demo_mux ''GET'' ''/n//x'' = Some (4, None)
    \<and> (case demo_rc ''^[0-9]+$'' of Some rex \<Rightarrow> \<not> rex [] | None \<Rightarrow> False)"
  by code_simp

end
