(* ===== verification/Web.thy ===== *)
theory Web
  imports Router_Mux
begin

text \<open>
  The request context, the middleware chain and the application
  (\<^verbatim>\<open>internal/platform/web/web.go\<close>, \<^verbatim>\<open>middleware.go\<close>, \<^verbatim>\<open>response.go\<close>, \<^verbatim>\<open>errors.go\<close>).  The library
  \<^verbatim>\<open>fasthttp\<close> is not part of the repository: its requests and responses are the type parameters
  \<open>'rq\<close> and \<open>'rs\<close>, and its operations are the fields of the record \<open>fasthttp\<close>, an argument of every
  definition that uses them.  A handler takes the context and returns an outcome, which may be a
  panic, with the context at that moment.  Three ghost fields of the context record what leaves the
  process: the requests handed to a backend client, the messages written to the log and the number
  of shutdown signals.  Handlers of different requests share no mutable state but the tables that
  are swapped as a whole under a lock, so a request is modelled on its own and the locks are left
  out.
\<close>

subsection \<open>Errors and outcomes\<close>

text \<open>An error value; \<open>Shutdown\<close> is the type \<^verbatim>\<open>shutdown\<close> of \<^verbatim>\<open>errors.go\<close>, \<open>Wrapped\<close> an error with a cause
  in the sense of \<^verbatim>\<open>errors.Cause\<close>.\<close>

datatype goerr = Plain string | Shutdown string | Wrapped string goerr

fun Cause :: "goerr \<Rightarrow> goerr" where
  "Cause (Wrapped msg e) = Cause e"
| "Cause e = e"

definition NewShutdownError :: "string \<Rightarrow> goerr" where
  "NewShutdownError message = Shutdown message"

definition IsShutdown :: "goerr \<Rightarrow> bool" where
  "IsShutdown err \<longleftrightarrow> (case Cause err of Shutdown _ \<Rightarrow> True | _ \<Rightarrow> False)"

datatype outcome = Ok | Err goerr | Panic string

subsection \<open>The request context\<close>

record FieldTypeError =
  fte_Name :: string
  fte_ExpectedType :: string
  fte_Pattern :: string
  fte_CurrentValue :: string

record ValidationError =
  ve_Message :: string
  ve_Code :: string
  ve_SchemaVersion :: string
  ve_SchemaID :: "int option"
  ve_Fields :: "string list"
  ve_FieldsDetails :: "FieldTypeError list"

text \<open>The values that the firewall stores with \<^verbatim>\<open>SetUserValue\<close>.\<close>

datatype uval = UBool bool | UStr string | UInt int | UActions Actions | URoute Context
  | UErrors "ValidationError list"

text \<open>The remote address: \<open>ra_tcp\<close> is the IP when the address is a \<^verbatim>\<open>*net.TCPAddr\<close>, \<open>ra_ip\<close> is what
  \<^verbatim>\<open>RemoteIP().String()\<close> gives, \<open>ra_str\<close> what \<^verbatim>\<open>RemoteAddr().String()\<close> gives.\<close>

record raddr =
  ra_tcp :: "string option"
  ra_ip :: string
  ra_str :: string

record ('rq, 'rs) rctx =
  cx_req :: 'rq
  cx_resp :: 'rs
  cx_vals :: "string \<rightharpoonup> uval"
  cx_remote :: raddr
  cx_sent :: "'rq list"
  cx_log :: "string list"
  cx_signals :: nat

type_synonym ('rq, 'rs) handler = "('rq, 'rs) rctx \<Rightarrow> outcome \<times> ('rq, 'rs) rctx"
type_synonym ('rq, 'rs) middleware = "('rq, 'rs) handler \<Rightarrow> ('rq, 'rs) handler"

text \<open>The operations of \<^verbatim>\<open>fasthttp\<close> that the firewall calls on requests and responses.  \<open>rqPeek\<close> is
  \<^term>\<open>None\<close> for a nil result.  \<open>rsWriteGraphQL\<close> is \<^verbatim>\<open>WriteResponse\<close> of the GraphQL library with
  the errors it is given, with its error.\<close>

record ('rq, 'rs) fasthttp =
  rqMethod :: "'rq \<Rightarrow> string"
  rqPath :: "'rq \<Rightarrow> string"
  rqScheme :: "'rq \<Rightarrow> string"
  rqURIHost :: "'rq \<Rightarrow> string"
  rqSetScheme :: "string \<Rightarrow> 'rq \<Rightarrow> 'rq"
  rqSetURIHost :: "string \<Rightarrow> 'rq \<Rightarrow> 'rq"
  rqSetHost :: "string \<Rightarrow> 'rq \<Rightarrow> 'rq"
  rqPeek :: "string \<Rightarrow> 'rq \<Rightarrow> string option"
  rqSet :: "string \<Rightarrow> string \<Rightarrow> 'rq \<Rightarrow> 'rq"
  rqAdd :: "string \<Rightarrow> string \<Rightarrow> 'rq \<Rightarrow> 'rq"
  rqDel :: "string \<Rightarrow> 'rq \<Rightarrow> 'rq"
  rqCookie :: "string \<Rightarrow> 'rq \<Rightarrow> string"
  rqConnectionUpgrade :: "'rq \<Rightarrow> bool"
  rqBody :: "'rq \<Rightarrow> string"
  rqContentType :: "'rq \<Rightarrow> string"
  rqSetContentType :: "string \<Rightarrow> 'rq \<Rightarrow> 'rq"
  rqContentEncoding :: "'rq \<Rightarrow> string"
  rsStatus :: "'rs \<Rightarrow> int"
  rsSetStatus :: "int \<Rightarrow> 'rs \<Rightarrow> 'rs"
  rsPeek :: "string \<Rightarrow> 'rs \<Rightarrow> string option"
  rsSet :: "string \<Rightarrow> string \<Rightarrow> 'rs \<Rightarrow> 'rs"
  rsAdd :: "string \<Rightarrow> string \<Rightarrow> 'rs \<Rightarrow> 'rs"
  rsDel :: "string \<Rightarrow> 'rs \<Rightarrow> 'rs"
  rsConnectionUpgrade :: "'rs \<Rightarrow> bool"
  rsError :: "string \<Rightarrow> int \<Rightarrow> 'rs \<Rightarrow> 'rs"
  rsRedirect :: "string \<Rightarrow> int \<Rightarrow> 'rs \<Rightarrow> 'rs"
  rsSetContentLength :: "int \<Rightarrow> 'rs \<Rightarrow> 'rs"
  rsWrite :: "string \<Rightarrow> 'rs \<Rightarrow> 'rs"
  rsWriteGraphQL :: "string \<Rightarrow> 'rs \<Rightarrow> 'rs \<times> goerr option"
  rqURIString :: "'rq \<Rightarrow> string"
  rqProtocol :: "'rq \<Rightarrow> string"
  rqHost :: "'rq \<Rightarrow> string"
  rqHeaders :: "'rq \<Rightarrow> (string \<times> string) list"
  rqBodyNil :: "'rq \<Rightarrow> bool"
  rqBodyUncompressed :: "'rq \<Rightarrow> goerr + string"
  rsHeaders :: "'rs \<Rightarrow> (string \<times> string) list"
  rsBody :: "'rs \<Rightarrow> string"
  rsBodyNil :: "'rs \<Rightarrow> bool"
  rsBodyUncompressed :: "'rs \<Rightarrow> goerr + string"
  flateReader :: "string \<Rightarrow> string \<times> goerr option"

definition onReq :: "('rq \<Rightarrow> 'rq) \<Rightarrow> ('rq, 'rs) rctx \<Rightarrow> ('rq, 'rs) rctx" where
  "onReq f ctx = ctx\<lparr>cx_req := f (cx_req ctx)\<rparr>"

definition onResp :: "('rs \<Rightarrow> 'rs) \<Rightarrow> ('rq, 'rs) rctx \<Rightarrow> ('rq, 'rs) rctx" where
  "onResp f ctx = ctx\<lparr>cx_resp := f (cx_resp ctx)\<rparr>"

definition SetUserValue :: "string \<Rightarrow> uval \<Rightarrow> ('rq, 'rs) rctx \<Rightarrow> ('rq, 'rs) rctx" where
  "SetUserValue k v ctx = ctx\<lparr>cx_vals := (cx_vals ctx)(k \<mapsto> v)\<rparr>"

definition logMsg :: "string \<Rightarrow> ('rq, 'rs) rctx \<Rightarrow> ('rq, 'rs) rctx" where
  "logMsg m ctx = ctx\<lparr>cx_log := cx_log ctx @ [m]\<rparr>"

subsection \<open>Names of web.go\<close>

definition ValidationStatus :: string where "ValidationStatus = ''APIFW-Validation-Status''"
definition XWallarmSchemaIDHeader :: string where "XWallarmSchemaIDHeader = ''X-WALLARM-SCHEMA-ID''"
definition ValidationDisable :: string where "ValidationDisable = ''disable''"
definition ValidationBlock :: string where "ValidationBlock = ''block''"
definition ValidationLog :: string where "ValidationLog = ''log_only''"
definition EndpointActions :: string where "EndpointActions = ''endpoint_actions''"
definition PassRequestOPTIONS :: string where "PassRequestOPTIONS = ''proxy_request_with_options_method''"
definition RequestProxyFailed :: string where "RequestProxyFailed = ''proxy_failed''"
definition RequestProxyNoRoute :: string where "RequestProxyNoRoute = ''proxy_no_route''"
definition RequestBlocked :: string where "RequestBlocked = ''request_blocked''"
definition ResponseBlocked :: string where "ResponseBlocked = ''response_blocked''"
definition ResponseStatusNotFound :: string where "ResponseStatusNotFound = ''response_status_not_found''"
definition APIMode :: string where "APIMode = ''api''"
definition ProxyMode :: string where "ProxyMode = ''proxy''"
definition GraphQLMode :: string where "GraphQLMode = ''graphql''"
definition GlobalResponseStatusCodeKey :: string where
  "GlobalResponseStatusCodeKey = ''global_response_status_code''"
definition RequestSchemaID :: string where "RequestSchemaID = ''__wallarm_apifw_request_schema_id''"
definition RequestID :: string where "RequestID = ''__wallarm_apifw_request_id''"

text \<open>The key \<^verbatim>\<open>router.RouteCtxKey\<close> is a pointer, different from every string key.\<close>

definition RouteCtxKey :: string where "RouteCtxKey = ''chi context value RouteContext''"

lemmas web_names = ValidationStatus_def XWallarmSchemaIDHeader_def ValidationDisable_def
  ValidationBlock_def ValidationLog_def EndpointActions_def PassRequestOPTIONS_def
  RequestProxyFailed_def RequestProxyNoRoute_def RequestBlocked_def ResponseBlocked_def
  ResponseStatusNotFound_def APIMode_def ProxyMode_def GraphQLMode_def
  GlobalResponseStatusCodeKey_def RequestSchemaID_def RequestID_def RouteCtxKey_def

subsection \<open>Responses\<close>

definition RespondError :: "('rq, 'rs) fasthttp \<Rightarrow> int \<Rightarrow> string \<Rightarrow> ('rq, 'rs) handler" where
  "RespondError H statusCode statusHeader ctx =
    (let ctx1 = onResp (rsError H [] statusCode) ctx;
         ctx2 = (if statusHeader \<noteq> [] then onResp (rsAdd H ValidationStatus statusHeader) ctx1 else ctx1)
     in (Ok, ctx2))"

definition RespondGraphQLErrors :: "('rq, 'rs) fasthttp \<Rightarrow> string \<Rightarrow> ('rq, 'rs) handler" where
  "RespondGraphQLErrors H errors ctx =
    (let r1 = rsSet H ''Content-Type'' ''application/json'' (cx_resp ctx);
         (r2, err) = rsWriteGraphQL H errors r1
     in (case err of None \<Rightarrow> Ok | Some e \<Rightarrow> Err e, ctx\<lparr>cx_resp := r2\<rparr>))"

text \<open>\<^verbatim>\<open>Respond\<close>; the argument \<open>json\<close> is the result of \<^verbatim>\<open>json.Marshal\<close> on the data.  Writing to a
  response buffer does not fail.\<close>

definition Respond :: "('rq, 'rs) fasthttp \<Rightarrow> (goerr + string) \<Rightarrow> int \<Rightarrow> ('rq, 'rs) handler" where
  "Respond H json statusCode ctx =
    (if statusCode = 204 then (Ok, onResp (rsSetStatus H statusCode) ctx)
     else case json of
       Inl e \<Rightarrow> (Err e, ctx)
     | Inr jsonData \<Rightarrow>
         (Ok, onResp (rsWrite H jsonData \<circ> rsSetStatus H statusCode \<circ> rsSet H ''Content-Type'' ''application/json'') ctx))"

text \<open>The decompressed body as a reader: the bytes it delivers and the error it ends with, if any.  A
  zlib header error for \<^verbatim>\<open>deflate\<close> means the raw format of RFC 1951.\<close>

definition supportedEncodings :: "string list" where
  "supportedEncodings = [''gzip'', ''deflate'', ''br'']"

definition zlibErrHeader :: goerr where "zlibErrHeader = Plain ''zlib: invalid header''"
definition ErrContentEncodingUnsupported :: goerr where
  "ErrContentEncodingUnsupported = Plain ''unsupported Content-Encoding''"

definition GetDecompressedResponseBody :: "('rq, 'rs) fasthttp \<Rightarrow> 'rs \<Rightarrow> string
    \<Rightarrow> goerr + (string \<times> goerr option)" where
  "GetDecompressedResponseBody H resp contentEncoding =
    (let bodyBytes = rsBody H resp in
     if contentEncoding \<noteq> [] then
       if contentEncoding \<in> set supportedEncodings then
         (case rsBodyUncompressed H resp of
            Inl err \<Rightarrow>
              if err = zlibErrHeader \<and> contentEncoding = ''deflate'' then Inr (flateReader H bodyBytes)
              else Inl err
          | Inr body \<Rightarrow> Inr (body, None))
       else Inl ErrContentEncodingUnsupported
     else Inr (bodyBytes, None))"

definition GetDecompressedRequestBody :: "('rq, 'rs) fasthttp \<Rightarrow> 'rq \<Rightarrow> string
    \<Rightarrow> goerr + (string \<times> goerr option)" where
  "GetDecompressedRequestBody H req contentEncoding =
    (let bodyBytes = rqBody H req in
     if contentEncoding \<noteq> [] then
       if contentEncoding \<in> set supportedEncodings then
         (case rqBodyUncompressed H req of
            Inl err \<Rightarrow>
              if err = zlibErrHeader \<and> contentEncoding = ''deflate'' then Inr (flateReader H bodyBytes)
              else Inl err
          | Inr body \<Rightarrow> Inr (body, None))
       else Inl ErrContentEncodingUnsupported
     else Inr (bodyBytes, None))"

subsection \<open>Middlewares\<close>

text \<open>\<^verbatim>\<open>WrapMiddleware\<close>: the loop runs backwards, so the first middleware is the outermost; nil entries
  are skipped.\<close>

definition WrapMiddleware :: "('rq, 'rs) middleware option list \<Rightarrow> ('rq, 'rs) middleware" where
  "WrapMiddleware mw handler = foldr (\<lambda>h acc. case h of None \<Rightarrow> acc | Some m \<Rightarrow> m acc) mw handler"

subsection \<open>The application\<close>

record ('rq, 'rs, 's) App =
  app_Router :: "(('rq, 'rs) handler, 's) Mux"
  app_mw :: "('rq, 'rs) middleware option list"
  app_Mode :: string
  app_PassOptions :: bool
  app_DefaultHandler :: "('rq, 'rs) handler"

definition NewApp :: "string \<Rightarrow> bool \<Rightarrow> ('rq, 'rs) handler \<Rightarrow> ('rq, 'rs) middleware option list
    \<Rightarrow> ('rq, 'rs, 's) App" where
  "NewApp mode passOptions defaultHandler mw =
    \<lparr> app_Router = NewMux, app_mw = mw, app_Mode = mode, app_PassOptions = passOptions,
      app_DefaultHandler = defaultHandler \<rparr>"

definition SignalShutdown :: "('rq, 'rs) rctx \<Rightarrow> ('rq, 'rs) rctx" where
  "SignalShutdown ctx = ctx\<lparr>cx_signals := Suc (cx_signals ctx)\<rparr>"

text \<open>The function that \<^verbatim>\<open>Handle\<close> registers: an error of the chain signals a shutdown.\<close>

definition endpointHandler :: "('rq, 'rs) middleware option list \<Rightarrow> ('rq, 'rs) middleware option list
    \<Rightarrow> ('rq, 'rs) handler \<Rightarrow> ('rq, 'rs) handler" where
  "endpointHandler appmw mw handler ctx =
    (case WrapMiddleware appmw (WrapMiddleware mw handler) ctx of
       (Err e, ctx') \<Rightarrow> (Err e, SignalShutdown ctx')
     | r \<Rightarrow> r)"

definition Handle :: "router_env \<Rightarrow> ('rq, 'rs, 's) App \<Rightarrow> string \<Rightarrow> string \<Rightarrow> Actions option
    \<Rightarrow> ('rq, 'rs) handler \<Rightarrow> ('rq, 'rs) middleware option list \<Rightarrow> ('rq, 'rs, 's) App \<times> gerror option" where
  "Handle env a method path actions handler mw =
    (let (mx, err) = AddEndpointWithActions env (app_Router a) method path actions
                       (Some (endpointHandler (app_mw a) mw handler))
     in (a\<lparr>app_Router := mx\<rparr>, err))"

text \<open>\<^verbatim>\<open>MainHandler\<close>: \<open>uuid\<close> is the fresh request identifier.  The result is the context; an outcome of
  the handler is logged, a panic recovered.\<close>

definition afterHandler :: "(outcome \<times> ('rq, 'rs) rctx) \<Rightarrow> outcome \<times> ('rq, 'rs) rctx" where
  "afterHandler r =
    (case r of (Err e, ctx) \<Rightarrow> (Ok, logMsg ''Error in the request handler'' ctx) | _ \<Rightarrow> r)"

definition dispatch :: "('rq, 'rs) fasthttp \<Rightarrow> router_env
    \<Rightarrow> ('s \<Rightarrow> Context \<Rightarrow> string \<Rightarrow> string \<Rightarrow> (('rq, 'rs) handler option \<times> Actions option) \<times> Context)
    \<Rightarrow> ('rq, 'rs, 's) App \<Rightarrow> ('rq, 'rs) handler" where
  "dispatch H env sub a ctx =
    (let ((handler, actions), rctx) =
           FindWithActions env sub (app_Router a) NewRouteContext (rqMethod H (cx_req ctx)) (rqPath H (cx_req ctx));
         ctx1 = (case actions of None \<Rightarrow> ctx | Some acts \<Rightarrow> SetUserValue EndpointActions (UActions acts) ctx)
     in case handler of
          None \<Rightarrow>
            if app_PassOptions a \<and> rqMethod H (cx_req ctx1) = ''OPTIONS'' then
              afterHandler (app_DefaultHandler a
                (logMsg ''Pass request with OPTIONS method'' (SetUserValue PassRequestOPTIONS (UBool True) ctx1)))
            else let ctx2 = logMsg ''Path or method not found'' ctx1 in
              if app_Mode a = GraphQLMode then afterHandler (RespondError H 403 [] ctx2)
              else afterHandler (app_DefaultHandler a ctx2)
        | Some h \<Rightarrow>
            (case afterHandler (h (SetUserValue RouteCtxKey (URoute rctx) ctx1)) of
               (Ok, ctx2) \<Rightarrow> (Ok, onResp (rsDel H ''Allow'') ctx2)
             | r \<Rightarrow> r))"

definition MainHandler :: "('rq, 'rs) fasthttp \<Rightarrow> router_env
    \<Rightarrow> ('s \<Rightarrow> Context \<Rightarrow> string \<Rightarrow> string \<Rightarrow> (('rq, 'rs) handler option \<times> Actions option) \<times> Context)
    \<Rightarrow> ('rq, 'rs, 's) App \<Rightarrow> string \<Rightarrow> ('rq, 'rs) rctx \<Rightarrow> ('rq, 'rs) rctx" where
  "MainHandler H env sub a uuid ctx =
    (case dispatch H env sub a (SetUserValue RequestID (UStr uuid) ctx) of
       (Panic p, ctx') \<Rightarrow> logMsg (''panic: '' @ p) ctx'
     | (_, ctx') \<Rightarrow> ctx')"

subsection \<open>Field updates\<close>

lemma rctx_updates [simp]:
  "cx_req (onReq f ctx) = f (cx_req ctx)" "cx_resp (onReq f ctx) = cx_resp ctx"
  "cx_vals (onReq f ctx) = cx_vals ctx" "cx_remote (onReq f ctx) = cx_remote ctx"
  "cx_sent (onReq f ctx) = cx_sent ctx" "cx_log (onReq f ctx) = cx_log ctx" "cx_signals (onReq f ctx) = cx_signals ctx"
  "cx_req (onResp g ctx) = cx_req ctx" "cx_resp (onResp g ctx) = g (cx_resp ctx)"
  "cx_vals (onResp g ctx) = cx_vals ctx" "cx_remote (onResp g ctx) = cx_remote ctx"
  "cx_sent (onResp g ctx) = cx_sent ctx" "cx_log (onResp g ctx) = cx_log ctx" "cx_signals (onResp g ctx) = cx_signals ctx"
  "cx_req (SetUserValue k v ctx) = cx_req ctx" "cx_resp (SetUserValue k v ctx) = cx_resp ctx"
  "cx_vals (SetUserValue k v ctx) = (cx_vals ctx)(k \<mapsto> v)" "cx_remote (SetUserValue k v ctx) = cx_remote ctx"
  "cx_sent (SetUserValue k v ctx) = cx_sent ctx" "cx_log (SetUserValue k v ctx) = cx_log ctx"
  "cx_signals (SetUserValue k v ctx) = cx_signals ctx"
  "cx_req (logMsg m ctx) = cx_req ctx" "cx_resp (logMsg m ctx) = cx_resp ctx"
  "cx_vals (logMsg m ctx) = cx_vals ctx" "cx_remote (logMsg m ctx) = cx_remote ctx"
  "cx_sent (logMsg m ctx) = cx_sent ctx" "cx_log (logMsg m ctx) = cx_log ctx @ [m]"
  "cx_signals (logMsg m ctx) = cx_signals ctx"
  by (simp_all add: onReq_def onResp_def SetUserValue_def logMsg_def)

lemma RespondError_effect [simp]:
  "fst (RespondError H c s ctx) = Ok" "cx_req (snd (RespondError H c s ctx)) = cx_req ctx"
  "cx_sent (snd (RespondError H c s ctx)) = cx_sent ctx" "cx_vals (snd (RespondError H c s ctx)) = cx_vals ctx"
  "cx_signals (snd (RespondError H c s ctx)) = cx_signals ctx" "cx_log (snd (RespondError H c s ctx)) = cx_log ctx"
  "cx_remote (snd (RespondError H c s ctx)) = cx_remote ctx"
  "cx_resp (snd (RespondError H c [] ctx)) = rsError H [] c (cx_resp ctx)"
  by (simp_all add: RespondError_def Let_def)

lemma RespondGraphQLErrors_effect [simp]:
  "cx_req (snd (RespondGraphQLErrors H e ctx)) = cx_req ctx"
  "cx_sent (snd (RespondGraphQLErrors H e ctx)) = cx_sent ctx"
  "cx_vals (snd (RespondGraphQLErrors H e ctx)) = cx_vals ctx"
  by (simp_all add: RespondGraphQLErrors_def Let_def split_def)

subsection \<open>Guards\<close>

text \<open>The contract of a middleware that decides alone, from the context it sees, whether the rest
  of the chain runs: when it blocks, the rest is not run and nothing is sent to a backend.\<close>

locale guard_middleware =
  fixes mw :: "('rq, 'rs) middleware" and blocks :: "('rq, 'rs) rctx \<Rightarrow> bool"
  assumes passes: "\<not> blocks ctx \<Longrightarrow> mw h ctx = h ctx"
    and blocked: "blocks ctx \<Longrightarrow> mw h ctx = mw h' ctx"
    and quiet: "blocks ctx \<Longrightarrow> cx_sent (snd (mw h ctx)) = cx_sent ctx"
begin

text \<open>A guard is transparent or independent of what it guards.\<close>

lemma guard_cases:
  obtains "blocks ctx" "\<And>h. mw h ctx = mw h' ctx" "cx_sent (snd (mw h' ctx)) = cx_sent ctx"
  | "\<not> blocks ctx" "\<And>h. mw h ctx = h ctx"
  using passes blocked quiet by metis

text \<open>Nothing new is sent when either the guard blocks or the handler behind it is silent.\<close>

lemma guard_silent:
  assumes "blocks ctx \<or> cx_sent (snd (h ctx)) = cx_sent ctx"
  shows "cx_sent (snd (mw h ctx)) = cx_sent ctx"
  using assms passes quiet by metis

lemma guard_sent_mono:
  assumes "\<And>ctx. prefix (cx_sent ctx) (cx_sent (snd (h ctx)))"
  shows "prefix (cx_sent ctx) (cx_sent (snd (mw h ctx)))"
  using assms passes quiet by (metis prefix_order.refl)

end

subsection \<open>Laws of the library\<close>

text \<open>The documented behaviour of the header operations that properties rely on: names are compared
  without case, \<^verbatim>\<open>Del\<close> removes, \<^verbatim>\<open>Set\<close> replaces, \<^verbatim>\<open>Add\<close> touches one name, and the parts of the URI are
  no headers.\<close>

definition header_laws :: "('rq, 'rs) fasthttp \<Rightarrow> bool" where
  "header_laws H \<longleftrightarrow>
    (\<forall>k k' r. rqPeek H k (rqDel H k' r) = (if EqualFold k k' then None else rqPeek H k r)) \<and>
    (\<forall>k k' v r. rqPeek H k (rqSet H k' v r) = (if EqualFold k k' then Some v else rqPeek H k r)) \<and>
    (\<forall>k k' v r. \<not> EqualFold k k' \<longrightarrow> rqPeek H k (rqAdd H k' v r) = rqPeek H k r) \<and>
    (\<forall>k v r. rqPeek H k (rqSetScheme H v r) = rqPeek H k r) \<and>
    (\<forall>k v r. rqPeek H k (rqSetURIHost H v r) = rqPeek H k r) \<and>
    (\<forall>k k' r. rsPeek H k (rsDel H k' r) = (if EqualFold k k' then None else rsPeek H k r))"

subsection \<open>An instance of the library\<close>

text \<open>A small instance of the library's interface, used to evaluate the model on concrete requests:
  headers are association lists with names compared without case.\<close>

record dreq =
  d_method :: string
  d_path :: string
  d_scheme :: string
  d_host :: string
  d_headers :: "(string \<times> string) list"
  d_cookies :: "(string \<times> string) list"
  d_body :: string

record dresp =
  d_status :: int
  d_rheaders :: "(string \<times> string) list"
  d_rbody :: string

definition hget :: "string \<Rightarrow> (string \<times> string) list \<Rightarrow> string option" where
  "hget k hs = map_option snd (find (\<lambda>(k', v). EqualFold k k') hs)"

definition hdel :: "string \<Rightarrow> (string \<times> string) list \<Rightarrow> (string \<times> string) list" where
  "hdel k hs = filter (\<lambda>(k', v). \<not> EqualFold k k') hs"

definition demo_http :: "(dreq, dresp) fasthttp" where
  "demo_http = \<lparr> rqMethod = d_method, rqPath = d_path, rqScheme = d_scheme, rqURIHost = d_host,
    rqSetScheme = (\<lambda>v r. r\<lparr>d_scheme := v\<rparr>), rqSetURIHost = (\<lambda>v r. r\<lparr>d_host := v\<rparr>),
    rqSetHost = (\<lambda>v r. r\<lparr>d_host := v\<rparr>),
    rqPeek = (\<lambda>k r. hget k (d_headers r)),
    rqSet = (\<lambda>k v r. r\<lparr>d_headers := (k, v) # hdel k (d_headers r)\<rparr>),
    rqAdd = (\<lambda>k v r. r\<lparr>d_headers := d_headers r @ [(k, v)]\<rparr>),
    rqDel = (\<lambda>k r. r\<lparr>d_headers := hdel k (d_headers r)\<rparr>),
    rqCookie = (\<lambda>k r. case map_of (d_cookies r) k of None \<Rightarrow> [] | Some v \<Rightarrow> v),
    rqConnectionUpgrade = (\<lambda>r. hget ''Connection'' (d_headers r) = Some ''Upgrade''),
    rqBody = d_body,
    rqContentType = (\<lambda>r. case hget ''Content-Type'' (d_headers r) of None \<Rightarrow> [] | Some v \<Rightarrow> v),
    rqSetContentType = (\<lambda>v r. r\<lparr>d_headers := (''Content-Type'', v) # hdel ''Content-Type'' (d_headers r)\<rparr>),
    rqContentEncoding = (\<lambda>r. case hget ''Content-Encoding'' (d_headers r) of None \<Rightarrow> [] | Some v \<Rightarrow> v),
    rsStatus = d_status, rsSetStatus = (\<lambda>c r. r\<lparr>d_status := c\<rparr>),
    rsPeek = (\<lambda>k r. hget k (d_rheaders r)),
    rsSet = (\<lambda>k v r. r\<lparr>d_rheaders := (k, v) # hdel k (d_rheaders r)\<rparr>),
    rsAdd = (\<lambda>k v r. r\<lparr>d_rheaders := d_rheaders r @ [(k, v)]\<rparr>),
    rsDel = (\<lambda>k r. r\<lparr>d_rheaders := hdel k (d_rheaders r)\<rparr>),
    rsConnectionUpgrade = (\<lambda>r. hget ''Connection'' (d_rheaders r) = Some ''Upgrade''),
    rsError = (\<lambda>m c r. \<lparr>d_status = c, d_rheaders = [], d_rbody = m\<rparr>),
    rsRedirect = (\<lambda>u c r. r\<lparr>d_status := c, d_rheaders := (''Location'', u) # hdel ''Location'' (d_rheaders r)\<rparr>),
    rsSetContentLength = (\<lambda>n r. r), rsWrite = (\<lambda>b r. r\<lparr>d_rbody := d_rbody r @ b\<rparr>),
    rsWriteGraphQL = (\<lambda>e r. (r\<lparr>d_rbody := d_rbody r @ e\<rparr>, None)),
    rqURIString = (\<lambda>r. d_scheme r @ ''://'' @ d_host r @ d_path r), rqProtocol = (\<lambda>r. ''HTTP/1.1''),
    rqHost = d_host, rqHeaders = d_headers, rqBodyNil = (\<lambda>r. d_body r = []),
    rqBodyUncompressed = (\<lambda>r. Inr (d_body r)), rsHeaders = d_rheaders, rsBody = d_rbody,
    rsBodyNil = (\<lambda>r. d_rbody r = []), rsBodyUncompressed = (\<lambda>r. Inr (d_rbody r)),
    flateReader = (\<lambda>b. (b, None)) \<rparr>"

definition demo_resp :: dresp where
  "demo_resp = \<lparr>d_status = 200, d_rheaders = [], d_rbody = []\<rparr>"

definition demo_ctx :: "dreq \<Rightarrow> (dreq, dresp) rctx" where
  "demo_ctx r = \<lparr>cx_req = r, cx_resp = demo_resp, cx_vals = Map.empty,
     cx_remote = \<lparr>ra_tcp = Some ''192.0.2.7'', ra_ip = ''192.0.2.7'', ra_str = ''192.0.2.7:4711''\<rparr>,
     cx_sent = [], cx_log = [], cx_signals = 0\<rparr>"

definition demo_req :: "string \<Rightarrow> string \<Rightarrow> (string \<times> string) list \<Rightarrow> dreq" where
  "demo_req m path hs =
    \<lparr>d_method = m, d_path = path, d_scheme = ''http'', d_host = ''api'', d_headers = hs, d_cookies = [], d_body = []\<rparr>"

lemma hget_hdel: "hget k (hdel k' hs) = (if EqualFold k k' then None else hget k hs)"
  by (induction hs) (auto simp: hget_def hdel_def EqualFold_def)

lemma hget_Cons: "hget k ((k', v) # hs) = (if EqualFold k k' then Some v else hget k hs)"
  by (simp add: hget_def)

lemma hget_snoc: "\<not> EqualFold k k' \<Longrightarrow> hget k (hs @ [(k', v)]) = hget k hs"
  by (induction hs) (auto simp: hget_def)

lemma demo_header_laws: "header_laws demo_http"
  by (simp add: header_laws_def demo_http_def hget_hdel hget_Cons hget_snoc)

end
