(* ===== verification/API_Errors.thy ===== *)
theory API_Errors
  imports Unknown_Params Web
begin

text \<open>
  The answers of the API mode (\<^verbatim>\<open>pkg/APIMode/validator/errors.go\<close>, \<^verbatim>\<open>response.go\<close> and
  \<^verbatim>\<open>internal/platform/validator/api_mode_errors.go\<close>): how an error of the request validator becomes a list of
  validation errors.  A panic is on the left of the outer sum, an error that is handed to the caller on the left
  of the inner one.
\<close>

subsection \<open>Codes\<close>

definition ErrCodeMethodAndPathNotFound :: string where "ErrCodeMethodAndPathNotFound = ''method_and_path_not_found''"
definition ErrCodeRequiredBodyMissed :: string where "ErrCodeRequiredBodyMissed = ''required_body_missed''"
definition ErrCodeRequiredBodyParseError :: string where "ErrCodeRequiredBodyParseError = ''required_body_parse_error''"
definition ErrCodeRequiredBodyParameterMissed :: string where
  "ErrCodeRequiredBodyParameterMissed = ''required_body_parameter_missed''"
definition ErrCodeRequiredBodyParameterInvalidValue :: string where
  "ErrCodeRequiredBodyParameterInvalidValue = ''required_body_parameter_invalid_value''"
definition ErrCodeRequiredPathParameterMissed :: string where
  "ErrCodeRequiredPathParameterMissed = ''required_path_parameter_missed''"
definition ErrCodeRequiredPathParameterInvalidValue :: string where
  "ErrCodeRequiredPathParameterInvalidValue = ''required_path_parameter_invalid_value''"
definition ErrCodeRequiredQueryParameterMissed :: string where
  "ErrCodeRequiredQueryParameterMissed = ''required_query_parameter_missed''"
definition ErrCodeRequiredQueryParameterInvalidValue :: string where
  "ErrCodeRequiredQueryParameterInvalidValue = ''required_query_parameter_invalid_value''"
definition ErrCodeRequiredCookieParameterMissed :: string where
  "ErrCodeRequiredCookieParameterMissed = ''required_cookie_parameter_missed''"
definition ErrCodeRequiredCookieParameterInvalidValue :: string where
  "ErrCodeRequiredCookieParameterInvalidValue = ''required_cookie_parameter_invalid_value''"
definition ErrCodeRequiredHeaderMissed :: string where "ErrCodeRequiredHeaderMissed = ''required_header_missed''"
definition ErrCodeRequiredHeaderInvalidValue :: string where
  "ErrCodeRequiredHeaderInvalidValue = ''required_header_invalid_value''"
definition ErrCodeSecRequirementsFailed :: string where
  "ErrCodeSecRequirementsFailed = ''required_security_requirements_failed''"
definition ErrCodeUnknownParameterFound :: string where "ErrCodeUnknownParameterFound = ''unknown_parameter_found''"
definition ErrCodeUnknownValidationError :: string where "ErrCodeUnknownValidationError = ''unknown_validation_error''"

definition ErrMethodAndPathNotFound :: string where "ErrMethodAndPathNotFound = ''method and path are not found''"
definition ErrAuthHeaderMissed :: string where "ErrAuthHeaderMissed = ''missing Authorization header''"
definition ErrAPITokenMissed :: string where "ErrAPITokenMissed = ''missing API keys for authorization''"
definition ErrRequiredBodyIsMissing :: string where "ErrRequiredBodyIsMissing = ''required body is missing''"
definition ErrMissedRequiredParameters :: string where "ErrMissedRequiredParameters = ''required parameters missed''"

text \<open>The code for a missing and for an invalid parameter; a parameter in any other place has the empty code.\<close>

definition missedCode :: "string \<Rightarrow> string" where
  "missedCode place =
    (if place = ''path'' then ErrCodeRequiredPathParameterMissed
     else if place = ''query'' then ErrCodeRequiredQueryParameterMissed
     else if place = ''cookie'' then ErrCodeRequiredCookieParameterMissed
     else if place = ''header'' then ErrCodeRequiredHeaderMissed else [])"

definition invalidCode :: "string \<Rightarrow> string" where
  "invalidCode place =
    (if place = ''path'' then ErrCodeRequiredPathParameterInvalidValue
     else if place = ''query'' then ErrCodeRequiredQueryParameterInvalidValue
     else if place = ''cookie'' then ErrCodeRequiredCookieParameterInvalidValue
     else if place = ''header'' then ErrCodeRequiredHeaderInvalidValue else [])"

subsection \<open>The library\<close>

text \<open>Two more methods of the OpenAPI library.  \<open>kErrIs\<close> is \<^verbatim>\<open>errors.Is\<close> on the error types of the library that hold
  other errors than in a field \<^verbatim>\<open>Err\<close>.  \<open>kJSONLookup\<close> looks a property up: an error, a schema, or (\<^term>\<open>Inr None\<close>) a
  value of another type.\<close>

record ('f, 'x) kinMore =
  kErrIs :: "('f, 'x) oerr \<Rightarrow> ('f, 'x) oerr \<Rightarrow> bool"
  kJSONLookup :: "(string \<times> ('f, 'x) schema) list \<Rightarrow> string \<Rightarrow> ('f, 'x) schema option result"

fun errorsIs :: "('f, 'x) kinMore \<Rightarrow> ('f, 'x) oerr \<Rightarrow> ('f, 'x) oerr \<Rightarrow> bool" where
  "errorsIs L (RequestErr p b r e) target \<longleftrightarrow>
    RequestErr p b r e = target \<or> (case e of None \<Rightarrow> False | Some e' \<Rightarrow> errorsIs L e' target)"
| "errorsIs L (ResponseErr r e) target \<longleftrightarrow>
    ResponseErr r e = target \<or> (case e of None \<Rightarrow> False | Some e' \<Rightarrow> errorsIs L e' target)"
| "errorsIs L (WrapErr s e) target \<longleftrightarrow> WrapErr s e = target \<or> errorsIs L e target"
| "errorsIs L (ParseErr k v r p c) target \<longleftrightarrow>
    ParseErr k v r p c = target \<or> (case c of None \<Rightarrow> False | Some c' \<Rightarrow> errorsIs L c' target)"
| "errorsIs L (PlainErr s) target \<longleftrightarrow> PlainErr s = target"
| "errorsIs L (SecMissing f m) target \<longleftrightarrow> SecMissing f m = target"
| "errorsIs L e target \<longleftrightarrow> kErrIs L e target"

subsection \<open>Fields and details\<close>

definition plainError :: "string \<Rightarrow> string \<Rightarrow> ValidationError" where
  "plainError code msg = \<lparr> ve_Message = msg, ve_Code = code, ve_SchemaVersion = [], ve_SchemaID = None, ve_Fields = [],
     ve_FieldsDetails = [] \<rparr>"

definition fieldError :: "string \<Rightarrow> string \<Rightarrow> string \<Rightarrow> FieldTypeError list \<Rightarrow> ValidationError" where
  "fieldError code msg field details = (plainError code msg)\<lparr>ve_Fields := [field], ve_FieldsDetails := details\<rparr>"

definition detail :: "string \<Rightarrow> string \<Rightarrow> string \<Rightarrow> string \<Rightarrow> FieldTypeError" where
  "detail name expected pattern current =
    \<lparr> fte_Name = name, fte_ExpectedType = expected, fte_Pattern = pattern, fte_CurrentValue = current \<rparr>"

text \<open>The loops that build details and stop at a panic.\<close>

fun collect :: "('a \<Rightarrow> 'b list result) \<Rightarrow> 'a list \<Rightarrow> 'b list result" where
  "collect f [] = Inr []"
| "collect f (x # xs) = andThen (f x) (\<lambda>ys. map_sum id (\<lambda>zs. ys @ zs) (collect f xs))"

definition typeDetails :: "('f, 'x) kin \<Rightarrow> string \<Rightarrow> ('f, 'x) schema \<Rightarrow> FieldTypeError list" where
  "typeDetails K name s = map (\<lambda>t. detail name t [] []) (kTypeSlice K (s_Type s))"

text \<open>The text of the constraint; the pointers to the bounds are followed without a check.\<close>

definition constraintText :: "'f goFloat \<Rightarrow> string \<Rightarrow> ('f, 'x) schema \<Rightarrow> string result" where
  "constraintText F field s =
    (if field = ''maximum'' then (case s_Max s of None \<Rightarrow> Inl nilDeref | Some m \<Rightarrow> Inr (''<='' @ Format4 F m))
     else if field = ''minimum'' then (case s_Min s of None \<Rightarrow> Inl nilDeref | Some m \<Rightarrow> Inr (''>='' @ Format4 F m))
     else if field = ''pattern'' then Inr (s_Pattern s)
     else Inr [])"

definition valueDetails :: "'f goFloat \<Rightarrow> ('f, 'x) kin \<Rightarrow> string \<Rightarrow> string \<Rightarrow> 'f gval \<Rightarrow> ('f, 'x) schema \<Rightarrow> FieldTypeError list result" where
  "valueDetails F K name field value s =
    collect (\<lambda>t. map_sum id (\<lambda>c. [detail name t c (sprintV F value)]) (constraintText F field s)) (kTypeSlice K (s_Type s))"

text \<open>\<^verbatim>\<open>checkParseErr\<close>: the type and the value come from fields that are never set.\<close>

definition checkParseErr :: "('f, 'x) parameter \<Rightarrow> ('f, 'x) oerr option \<Rightarrow> FieldTypeError option" where
  "checkParseErr p err = (case err of Some (ParseErr _ _ _ _ _) \<Rightarrow> Some (detail (pa_Name p) [] [] []) | _ \<Rightarrow> None)"

definition checkRequiredFields :: "'f goFloat \<Rightarrow> ('f, 'x) kin \<Rightarrow> ('f, 'x) parameter \<Rightarrow> ('f, 'x) oerr option \<Rightarrow> ('f, 'x) oerr
    \<Rightarrow> ValidationError list result" where
  "checkRequiredFields F K p reqErr e =
    (case e of
       SchemaErr field reason value s pointer \<Rightarrow>
         if field = ''required'' then
           Inr (map (\<lambda>f. fieldError (missedCode (pa_In p)) ErrMissedRequiredParameters f (typeDetails K (pa_Name p) s)) pointer)
         else (case checkParseErr p reqErr of
            Some _ \<Rightarrow> Inr []
          | None \<Rightarrow>
              map_sum id (\<lambda>ds. [fieldError (invalidCode (pa_In p)) (errText F K e) (pa_Name p) ds])
                (valueDetails F K (pa_Name p) field value s))
     | _ \<Rightarrow> Inr [])"

text \<open>The errors behind the field \<^verbatim>\<open>Err\<close>: one, or those of a list.\<close>

definition innerErrors :: "('f, 'x) oerr option \<Rightarrow> ('f, 'x) oerr list" where
  "innerErrors err = (case err of None \<Rightarrow> [] | Some (MultiErr es) \<Rightarrow> es | Some e \<Rightarrow> [e])"

subsection \<open>Parameters\<close>

definition missedParameter :: "'f goFloat \<Rightarrow> ('f, 'x) kin \<Rightarrow> ('f, 'x) kinMore \<Rightarrow> ('f, 'x) oerr \<Rightarrow> ('f, 'x) parameter
    \<Rightarrow> ValidationError list result" where
  "missedParameter F K L err p =
    (if errorsIs L err ErrInvalidRequired \<or> errorsIs L err ErrInvalidEmptyValue then
       (case pa_Schema p of
          None \<Rightarrow> Inl nilDeref
        | Some s \<Rightarrow> Inr [fieldError (missedCode (pa_In p)) (errText F K err) (pa_Name p) (typeDetails K (pa_Name p) s)])
     else Inr [])"

definition invalidSyntax :: "'f goFloat \<Rightarrow> ('f, 'x) kin \<Rightarrow> ('f, 'x) oerr \<Rightarrow> ('f, 'x) parameter \<Rightarrow> ValidationError list" where
  "invalidSyntax F K err p =
    (if suffix ''invalid syntax'' (errText F K err) then
       [fieldError (invalidCode (pa_In p)) (errText F K err) (pa_Name p)
         ((case checkParseErr p (re_Err err) of None \<Rightarrow> [] | Some d \<Rightarrow> [d]) @
          (case re_Err err of
             Some (SchemaErr field _ value s _) \<Rightarrow>
               if field = ''pattern''
               then map (\<lambda>t. detail (pa_Name p) t (s_Pattern s) (sprintV F value)) (kTypeSlice K (s_Type s)) else []
           | _ \<Rightarrow> []))]
     else [])"

definition parameterErrors :: "'f goFloat \<Rightarrow> ('f, 'x) kin \<Rightarrow> ('f, 'x) kinMore \<Rightarrow> ('f, 'x) oerr \<Rightarrow> ('f, 'x) parameter
    \<Rightarrow> ValidationError list result" where
  "parameterErrors F K L err p =
    andThen (missedParameter F K L err p) (\<lambda>missed.
      map_sum id (\<lambda>checked. missed @ invalidSyntax F K err p @ checked)
        (collect (checkRequiredFields F K p (re_Err err)) (innerErrors (re_Err err))))"

subsection \<open>Bodies\<close>

text \<open>The types of a property that is missing; a property that the library does not give as a schema panics.\<close>

definition lookupDetails :: "('f, 'x) kin \<Rightarrow> ('f, 'x) kinMore \<Rightarrow> ('f, 'x) schema \<Rightarrow> string \<Rightarrow> FieldTypeError list result" where
  "lookupDetails K L s f =
    (case kJSONLookup L (s_Properties s) f of
       Inl lookupErr \<Rightarrow> Inr []
     | Inr None \<Rightarrow> Inl ''interface conversion''
     | Inr (Some p) \<Rightarrow> Inr (typeDetails K f p))"

text \<open>Missing properties.  In the loop over several errors one variable holds the answers for all elements of the
  pointer, and its address is appended each time: every answer shows the last element with the details of all.\<close>

definition missedSharing :: "'f goFloat \<Rightarrow> ('f, 'x) kin \<Rightarrow> ('f, 'x) kinMore \<Rightarrow> ('f, 'x) oerr \<Rightarrow> ('f, 'x) schema \<Rightarrow> string list
    \<Rightarrow> ValidationError list result" where
  "missedSharing F K L e s pointer =
    map_sum id (\<lambda>ds. map (\<lambda>_. fieldError ErrCodeRequiredBodyParameterMissed (errText F K e) (last pointer) ds) pointer)
      (collect (lookupDetails K L s) pointer)"

definition missedEach :: "'f goFloat \<Rightarrow> ('f, 'x) kin \<Rightarrow> ('f, 'x) kinMore \<Rightarrow> ('f, 'x) oerr \<Rightarrow> ('f, 'x) schema \<Rightarrow> string list
    \<Rightarrow> ValidationError list result" where
  "missedEach F K L e s pointer =
    collect (\<lambda>f. map_sum id (\<lambda>ds. [fieldError ErrCodeRequiredBodyParameterMissed (errText F K e) f ds]) (lookupDetails K L s f)) pointer"

definition invalidEach :: "'f goFloat \<Rightarrow> ('f, 'x) kin \<Rightarrow> ('f, 'x) oerr \<Rightarrow> ('f, 'x) oerr option \<Rightarrow> string \<Rightarrow> 'f gval \<Rightarrow> ('f, 'x) schema
    \<Rightarrow> string list \<Rightarrow> ValidationError list result" where
  "invalidEach F K e reqErr field value s pointer =
    collect (\<lambda>f. map_sum id (\<lambda>ds. [fieldError ErrCodeRequiredBodyParameterInvalidValue (errText F K e) f ds])
      (case reqErr of
         Some (ParseErr _ _ _ _ _) \<Rightarrow> Inr [detail f [] [] []]
       | _ \<Rightarrow> valueDetails F K f field value s)) pointer"

definition bodyFieldErrors :: "'f goFloat \<Rightarrow> ('f, 'x) kin \<Rightarrow> ('f, 'x) kinMore \<Rightarrow> ('f, 'x) oerr option \<Rightarrow> ValidationError list result" where
  "bodyFieldErrors F K L reqErr =
    (let multi = (case reqErr of Some (MultiErr _) \<Rightarrow> True | _ \<Rightarrow> False)
     in collect (\<lambda>e. case e of
            SchemaErr field _ value s pointer \<Rightarrow>
              if field = ''required'' then (if multi then missedSharing else missedEach) F K L e s pointer
              else invalidEach F K e reqErr field value s pointer
          | _ \<Rightarrow> Inr []) (innerErrors reqErr))"

definition unsupportedContentType :: string where
  "unsupportedContentType = ''request body has an error: failed to decode request body: unsupported content type''"

definition unexpectedContentType :: string where
  "unexpectedContentType = ''request body has an error: header Content-Type has unexpected value''"

definition bodyErrors :: "'f goFloat \<Rightarrow> ('f, 'x) kin \<Rightarrow> ('f, 'x) oerr \<Rightarrow> ('f, 'x) requestBody \<Rightarrow> ('f, 'x) oerr + ValidationError list" where
  "bodyErrors F K err rb =
    (let text = errText F K err;
         missed = (if rb_Required rb \<and> (\<exists>e \<in> set_option (re_Err err). errText F K e = errText F K ErrInvalidRequired)
                   then [plainError ErrCodeRequiredBodyMissed ErrRequiredBodyIsMissing] else [])
     in if prefix unsupportedContentType text then Inl err
        else Inr (missed @
          (if (\<exists>e \<in> set_option (re_Err err). isParseErr e) \<or> prefix unexpectedContentType text
           then [plainError ErrCodeRequiredBodyParseError text] else [])))"

subsection \<open>All errors\<close>

definition requestErrors :: "'f goFloat \<Rightarrow> ('f, 'x) kin \<Rightarrow> ('f, 'x) kinMore \<Rightarrow> ('f, 'x) oerr
    \<Rightarrow> (('f, 'x) oerr + ValidationError list) result" where
  "requestErrors F K L err =
    andThen (case re_Parameter err of None \<Rightarrow> Inr [] | Some p \<Rightarrow> parameterErrors F K L err p) (\<lambda>found.
      if found \<noteq> [] then Inr (Inr found)
      else map_sum id (\<lambda>fields.
             case re_Body err of
               None \<Rightarrow> Inr fields
             | Some rb \<Rightarrow> map_sum id (\<lambda>more. fields @ more) (bodyErrors F K err rb))
             (bodyFieldErrors F K L (re_Err err)))"

definition securityErrors :: "'f goFloat \<Rightarrow> ('f, 'x) kin \<Rightarrow> ('f, 'x) oerr list \<Rightarrow> ValidationError list" where
  "securityErrors F K errs =
    map (\<lambda>e. case e of
        SecMissing field msg \<Rightarrow> fieldError ErrCodeSecRequirementsFailed msg field []
      | _ \<Rightarrow> plainError ErrCodeSecRequirementsFailed (errText F K e)) errs"

definition GetErrorResponse :: "'f goFloat \<Rightarrow> ('f, 'x) kin \<Rightarrow> ('f, 'x) kinMore \<Rightarrow> ('f, 'x) oerr
    \<Rightarrow> (('f, 'x) oerr + ValidationError list) result" where
  "GetErrorResponse F K L err =
    map_sum id (map_sum id (\<lambda>rs. if rs = [] then [plainError ErrCodeUnknownValidationError (errText F K err)] else rs))
      (case err of
         RequestErr _ _ _ _ \<Rightarrow> requestErrors F K L err
       | SecurityErr _ errs \<Rightarrow> Inr (Inr (securityErrors F K errs))
       | _ \<Rightarrow> Inr (Inr []))"

subsection \<open>Properties\<close>

lemma collect_ok: "(\<And>x. x \<in> set xs \<Longrightarrow> f x = Inr (g x)) \<Longrightarrow> collect f xs = Inr (concat (map g xs))"
  by (induction xs) auto

text \<open>Missing properties of a body are reported under the wrong name.  When the validator collects several errors
  and a required property is missing below the top level, the code answers once for every element of the pointer to
  it, but all answers are the same variable: each of them names the last element, and has the types of all.\<close>

theorem missing_property_repeated:
  assumes "err = RequestErr None (Some rb) reason (Some (MultiErr [e]))" and "e = SchemaErr ''required'' r v s pointer"
    and "\<forall>f \<in> set pointer. kJSONLookup L (s_Properties s) f \<noteq> Inr None" and "pointer \<noteq> []"
    and "\<not> prefix unsupportedContentType (errText F K err)" and "\<not> prefix unexpectedContentType (errText F K err)"
    and "errText F K (MultiErr [e]) \<noteq> errText F K ErrInvalidRequired"
  shows "\<exists>details. GetErrorResponse F K L err = Inr (Inr (replicate (length pointer)
    (fieldError ErrCodeRequiredBodyParameterMissed (errText F K e) (last pointer) details)))"
proof -
  have "\<exists>ds. lookupDetails K L s f = Inr ds" if "f \<in> set pointer" for f
    using assms(3) that by (auto simp: lookupDetails_def split: sum.split option.split)
  then obtain g where "\<And>f. f \<in> set pointer \<Longrightarrow> lookupDetails K L s f = Inr (g f)" by metis
  then have c: "collect (lookupDetails K L s) pointer = Inr (concat (map g pointer))" by (rule collect_ok)
  have "bodyFieldErrors F K L (Some (MultiErr [e])) =
      Inr (replicate (length pointer) (fieldError ErrCodeRequiredBodyParameterMissed (errText F K e) (last pointer) (concat (map g pointer))))"
    using c by (simp add: bodyFieldErrors_def innerErrors_def assms(2) missedSharing_def map_replicate_const del: errText.simps)
  moreover have "bodyErrors F K err rb = Inr []"
    using assms(5-7) by (simp add: bodyErrors_def assms(1) isParseErr_def Let_def del: errText.simps)
  ultimately show ?thesis
    using assms(4) by (auto simp: GetErrorResponse_def requestErrors_def assms(1) simp del: errText.simps)
qed

text \<open>The library on a schema with the properties \<^verbatim>\<open>user\<close> and \<^verbatim>\<open>name\<close>.\<close>

definition demo_kin_more :: "(int, unit) kinMore" where
  "demo_kin_more = \<lparr> kErrIs = (\<lambda>e t. e = t), kJSONLookup = (\<lambda>ps k. case map_of ps k of None \<Rightarrow> Inl ''no schema'' | Some s \<Rightarrow> Inr (Some s)) \<rparr>"

definition demo_missing :: "(int, unit) oerr" where
  "demo_missing = SchemaErr ''required'' [] GNil (demo_schema None None [(''user'', demo_schema (Some [''object'']) None []),
     (''name'', demo_schema (Some [''string'']) None [])]) [''user'', ''name'']"

theorem missing_property_repeated_witness:
  "\<exists>details. GetErrorResponse demo_float demo_kin demo_kin_more
      (RequestErr None (Some \<lparr> rb_Required = True, rb_Content = [] \<rparr>) [] (Some (MultiErr [demo_missing]))) =
    Inr (Inr (replicate 2 (fieldError ErrCodeRequiredBodyParameterMissed [] ''name'' details)))"
proof -
  let ?err = "RequestErr None (Some \<lparr> rb_Required = True, rb_Content = [] \<rparr>) [] (Some (MultiErr [demo_missing]))"
  have t: "errText demo_float demo_kin ?err = []" "errText demo_float demo_kin demo_missing = []"
    "errText demo_float demo_kin (MultiErr [demo_missing]) = []"
    "errText demo_float demo_kin (ErrInvalidRequired :: (int, unit) oerr) \<noteq> []" by code_simp+
  have l: "\<forall>f \<in> set [''user'', ''name'']. kJSONLookup demo_kin_more (s_Properties (se_Schema demo_missing)) f \<noteq> Inr None"
    by (simp add: demo_kin_more_def demo_missing_def demo_schema_def)
  have m: "demo_missing = SchemaErr ''required'' [] GNil (se_Schema demo_missing) [''user'', ''name'']" by (simp add: demo_missing_def)
  show ?thesis
    using missing_property_repeated[where rb = "\<lparr> rb_Required = True, rb_Content = [] \<rparr>" and reason = "[]" and F = demo_float and K = demo_kin,
        OF refl m l]
    unfolding t using t(4) by (simp add: unsupportedContentType_def unexpectedContentType_def numeral_2_eq_2 del: errText.simps)
qed

end
