(* ===== verification/OAuth2.thy ===== *)
theory OAuth2
  imports Go_URL
begin

text \<open>
  The two validators of access tokens (\<^verbatim>\<open>internal/platform/oauth2\<close>): verified tokens and tokens that an
  introspection service describes.  The JWT library, the cache, the HTTP client and the JSON decoder
  are arguments; the laws the properties need are hypotheses about them.
\<close>

subsection \<open>Signed tokens\<close>

text \<open>The signing method in the header of a token, and the key that verifies it.\<close>

datatype signingMethod = SigningMethodRSA string | SigningMethodHMAC string | SigningMethodOther string

datatype 'pk jwtKey = PubKey 'pk | SecretKey string

record jwtToken =
  tk_Scope :: string
  tk_Valid :: bool

record 'pk JWT =
  jwt_SignatureAlgorithm :: string
  jwt_PubKey :: 'pk
  jwt_SecretKey :: string

text \<open>The function that chooses the key from the method of the token.\<close>

definition keyFunc :: "'pk JWT \<Rightarrow> signingMethod \<Rightarrow> 'pk jwtKey result" where
  "keyFunc j m =
    (if jwt_SignatureAlgorithm j \<in> {''RS256'', ''RS384'', ''RS512''} then
       (case m of SigningMethodRSA _ \<Rightarrow> Inr (PubKey (jwt_PubKey j)) | _ \<Rightarrow> Inl ''unknown signing method'')
     else if jwt_SignatureAlgorithm j \<in> {''HS256'', ''HS384'', ''HS512''} then
       (case m of SigningMethodHMAC _ \<Rightarrow> Inr (SecretKey (jwt_SecretKey j)) | _ \<Rightarrow> Inl ''unknown signing method'')
     else Inl ''unknown signing method'')"

text \<open>The loop over the required scopes, for a comparison of scopes.\<close>

fun scopeLoop :: "(string \<Rightarrow> string \<Rightarrow> bool) \<Rightarrow> string list \<Rightarrow> string list \<Rightarrow> gerror option" where
  "scopeLoop eq scopesInToken [] = None"
| "scopeLoop eq scopesInToken (scope # scopes) =
    (if list_ex (eq scope) scopesInToken then scopeLoop eq scopesInToken scopes
     else Some ''token doesn't contain a necessary scope'')"

text \<open>\<^verbatim>\<open>JWT.Validate\<close>; \<open>parse\<close> is \<^verbatim>\<open>jwt.ParseWithClaims\<close>.\<close>

definition JWT_Validate :: "(string \<Rightarrow> (signingMethod \<Rightarrow> 'pk jwtKey result) \<Rightarrow> jwtToken result) \<Rightarrow> 'pk JWT
    \<Rightarrow> string \<Rightarrow> string list \<Rightarrow> gerror option" where
  "JWT_Validate parse j tokenWithBearer scopes =
    (case parse (TrimPrefix tokenWithBearer ''Bearer '') (keyFunc j) of
       Inl err \<Rightarrow> Some (''oauth2 token invalid: '' @ err)
     | Inr token \<Rightarrow>
         if \<not> tk_Valid token then Some ''oauth2 token invalid''
         else scopeLoop EqualFold (SplitByte (ToLower (tk_Scope token)) CHR '' '') scopes)"

subsection \<open>Introspection\<close>

record introCfg =
  ic_ClientAuthBearerToken :: string
  ic_Endpoint :: string
  ic_EndpointParams :: string
  ic_TokenParamName :: string
  ic_ContentType :: string
  ic_EndpointMethod :: string
  ic_RefreshInterval :: int

text \<open>The request to the service, and a value of its answer: only strings matter.\<close>

record introReq =
  ir_Method :: string
  ir_URI :: string
  ir_Body :: string
  ir_Authorization :: string
  ir_ContentType :: "string option"

datatype metaVal = MStr string | MOther

type_synonym meta = "(string \<times> metaVal) list"

record 'c ccache =
  ccGet :: "string \<Rightarrow> 'c \<Rightarrow> meta option"
  ccSet :: "string \<Rightarrow> meta \<Rightarrow> int \<Rightarrow> 'c \<Rightarrow> 'c"

record 'w introNet =
  in_Do :: "introReq \<Rightarrow> 'w \<Rightarrow> string result \<times> 'w"
  in_Unmarshal :: "string \<Rightarrow> meta result"

text \<open>The body for \<^verbatim>\<open>POST\<close> and the query for \<^verbatim>\<open>GET\<close>.\<close>

definition postBody :: "introCfg \<Rightarrow> string \<Rightarrow> string" where
  "postBody cfg token =
    (if ic_TokenParamName cfg \<noteq> [] then
       ic_TokenParamName cfg @ ''='' @ token @
         (if ic_EndpointParams cfg \<noteq> [] then ''&'' @ ic_EndpointParams cfg else [])
     else ic_EndpointParams cfg)"

definition getURL :: "introCfg \<Rightarrow> string \<Rightarrow> URL \<Rightarrow> URL" where
  "getURL cfg token u =
    (let u1 = (if ic_EndpointParams cfg \<noteq> [] then u\<lparr>u_RawQuery := ic_EndpointParams cfg\<rparr> else u)
     in if ic_TokenParamName cfg \<noteq> []
        then u1\<lparr>u_RawQuery := Encode (valAdd (ic_TokenParamName cfg) token (fst (ParseQuery (u_RawQuery u1))))\<rparr>
        else u1)"

definition tokenRequest :: "introCfg \<Rightarrow> string \<Rightarrow> introReq result" where
  "tokenRequest cfg token =
    (case URL_Parse (ic_Endpoint cfg) of
       Inl err \<Rightarrow> Inl (''failed to parse introspection endpoint url: '' @ err)
     | Inr u \<Rightarrow>
         let m = ToLower (ic_EndpointMethod cfg) in
         Inr \<lparr> ir_Method = ic_EndpointMethod cfg,
               ir_URI = URL_String (if m = ''get'' then getURL cfg token u else u),
               ir_Body = (if m = ''post'' then postBody cfg token else []),
               ir_Authorization = ''Bearer '' @
                 (if ic_ClientAuthBearerToken cfg = [] then token else ic_ClientAuthBearerToken cfg),
               ir_ContentType = (if ic_ContentType cfg \<noteq> [] then Some (ic_ContentType cfg) else None) \<rparr>)"

definition getTokenMetaInfo :: "'w introNet \<Rightarrow> introCfg \<Rightarrow> string \<Rightarrow> 'w \<Rightarrow> meta result \<times> 'w" where
  "getTokenMetaInfo N cfg token w =
    (case tokenRequest cfg token of
       Inl err \<Rightarrow> (Inl err, w)
     | Inr req \<Rightarrow>
         (case in_Do N req w of
            (Inl err, w') \<Rightarrow> (Inl (''failed to send introspection request: '' @ err), w')
          | (Inr body, w') \<Rightarrow>
              (case in_Unmarshal N body of
                 Inl err \<Rightarrow> (Inl (''failed to unmarshal extension properties: '' @ err @ '' ('' @ body @ '')''), w')
               | Inr tokenStatus \<Rightarrow> (Inr tokenStatus, w'))))"

definition metaScope :: "meta \<Rightarrow> string option" where
  "metaScope m = (case map_of m ''scope'' of Some (MStr s) \<Rightarrow> Some s | _ \<Rightarrow> None)"

definition Introspection_Validate :: "'c ccache \<Rightarrow> 'w introNet \<Rightarrow> introCfg \<Rightarrow> string \<Rightarrow> string list
    \<Rightarrow> 'c \<times> 'w \<Rightarrow> gerror option \<times> ('c \<times> 'w)" where
  "Introspection_Validate C N cfg tokenWithBearer scopes st =
    (if scopes = [] then (None, st)
     else let tokenString = TrimPrefix tokenWithBearer ''Bearer ''; (c, w) = st in
       if tokenString = [] then (Some ''oauth token not found'', st)
       else case (case ccGet C tokenString c of
                    None \<Rightarrow> getTokenMetaInfo N cfg tokenString w
                  | Some metaCached \<Rightarrow> (Inr metaCached, w)) of
         (Inl err, w') \<Rightarrow> (Some err, (c, w'))
       | (Inr meta, w') \<Rightarrow>
           (case metaScope meta of
              None \<Rightarrow> (Some ''scope field not found in OAuth provider response'', (c, w'))
            | Some scopeString \<Rightarrow>
                (scopeLoop (=) (SplitByte scopeString CHR '' '') scopes,
                 (ccSet C tokenString meta (ic_RefreshInterval cfg) c, w'))))"

subsection \<open>The contract of a validator\<close>

lemma scopeLoop_None: "scopeLoop eq ts ss = None \<longleftrightarrow> (\<forall>s\<in>set ss. \<exists>t\<in>set ts. eq s t)"
  by (induction ss) (auto simp: list_ex_iff)

text \<open>The interface \<^verbatim>\<open>OAuth2\<close>: a validator that accepts a token for some scopes accepts it for fewer.\<close>

locale token_validator =
  fixes accepts :: "string \<Rightarrow> string list \<Rightarrow> bool"
  assumes fewer: "accepts t ss \<Longrightarrow> set ss' \<subseteq> set ss \<Longrightarrow> accepts t ss'"
begin

lemma order_irrelevant: "set ss = set ss' \<Longrightarrow> accepts t ss = accepts t ss'"
  using fewer by (metis order_refl)

lemma accepts_each: "accepts t ss \<Longrightarrow> s \<in> set ss \<Longrightarrow> accepts t [s]"
  by (erule fewer) simp

end

interpretation jwt: token_validator "\<lambda>t ss. JWT_Validate parse j t ss = None"
  for parse :: "string \<Rightarrow> (signingMethod \<Rightarrow> 'pk jwtKey result) \<Rightarrow> jwtToken result" and j
  by unfold_locales (auto simp: JWT_Validate_def scopeLoop_None split: sum.splits if_splits)

interpretation intro: token_validator "\<lambda>t ss. fst (Introspection_Validate C N cfg t ss st) = None"
  for C :: "'c ccache" and N :: "'w introNet" and cfg st
  by unfold_locales
     (auto simp: Introspection_Validate_def Let_def scopeLoop_None split: sum.splits prod.splits option.splits if_splits)

subsection \<open>Properties of verified tokens\<close>

text \<open>What the JWT library documents: it returns a token only after the key function accepted the method
  in the token's header (\<open>alg\<close>) and the signature was verified with the key it chose (\<open>verified\<close>).\<close>

definition parser_sound :: "(string \<Rightarrow> (signingMethod \<Rightarrow> 'pk jwtKey result) \<Rightarrow> jwtToken result)
    \<Rightarrow> (string \<Rightarrow> signingMethod) \<Rightarrow> (string \<Rightarrow> 'pk jwtKey \<Rightarrow> bool) \<Rightarrow> bool" where
  "parser_sound parse alg verified \<longleftrightarrow>
    (\<forall>t f tok. parse t f = Inr tok \<longrightarrow> (\<exists>k. f (alg t) = Inr k \<and> verified t k))"

definition demo_parse :: "string \<Rightarrow> (signingMethod \<Rightarrow> nat jwtKey result) \<Rightarrow> jwtToken result" where
  "demo_parse t f =
    (case f (SigningMethodRSA ''RS256'') of
       Inl e \<Rightarrow> Inl e
     | Inr k \<Rightarrow> if t = ''tok'' \<and> k = PubKey 7 then Inr \<lparr>tk_Scope = ''Read Write'', tk_Valid = True\<rparr> else Inl ''signature'')"

definition demo_jwt :: "nat JWT" where
  "demo_jwt = \<lparr>jwt_SignatureAlgorithm = ''RS256'', jwt_PubKey = 7, jwt_SecretKey = []\<rparr>"

lemma demo_parser_sound:
  "parser_sound demo_parse (\<lambda>t. SigningMethodRSA ''RS256'') (\<lambda>t k. t = ''tok'' \<and> k = PubKey 7)"
  by (auto simp: parser_sound_def demo_parse_def split: sum.splits if_splits)

text \<open>C9. No confusion of signature algorithms: an accepted token carries a signature that was verified
  with the public key for an RSA configuration and with the secret for an HMAC configuration, by a
  method of that family, and it has every required scope, compared without case.  With any other
  configured algorithm every token is refused.\<close>

theorem JWT_Validate_sound:
  assumes "parser_sound parse alg verified"
    and "JWT_Validate parse j (''Bearer '' @ t) scopes = None"
  shows "((\<exists>n. alg t = SigningMethodRSA n \<and> verified t (PubKey (jwt_PubKey j)) \<and>
              jwt_SignatureAlgorithm j \<in> {''RS256'', ''RS384'', ''RS512''}) \<or>
          (\<exists>n. alg t = SigningMethodHMAC n \<and> verified t (SecretKey (jwt_SecretKey j)) \<and>
              jwt_SignatureAlgorithm j \<in> {''HS256'', ''HS384'', ''HS512''})) \<and>
    (\<exists>tok. parse t (keyFunc j) = Inr tok \<and> tk_Valid tok \<and>
       (\<forall>s\<in>set scopes. \<exists>s'\<in>set (SplitByte (tk_Scope tok) CHR '' ''). EqualFold s s'))"
proof -
  have trim: "TrimPrefix (''Bearer '' @ t) ''Bearer '' = t" by (simp add: TrimPrefix_def)
  from assms(2) obtain tok where p: "parse t (keyFunc j) = Inr tok" and v: "tk_Valid tok"
    and sc: "\<forall>s\<in>set scopes. \<exists>s'\<in>set (SplitByte (ToLower (tk_Scope tok)) CHR '' ''). EqualFold s s'"
    unfolding JWT_Validate_def trim by (auto simp: scopeLoop_None split: sum.splits if_splits)
  obtain k where k: "keyFunc j (alg t) = Inr k" "verified t k"
    using assms(1) p by (auto simp: parser_sound_def)
  have "\<forall>s\<in>set scopes. \<exists>s'\<in>set (SplitByte (tk_Scope tok) CHR '' ''). EqualFold s s'"
    using sc by (simp add: SplitByte_ToLower)
  with k p v show ?thesis by (auto simp: keyFunc_def split: if_splits signingMethod.splits)
qed

theorem JWT_Validate_sound_witness:
  "JWT_Validate demo_parse demo_jwt ''Bearer tok'' [''write''] = None \<and>
   (\<exists>tok. demo_parse ''tok'' (keyFunc demo_jwt) = Inr tok \<and> tk_Valid tok \<and>
      (\<exists>s'\<in>set (SplitByte (tk_Scope tok) CHR '' ''). EqualFold ''write'' s'))"
proof -
  have v: "JWT_Validate demo_parse demo_jwt (''Bearer '' @ ''tok'') [''write''] = None" by code_simp
  show ?thesis using JWT_Validate_sound[OF demo_parser_sound v] v by simp
qed

subsection \<open>Properties of introspection\<close>

text \<open>C25. With the method \<^verbatim>\<open>GET\<close> the token reaches the introspection service unchanged, whatever
  bytes it has: the query of the request, read back, has the token as the last value of the configured
  parameter and no parameter that the configuration does not have.\<close>

theorem introspection_get_token:
  assumes "EqualFold (ic_EndpointMethod cfg) ''get''" and "ic_TokenParamName cfg \<noteq> []"
    and "URL_Parse (ic_Endpoint cfg) = Inr u"
  shows "\<exists>r u'. tokenRequest cfg token = Inr r \<and> ir_URI r = URL_String u' \<and>
    (\<forall>k. valValues k (fst (ParseQuery (u_RawQuery u'))) =
       valValues k (fst (ParseQuery (if ic_EndpointParams cfg \<noteq> [] then ic_EndpointParams cfg else u_RawQuery u))) @
       (if k = ic_TokenParamName cfg then [token] else []))"
proof -
  have "ToLower (ic_EndpointMethod cfg) = ''get''" using assms(1) by (simp add: EqualFold_def) code_simp
  then show ?thesis
    using assms(2,3)
    by (auto simp: tokenRequest_def Let_def getURL_def ParseQuery_Encode(1)[OF valAdd_distinct[OF ParseQuery_distinct]]
        valValues_valAdd intro!: exI[of _ "getURL cfg token u"])
qed

definition demo_intro :: "string \<Rightarrow> introCfg" where
  "demo_intro m = \<lparr> ic_ClientAuthBearerToken = [], ic_Endpoint = ''http://auth/info?a=1'', ic_EndpointParams = [],
     ic_TokenParamName = ''token'', ic_ContentType = [], ic_EndpointMethod = m, ic_RefreshInterval = 600 \<rparr>"

theorem introspection_get_token_witness:
  "\<exists>r u'. tokenRequest (demo_intro ''GET'') ''a&b=c'' = Inr r \<and> ir_URI r = URL_String u' \<and>
     valValues ''token'' (fst (ParseQuery (u_RawQuery u'))) = [''a&b=c''] \<and>
     valValues ''b'' (fst (ParseQuery (u_RawQuery u'))) = []"
proof -
  define u where "u = noURL\<lparr>u_Scheme := ''http'', u_Host := ''auth'', u_Path := ''/info'', u_RawQuery := ''a=1''\<rparr>"
  have q: "valValues k (fst (ParseQuery ''a=1'')) = (if k = ''a'' then [''1''] else [])" for k
  proof -
    have "ParseQuery ''a=1'' = ([(''a'', [''1''])], None)" by code_simp
    then show ?thesis by (simp add: valValues_def)
  qed
  have "URL_Parse (ic_Endpoint (demo_intro ''GET'')) = Inr u" unfolding u_def by code_simp
  moreover have "EqualFold (ic_EndpointMethod (demo_intro ''GET'')) ''get''" by code_simp
  ultimately obtain r u' where r: "tokenRequest (demo_intro ''GET'') ''a&b=c'' = Inr r" "ir_URI r = URL_String u'"
    and v: "\<And>k. valValues k (fst (ParseQuery (u_RawQuery u'))) =
       valValues k (fst (ParseQuery ''a=1'')) @ (if k = ''token'' then [''a&b=c''] else [])"
    using introspection_get_token[of "demo_intro ''GET''" u "''a&b=c''"] by (auto simp: demo_intro_def u_def)
  show ?thesis using r v[of "''token''"] v[of "''b''"] by (auto simp: q)
qed

text \<open>Text without a byte that has a meaning in a query.\<close>

definition plain :: "string \<Rightarrow> bool" where
  "plain s \<longleftrightarrow> list_all is_alnum s"

lemma plain_chars: "plain s \<Longrightarrow> c \<in> set ''&=;%+'' \<Longrightarrow> c \<notin> set s"
proof -
  have "list_all (\<lambda>c. \<not> is_alnum c) ''&=;%+''" by code_simp
  then show "plain s \<Longrightarrow> c \<in> set ''&=;%+'' \<Longrightarrow> c \<notin> set s" by (auto simp: plain_def list_all_iff)
qed

lemma unescape_plain: "plain s \<Longrightarrow> QueryUnescape s = Inr s"
  unfolding QueryUnescape_def
proof (induction s)
  case (Cons c s)
  then have "c \<noteq> CHR ''%''" "c \<noteq> CHR ''+''" using plain_chars[OF Cons.prems, of c] by auto
  with Cons show ?case by (simp add: plain_def)
qed simp

lemma parsePair_plain:
  assumes "plain k" "plain v"
  shows "parsePair (k @ CHR ''='' # v) (m, err) = (valAdd k v m, err)"
proof -
  have "CHR ''='' \<notin> set k" "CHR '';'' \<notin> set k" "CHR '';'' \<notin> set v" using assms plain_chars by auto
  then show ?thesis
    using assms by (simp add: parsePair_def Let_def CutByte_def IndexByte_append_fresh unescape_plain)
qed

text \<open>C26. With the method \<^verbatim>\<open>POST\<close> the token is not encoded: a client that puts an ampersand into its
  token adds a parameter of its choice to the request that the firewall sends to the introspection
  service.\<close>

theorem introspection_post_injection:
  assumes "EqualFold (ic_EndpointMethod cfg) ''post''" and "URL_Parse (ic_Endpoint cfg) = Inr u"
    and "plain (ic_TokenParamName cfg)" and "ic_TokenParamName cfg \<noteq> []" and "ic_EndpointParams cfg = []"
    and "plain t" and "plain k" and "plain v" and "k \<noteq> ic_TokenParamName cfg"
  shows "\<exists>r. tokenRequest cfg (t @ ''&'' @ k @ ''='' @ v) = Inr r \<and>
    ParseQuery (ir_Body r) = ([(ic_TokenParamName cfg, [t]), (k, [v])], None)"
proof -
  have m: "ToLower (ic_EndpointMethod cfg) = ''post''" using assms(1) by (simp add: EqualFold_def) code_simp
  have amp: "CHR ''&'' \<notin> set (ic_TokenParamName cfg @ ''='' @ t)" "CHR ''&'' \<notin> set (k @ ''='' @ v)"
    using assms plain_chars by auto
  have "SplitByte (postBody cfg (t @ ''&'' @ k @ ''='' @ v)) CHR ''&'' =
      [ic_TokenParamName cfg @ ''='' @ t, k @ ''='' @ v]"
    using assms(4,5) SplitByte_append[OF amp(1), of "k @ ''='' @ v"] SplitByte_no_sep[OF amp(2)]
    by (simp add: postBody_def)
  then have "ParseQuery (postBody cfg (t @ ''&'' @ k @ ''='' @ v)) = ([(ic_TokenParamName cfg, [t]), (k, [v])], None)"
    using assms by (simp add: ParseQuery_def parsePair_plain)
  then show ?thesis using m assms(2) by (simp add: tokenRequest_def Let_def)
qed

theorem introspection_post_injection_witness:
  "\<exists>r. tokenRequest (demo_intro ''POST'') ''abc&active=true'' = Inr r \<and>
    ParseQuery (ir_Body r) = ([(''token'', [''abc'']), (''active'', [''true''])], None)"
proof -
  define u where "u = noURL\<lparr>u_Scheme := ''http'', u_Host := ''auth'', u_Path := ''/info'', u_RawQuery := ''a=1''\<rparr>"
  have "URL_Parse (ic_Endpoint (demo_intro ''POST'')) = Inr u" unfolding u_def by code_simp
  moreover have "EqualFold (ic_EndpointMethod (demo_intro ''POST'')) ''post''" "plain ''token''"
    "plain ''abc''" "plain ''active''" "plain ''true''" by code_simp+
  ultimately show ?thesis
    using introspection_post_injection[of "demo_intro ''POST''" u "''abc''" "''active''" "''true''"]
    by (simp add: demo_intro_def)
qed











end
