(* ===== verification/Access_Lists.thy ===== *)
theory Access_Lists
  imports Go_Net
begin

text \<open>
  The loaders of the IP allowlist (\<^verbatim>\<open>internal/platform/allowiplist\<close>) and of the token denylist
  (\<^verbatim>\<open>internal/platform/denylist\<close>).  The cache library and the operating system's files are not part of
  the repository: they are the records \<open>ristretto\<close> and \<open>filesys\<close>, arguments of the loaders.
\<close>

subsection \<open>The libraries\<close>

record 'c ristretto =
  NewCache :: "int \<Rightarrow> int \<Rightarrow> int \<Rightarrow> 'c result"
  cacheSet :: "string \<Rightarrow> int \<Rightarrow> 'c \<Rightarrow> bool \<times> 'c"
  cacheWait :: "'c \<Rightarrow> 'c"
  cacheGet :: "string \<Rightarrow> 'c \<Rightarrow> bool"

record filesys =
  fs_Open :: "string \<Rightarrow> string result"
  fs_Seek :: "string \<Rightarrow> gerror option"
  fs_Close :: "string \<Rightarrow> gerror option"

definition BufferItems :: int where "BufferItems = 64"
definition ElementCost :: int where "ElementCost = 1"
definition StoreItemSize :: int where "StoreItemSize = 56"
definition denyStoreItemSize :: int where "denyStoreItemSize = 128"

record 'c AllowedIPsType =
  ai_Cache :: 'c
  ai_ElementsNum :: int

record 'c DeniedTokens =
  dt_Cache :: 'c
  dt_ElementsNum :: int

subsection \<open>Addresses of a subnet\<close>

lemma nextBits_SomeD: "nextBits w = Some a \<Longrightarrow> unat a = Suc (unat w)"
proof -
  assume "nextBits w = Some a"
  then have a: "a = w + 1" "w + 1 \<noteq> 0" by (auto simp: nextBits_def split: if_splits)
  have "unat (w + 1) = Suc (unat w) mod 2 ^ LENGTH('a)" by (simp add: unat_word_ariths)
  moreover have "unat (w + 1) \<noteq> 0" using a by (simp add: unat_eq_zero)
  moreover have "unat w < 2 ^ LENGTH('a)" by (rule unsigned_less)
  ultimately show ?thesis using a by (metis Suc_lessI mod_less mod_self)
qed

lemma nextBits_NoneD: "nextBits (w :: 'a::len word) = None \<Longrightarrow> Suc (unat w) = 2 ^ LENGTH('a)"
proof -
  assume "nextBits w = None"
  then have "w + 1 = 0" by (auto simp: nextBits_def split: if_splits)
  then have "Suc (unat w) mod 2 ^ LENGTH('a) = 0" by (metis unat_word_ariths(1) unsigned_0 unsigned_1 Suc_eq_plus1)
  moreover have "unat w < 2 ^ LENGTH('a)" by (rule unsigned_less)
  ultimately show ?thesis by (metis Suc_lessI Zero_not_Suc mod_less)
qed

text \<open>The loop of \<^verbatim>\<open>getIPsFromCIDR\<close> on the bits of the addresses: from \<open>addr\<close> on, while the prefix
  contains the address.  After the last address of all \<^verbatim>\<open>Next\<close> gives the invalid address, which no
  prefix contains.\<close>

function cidrLoop :: "nat \<Rightarrow> 'a::len word \<Rightarrow> 'a word \<Rightarrow> 'a word list" where
  "cidrLoop bits p addr =
    (if containsBits bits p addr
     then addr # (case nextBits addr of None \<Rightarrow> [] | Some a \<Rightarrow> cidrLoop bits p a)
     else [])"
  by pat_completeness auto
termination
proof (relation "measure (\<lambda>(bits, p, addr). 2 ^ LENGTH('a) - unat (addr :: 'a word))", goal_cases)
  case (2 bits p addr a)
  then have "unat a = Suc (unat addr)" by (blast dest: nextBits_SomeD)
  moreover have "unat a < 2 ^ LENGTH('a)" by (rule unsigned_less)
  ultimately show ?case by simp
qed simp
declare cidrLoop.simps [simp del]

definition getIPsFromCIDR :: "string \<Rightarrow> string list result" where
  "getIPsFromCIDR subnet =
    (case ParsePrefix subnet of
       Inl e \<Rightarrow> Inl e
     | Inr (a, bits) \<Rightarrow>
         let ips = (case a of
               A4 w \<Rightarrow> map (Addr_String \<circ> A4) (cidrLoop bits (maskedBits bits w) (maskedBits bits w))
             | A6 w \<Rightarrow> map (Addr_String \<circ> A6) (cidrLoop bits (maskedBits bits w) (maskedBits bits w)))
         in if length ips \<le> 2 then Inr ips else Inr (butlast (tl ips)))"

subsection \<open>Loading\<close>

text \<open>The progress messages: the number of elements loaded and the last decile reported.\<close>

definition progress :: "string \<Rightarrow> int \<Rightarrow> int \<times> int \<times> string list \<Rightarrow> int \<times> int \<times> string list" where
  "progress name totalEntries st =
    (let (num, counter10P, log) = st;
         num' = num + 1;
         pct = num' * 100 div totalEntries
     in if pct div 10 > counter10P then (num', pct div 10, log @ [name @ '': loaded '' @ Itoa (pct div 10 * 10)])
        else (num', counter10P, log))"

text \<open>The loop that stores the entries in the cache, waiting for the cache after each.\<close>

fun cacheLoop :: "'c ristretto \<Rightarrow> string \<Rightarrow> int \<Rightarrow> string list \<Rightarrow> 'c \<times> int \<times> int \<times> string list
    \<Rightarrow> 'c \<times> int \<times> int \<times> string list" where
  "cacheLoop C name totalEntries [] st = st"
| "cacheLoop C name totalEntries (k # ks) (c, num, counter10P, log) =
    (case cacheSet C k ElementCost c of
       (True, c') \<Rightarrow>
         (case progress name totalEntries (num, counter10P, log) of
            (num', cnt', log') \<Rightarrow> cacheLoop C name totalEntries ks (cacheWait C c', num', cnt', log'))
     | (False, c') \<Rightarrow>
         cacheLoop C name totalEntries ks (cacheWait C c', num, counter10P, log @ [name @ '': can't add the token to the cache'']))"

text \<open>One line of the allowlist file: the addresses it gives, or nothing with a message.\<close>

definition allowLine :: "string \<Rightarrow> string list \<times> int \<times> string list \<Rightarrow> string list \<times> int \<times> string list" where
  "allowLine line st =
    (let (ips, totalEntries, log) = st in
     if line = [] then st
     else if Contains line ''/'' then
       (case getIPsFromCIDR line of
          Inl e \<Rightarrow> (ips, totalEntries, log @ [''Allowlist (IP): entry is not a valid subnet''])
        | Inr subnetIPs \<Rightarrow> (ips @ subnetIPs, totalEntries + int (length subnetIPs), log))
     else
       (case ParseIP line of
          Some ip \<Rightarrow> (ips @ [IP_String ip], totalEntries + 1, log)
        | None \<Rightarrow> (ips, totalEntries, log @ [''Allowlist (IP): entry is not a valid IP address''])))"

definition allowNew :: "'c ristretto \<Rightarrow> filesys \<Rightarrow> string \<Rightarrow> ('c AllowedIPsType option) result \<times> string list" where
  "allowNew C FS file =
    (if file = [] then (Inr None, [])
     else case fs_Open FS file of
       Inl e \<Rightarrow> (Inl e, [])
     | Inr content \<Rightarrow>
         let (lines, serr) = scanLines content;
             (ips, totalEntries, log) = fold allowLine lines ([], 0, [])
         in case serr of
              Some e \<Rightarrow> (Inl e, log)
            | None \<Rightarrow>
                let maxCost = totalEntries * (StoreItemSize + ElementCost) in
                (case NewCache C (maxCost * 10) maxCost BufferItems of
                   Inl e \<Rightarrow> (Inl e, log)
                 | Inr c0 \<Rightarrow>
                     (case cacheLoop C ''Allowlist (IP)'' totalEntries ips (c0, 0, 0, log) of
                        (c, _, _, log') \<Rightarrow>
                          (case fs_Close FS file of
                             Some e \<Rightarrow> (Inl e, log')
                           | None \<Rightarrow> (Inr (Some \<lparr>ai_Cache = c, ai_ElementsNum = totalEntries\<rparr>), log')))))"

definition denyNew :: "'c ristretto \<Rightarrow> filesys \<Rightarrow> string \<Rightarrow> ('c DeniedTokens option) result \<times> string list" where
  "denyNew C FS file =
    (if file = [] then (Inr None, [])
     else case fs_Open FS file of
       Inl e \<Rightarrow> (Inl e, [])
     | Inr content \<Rightarrow>
         let (lines, serr) = scanLines content;
             entries = filter (\<lambda>l. l \<noteq> []) lines;
             totalEntries = int (length entries)
         in case serr of
              Some e \<Rightarrow> (Inl e, [])
            | None \<Rightarrow>
                (case fs_Seek FS file of
                   Some e \<Rightarrow> (Inl e, [])
                 | None \<Rightarrow>
                     let maxCost = totalEntries * denyStoreItemSize in
                     (case NewCache C (maxCost * 10) maxCost BufferItems of
                        Inl e \<Rightarrow> (Inl e, [])
                      | Inr c0 \<Rightarrow>
                          (case cacheLoop C ''Denylist'' totalEntries (map TrimSpace entries) (c0, 0, 0, []) of
                             (c, _, _, log') \<Rightarrow>
                               (case fs_Close FS file of
                                  Some e \<Rightarrow> (Inl e, log')
                                | None \<Rightarrow> (Inr (Some \<lparr>dt_Cache = c, dt_ElementsNum = totalEntries\<rparr>), log'))))))"

subsection \<open>The addresses of a prefix\<close>

lemma unat_drop_bit: "unat (drop_bit k w) = unat (w :: 'a::len word) div 2 ^ k"
proof -
  have "unat (drop_bit k w) = drop_bit k (unat w)"
    by (simp only: unsigned_drop_bit_eq take_bit_nat_eq_self[OF unsigned_less])
  then show ?thesis by (simp only: drop_bit_eq_div)
qed

lemma containsBits_iff:
  fixes p w :: "'a::len word"
  shows "containsBits bits p w \<longleftrightarrow>
    unat w div 2 ^ (LENGTH('a) - bits) = unat p div 2 ^ (LENGTH('a) - bits)"
proof -
  have eq: "(a XOR b = 0) = (a = b)" for a b :: "'a word"
    by (metis xor.assoc xor.left_neutral xor_self_eq)
  show ?thesis
    unfolding containsBits_def drop_bit_xor eq
    by (metis unat_drop_bit word_unat_eq_iff)
qed

lemma unat_maskedBits:
  fixes w :: "'a::len word"
  shows "unat (maskedBits bits w) = unat w div 2 ^ (LENGTH('a) - bits) * 2 ^ (LENGTH('a) - bits)"
proof -
  let ?k = "LENGTH('a) - bits"
  have "unat w div 2 ^ ?k * 2 ^ ?k \<le> unat w" by simp
  then have "unat w div 2 ^ ?k * 2 ^ ?k < 2 ^ LENGTH('a)" using unsigned_less[of w] by (rule le_less_trans)
  then have "take_bit LENGTH('a) (push_bit ?k (unat w div 2 ^ ?k)) = unat w div 2 ^ ?k * 2 ^ ?k"
    by (simp only: push_bit_eq_mult take_bit_nat_eq_self)
  then show ?thesis by (simp only: maskedBits_def unsigned_push_bit_eq unat_drop_bit)
qed

text \<open>The loop lists the addresses from \<open>addr\<close> to the end of the block of the prefix.\<close>

lemma cidrLoop_block:
  fixes p addr :: "'a::len word"
  assumes "k = LENGTH('a) - bits" "unat p = b * 2 ^ k" "unat p \<le> unat addr" "unat addr \<le> unat p + 2 ^ k"
    "unat p + 2 ^ k \<le> 2 ^ LENGTH('a)"
  shows "map unat (cidrLoop bits p addr) = [unat addr..<unat p + 2 ^ k]"
  using assms
proof (induction bits p addr rule: cidrLoop.induct)
  case (1 bits p addr)
  have pd: "unat p div 2 ^ k = b" using 1 by simp
  show ?case
  proof (cases "unat addr < unat p + 2 ^ k")
    case True
    then have "unat addr div 2 ^ k = b" using 1
      by (intro div_nat_eqI) (simp_all add: algebra_simps)
    then have c: "containsBits bits p addr" using pd 1 by (simp add: containsBits_iff)
    show ?thesis
    proof (cases "nextBits addr")
      case None
      then have "unat p + 2 ^ k = Suc (unat addr)" using nextBits_NoneD[OF None] True 1(6) by linarith
      then show ?thesis using c None by (subst cidrLoop.simps) simp
    next
      case (Some a)
      then have a: "unat a = Suc (unat addr)" by (rule nextBits_SomeD)
      then have "map unat (cidrLoop bits p a) = [unat a..<unat p + 2 ^ k]"
        using 1 c Some True by (intro "1.IH") auto
      then show ?thesis using c Some a True by (subst cidrLoop.simps) (simp add: upt_conv_Cons)
    qed
  next
    case False
    then have "unat addr = (b + 1) * 2 ^ k" using 1 by simp
    then have "unat addr div 2 ^ k = b + 1" by simp
    then have "\<not> containsBits bits p addr" using pd 1 by (simp add: containsBits_iff)
    then show ?thesis using False by (subst cidrLoop.simps) simp
  qed
qed

text \<open>From the masked base on the loop lists the whole block, in order.\<close>

lemma cidrLoop_masked:
  fixes w :: "'a::len word"
  shows "map unat (cidrLoop bits (maskedBits bits w) (maskedBits bits w)) =
    [unat (maskedBits bits w)..<unat (maskedBits bits w) + 2 ^ (LENGTH('a) - bits)]"
proof -
  let ?k = "LENGTH('a) - bits"
  have "unat w < 2 ^ LENGTH('a)" by (rule unsigned_less)
  then have "unat w div 2 ^ ?k < 2 ^ (LENGTH('a) - ?k)"
    by (simp add: less_mult_imp_div_less power_add[symmetric])
  then have "Suc (unat w div 2 ^ ?k) * 2 ^ ?k \<le> 2 ^ (LENGTH('a) - ?k) * 2 ^ ?k"
    by (intro mult_le_mono1 Suc_leI)
  then have "Suc (unat w div 2 ^ ?k) * 2 ^ ?k \<le> 2 ^ LENGTH('a)" by (simp add: power_add[symmetric])
  then show ?thesis
    by (intro cidrLoop_block[where b = "unat w div 2 ^ ?k"]) (simp_all add: unat_maskedBits)
qed

subsection \<open>What the cache keeps\<close>

text \<open>The documented behaviour of the cache the loaders rely on: a fresh cache is empty, an element of
  cost one takes 57 with its bookkeeping, and as long as the capacity \<open>m\<close> is not exceeded a set is
  accepted and nothing is evicted.\<close>

definition keeps_within :: "'c ristretto \<Rightarrow> int \<Rightarrow> 'c \<Rightarrow> bool" where
  "keeps_within C m c0 \<longleftrightarrow>
    (\<exists>used :: 'c \<Rightarrow> int. used c0 = 0 \<and> (\<forall>k. \<not> cacheGet C k c0) \<and>
      (\<forall>c k. used c + 57 \<le> m \<longrightarrow>
        (let c' = cacheWait C (snd (cacheSet C k ElementCost c)) in
         fst (cacheSet C k ElementCost c) \<and> used c' \<le> used c + 57 \<and>
         (\<forall>k'. cacheGet C k' c' \<longleftrightarrow> k' = k \<or> cacheGet C k' c))))"

definition ristretto_keeps :: "'c ristretto \<Rightarrow> bool" where
  "ristretto_keeps C \<longleftrightarrow> (\<forall>n m b c. NewCache C n m b = Inr c \<longrightarrow> keeps_within C m c)"

lemma cacheLoop_keeps_aux:
  fixes used :: "'c \<Rightarrow> int"
  assumes law: "\<And>c k. used c + 57 \<le> m \<Longrightarrow>
      (let c' = cacheWait C (snd (cacheSet C k ElementCost c)) in
         fst (cacheSet C k ElementCost c) \<and> used c' \<le> used c + 57 \<and>
         (\<forall>k'. cacheGet C k' c' \<longleftrightarrow> k' = k \<or> cacheGet C k' c))"
  shows "used c + 57 * int (length ks) \<le> m \<Longrightarrow>
    cacheGet C k' (fst (cacheLoop C name totalEntries ks (c, num, cnt, log))) \<longleftrightarrow> k' \<in> set ks \<or> cacheGet C k' c"
proof (induction ks arbitrary: c num cnt log)
  case (Cons k ks)
  have room: "used c + 57 \<le> m" using Cons.prems by simp
  obtain ok c1 where set: "cacheSet C k ElementCost c = (ok, c1)" by fastforce
  have c': "ok" "used (cacheWait C c1) \<le> used c + 57"
    "cacheGet C k' (cacheWait C c1) \<longleftrightarrow> k' = k \<or> cacheGet C k' c"
    using law[OF room, of k] set by (simp_all add: Let_def)
  obtain num' cnt' log' where p: "progress name totalEntries (num, cnt, log) = (num', cnt', log')" by (metis surj_pair)
  have "used (cacheWait C c1) + 57 * int (length ks) \<le> m" using Cons.prems c'(2) by simp
  from Cons.IH[OF this] show ?case using set c' p by auto
qed simp

lemma cacheLoop_keeps:
  assumes "keeps_within C m c0" "57 * int (length ks) \<le> m"
  shows "cacheGet C k (fst (cacheLoop C name totalEntries ks (c0, num, cnt, log))) \<longleftrightarrow> k \<in> set ks"
proof -
  obtain used where u: "used c0 = 0" "\<And>k. \<not> cacheGet C k c0"
    "\<And>c k. used c + 57 \<le> m \<Longrightarrow>
      (let c' = cacheWait C (snd (cacheSet C k ElementCost c)) in
         fst (cacheSet C k ElementCost c) \<and> used c' \<le> used c + 57 \<and>
         (\<forall>k'. cacheGet C k' c' \<longleftrightarrow> k' = k \<or> cacheGet C k' c))"
    using assms(1) unfolding keeps_within_def by blast
  show ?thesis using cacheLoop_keeps_aux[where used = used and m = m and C = C, OF u(3), where c = c0 and ks = ks and k' = k] u(1,2) assms(2) by simp
qed

subsection \<open>The loaded lists\<close>

text \<open>The addresses that one line of the allowlist file stands for.\<close>

definition lineIPs :: "string \<Rightarrow> string list" where
  "lineIPs line =
    (if line = [] then []
     else if Contains line ''/'' then (case getIPsFromCIDR line of Inl e \<Rightarrow> [] | Inr ips \<Rightarrow> ips)
     else (case ParseIP line of Some ip \<Rightarrow> [IP_String ip] | None \<Rightarrow> []))"

lemma fold_allowLine:
  "\<exists>log'. fold allowLine lines (ips, int (length ips), log) =
     (ips @ concat (map lineIPs lines), int (length (ips @ concat (map lineIPs lines))), log')"
proof (induction lines arbitrary: ips log)
  case (Cons line lines)
  have "\<exists>log'. allowLine line (ips, int (length ips), log) = (ips @ lineIPs line, int (length (ips @ lineIPs line)), log')"
    by (auto simp: allowLine_def lineIPs_def split: sum.splits option.splits)
  then obtain log1 where "allowLine line (ips, int (length ips), log) = (ips @ lineIPs line, int (length (ips @ lineIPs line)), log1)"
    by blast
  then show ?case using Cons.IH[of "ips @ lineIPs line" log1] by auto
qed simp

definition allowedIn :: "string \<Rightarrow> string list" where
  "allowedIn content = concat (map lineIPs (fst (scanLines content)))"

definition deniedIn :: "string \<Rightarrow> string list" where
  "deniedIn content = map TrimSpace (filter (\<lambda>l. l \<noteq> []) (fst (scanLines content)))"

lemma allowNew_loaded:
  assumes "ristretto_keeps C" "fs_Open FS file = Inr content" "fst (allowNew C FS file) = Inr (Some a)"
  shows "cacheGet C k (ai_Cache a) \<longleftrightarrow> k \<in> set (allowedIn content)"
    and "ai_ElementsNum a = int (length (allowedIn content))"
proof -
  obtain ls e where sc: "scanLines content = (ls, e)" by fastforce
  obtain log' where f: "fold allowLine ls ([], 0, []) = (allowedIn content, int (length (allowedIn content)), log')"
    using fold_allowLine[of ls "[]" "[]"] sc by (auto simp: allowedIn_def)
  let ?m = "int (length (allowedIn content)) * (StoreItemSize + ElementCost)"
  obtain c0 where nc: "NewCache C (?m * 10) ?m BufferItems = Inr c0"
    using assms f sc by (cases "NewCache C (?m * 10) ?m BufferItems")
      (auto simp: allowNew_def Let_def split: if_splits option.splits)
  let ?r = "cacheLoop C ''Allowlist (IP)'' (int (length (allowedIn content))) (allowedIn content) (c0, 0, 0, log')"
  have "keeps_within C ?m c0" using assms(1) nc by (auto simp: ristretto_keeps_def)
  then have k: "cacheGet C k (fst ?r) \<longleftrightarrow> k \<in> set (allowedIn content)"
    by (rule cacheLoop_keeps) (simp add: StoreItemSize_def ElementCost_def)
  have a: "a = \<lparr>ai_Cache = fst ?r, ai_ElementsNum = int (length (allowedIn content))\<rparr>"
    using assms(2,3) f sc nc by (auto simp: allowNew_def Let_def split: if_splits option.splits prod.splits)
  show "cacheGet C k (ai_Cache a) \<longleftrightarrow> k \<in> set (allowedIn content)" using k a by simp
  show "ai_ElementsNum a = int (length (allowedIn content))" using a by simp
qed

lemma denyNew_loaded:
  assumes "ristretto_keeps C" "fs_Open FS file = Inr content" "fst (denyNew C FS file) = Inr (Some d)"
  shows "cacheGet C k (dt_Cache d) \<longleftrightarrow> k \<in> set (deniedIn content)"
    and "dt_ElementsNum d = int (length (deniedIn content))"
proof -
  obtain ls e where sc: "scanLines content = (ls, e)" by fastforce
  let ?es = "filter (\<lambda>l. l \<noteq> []) ls"
  let ?m = "int (length ?es) * denyStoreItemSize"
  obtain c0 where nc: "NewCache C (?m * 10) ?m BufferItems = Inr c0"
    using assms sc by (cases "NewCache C (?m * 10) ?m BufferItems")
      (auto simp: denyNew_def Let_def split: if_splits option.splits)
  let ?r = "cacheLoop C ''Denylist'' (int (length ?es)) (map TrimSpace ?es) (c0, 0, 0, [])"
  have "keeps_within C ?m c0" using assms(1) nc by (auto simp: ristretto_keeps_def)
  then have k: "cacheGet C k (fst ?r) \<longleftrightarrow> k \<in> set (map TrimSpace ?es)"
    by (rule cacheLoop_keeps) (simp add: denyStoreItemSize_def)
  have d: "d = \<lparr>dt_Cache = fst ?r, dt_ElementsNum = int (length ?es)\<rparr>"
    using assms(2,3) sc nc by (auto simp: denyNew_def Let_def split: if_splits option.splits prod.splits)
  show "cacheGet C k (dt_Cache d) \<longleftrightarrow> k \<in> set (deniedIn content)" using k d sc by (simp add: deniedIn_def)
  show "dt_ElementsNum d = int (length (deniedIn content))" using d sc by (simp add: deniedIn_def)
qed

subsection \<open>An instance of the libraries\<close>

definition demo_cache :: "string list ristretto" where
  "demo_cache = \<lparr>NewCache = (\<lambda>n m b. if n = 0 then Inl ''NumCounters can't be zero'' else Inr []),
     cacheSet = (\<lambda>k cost c. (True, k # c)), cacheWait = (\<lambda>c. c), cacheGet = (\<lambda>k c. k \<in> set c)\<rparr>"

definition demo_fs :: "string \<Rightarrow> filesys" where
  "demo_fs content = \<lparr>fs_Open = (\<lambda>f. Inr content), fs_Seek = (\<lambda>f. None), fs_Close = (\<lambda>f. None)\<rparr>"

lemma demo_cache_keeps: "ristretto_keeps demo_cache"
  unfolding ristretto_keeps_def keeps_within_def demo_cache_def
  by (intro allI impI exI[of _ "\<lambda>c. 57 * int (length c)"]) (auto split: if_splits)

subsection \<open>Properties\<close>

text \<open>C19. The addresses that an IPv4 subnet of the allowlist file stands for are exactly the host
  addresses of its block: all of them for a block of one or two addresses, and all but the first
  and the last for a larger one, each once, in ascending order and in dotted form.  The loop ends
  also for the block that reaches the last address of all.\<close>

theorem getIPsFromCIDR_hosts:
  assumes "ParsePrefix subnet = Inr (A4 w, bits)"
  shows "getIPsFromCIDR subnet = Inr (map dotted
    (let k = 32 - bits; base = unat w div 2 ^ k * 2 ^ k
     in if k \<le> 1 then [base..<base + 2 ^ k] else [base + 1..<base + 2 ^ k - 1]))"
proof -
  let ?k = "32 - bits" and ?l = "cidrLoop bits (maskedBits bits w) (maskedBits bits w)"
  let ?b = "unat w div 2 ^ ?k * 2 ^ ?k"
  have u: "map unat ?l = [?b..<?b + 2 ^ ?k]"
    using cidrLoop_masked[of bits w] by (simp add: unat_maskedBits)
  have "map (Addr_String \<circ> A4) ?l = map dotted (map unat ?l)"
    by (simp add: Addr_String_def comp_def)
  then have ips: "map (Addr_String \<circ> A4) ?l = map dotted [?b..<?b + 2 ^ ?k]" by (simp only: u)
  then have len: "length ?l = 2 ^ ?k" by (metis length_map length_upt diff_add_inverse)
  have "length ?l \<le> 2 \<longleftrightarrow> ?k \<le> 1"
    unfolding len using power_increasing_iff[of "2::nat" ?k 1] by simp
  moreover have "butlast (tl [i..<j]) = [i + 1..<j - 1]" for i j
  proof -
    have "tl [i..<j] = [i + 1..<j]" by (cases "i < j") (simp_all add: upt_conv_Cons)
    then show ?thesis by (cases j) simp_all
  qed
  ultimately show ?thesis
    using assms ips by (simp add: getIPsFromCIDR_def Let_def map_tl[symmetric] map_butlast[symmetric] del: map_map)
qed

theorem getIPsFromCIDR_hosts_witness:
  "getIPsFromCIDR ''10.0.0.77/30'' = Inr [''10.0.0.77'', ''10.0.0.78'']"
proof -
  have p: "ParsePrefix ''10.0.0.77/30'' = Inr (A4 0x0A00004D, 30)" by code_simp
  show ?thesis unfolding getIPsFromCIDR_hosts[OF p] by code_simp
qed

end
