(* ===== verification/Middleware.thy ===== *)
theory Middleware
  imports Web Access_Lists
begin

text \<open>
  The middlewares of \<^verbatim>\<open>internal/mid\<close>: logging, error and panic handling, the proxy headers, the IP
  allowlist, the token denylist, the shadow API monitor and the MIME type identifier.  The two
  lists are guards in the sense of the locale of theory \<open>Web\<close>.
\<close>

subsection \<open>Logger, Errors, Panics\<close>

text \<open>\<^verbatim>\<open>v.(bool)\<close> on a user value that is present: any other type panics.\<close>

definition assertBool :: "uval option \<Rightarrow> string + bool option" where
  "assertBool v =
    (case v of None \<Rightarrow> Inr None | Some (UBool b) \<Rightarrow> Inr (Some b) | Some _ \<Rightarrow> Inl ''interface conversion'')"

definition Logger :: "('rq, 'rs) middleware" where
  "Logger before ctx =
    (case before (logMsg ''request received'' ctx) of
       (Panic p, ctx1) \<Rightarrow> (Panic p, ctx1)
     | (err, ctx1) \<Rightarrow>
         (case assertBool (cx_vals ctx1 RequestProxyNoRoute) of
            Inl p \<Rightarrow> (Panic p, ctx1)
          | Inr b \<Rightarrow>
              let ctx2 = (if b = Some True
                          then logMsg ''method or path not found in the OpenAPI specification'' ctx1 else ctx1)
              in (err, logMsg ''request processed'' ctx2)))"

definition Errors :: "('rq, 'rs) fasthttp \<Rightarrow> ('rq, 'rs) middleware" where
  "Errors H before ctx =
    (case before ctx of
       (Err err, ctx1) \<Rightarrow>
         (case RespondError H 500 [] (logMsg ''common error'' ctx1) of
            (Ok, ctx2) \<Rightarrow> if IsShutdown err then (Err err, ctx2) else (Ok, ctx2)
          | (err2, ctx2) \<Rightarrow> (err2, ctx2))
     | r \<Rightarrow> r)"

definition Panics :: "('rq, 'rs) middleware" where
  "Panics after ctx =
    (case after ctx of
       (Panic r, ctx1) \<Rightarrow> (Err (Plain (''panic: '' @ r)), ctx1)
     | res \<Rightarrow> res)"

subsection \<open>Proxy headers\<close>

definition apifwHeaderName :: string where "apifwHeaderName = ''APIFW-Request-Id''"

definition hopHeaders :: "string list" where
  "hopHeaders = [''Connection'', ''Proxy-Connection'', ''Keep-Alive'', ''Proxy-Authenticate'',
    ''Proxy-Authorization'', ''Te'', ''Trailer'', ''Transfer-Encoding'', ''Upgrade'']"

record ProxyOptions =
  po_Mode :: string
  po_RequestValidation :: string
  po_DeleteAcceptEncoding :: bool
  po_Scheme :: string
  po_Host :: string

text \<open>The two loops over the hop-by-hop headers; in GraphQL mode the headers of a WebSocket upgrade
  are kept.\<close>

definition stripRequest :: "('rq, 'rs) fasthttp \<Rightarrow> string \<Rightarrow> 'rq \<Rightarrow> 'rq" where
  "stripRequest H mode =
    fold (\<lambda>h r.
      if mode = GraphQLMode \<and>
         (h = ''Connection'' \<and> rqConnectionUpgrade H r \<or>
          h = ''Upgrade'' \<and> EqualFold (case rqPeek H ''Upgrade'' r of None \<Rightarrow> [] | Some v \<Rightarrow> v) ''websocket'')
      then r else rqDel H h r) hopHeaders"

definition stripResponse :: "('rq, 'rs) fasthttp \<Rightarrow> string \<Rightarrow> 'rs \<Rightarrow> 'rs" where
  "stripResponse H mode =
    fold (\<lambda>h r.
      if mode = GraphQLMode \<and>
         (h = ''Connection'' \<and> rsConnectionUpgrade H r \<or>
          h = ''Upgrade'' \<and> EqualFold (case rsPeek H ''Upgrade'' r of None \<Rightarrow> [] | Some v \<Rightarrow> v) ''websocket'')
      then r else rsDel H h r) hopHeaders"

text \<open>What \<^verbatim>\<open>Proxy\<close> does to the request before the next handler runs.\<close>

definition setForwardedFor :: "('rq, 'rs) fasthttp \<Rightarrow> string \<Rightarrow> 'rq \<Rightarrow> 'rq" where
  "setForwardedFor H ip r =
    (case rqPeek H ''X-Forwarded-For'' r of
       Some xff \<Rightarrow> rqSet H ''X-Forwarded-For'' (xff @ '', '' @ ip) r
     | None \<Rightarrow> rqSet H ''X-Forwarded-For'' ip r)"

definition setTarget :: "('rq, 'rs) fasthttp \<Rightarrow> ProxyOptions \<Rightarrow> 'rq \<Rightarrow> 'rq" where
  "setTarget H opts r =
    (let r1 = (if po_Scheme opts \<noteq> rqScheme H r then rqSetScheme H (po_Scheme opts) r else r)
     in if po_Host opts \<noteq> rqURIHost H r1 then rqSetURIHost H (po_Host opts) r1 else r1)"

definition proxyRequest :: "('rq, 'rs) fasthttp \<Rightarrow> ProxyOptions \<Rightarrow> ('rq, 'rs) rctx \<Rightarrow> (string \<times> ('rq, 'rs) rctx) + ('rq, 'rs) rctx" where
  "proxyRequest H opts ctx =
    (let ctx1 = onReq (stripRequest H (po_Mode opts)) ctx in
     case (if EqualFold (po_RequestValidation opts) ValidationBlock
           then (case cx_vals ctx1 RequestID of
                   Some (UStr s) \<Rightarrow> Inr (onReq (rqAdd H apifwHeaderName s) ctx1)
                 | _ \<Rightarrow> Inl (''interface conversion'', ctx1))
           else Inr ctx1) of
       Inl p \<Rightarrow> Inl p
     | Inr ctx2 \<Rightarrow>
         let ctx3 = onReq (setTarget H opts) ctx2;
             ctx4 = onReq (setForwardedFor H (ra_ip (cx_remote ctx3))) ctx3
         in Inr (if po_DeleteAcceptEncoding opts then onReq (rqDel H ''Accept-Encoding'') ctx4 else ctx4))"

definition Proxy :: "('rq, 'rs) fasthttp \<Rightarrow> ProxyOptions \<Rightarrow> ('rq, 'rs) middleware" where
  "Proxy H opts before ctx =
    (case proxyRequest H opts ctx of
       Inl (p, ctx1) \<Rightarrow> (Panic p, ctx1)
     | Inr ctx1 \<Rightarrow>
         (case before ctx1 of
            (Panic p, ctx2) \<Rightarrow> (Panic p, ctx2)
          | (err, ctx2) \<Rightarrow> (err, onResp (stripResponse H (po_Mode opts)) ctx2)))"

subsection \<open>The token denylist\<close>

record 'c DenylistOptions =
  dl_Mode :: string
  dl_CookieName :: string
  dl_HeaderName :: string
  dl_TrimBearerPrefix :: bool
  dl_CustomBlockStatusCode :: int
  dl_DeniedTokens :: "'c DeniedTokens option"

definition denyResponse :: "('rq, 'rs) fasthttp \<Rightarrow> 'c DenylistOptions \<Rightarrow> ('rq, 'rs) handler" where
  "denyResponse H opts ctx =
    (let ctx1 = logMsg ''The request with the API token has been blocked'' ctx in
     if EqualFold (dl_Mode opts) GraphQLMode
     then RespondGraphQLErrors H ''access denied'' (onResp (rsSetStatus H (dl_CustomBlockStatusCode opts)) ctx1)
     else RespondError H (dl_CustomBlockStatusCode opts) [] ctx1)"

definition headerToken :: "('rq, 'rs) fasthttp \<Rightarrow> 'c DenylistOptions \<Rightarrow> 'rq \<Rightarrow> string" where
  "headerToken H opts r =
    (let token = (case rqPeek H (dl_HeaderName opts) r of None \<Rightarrow> [] | Some v \<Rightarrow> v)
     in if dl_TrimBearerPrefix opts then TrimPrefix token ''Bearer '' else token)"

definition Denylist :: "'c ristretto \<Rightarrow> ('rq, 'rs) fasthttp \<Rightarrow> 'c DenylistOptions \<Rightarrow> ('rq, 'rs) middleware" where
  "Denylist C H opts before ctx =
    (case dl_DeniedTokens opts of
       None \<Rightarrow> before ctx
     | Some dt \<Rightarrow>
         if dt_ElementsNum dt > 0 then
           if dl_CookieName opts \<noteq> [] \<and> cacheGet C (rqCookie H (dl_CookieName opts) (cx_req ctx)) (dt_Cache dt)
           then denyResponse H opts ctx
           else if dl_HeaderName opts \<noteq> [] \<and> cacheGet C (headerToken H opts (cx_req ctx)) (dt_Cache dt)
           then denyResponse H opts ctx
           else before ctx
         else before ctx)"

subsection \<open>The IP allowlist\<close>

record 'c IPAllowListOptions =
  al_Mode :: string
  al_HeaderName :: string
  al_CustomBlockStatusCode :: int
  al_AllowedIPs :: "'c AllowedIPsType option"

text \<open>The address to check: the TCP address of the connection, the first entry of
  \<^verbatim>\<open>X-Forwarded-For\<close>, or a header.\<close>

definition ipToCheck :: "('rq, 'rs) fasthttp \<Rightarrow> 'c IPAllowListOptions \<Rightarrow> ('rq, 'rs) rctx \<Rightarrow> string \<times> ('rq, 'rs) rctx" where
  "ipToCheck H opts ctx =
    (let peek = (case rqPeek H (al_HeaderName opts) (cx_req ctx) of None \<Rightarrow> [] | Some v \<Rightarrow> v);
         (ip, ctx1) =
           (if ToLower (al_HeaderName opts) = [] then
              (case ra_tcp (cx_remote ctx) of
                 None \<Rightarrow> ([], logMsg ''allow IP: can't get client IP address'' ctx)
               | Some ip \<Rightarrow> (ip, ctx))
            else if ToLower (al_HeaderName opts) = ''x-forwarded-for'' then (hd (SplitByte peek CHR '',''), ctx)
            else (peek, ctx))
     in (TrimSpace ip, ctx1))"

definition refuseIP :: "('rq, 'rs) fasthttp \<Rightarrow> 'c IPAllowListOptions \<Rightarrow> ('rq, 'rs) handler" where
  "refuseIP H opts ctx =
    (if al_Mode opts = APIMode
     then (Ok, SetUserValue GlobalResponseStatusCodeKey (UInt (al_CustomBlockStatusCode opts)) ctx)
     else if al_Mode opts = GraphQLMode
     then RespondGraphQLErrors H ''access denied to this IP''
            (onResp (rsSetStatus H (al_CustomBlockStatusCode opts)) ctx)
     else RespondError H (al_CustomBlockStatusCode opts) [] ctx)"

definition IPAllowlist :: "'c ristretto \<Rightarrow> ('rq, 'rs) fasthttp \<Rightarrow> 'c IPAllowListOptions
    \<Rightarrow> ('rq, 'rs) middleware" where
  "IPAllowlist C H opts before ctx =
    (case al_AllowedIPs opts of
       None \<Rightarrow> before ctx
     | Some ai \<Rightarrow>
         if ai_ElementsNum ai > 0 then
           let (ip, ctx1) = ipToCheck H opts ctx in
           (case ParseIP ip of
              None \<Rightarrow> refuseIP H opts (logMsg ''allow IP: could not parse source IP address'' ctx1)
            | Some addr \<Rightarrow>
                if \<not> cacheGet C (IP_String addr) (ai_Cache ai)
                then refuseIP H opts (logMsg ''allow IP: requests from the source IP address are not allowed'' ctx1)
                else before ctx1)
         else before ctx)"

subsection \<open>The shadow API monitor\<close>

definition ShadowAPIMonitor :: "('rq, 'rs) fasthttp \<Rightarrow> int list \<Rightarrow> ('rq, 'rs) middleware" where
  "ShadowAPIMonitor H excludeList before ctx =
    (case before ctx of
       (Panic p, ctx1) \<Rightarrow> (Panic p, ctx1)
     | (err, ctx1) \<Rightarrow>
         (case assertBool (cx_vals ctx1 RequestProxyFailed) of
            Inl p \<Rightarrow> (Panic p, ctx1)
          | Inr failed \<Rightarrow>
              if failed = Some True then (err, ctx1)
              else (case assertBool (cx_vals ctx1 RequestBlocked) of
                Inl p \<Rightarrow> (Panic p, ctx1)
              | Inr blocked \<Rightarrow>
                  if blocked = Some True then (err, ctx1)
                  else (case assertBool (cx_vals ctx1 ResponseStatusNotFound) of
                    Inl p \<Rightarrow> (Panic p, ctx1)
                  | Inr notFound \<Rightarrow>
                      if notFound = Some True \<and> rsStatus H (cx_resp ctx1) \<notin> set excludeList
                      then (err, logMsg ''Shadow API detected: response status code not found in the OpenAPI specification'' ctx1)
                      else (err, ctx1)))))"

subsection \<open>The MIME type identifier\<close>

text \<open>\<open>detectReader\<close> and \<open>detect\<close> are the library that recognises content types.\<close>

definition MIMETypeIdentifier :: "('rq, 'rs) fasthttp \<Rightarrow> (string \<times> goerr option \<Rightarrow> goerr + string)
    \<Rightarrow> (string \<Rightarrow> string) \<Rightarrow> ('rq, 'rs) middleware" where
  "MIMETypeIdentifier H detectReader detect before ctx =
    (if rqContentType H (cx_req ctx) = [] \<and> rqBody H (cx_req ctx) \<noteq> [] then
       let enc = rqContentEncoding H (cx_req ctx) in
       case (if enc \<noteq> [] then
               (case GetDecompressedRequestBody H (cx_req ctx) enc of
                  Inl e \<Rightarrow> Inl ''request body decompression error''
                | Inr body \<Rightarrow>
                    (case detectReader body of
                       Inl e \<Rightarrow> Inl ''schema version mismatch''
                     | Inr mtype \<Rightarrow> Inr (onReq (rqSetContentType H mtype) ctx)))
             else Inr ctx) of
         Inl msg \<Rightarrow> RespondError H 500 [] (logMsg msg ctx)
       | Inr ctx1 \<Rightarrow> before (onReq (rqSetContentType H (detect (rqBody H (cx_req ctx1)))) ctx1)
     else before ctx)"

subsection \<open>The lists are guards\<close>

definition denyBlocks :: "'c ristretto \<Rightarrow> ('rq, 'rs) fasthttp \<Rightarrow> 'c DenylistOptions \<Rightarrow> ('rq, 'rs) rctx \<Rightarrow> bool" where
  "denyBlocks C H opts ctx \<longleftrightarrow>
    (case dl_DeniedTokens opts of
       None \<Rightarrow> False
     | Some dt \<Rightarrow> dt_ElementsNum dt > 0 \<and>
         (dl_CookieName opts \<noteq> [] \<and> cacheGet C (rqCookie H (dl_CookieName opts) (cx_req ctx)) (dt_Cache dt) \<or>
          dl_HeaderName opts \<noteq> [] \<and> cacheGet C (headerToken H opts (cx_req ctx)) (dt_Cache dt)))"

definition ipBlocks :: "'c ristretto \<Rightarrow> ('rq, 'rs) fasthttp \<Rightarrow> 'c IPAllowListOptions \<Rightarrow> ('rq, 'rs) rctx \<Rightarrow> bool" where
  "ipBlocks C H opts ctx \<longleftrightarrow>
    (case al_AllowedIPs opts of
       None \<Rightarrow> False
     | Some ai \<Rightarrow> ai_ElementsNum ai > 0 \<and>
         (case ParseIP (fst (ipToCheck H opts ctx)) of
            None \<Rightarrow> True
          | Some addr \<Rightarrow> \<not> cacheGet C (IP_String addr) (ai_Cache ai)))"

lemma denyResponse_sent [simp]: "cx_sent (snd (denyResponse H opts ctx)) = cx_sent ctx"
  by (simp add: denyResponse_def Let_def)

lemma refuseIP_sent [simp]: "cx_sent (snd (refuseIP H opts ctx)) = cx_sent ctx"
  by (simp add: refuseIP_def)

lemma ipToCheck_sent [simp]: "cx_sent (snd (ipToCheck H opts ctx)) = cx_sent ctx"
  by (simp add: ipToCheck_def Let_def split: option.splits)

text \<open>Only an address that does not parse leaves a message.\<close>

lemma ipToCheck_same: "ParseIP (fst (ipToCheck H opts ctx)) = Some a \<Longrightarrow> snd (ipToCheck H opts ctx) = ctx"
  by (auto simp: ipToCheck_def Let_def TrimSpace_def split: option.splits if_splits)

interpretation deny: guard_middleware "Denylist C H opts" "denyBlocks C H opts"
  for C :: "'c ristretto" and H :: "('rq, 'rs) fasthttp" and opts :: "'c DenylistOptions"
  by unfold_locales (auto simp: Denylist_def denyBlocks_def split: option.splits if_splits)

interpretation allow: guard_middleware "IPAllowlist C H opts" "ipBlocks C H opts"
  for C :: "'c ristretto" and H :: "('rq, 'rs) fasthttp" and opts :: "'c IPAllowListOptions"
  by unfold_locales (auto simp: IPAllowlist_def ipBlocks_def Let_def case_prod_unfold ipToCheck_same
      split: option.splits if_splits)

subsection \<open>The hop-by-hop headers\<close>

lemma EqualFold_refl [simp]: "EqualFold a a"
  by (simp add: EqualFold_def)









subsection \<open>Properties\<close>

text \<open>C12. Whatever the handlers below do, the error and panic middlewares together contain it: the
  chain never panics and returns an error only to pass on a shutdown request; a handler that
  succeeds is left alone, and after a panic or any other error the client gets an empty response
  with status 500.\<close>

theorem errors_panics_contain:
  "case Errors H (Panics h) ctx of
     (Panic p, ctx') \<Rightarrow> False
   | (Err e, ctx') \<Rightarrow> IsShutdown e \<and> fst (h ctx) = Err e \<and> cx_resp ctx' = rsError H [] 500 (cx_resp (snd (h ctx)))
   | (Ok, ctx') \<Rightarrow>
       (case h ctx of
          (Ok, ctx1) \<Rightarrow> ctx' = ctx1
        | (Err e, ctx1) \<Rightarrow> \<not> IsShutdown e \<and> cx_resp ctx' = rsError H [] 500 (cx_resp ctx1)
        | (Panic p, ctx1) \<Rightarrow> cx_resp ctx' = rsError H [] 500 (cx_resp ctx1))"
proof -
  obtain out ctx1 where h: "h ctx = (out, ctx1)" by fastforce
  have "\<not> IsShutdown (Plain m)" for m by (simp add: IsShutdown_def)
  then show ?thesis using h by (cases out) (simp_all add: Errors_def Panics_def RespondError_def Let_def)
qed



definition demo_proxy_ctx :: "(dreq, dresp) rctx" where
  "demo_proxy_ctx = demo_ctx (demo_req ''GET'' ''/a'' [(''connection'', ''close''), (''X-Forwarded-For'', ''10.1.1.1'')])"


text \<open>C14. With an allowlist file in use, a request goes on, unchanged, exactly when the address to
  check is a valid IP address that one of the lines of the file stands for; every other request,
  also one whose address cannot be read, is answered by the middleware itself, whatever the rest
  of the chain is, and nothing is sent to the backend.\<close>

theorem IPAllowlist_file:
  assumes "ristretto_keeps C" "fs_Open FS file = Inr content" "fst (allowNew C FS file) = Inr (Some a)"
    "al_AllowedIPs opts = Some a" "allowedIn content \<noteq> []"
  shows "if (case ParseIP (fst (ipToCheck H opts ctx)) of
               None \<Rightarrow> False | Some addr \<Rightarrow> IP_String addr \<in> set (allowedIn content))
         then IPAllowlist C H opts h ctx = h ctx
         else IPAllowlist C H opts h ctx = IPAllowlist C H opts h' ctx \<and>
              cx_sent (snd (IPAllowlist C H opts h ctx)) = cx_sent ctx"
proof -
  have "ipBlocks C H opts ctx \<longleftrightarrow> (case ParseIP (fst (ipToCheck H opts ctx)) of
      None \<Rightarrow> True | Some addr \<Rightarrow> IP_String addr \<notin> set (allowedIn content))"
    using assms(4,5) allowNew_loaded[OF assms(1-3)] by (simp add: ipBlocks_def split: option.splits)
  then show ?thesis
    using allow.passes allow.blocked allow.quiet by (cases "ParseIP (fst (ipToCheck H opts ctx))") auto
qed

definition demo_allowed :: "string list AllowedIPsType" where
  "demo_allowed = the (projr (fst (allowNew demo_cache (demo_fs ''192.0.2.7'') ''f'')))"

definition demo_allow :: "string list IPAllowListOptions" where
  "demo_allow = \<lparr>al_Mode = ''proxy'', al_HeaderName = [], al_CustomBlockStatusCode = 403,
     al_AllowedIPs = Some demo_allowed\<rparr>"

lemma demo_allowed_new: "fst (allowNew demo_cache (demo_fs ''192.0.2.7'') ''f'') = Inr (Some demo_allowed)"
proof -
  have "case fst (allowNew demo_cache (demo_fs ''192.0.2.7'') ''f'') of Inr (Some a) \<Rightarrow> True | _ \<Rightarrow> False" by code_simp
  then show ?thesis by (auto simp: demo_allowed_def split: sum.splits option.splits)
qed

lemma demo_allowed_in: "allowedIn ''192.0.2.7'' = [''192.0.2.7'']"
  by code_simp

theorem IPAllowlist_file_witness:
  "IPAllowlist demo_cache demo_http demo_allow (\<lambda>c. (Err (Plain ''next''), c)) demo_proxy_ctx = (Err (Plain ''next''), demo_proxy_ctx)"
proof -
  note n = demo_allowed_new and c = demo_allowed_in
  have o: "fs_Open (demo_fs ''192.0.2.7'') ''f'' = Inr ''192.0.2.7''" by (simp add: demo_fs_def)
  have t: "case ParseIP (fst (ipToCheck demo_http demo_allow demo_proxy_ctx)) of
      None \<Rightarrow> False | Some addr \<Rightarrow> IP_String addr \<in> set (allowedIn ''192.0.2.7'')"
    by code_simp
  show ?thesis
    using IPAllowlist_file[OF demo_cache_keeps o n, of demo_allow demo_http demo_proxy_ctx "\<lambda>c. (Err (Plain ''next''), c)"]
      t c by (simp add: demo_allow_def)
qed

text \<open>C15. With a denylist file in use, a request that carries a listed token, in the cookie or in the
  header that is configured, is answered by the middleware itself whatever the rest of the chain
  is, and nothing is sent to the backend; a request without a listed token goes on unchanged.
  Tokens are compared without the blanks around them in the file.\<close>

theorem Denylist_file:
  assumes "ristretto_keeps C" "fs_Open FS file = Inr content" "fst (denyNew C FS file) = Inr (Some d)"
    "dl_DeniedTokens opts = Some d"
  shows "if dl_CookieName opts \<noteq> [] \<and> rqCookie H (dl_CookieName opts) (cx_req ctx) \<in> set (deniedIn content) \<or>
            dl_HeaderName opts \<noteq> [] \<and> headerToken H opts (cx_req ctx) \<in> set (deniedIn content)
         then Denylist C H opts h ctx = Denylist C H opts h' ctx \<and>
              cx_sent (snd (Denylist C H opts h ctx)) = cx_sent ctx
         else Denylist C H opts h ctx = h ctx"
proof -
  have "denyBlocks C H opts ctx \<longleftrightarrow>
      dl_CookieName opts \<noteq> [] \<and> rqCookie H (dl_CookieName opts) (cx_req ctx) \<in> set (deniedIn content) \<or>
      dl_HeaderName opts \<noteq> [] \<and> headerToken H opts (cx_req ctx) \<in> set (deniedIn content)"
    using assms(4) denyNew_loaded[OF assms(1-3)] by (cases "deniedIn content") (auto simp: denyBlocks_def)
  then show ?thesis
    using deny.passes deny.blocked deny.quiet by auto
qed

definition demo_tokens :: string where
  "demo_tokens = ''secret'' @ [CHR 0x0A] @ '' '' @ [CHR 0x0A]"

definition demo_denied :: "string list DeniedTokens" where
  "demo_denied = the (projr (fst (denyNew demo_cache (demo_fs demo_tokens) ''f'')))"

definition demo_deny :: "string list DenylistOptions" where
  "demo_deny = \<lparr>dl_Mode = ''proxy'', dl_CookieName = [], dl_HeaderName = ''Authorization'', dl_TrimBearerPrefix = True,
     dl_CustomBlockStatusCode = 403, dl_DeniedTokens = Some demo_denied\<rparr>"

lemma demo_denied_loaded:
  "fs_Open (demo_fs demo_tokens) ''f'' = Inr demo_tokens"
  "fst (denyNew demo_cache (demo_fs demo_tokens) ''f'') = Inr (Some demo_denied)"
proof -
  have "case fst (denyNew demo_cache (demo_fs demo_tokens) ''f'') of Inr (Some a) \<Rightarrow> True | _ \<Rightarrow> False" by code_simp
  then show "fst (denyNew demo_cache (demo_fs demo_tokens) ''f'') = Inr (Some demo_denied)"
    by (auto simp: demo_denied_def split: sum.splits option.splits)
qed (simp add: demo_fs_def)

lemma demo_deny_sel [simp]:
  "dl_CookieName demo_deny = []" "dl_HeaderName demo_deny = ''Authorization''" "dl_DeniedTokens demo_deny = Some demo_denied"
  by (simp_all add: demo_deny_def)

theorem Denylist_file_witness:
  "Denylist demo_cache demo_http demo_deny (\<lambda>c. (Ok, c)) (demo_ctx (demo_req ''GET'' ''/'' [(''authorization'', ''Bearer secret'')])) =
   Denylist demo_cache demo_http demo_deny (\<lambda>c. (Panic [], c)) (demo_ctx (demo_req ''GET'' ''/'' [(''authorization'', ''Bearer secret'')]))"
proof -
  have "headerToken demo_http demo_deny (cx_req (demo_ctx (demo_req ''GET'' ''/'' [(''authorization'', ''Bearer secret'')])))
      \<in> set (deniedIn demo_tokens)" by code_simp
  then show ?thesis
    using Denylist_file[OF demo_cache_keeps demo_denied_loaded, of demo_deny demo_http
        "demo_ctx (demo_req ''GET'' ''/'' [(''authorization'', ''Bearer secret'')])" "\<lambda>c. (Ok, c)" "\<lambda>c. (Panic [], c)"] by simp
qed

text \<open>A line of the denylist file that holds only blanks is loaded as the empty token: when a
  header is configured, every request without that header is then refused.\<close>

theorem denylist_blank_line:
  assumes "ristretto_keeps C" "fs_Open FS file = Inr content" "fst (denyNew C FS file) = Inr (Some d)"
    "dl_DeniedTokens opts = Some d" "dl_HeaderName opts \<noteq> []" "rqPeek H (dl_HeaderName opts) (cx_req ctx) = None"
    "line \<in> set (fst (scanLines content))" "line \<noteq> []" "TrimSpace line = []"
  shows "Denylist C H opts h ctx = denyResponse H opts ctx"
proof -
  have "[] \<in> set (deniedIn content)" using assms(7-9) by (force simp: deniedIn_def)
  moreover have "headerToken H opts (cx_req ctx) = []" using assms(6) by (simp add: headerToken_def TrimPrefix_def)
  ultimately show ?thesis
    using assms(4,5) denyNew_loaded[OF assms(1-3)] by (cases "deniedIn content") (auto simp: Denylist_def)
qed

theorem denylist_blank_line_witness:
  "Denylist demo_cache demo_http demo_deny (\<lambda>c. (Ok, c)) (demo_ctx (demo_req ''GET'' ''/'' [])) =
   denyResponse demo_http demo_deny (demo_ctx (demo_req ''GET'' ''/'' []))"
proof -
  have p: "rqPeek demo_http ''Authorization'' (cx_req (demo_ctx (demo_req ''GET'' ''/'' []))) = None" by code_simp
  have l: "'' '' \<in> set (fst (scanLines demo_tokens))" "TrimSpace '' '' = []" by code_simp+
  show ?thesis
    using denylist_blank_line[OF demo_cache_keeps demo_denied_loaded, of demo_deny demo_http
        "demo_ctx (demo_req ''GET'' ''/'' [])" "'' ''" "\<lambda>c. (Ok, c)"] p l by simp
qed

text \<open>For a compressed body without a content type the identifier passes on the type of the
  compressed bytes: the type of the decompressed body, which it has just found, is overwritten.\<close>

theorem MIMETypeIdentifier_compressed:
  assumes "\<And>a b r. rqSetContentType H a (rqSetContentType H b r) = rqSetContentType H a r"
    "\<And>a r. rqBody H (rqSetContentType H a r) = rqBody H r"
    "rqContentType H (cx_req ctx) = []" "rqBody H (cx_req ctx) \<noteq> []" "rqContentEncoding H (cx_req ctx) = enc" "enc \<noteq> []"
    "GetDecompressedRequestBody H (cx_req ctx) enc = Inr body" "detectReader body = Inr mtype"
  shows "MIMETypeIdentifier H detectReader detect before ctx =
    before (onReq (rqSetContentType H (detect (rqBody H (cx_req ctx)))) ctx)"
  using assms by (simp add: MIMETypeIdentifier_def Let_def onReq_def)

definition demo_zip_ctx :: "(dreq, dresp) rctx" where
  "demo_zip_ctx = demo_ctx ((demo_req ''POST'' ''/'' [(''Content-Encoding'', ''gzip'')])\<lparr>d_body := ''zip''\<rparr>)"

theorem MIMETypeIdentifier_compressed_witness:
  "MIMETypeIdentifier demo_http (\<lambda>r. Inr ''application/json'') (\<lambda>b. ''application/gzip'')
     (\<lambda>c. (Err (Plain (rqContentType demo_http (cx_req c))), demo_zip_ctx)) demo_zip_ctx = (Err (Plain ''application/gzip''), demo_zip_ctx)"
proof -
  have l: "rqSetContentType demo_http a (rqSetContentType demo_http b r) = rqSetContentType demo_http a r"
    "rqBody demo_http (rqSetContentType demo_http a r) = rqBody demo_http r" for a b r
    by (simp_all add: demo_http_def hdel_def)
  have c: "rqContentType demo_http (cx_req demo_zip_ctx) = []" "rqBody demo_http (cx_req demo_zip_ctx) \<noteq> []"
    "rqContentEncoding demo_http (cx_req demo_zip_ctx) = ''gzip''" "''gzip'' \<noteq> []"
    "GetDecompressedRequestBody demo_http (cx_req demo_zip_ctx) ''gzip'' = Inr (''zip'', None)" by code_simp+
  show ?thesis
    unfolding MIMETypeIdentifier_compressed[OF l c, of "\<lambda>r. Inr ''application/json''" "''application/json''", OF refl]
    by (simp add: demo_http_def hget_Cons)
qed

end
