(* ===== verification/WAF.thy ===== *)
theory WAF
  imports Middleware
begin

text \<open>
  The ModSecurity middleware (\<^verbatim>\<open>internal/mid/modsec.go\<close>).  The rule engine is the library Coraza: a
  transaction is the type parameter \<open>'tx\<close>, its operations are the fields of the record \<open>coraza\<close>.  The
  deferred calls run on every way out, a panic included.
\<close>

record Interruption =
  it_RuleID :: int
  it_Action :: string
  it_Status :: int
  it_Data :: string

record 'tx coraza =
  newTransaction :: 'tx
  txIsRuleEngineOff :: "'tx \<Rightarrow> bool"
  txProcessConnection :: "string \<Rightarrow> int \<Rightarrow> 'tx \<Rightarrow> 'tx"
  txProcessURI :: "string \<Rightarrow> string \<Rightarrow> string \<Rightarrow> 'tx \<Rightarrow> 'tx"
  txAddRequestHeader :: "string \<Rightarrow> string \<Rightarrow> 'tx \<Rightarrow> 'tx"
  txSetServerName :: "string \<Rightarrow> 'tx \<Rightarrow> 'tx"
  txProcessRequestHeaders :: "'tx \<Rightarrow> Interruption option \<times> 'tx"
  txIsRequestBodyAccessible :: "'tx \<Rightarrow> bool"
  txReadRequestBodyFrom :: "string \<Rightarrow> 'tx \<Rightarrow> (goerr + Interruption option) \<times> 'tx"
  txProcessRequestBody :: "'tx \<Rightarrow> (goerr + Interruption option) \<times> 'tx"
  txAddResponseHeader :: "string \<Rightarrow> string \<Rightarrow> 'tx \<Rightarrow> 'tx"
  txProcessResponseHeaders :: "int \<Rightarrow> string \<Rightarrow> 'tx \<Rightarrow> Interruption option \<times> 'tx"
  txIsResponseBodyAccessible :: "'tx \<Rightarrow> bool"
  txIsResponseBodyProcessable :: "'tx \<Rightarrow> bool"
  txReadResponseBodyFrom :: "string \<Rightarrow> 'tx \<Rightarrow> (goerr + Interruption option) \<times> 'tx"
  txProcessResponseBody :: "'tx \<Rightarrow> (goerr + Interruption option) \<times> 'tx"
  txProcessLogging :: "'tx \<Rightarrow> 'tx"
  txClose :: "'tx \<Rightarrow> goerr option"

record 'tx ModSecurityOptions =
  ms_Mode :: string
  ms_WAF :: "'tx coraza option"
  ms_RequestValidation :: string
  ms_ResponseValidation :: string
  ms_CustomBlockStatusCode :: int

definition ErrModSecMaliciousRequest :: string where
  "ErrModSecMaliciousRequest = ''malicious request''"

definition APIModePostfixStatusCode :: string where "APIModePostfixStatusCode = ''_status_code''"
definition APIModePostfixValidationErrors :: string where
  "APIModePostfixValidationErrors = ''_validation_errors''"

fun errString :: "goerr \<Rightarrow> string" where
  "errString (Plain m) = m"
| "errString (Shutdown m) = m"
| "errString (Wrapped m e) = m @ '': '' @ errString e"

subsection \<open>Feeding the transaction\<close>

text \<open>The variables of the request: connection, URI, headers, host and transfer encoding.\<close>

definition requestVariables :: "('rq, 'rs) fasthttp \<Rightarrow> 'tx coraza \<Rightarrow> string \<Rightarrow> int \<Rightarrow> 'rq \<Rightarrow> 'tx \<Rightarrow> 'tx" where
  "requestVariables H W client cport r tx =
    (let tx1 = txProcessConnection W client cport tx;
         tx2 = txProcessURI W (rqURIString H r) (rqMethod H r) (rqProtocol H r) tx1;
         tx3 = fold (\<lambda>(k, v). txAddRequestHeader W k v) (rqHeaders H r) tx2;
         host = rqHost H r;
         tx4 = (if host \<noteq> [] then txSetServerName W host (txAddRequestHeader W ''Host'' host tx3) else tx3)
     in case rqPeek H ''Transfer-Encoding'' r of
          Some te \<Rightarrow> txAddRequestHeader W ''Transfer-Encoding'' te tx4
        | None \<Rightarrow> tx4)"

definition processRequest :: "('rq, 'rs) fasthttp \<Rightarrow> 'tx coraza \<Rightarrow> ('rq, 'rs) rctx \<Rightarrow> 'tx
    \<Rightarrow> (goerr + Interruption option) \<times> 'tx" where
  "processRequest H W ctx tx =
    (case SplitHostPort (ra_str (cx_remote ctx)) of
       Inl e \<Rightarrow> (Inl (Plain e), tx)
     | Inr (client, cportStr) \<Rightarrow>
         let cport = (case Atoi cportStr of Inl e \<Rightarrow> 0 | Inr i \<Rightarrow> i);
             tx1 = requestVariables H W client cport (cx_req ctx) tx
         in case txProcessRequestHeaders W tx1 of
              (Some it, tx2) \<Rightarrow> (Inr (Some it), tx2)
            | (None, tx2) \<Rightarrow>
                (case (if txIsRequestBodyAccessible W tx2 \<and> \<not> rqBodyNil H (cx_req ctx)
                       then txReadRequestBodyFrom W (rqBody H (cx_req ctx)) tx2
                       else (Inr None, tx2)) of
                   (Inl e, tx3) \<Rightarrow> (Inl (Plain (''failed to append request body: '' @ errString e)), tx3)
                 | (Inr (Some it), tx3) \<Rightarrow> (Inr (Some it), tx3)
                 | (Inr None, tx3) \<Rightarrow> txProcessRequestBody W tx3))"

subsection \<open>Answers\<close>

definition performResponseAction :: "('rq, 'rs) fasthttp \<Rightarrow> Interruption \<Rightarrow> int \<Rightarrow> ('rq, 'rs) handler" where
  "performResponseAction H it blockStatusCode ctx =
    (if it_Action it = ''deny'' \<or> it_Action it = ''drop'' then
       let statusCode = (if it_Status it = 0 then blockStatusCode else it_Status it)
       in RespondError H statusCode [] (onResp (rsSetContentLength H 0) ctx)
     else if it_Action it = ''redirect'' then
       (Ok, onResp (rsRedirect H (it_Data it) (it_Status it)) (onResp (rsSetContentLength H 0) ctx))
     else (Ok, ctx))"

definition respondAPIModeErrors :: "string \<Rightarrow> string \<Rightarrow> ('rq, 'rs) rctx \<Rightarrow> goerr option \<times> ('rq, 'rs) rctx" where
  "respondAPIModeErrors code message ctx =
    (case cx_vals ctx RequestSchemaID of
       Some (UStr schemaIDstr) \<Rightarrow>
         (case Atoi schemaIDstr of
            Inl e \<Rightarrow> (Some (Plain e), SetUserValue GlobalResponseStatusCodeKey (UInt 500) ctx)
          | Inr schemaID \<Rightarrow>
              let ve = \<lparr>ve_Message = message, ve_Code = code, ve_SchemaVersion = [], ve_SchemaID = Some schemaID,
                        ve_Fields = [], ve_FieldsDetails = []\<rparr>
              in (None, SetUserValue (schemaIDstr @ APIModePostfixStatusCode) (UInt 403)
                    (SetUserValue (schemaIDstr @ APIModePostfixValidationErrors) (UErrors [ve]) ctx)))
     | _ \<Rightarrow> (Some (Plain ''request schema ID not found in the request''),
             SetUserValue GlobalResponseStatusCodeKey (UInt 500) ctx))"

text \<open>In the API mode the error of \<^verbatim>\<open>respondAPIModeErrors\<close> is only logged.\<close>

definition apiModeAnswer :: "string \<Rightarrow> string \<Rightarrow> ('rq, 'rs) handler" where
  "apiModeAnswer code message ctx =
    (case respondAPIModeErrors code message ctx of
       (Some e, ctx1) \<Rightarrow> (Ok, logMsg ''failed to process request'' ctx1)
     | (None, ctx1) \<Rightarrow> (Ok, ctx1))"

subsection \<open>The middleware\<close>

text \<open>The request phase: \<^term>\<open>Inl\<close> is the outcome when the chain stops here.\<close>

definition requestPhase :: "('rq, 'rs) fasthttp \<Rightarrow> 'tx coraza \<Rightarrow> 'tx ModSecurityOptions \<Rightarrow> ('rq, 'rs) rctx \<Rightarrow> 'tx
    \<Rightarrow> (outcome \<times> ('rq, 'rs) rctx + ('rq, 'rs) rctx) \<times> 'tx" where
  "requestPhase H W opts ctx tx =
    (if EqualFold (ms_RequestValidation opts) ValidationDisable then (Inr ctx, tx)
     else case processRequest H W ctx tx of
       (Inl err, tx1) \<Rightarrow>
         let ctx1 = logMsg ''Failed to process request'' ctx in
         (if ms_Mode opts = APIMode
          then Inl (apiModeAnswer ''ModSecurity rules: failed to process request'' (errString err) ctx1)
          else if EqualFold (ms_RequestValidation opts) ValidationBlock then Inl (Err err, ctx1)
          else Inr ctx1, tx1)
     | (Inr (Some it), tx1) \<Rightarrow>
         (if ms_Mode opts = APIMode
          then Inl (apiModeAnswer ErrModSecMaliciousRequest
                 (''ModSecurity rules: request blocked due to rule '' @ Itoa (it_RuleID it)) ctx)
          else if EqualFold (ms_RequestValidation opts) ValidationBlock
          then Inl (performResponseAction H it (ms_CustomBlockStatusCode opts) ctx)
          else Inr ctx, tx1)
     | (Inr None, tx1) \<Rightarrow> (Inr ctx, tx1))"

text \<open>The body of the response.\<close>

definition responseBodyPhase :: "('rq, 'rs) fasthttp \<Rightarrow> 'tx coraza \<Rightarrow> 'tx ModSecurityOptions \<Rightarrow> ('rq, 'rs) rctx \<Rightarrow> 'tx
    \<Rightarrow> (outcome \<times> ('rq, 'rs) rctx) \<times> 'tx" where
  "responseBodyPhase H W opts ctx tx =
    (let block = EqualFold (ms_ResponseValidation opts) ValidationBlock;
         act = (\<lambda>it. performResponseAction H it (ms_CustomBlockStatusCode opts) ctx)
     in case (if \<not> rsBodyNil H (cx_resp ctx) then txReadResponseBodyFrom W (rsBody H (cx_resp ctx)) tx else (Inr None, tx)) of
          (Inl err, tx1) \<Rightarrow> ((Err (Plain (''failed to append request body: '' @ errString err)), ctx), tx1)
        | (Inr it, tx1) \<Rightarrow>
            if it \<noteq> None \<and> block then (act (the it), tx1)
            else (case txProcessResponseBody W tx1 of
               (Inl err, tx2) \<Rightarrow>
                 let ctx1 = logMsg ''Failed to process response'' ctx
                 in (if block then (Err err, ctx1) else (Ok, ctx1), tx2)
             | (Inr (Some it2), tx2) \<Rightarrow> (if block then act it2 else (Ok, ctx), tx2)
             | (Inr None, tx2) \<Rightarrow> ((Ok, ctx), tx2)))"

definition responsePhase :: "('rq, 'rs) fasthttp \<Rightarrow> 'tx coraza \<Rightarrow> 'tx ModSecurityOptions \<Rightarrow> ('rq, 'rs) rctx \<Rightarrow> 'tx
    \<Rightarrow> (outcome \<times> ('rq, 'rs) rctx) \<times> 'tx" where
  "responsePhase H W opts ctx tx =
    (if EqualFold (ms_ResponseValidation opts) ValidationDisable then ((Ok, ctx), tx)
     else
       let tx1 = fold (\<lambda>(k, v). txAddResponseHeader W k v) (rsHeaders H (cx_resp ctx)) tx in
       case txProcessResponseHeaders W (rsStatus H (cx_resp ctx)) (rqProtocol H (cx_req ctx)) tx1 of
         (it, tx2) \<Rightarrow>
           if it \<noteq> None \<and> EqualFold (ms_ResponseValidation opts) ValidationBlock
           then (performResponseAction H (the it) (ms_CustomBlockStatusCode opts) ctx, tx2)
           else if txIsResponseBodyAccessible W tx2 \<and> txIsResponseBodyProcessable W tx2
           then responseBodyPhase H W opts ctx tx2
           else ((Ok, ctx), tx2))"

text \<open>The deferred function: the logging phase, then the end of the transaction.\<close>

definition closeTx :: "'tx coraza \<Rightarrow> (outcome \<times> ('rq, 'rs) rctx) \<times> 'tx \<Rightarrow> outcome \<times> ('rq, 'rs) rctx" where
  "closeTx W r =
    (case r of ((out, ctx), tx) \<Rightarrow>
       (case txClose W (txProcessLogging W tx) of
          Some e \<Rightarrow> (out, logMsg ''Failed to close the transaction'' ctx)
        | None \<Rightarrow> (out, ctx)))"

definition WAFModSecurity :: "('rq, 'rs) fasthttp \<Rightarrow> 'tx ModSecurityOptions \<Rightarrow> ('rq, 'rs) middleware" where
  "WAFModSecurity H opts before ctx =
    (case ms_WAF opts of
       None \<Rightarrow> before ctx
     | Some W \<Rightarrow>
         let tx = newTransaction W in
         closeTx W
          (if txIsRuleEngineOff W tx then ((Ok, ctx), tx)
           else case requestPhase H W opts ctx tx of
             (Inl r, tx1) \<Rightarrow> (r, tx1)
           | (Inr ctx1, tx1) \<Rightarrow>
               (case before ctx1 of
                  (Ok, ctx2) \<Rightarrow>
                    if ms_Mode opts = APIMode then ((Ok, ctx2), tx1) else responsePhase H W opts ctx2 tx1
                | (out, ctx2) \<Rightarrow> ((out, ctx2), tx1))))"

subsection \<open>Helper facts\<close>

lemma validation_modes_disjoint:
  "EqualFold v ValidationBlock \<Longrightarrow> \<not> EqualFold v ValidationDisable"
proof -
  have "\<not> EqualFold ValidationBlock ValidationDisable" by code_simp
  then show "EqualFold v ValidationBlock \<Longrightarrow> \<not> EqualFold v ValidationDisable" by (simp add: EqualFold_def)
qed

lemma performResponseAction_sent [simp]:
  "cx_sent (snd (performResponseAction H it code ctx)) = cx_sent ctx"
  by (simp add: performResponseAction_def Let_def)

lemma closeTx_effect [simp]:
  "fst (closeTx W (r, tx)) = fst r" "cx_sent (snd (closeTx W (r, tx))) = cx_sent (snd r)"
  "cx_resp (snd (closeTx W (r, tx))) = cx_resp (snd r)" "cx_vals (snd (closeTx W (r, tx))) = cx_vals (snd r)"
  "(snd (closeTx W (r, tx)))\<lparr>cx_log := l\<rparr> = (snd r)\<lparr>cx_log := l\<rparr>"
  by (auto simp: closeTx_def logMsg_def split: prod.splits option.splits)

lemma logMsg_log [simp]: "(logMsg m ctx)\<lparr>cx_log := l\<rparr> = ctx\<lparr>cx_log := l\<rparr>"
  by (simp add: logMsg_def)

text \<open>A verdict of the request phase against the request in block mode stops the chain.\<close>

lemma requestPhase_block:
  assumes "EqualFold (ms_RequestValidation opts) ValidationBlock" "ms_Mode opts \<noteq> APIMode"
    "fst (processRequest H W ctx tx) \<noteq> Inr None"
  shows "\<exists>r tx1. requestPhase H W opts ctx tx = (Inl r, tx1) \<and> cx_sent (snd r) = cx_sent ctx \<and>
    (case fst (processRequest H W ctx tx) of
       Inl e \<Rightarrow> fst r = Err e
     | Inr it \<Rightarrow> r = performResponseAction H (the it) (ms_CustomBlockStatusCode opts) ctx)"
proof -
  obtain v tx1 where v: "processRequest H W ctx tx = (v, tx1)" by fastforce
  then show ?thesis
    using assms validation_modes_disjoint[OF assms(1)]
    by (cases v) (auto simp: requestPhase_def Let_def, metis performResponseAction_sent prod.collapse)
qed



text \<open>A small instance of the engine: \<open>off\<close> switches it off, \<open>it\<close> is its verdict on the headers.\<close>

definition demo_waf :: "bool \<Rightarrow> Interruption option \<Rightarrow> unit coraza" where
  "demo_waf off it = \<lparr>newTransaction = (), txIsRuleEngineOff = (\<lambda>tx. off),
     txProcessConnection = (\<lambda>c p tx. tx), txProcessURI = (\<lambda>u m p tx. tx), txAddRequestHeader = (\<lambda>k v tx. tx),
     txSetServerName = (\<lambda>n tx. tx), txProcessRequestHeaders = (\<lambda>tx. (it, tx)), txIsRequestBodyAccessible = (\<lambda>tx. False),
     txReadRequestBodyFrom = (\<lambda>b tx. (Inr None, tx)), txProcessRequestBody = (\<lambda>tx. (Inr None, tx)),
     txAddResponseHeader = (\<lambda>k v tx. tx), txProcessResponseHeaders = (\<lambda>s p tx. (None, tx)),
     txIsResponseBodyAccessible = (\<lambda>tx. True), txIsResponseBodyProcessable = (\<lambda>tx. True),
     txReadResponseBodyFrom = (\<lambda>b tx. (Inr None, tx)), txProcessResponseBody = (\<lambda>tx. (Inr None, tx)),
     txProcessLogging = (\<lambda>tx. tx), txClose = (\<lambda>tx. None)\<rparr>"

definition demo_waf_opts :: "string \<Rightarrow> unit coraza \<Rightarrow> unit ModSecurityOptions" where
  "demo_waf_opts v W = \<lparr>ms_Mode = ''proxy'', ms_WAF = Some W, ms_RequestValidation = v, ms_ResponseValidation = v,
     ms_CustomBlockStatusCode = 403\<rparr>"

definition demo_interruption :: Interruption where
  "demo_interruption = \<lparr>it_RuleID = 942100, it_Action = ''deny'', it_Status = 0, it_Data = []\<rparr>"

subsection \<open>Properties\<close>

text \<open>C8. In block mode the ModSecurity middleware is closed: when the engine interrupts the request or
  fails on it, the rest of the chain does not run and nothing is sent to the backend; a failure is
  returned as the error of the chain and an interruption is answered with its action.\<close>

theorem WAF_block_closed:
  assumes "ms_WAF opts = Some W" "\<not> txIsRuleEngineOff W (newTransaction W)" "ms_Mode opts \<noteq> APIMode"
    "EqualFold (ms_RequestValidation opts) ValidationBlock"
    "fst (processRequest H W ctx (newTransaction W)) = verdict" "verdict \<noteq> Inr None"
  shows "WAFModSecurity H opts before ctx = WAFModSecurity H opts before' ctx \<and>
    cx_sent (snd (WAFModSecurity H opts before ctx)) = cx_sent ctx \<and>
    (case verdict of
       Inl e \<Rightarrow> fst (WAFModSecurity H opts before ctx) = Err e
     | Inr it \<Rightarrow> fst (WAFModSecurity H opts before ctx) = Ok \<and>
         cx_resp (snd (WAFModSecurity H opts before ctx)) =
           cx_resp (snd (performResponseAction H (the it) (ms_CustomBlockStatusCode opts) ctx)))"
proof -
  have pf: "fst (performResponseAction H it c ctx) = Ok" for it c
    by (simp add: performResponseAction_def Let_def)
  obtain r tx1 where r: "requestPhase H W opts ctx (newTransaction W) = (Inl r, tx1)" "cx_sent (snd r) = cx_sent ctx"
    "case verdict of Inl e \<Rightarrow> fst r = Err e | Inr it \<Rightarrow> r = performResponseAction H (the it) (ms_CustomBlockStatusCode opts) ctx"
    using requestPhase_block[OF assms(4,3), of H W ctx "newTransaction W"] assms(5,6) by metis
  have w: "WAFModSecurity H opts h ctx = closeTx W (r, tx1)" for h
    using assms(1,2) r(1) by (simp add: WAFModSecurity_def)
  show ?thesis unfolding w using r(2,3) pf by (auto split: sum.splits)
qed

theorem WAF_block_closed_witness:
  "WAFModSecurity demo_http (demo_waf_opts ''BLOCK'' (demo_waf False (Some demo_interruption)))
     (\<lambda>c. (Ok, c\<lparr>cx_sent := [cx_req c]\<rparr>)) demo_proxy_ctx =
   WAFModSecurity demo_http (demo_waf_opts ''BLOCK'' (demo_waf False (Some demo_interruption)))
     (\<lambda>c. (Panic [], c)) demo_proxy_ctx"
proof -
  let ?W = "demo_waf False (Some demo_interruption)"
  have a: "ms_WAF (demo_waf_opts ''BLOCK'' ?W) = Some ?W" by (simp add: demo_waf_opts_def)
  have b: "\<not> txIsRuleEngineOff ?W (newTransaction ?W)" "ms_Mode (demo_waf_opts ''BLOCK'' ?W) \<noteq> APIMode"
    "EqualFold (ms_RequestValidation (demo_waf_opts ''BLOCK'' ?W)) ValidationBlock"
    "fst (processRequest demo_http ?W demo_proxy_ctx (newTransaction ?W)) = Inr (Some demo_interruption)" by code_simp+
  show ?thesis
    using WAF_block_closed[OF a b, of "\<lambda>c. (Ok, c\<lparr>cx_sent := [cx_req c]\<rparr>)" "\<lambda>c. (Panic [], c)"] by blast
qed



text \<open>With the rule engine switched off the middleware does not pass the request on: it answers with
  success, an unchanged response and no call of the rest of the chain.\<close>

theorem WAF_engine_off_drops:
  assumes "ms_WAF opts = Some W" "txIsRuleEngineOff W (newTransaction W)"
  shows "WAFModSecurity H opts before ctx = WAFModSecurity H opts before' ctx \<and>
    fst (WAFModSecurity H opts before ctx) = Ok \<and>
    cx_resp (snd (WAFModSecurity H opts before ctx)) = cx_resp ctx \<and>
    cx_sent (snd (WAFModSecurity H opts before ctx)) = cx_sent ctx"
  using assms by (simp add: WAFModSecurity_def)

theorem WAF_engine_off_drops_witness:
  "fst (WAFModSecurity demo_http (demo_waf_opts ''BLOCK'' (demo_waf True None)) (\<lambda>c. (Panic [], c)) demo_proxy_ctx) = Ok"
proof -
  let ?W = "demo_waf True None"
  have a: "ms_WAF (demo_waf_opts ''BLOCK'' ?W) = Some ?W" by (simp add: demo_waf_opts_def)
  have b: "txIsRuleEngineOff ?W (newTransaction ?W)" by (simp add: demo_waf_def)
  show ?thesis using WAF_engine_off_drops[OF a b] by blast
qed

end
