(* ===== verification/Backend.thy ===== *)
theory Backend
  imports Web Go_Net "HOL-Library.Signed_Division" "HOL-Library.Multiset"
begin

text \<open>
  The way to the backend (\<^verbatim>\<open>internal/platform/proxy\<close>): the load balancer with its health checks, the
  connection pool, the function that performs a request, and the DNS cache.  The network (dialling,
  name resolution, certificates) and the HTTP client are parameters.
\<close>

subsection \<open>The load balancer\<close>

text \<open>The counter is a \<^verbatim>\<open>uint64\<close>; Go's \<^verbatim>\<open>int(start)\<close> reads the same bits as a signed number and \<^verbatim>\<open>%\<close> takes the sign of
  the dividend.\<close>

record LoadBalancer =
  lb_backends :: "string list"
  lb_healthy :: "bool list"
  lb_current :: "64 word"
  lb_healthCheckInterval :: int
  lb_healthCheckTimeout :: int
  lb_stopped :: bool
  lb_checking :: bool

definition NewLoadBalancer :: "string list \<Rightarrow> int \<Rightarrow> int \<Rightarrow> LoadBalancer" where
  "NewLoadBalancer backends interval timeout =
    \<lparr> lb_backends = backends, lb_healthy = replicate (length backends) True, lb_current = 0,
      lb_healthCheckInterval = interval,
      lb_healthCheckTimeout = (if timeout = 0 then 1000000000 else timeout),
      lb_stopped = False, lb_checking = (interval > 0 \<and> backends \<noteq> []) \<rparr>"

definition goIndex :: "64 word \<Rightarrow> nat \<Rightarrow> nat \<Rightarrow> nat result" where
  "goIndex start i n =
    (let idx = sint (start + word_of_nat i) smod int n
     in if idx < 0 then Inl ''index out of range'' else Inr (nat idx))"

text \<open>The loop of \<^verbatim>\<open>Next\<close>.  The flags are atomic and other goroutines may change them between two
  iterations: \<open>view i\<close> are the flags at the time of iteration \<open>i\<close>.\<close>

function nextLoop :: "string list \<Rightarrow> (nat \<Rightarrow> bool list) \<Rightarrow> 64 word \<Rightarrow> nat \<Rightarrow> string result" where
  "nextLoop backends view start i =
    (if i < length backends then
       (case goIndex start i (length backends) of
          Inl p \<Rightarrow> Inl p
        | Inr idx \<Rightarrow> if view i ! idx then Inr (backends ! idx) else nextLoop backends view start (Suc i))
     else case goIndex start 0 (length backends) of
       Inl p \<Rightarrow> Inl p
     | Inr idx \<Rightarrow> Inr (backends ! idx))"
  by pat_completeness auto
termination by (relation "measure (\<lambda>(bs, v, s, i). length bs - i)") auto
declare nextLoop.simps [simp del]

definition Next :: "(nat \<Rightarrow> bool list) \<Rightarrow> LoadBalancer \<Rightarrow> string result \<times> LoadBalancer" where
  "Next view lb =
    (let n = length (lb_backends lb) in
     if n = 0 then (Inr [], lb)
     else if n = 1 then (Inr (lb_backends lb ! 0), lb)
     else let start = lb_current lb + 1
          in (nextLoop (lb_backends lb) view start 0, lb\<lparr>lb_current := start\<rparr>))"

definition GetHealthyCount :: "LoadBalancer \<Rightarrow> nat" where
  "GetHealthyCount lb = length (filter (\<lambda>h. h) (lb_healthy lb))"

definition IsHealthy :: "int \<Rightarrow> LoadBalancer \<Rightarrow> bool" where
  "IsHealthy idx lb \<longleftrightarrow> (if idx < 0 \<or> idx \<ge> int (length (lb_healthy lb)) then False else lb_healthy lb ! nat idx)"

definition SetHealthy :: "int \<Rightarrow> bool \<Rightarrow> LoadBalancer \<Rightarrow> LoadBalancer" where
  "SetHealthy idx healthy lb =
    (if idx \<ge> 0 \<and> idx < int (length (lb_healthy lb))
     then lb\<lparr>lb_healthy := (lb_healthy lb)[nat idx := healthy]\<rparr> else lb)"

text \<open>One iteration of \<^verbatim>\<open>checkAll\<close>: \<open>probe\<close> is the result of dialling the backend.\<close>

definition checkOne :: "(string \<Rightarrow> bool) \<Rightarrow> nat \<Rightarrow> LoadBalancer \<times> string list \<Rightarrow> LoadBalancer \<times> string list" where
  "checkOne probe i st =
    (let (lb, log) = st;
         healthy = probe (lb_backends lb ! i);
         wasHealthy = lb_healthy lb ! i;
         lb' = lb\<lparr>lb_healthy := (lb_healthy lb)[i := healthy]\<rparr>
     in if healthy \<noteq> wasHealthy
        then (lb', log @ [if healthy then ''Backend became healthy'' else ''Backend became unhealthy''])
        else (lb', log))"

definition checkAll :: "(string \<Rightarrow> bool) \<Rightarrow> LoadBalancer \<Rightarrow> LoadBalancer \<times> string list" where
  "checkAll probe lb = fold (checkOne probe) [0..<length (lb_backends lb)] (lb, [])"

definition Stop :: "LoadBalancer \<Rightarrow> LoadBalancer" where
  "Stop lb = (if lb_stopped lb then lb else lb\<lparr>lb_stopped := True, lb_checking := False\<rparr>)"

text \<open>The steps of the balancer in any order: requests, single probes of the health check goroutine,
  which ends with \<^verbatim>\<open>Stop\<close>, and the setters.\<close>

inductive lb_step :: "LoadBalancer \<Rightarrow> LoadBalancer \<Rightarrow> bool" where
  step_next: "lb_step lb (snd (Next view lb))"
| step_check: "lb_checking lb \<Longrightarrow> i < length (lb_backends lb) \<Longrightarrow> lb_step lb (fst (checkOne probe i (lb, log)))"
| step_set: "lb_step lb (SetHealthy idx h lb)"
| step_stop: "lb_step lb (Stop lb)"

inductive lb_reach :: "LoadBalancer \<Rightarrow> LoadBalancer \<Rightarrow> bool" for lb0 where
  reach_refl: "lb_reach lb0 lb0"
| reach_step: "lb_reach lb0 lb \<Longrightarrow> lb_step lb lb' \<Longrightarrow> lb_reach lb0 lb'"

inductive_cases lb_stepE: "lb_step lb lb'"

subsection \<open>The pool\<close>

record PoolV2 =
  pv_lb :: LoadBalancer
  pv_closed :: bool
  pv_host :: string
  pv_port :: string
  pv_hostPort :: string
  pv_DialTimeout :: int

record PoolV2Options =
  pvo_DialTimeout :: int
  pvo_InsecureConnection :: bool
  pvo_RootCA :: string
  pvo_Backends :: "string list"
  pvo_HealthCheckInterval :: int

definition errInvalidOptions :: gerror where "errInvalidOptions = ''invalid settings''"
definition errPoolClosed :: gerror where "errPoolClosed = ''pool is closed''"
definition errNoBackends :: gerror where "errNoBackends = ''no backends available''"

text \<open>\<^verbatim>\<open>net.JoinHostPort\<close>.\<close>

definition JoinHostPort :: "string \<Rightarrow> string \<Rightarrow> string" where
  "JoinHostPort host port =
    (if CHR '':'' \<in> set host then ''['' @ host @ '']:'' @ port else host @ '':'' @ port)"

text \<open>\<^verbatim>\<open>BuildTLSConfig\<close>: \<open>readFile\<close> reads the certificates and \<open>appendCerts\<close> tells whether the pool takes them.  The
  result is whether verification is skipped.\<close>

definition BuildTLSConfig :: "(string \<Rightarrow> string result) \<Rightarrow> (string \<Rightarrow> bool) \<Rightarrow> bool \<Rightarrow> string \<Rightarrow> bool result" where
  "BuildTLSConfig readFile appendCerts insecure rootCA =
    (if rootCA \<noteq> [] then
       (case readFile rootCA of
          Inl e \<Rightarrow> Inl (''failed to read root CA: '' @ e)
        | Inr certs \<Rightarrow> if appendCerts certs then Inr insecure else Inl ''failed to append root CA certificates'')
     else Inr insecure)"

text \<open>The backends of a pool without a configured list: the IPv4 addresses of the host, else all its
  addresses, else the host itself.\<close>

definition resolvedBackends :: "128 word list \<Rightarrow> string \<Rightarrow> string \<Rightarrow> string list" where
  "resolvedBackends ips port hostAddr =
    (let v4 = map (\<lambda>ip. JoinHostPort (IP_String ip) port) (filter is4in6 ips);
         v6 = map (\<lambda>ip. JoinHostPort (IP_String ip) port) ips
     in if v4 \<noteq> [] then v4 else if v6 \<noteq> [] then v6 else [hostAddr])"

definition NewPoolV2 :: "(string \<Rightarrow> (128 word list) result) \<Rightarrow> (string \<Rightarrow> string result) \<Rightarrow> (string \<Rightarrow> bool)
    \<Rightarrow> string \<Rightarrow> PoolV2Options option \<Rightarrow> PoolV2 result" where
  "NewPoolV2 LookupIP readFile appendCerts hostAddr opts =
    (case opts of
       None \<Rightarrow> Inl errInvalidOptions
     | Some o' \<Rightarrow>
         (case SplitHostPort hostAddr of
            Inl e \<Rightarrow> Inl (''invalid host address: '' @ e)
          | Inr (host, port) \<Rightarrow>
              (case BuildTLSConfig readFile appendCerts (pvo_InsecureConnection o') (pvo_RootCA o') of
                 Inl e \<Rightarrow> Inl (''failed to build TLS config: '' @ e)
               | Inr tls \<Rightarrow>
                   (case (if pvo_Backends o' = [] then
                            (case LookupIP host of
                               Inl e \<Rightarrow> Inl (''failed to resolve host: '' @ e)
                             | Inr ips \<Rightarrow> Inr (resolvedBackends ips port hostAddr))
                          else Inr (pvo_Backends o')) of
                      Inl e \<Rightarrow> Inl e
                    | Inr backends \<Rightarrow>
                        Inr \<lparr> pv_lb = NewLoadBalancer backends (pvo_HealthCheckInterval o') (pvo_DialTimeout o'),
                              pv_closed = False, pv_host = host, pv_port = port,
                              pv_hostPort = JoinHostPort host port, pv_DialTimeout = pvo_DialTimeout o' \<rparr>))))"

text \<open>The dial function of the client: it asks the balancer; \<open>dial\<close> is the network.\<close>

definition poolDial :: "(string \<Rightarrow> int \<Rightarrow> 'conn result) \<Rightarrow> (nat \<Rightarrow> bool list) \<Rightarrow> PoolV2 \<Rightarrow> 'conn result \<times> PoolV2" where
  "poolDial dial view p =
    (let (r, lb) = Next view (pv_lb p) in
     (case r of
        Inl panic \<Rightarrow> Inl panic
      | Inr backend \<Rightarrow> if backend = [] then Inl errNoBackends else dial backend (pv_DialTimeout p),
      p\<lparr>pv_lb := lb\<rparr>))"

definition poolGet :: "PoolV2 \<Rightarrow> string result" where
  "poolGet p = (if pv_closed p then Inl errPoolClosed else Inr (pv_hostPort p))"

definition poolPut :: "string \<Rightarrow> PoolV2 \<Rightarrow> PoolV2" where
  "poolPut ip p = p"

definition poolClose :: "PoolV2 \<Rightarrow> PoolV2" where
  "poolClose p = (if pv_closed p then p else p\<lparr>pv_closed := True, pv_lb := Stop (pv_lb p)\<rparr>)"

record PoolV2Stats =
  ps_Host :: string
  ps_Port :: string
  ps_Backends :: "string list"
  ps_HealthyCount :: nat
  ps_IsClosed :: bool

definition Stats :: "PoolV2 \<Rightarrow> PoolV2Stats" where
  "Stats p = \<lparr> ps_Host = pv_host p, ps_Port = pv_port p, ps_Backends = lb_backends (pv_lb p),
     ps_HealthyCount = GetHealthyCount (pv_lb p), ps_IsClosed = pv_closed p \<rparr>"

subsection \<open>Performing a request\<close>

definition ErrDialTimeout :: goerr where "ErrDialTimeout = Plain ''dialing to the given TCP address timed out''"
definition ErrNoFreeConns :: goerr where "ErrNoFreeConns = Plain ''no free connections available to host''"

text \<open>\<open>clientDo\<close> is the HTTP client: the response and an error, if any.  The ghost field \<^term>\<open>cx_sent\<close> records the
  request that is handed to it.\<close>

definition Perform :: "('rq, 'rs) fasthttp \<Rightarrow> ('rq \<Rightarrow> 'rs \<Rightarrow> 'rs \<times> goerr option) \<Rightarrow> string result \<Rightarrow> string
    \<Rightarrow> ('rq, 'rs) handler" where
  "Perform H clientDo got customHostHeader ctx =
    (case got of
       Inl e \<Rightarrow> (Err (Plain e), ctx)
     | Inr ip \<Rightarrow>
         let ctx1 = (if customHostHeader \<noteq> []
                     then onReq (rqSetURIHost H customHostHeader) (onReq (rqSetHost H customHostHeader) ctx) else ctx);
             (resp, err) = clientDo (cx_req ctx1) (cx_resp ctx1);
             ctx2 = ctx1\<lparr>cx_sent := cx_sent ctx1 @ [cx_req ctx1], cx_resp := resp\<rparr>
         in case err of
              None \<Rightarrow> (Ok, ctx2)
            | Some e \<Rightarrow>
                (case RespondError H (if e = ErrDialTimeout then 504 else if e = ErrNoFreeConns then 503 else 502) []
                        (SetUserValue RequestProxyFailed (UBool True) ctx2) of
                   (Ok, ctx3) \<Rightarrow> (Err e, ctx3)
                 | r \<Rightarrow> r))"

subsection \<open>The DNS cache\<close>

text \<open>\<open>lookup\<close> is the resolver of the operating system, with the state of the network as it goes on.\<close>

record 'ip Resolver =
  dns_useCache :: bool
  dns_cache :: "string \<rightharpoonup> 'ip list"
  dns_running :: bool

definition NewDNSResolver :: "bool option \<Rightarrow> 'ip Resolver result" where
  "NewDNSResolver options =
    (case options of
       None \<Rightarrow> Inl ''options cannot be nil''
     | Some useCache \<Rightarrow> Inr \<lparr> dns_useCache = useCache, dns_cache = Map.empty, dns_running = useCache \<rparr>)"




definition dnsStop :: "'ip Resolver \<Rightarrow> 'ip Resolver" where
  "dnsStop r = (if \<not> dns_useCache r then r else r\<lparr>dns_running := False\<rparr>)"

subsection \<open>Selection\<close>

lemma goIndex_small:
  assumes "unat start + i < 2 ^ 63" "0 < n"
  shows "goIndex start i n = Inr ((unat start + i) mod n)"
proof -
  have u: "unat (start + word_of_nat i) = unat start + i"
  proof -
    have "i < 2 ^ 64" using assms(1) by simp
    then have "unat (word_of_nat i :: 64 word) = i" by (simp add: unsigned_of_nat take_bit_nat_eq_self)
    then show ?thesis using assms(1) by (simp add: unat_word_ariths)
  qed
  have "sint (start + word_of_nat i) = int (unat start + i)"
  proof -
    have "uint (start + word_of_nat i) = int (unat start + i)" using u by (metis uint_nat)
    moreover have s: "signed_take_bit 63 (int m) = int m" if "m < 2 ^ 63" for m
      by (rule signed_take_bit_int_eq_self) (use that in simp_all)
    moreover have "sint w = signed_take_bit 63 (uint w)" for w :: "64 word" by (simp add: sint_uint)
    ultimately show ?thesis using s[OF assms(1)] by metis
  qed
  moreover have "int m smod int n = int (m mod n)" for m
    by (cases "m = 0") (simp_all add: signed_modulo_int_def zmod_int signed_divide_int_def minus_mult_div_eq_mod)
  ultimately have "sint (start + word_of_nat i) smod int n = int ((unat start + i) mod n)" by metis
  then show ?thesis unfolding goIndex_def Let_def by (simp only: nat_int) simp
qed

lemma nextLoop_select:
  assumes n: "0 < length bs" and small: "unat start + length bs \<le> 2 ^ 63"
  shows "(\<exists>j. i \<le> j \<and> j < length bs \<and> view j ! ((unat start + j) mod length bs) \<and>
        nextLoop bs view start i = Inr (bs ! ((unat start + j) mod length bs))) \<or>
     (\<forall>j. i \<le> j \<and> j < length bs \<longrightarrow> \<not> view j ! ((unat start + j) mod length bs)) \<and>
        nextLoop bs view start i = Inr (bs ! (unat start mod length bs))"
  using assms
proof (induction bs view start i rule: nextLoop.induct)
  case (1 bs view start i)
  show ?case
  proof (cases "i < length bs")
    case True
    have g: "goIndex start i (length bs) = Inr ((unat start + i) mod length bs)"
      using True 1 by (intro goIndex_small) auto
    show ?thesis
    proof (cases "view i ! ((unat start + i) mod length bs)")
      case h: True
      then have "nextLoop bs view start i = Inr (bs ! ((unat start + i) mod length bs))"
        using True g by (subst nextLoop.simps) simp
      then show ?thesis using True h by blast
    next
      case False
      then have e: "nextLoop bs view start i = nextLoop bs view start (Suc i)"
        using True g by (subst nextLoop.simps) simp
      from "1.IH"[OF True g False "1.prems"] show ?thesis
        unfolding e using False by (metis Suc_leD le_antisym not_less_eq_eq)
    qed
  next
    case False
    have "goIndex start 0 (length bs) = Inr (unat start mod length bs)"
      using 1 goIndex_small[of start 0 "length bs"] by simp
    then have "nextLoop bs view start i = Inr (bs ! (unat start mod length bs))"
      using False by (subst nextLoop.simps) simp
    then show ?thesis using False by force
  qed
qed

lemma unat_succ: "unat (w :: 64 word) + 1 < 2 ^ 64 \<Longrightarrow> unat (w + 1) = unat w + 1"
  by (simp add: unat_word_ariths)

text \<open>The flags and the backends go together in every state.\<close>

definition lb_ok :: "LoadBalancer \<Rightarrow> bool" where
  "lb_ok lb \<longleftrightarrow> length (lb_healthy lb) = length (lb_backends lb) \<and> (lb_stopped lb \<longrightarrow> \<not> lb_checking lb)"

lemma lb_ok_New [simp]: "lb_ok (NewLoadBalancer bs i t)"
  by (simp add: lb_ok_def NewLoadBalancer_def)

lemma lb_step_ok: "lb_step lb lb' \<Longrightarrow> lb_ok lb \<Longrightarrow> lb_ok lb' \<and> lb_backends lb' = lb_backends lb"
  by (erule lb_stepE) (auto simp: lb_ok_def Next_def checkOne_def SetHealthy_def Stop_def Let_def)

lemma lb_reach_ok: "lb_reach lb0 lb \<Longrightarrow> lb_ok lb0 \<Longrightarrow> lb_ok lb \<and> lb_backends lb = lb_backends lb0"
  by (induction rule: lb_reach.induct) (auto dest: lb_step_ok)

fun nextMany :: "(nat \<Rightarrow> bool list) \<Rightarrow> nat \<Rightarrow> LoadBalancer \<Rightarrow> string result list" where
  "nextMany view 0 lb = []"
| "nextMany view (Suc m) lb = (case Next view lb of (r, lb') \<Rightarrow> r # nextMany view m lb')"

lemma Next_all_healthy:
  assumes "2 \<le> length (lb_backends lb)" "unat (lb_current lb) + length (lb_backends lb) < 2 ^ 63"
    "\<And>i idx. idx < length (lb_backends lb) \<Longrightarrow> view i ! idx"
  shows "Next view lb =
    (Inr (lb_backends lb ! (Suc (unat (lb_current lb)) mod length (lb_backends lb))), lb\<lparr>lb_current := lb_current lb + 1\<rparr>)"
proof -
  let ?n = "length (lb_backends lb)" and ?s = "lb_current lb + 1"
  have s: "unat ?s = Suc (unat (lb_current lb))" using assms(2) unat_succ[of "lb_current lb"] by simp
  have "goIndex ?s 0 ?n = Inr (unat ?s mod ?n)" using goIndex_small[of ?s 0 ?n] s assms(1,2) by (cases "lb_backends lb") simp_all
  moreover have "view 0 ! (unat ?s mod ?n)" by (intro assms(3) mod_less_divisor) (use assms(1) in linarith)
  ultimately have "nextLoop (lb_backends lb) view ?s 0 = Inr (lb_backends lb ! (unat ?s mod ?n))"
    using assms(1) by (subst nextLoop.simps) auto
  then show ?thesis using assms(1) s by (auto simp: Next_def Let_def)
qed

lemma nextMany_all_healthy:
  assumes "2 \<le> length (lb_backends lb)" "unat (lb_current lb) + m + length (lb_backends lb) < 2 ^ 63"
    "\<And>i idx. idx < length (lb_backends lb) \<Longrightarrow> view i ! idx"
  shows "nextMany view m lb =
    map (\<lambda>i. Inr (lb_backends lb ! ((Suc (unat (lb_current lb)) + i) mod length (lb_backends lb)))) [0..<m]"
  using assms
proof (induction m arbitrary: lb)
  case (Suc m)
  let ?lb = "lb\<lparr>lb_current := lb_current lb + 1\<rparr>"
  have s: "unat (lb_current lb + 1) = Suc (unat (lb_current lb))" using Suc.prems(2) unat_succ[of "lb_current lb"] by simp
  have "nextMany view m ?lb = map (\<lambda>i. Inr (lb_backends lb ! ((Suc (unat (lb_current ?lb)) + i) mod length (lb_backends lb)))) [0..<m]"
    using Suc.IH[of ?lb] Suc.prems s by simp
  moreover have "Next view lb = (Inr (lb_backends lb ! (Suc (unat (lb_current lb)) mod length (lb_backends lb))), ?lb)"
    using Suc.prems by (intro Next_all_healthy) auto
  ultimately show ?case using s by (simp add: upt_conv_Cons map_Suc_upt[symmetric] del: upt_Suc)
qed simp

subsection \<open>The pool interface\<close>

text \<open>The contract of \<^verbatim>\<open>Pool\<close>: a pool hands out its address until it is closed, returning a client does
  not change that, and closing is final.\<close>

locale http_pool =
  fixes get :: "'p \<Rightarrow> string result" and put :: "string \<Rightarrow> 'p \<Rightarrow> 'p" and close :: "'p \<Rightarrow> 'p" and open_pool :: "'p \<Rightarrow> bool"
  assumes get_open: "(\<exists>hp. get p = Inr hp) \<longleftrightarrow> open_pool p"
    and put_open: "open_pool (put ip p) \<longleftrightarrow> open_pool p"
    and close_closed: "\<not> open_pool (close p)"
    and close_idem: "close (close p) = close p"
begin

text \<open>A closed pool sends nothing, whatever clients are returned to it.\<close>

lemma perform_closed:
  "cx_sent (snd (Perform H clientDo (get (foldr put ips (close p))) host ctx)) = cx_sent ctx"
proof -
  have "\<not> open_pool (foldr put ips (close p))" by (induction ips) (simp_all add: put_open close_closed)
  then obtain e where "get (foldr put ips (close p)) = Inl e" using get_open by (metis sum.exhaust)
  then show ?thesis by (simp add: Perform_def)
qed

end

interpretation pool: http_pool poolGet poolPut poolClose "\<lambda>p. \<not> pv_closed p"
  by unfold_locales (auto simp: poolGet_def poolPut_def poolClose_def)

subsection \<open>Properties\<close>

text \<open>C21. In every reachable state of the load balancer, with any interleaving of requests and health
  checks, a request gets one of the configured backends; while at least one flag stays up during
  the selection, it gets a backend whose flag was up when it was read.  The counter must be below
  the signed range, which takes more than nine quintillion requests to leave.\<close>

theorem Next_selects_healthy:
  assumes "lb_reach (NewLoadBalancer bs interval timeout) lb" "2 \<le> length bs"
    "unat (lb_current lb) + length bs < 2 ^ 63" "\<And>i. length (view i) = length bs"
  shows "\<exists>j < length bs. fst (Next view lb) = Inr (bs ! j) \<and>
    ((\<exists>k < length bs. \<forall>i. view i ! k) \<longrightarrow> (\<exists>i. view i ! j))"
proof -
  have b: "lb_backends lb = bs" using lb_reach_ok[OF assms(1) lb_ok_New] by (simp add: NewLoadBalancer_def)
  let ?n = "length bs" and ?s = "lb_current lb + 1"
  have s: "unat ?s + ?n \<le> 2 ^ 63" using assms(3) unat_succ[of "lb_current lb"] by simp
  have n: "0 < ?n" using assms(2) by linarith
  have nx: "fst (Next view lb) = nextLoop bs view ?s 0" using assms(2) b by (auto simp: Next_def Let_def)
  from nextLoop_select[OF n s, of 0 view] show ?thesis
  proof (elim disjE exE conjE)
    fix j assume "view j ! ((unat ?s + j) mod ?n)" "nextLoop bs view ?s 0 = Inr (bs ! ((unat ?s + j) mod ?n))"
    then show ?thesis using nx n by (intro exI[of _ "(unat ?s + j) mod ?n"]) auto
  next
    assume none: "\<forall>j. 0 \<le> j \<and> j < ?n \<longrightarrow> \<not> view j ! ((unat ?s + j) mod ?n)"
      and r: "nextLoop bs view ?s 0 = Inr (bs ! (unat ?s mod ?n))"
    have "\<not> (\<forall>i. view i ! k)" if "k < ?n" for k
    proof -
      let ?j = "(k + ?n - unat ?s mod ?n) mod ?n"
      have "(unat ?s + ?j) mod ?n = (unat ?s mod ?n + (k + ?n - unat ?s mod ?n)) mod ?n" by (simp add: mod_simps)
      also have "\<dots> = (k + ?n) mod ?n" using n by (simp add: less_imp_le mod_less_divisor trans_le_add2)
      finally have "(unat ?s + ?j) mod ?n = k" using that by simp
      then show ?thesis using none n by (metis le0 mod_less_divisor)
    qed
    then show ?thesis using nx r n by (intro exI[of _ "unat ?s mod ?n"]) auto
  qed
qed

theorem Next_selects_healthy_witness:
  "\<exists>j < length [''a:1'', ''b:1'']. fst (Next (\<lambda>i. [False, True]) (NewLoadBalancer [''a:1'', ''b:1''] 0 0)) = Inr ([''a:1'', ''b:1''] ! j) \<and>
    (\<exists>i::nat. [False, True] ! j)"
proof -
  have "\<exists>k < length [''a:1'', ''b:1'']. \<forall>i::nat. [False, True] ! k" by (rule exI[of _ 1]) simp
  then show ?thesis
    using Next_selects_healthy[OF reach_refl, of "[''a:1'', ''b:1'']" 0 0 "\<lambda>i. [False, True]"]
    by (simp add: NewLoadBalancer_def)
qed

text \<open>C22. The selection is fair: with all backends healthy, as many requests as there are backends get
  every backend exactly once, in cyclic order from the one after the last used.\<close>

theorem Next_round_robin:
  assumes "2 \<le> length (lb_backends lb)" "unat (lb_current lb) + 2 * length (lb_backends lb) < 2 ^ 63"
    "\<And>i idx. idx < length (lb_backends lb) \<Longrightarrow> view i ! idx"
  shows "nextMany view (length (lb_backends lb)) lb = map Inr (rotate (Suc (unat (lb_current lb))) (lb_backends lb))"
proof -
  let ?bs = "lb_backends lb"
  have "nextMany view (length ?bs) lb = map (\<lambda>i. Inr (?bs ! ((Suc (unat (lb_current lb)) + i) mod length ?bs))) [0..<length ?bs]"
    using assms by (intro nextMany_all_healthy) auto
  also have "\<dots> = map Inr (rotate (Suc (unat (lb_current lb))) ?bs)"
    by (rule nth_equalityI) (simp_all add: nth_rotate del: rotate_Suc)
  finally show ?thesis .
qed

theorem Next_round_robin_witness:
  "nextMany (\<lambda>i. [True, True, True]) 3 (NewLoadBalancer [''a'', ''b'', ''c''] 0 0) = map Inr [''b'', ''c'', ''a'']"
proof -
  have v: "[True, True, True] ! idx" if "idx < 3" for idx :: nat
    using that by (auto simp: less_Suc_eq numeral_3_eq_3)
  show ?thesis
    using Next_round_robin[of "NewLoadBalancer [''a'', ''b'', ''c''] 0 0" "\<lambda>i. [True, True, True]"] v
    by (simp add: NewLoadBalancer_def numeral_3_eq_3)
qed

text \<open>Past the signed range the selection breaks: the counter is read as a negative number and
  indexes the list of backends out of range.\<close>

theorem Next_wraps:
  "fst (Next view \<lparr>lb_backends = [a, b, c], lb_healthy = hs, lb_current = 2 ^ 63 - 1, lb_healthCheckInterval = 0,
     lb_healthCheckTimeout = 0, lb_stopped = False, lb_checking = False\<rparr>) = Inl ''index out of range''"
proof -
  have "goIndex (2 ^ 63) 0 3 = Inl ''index out of range''" by (simp add: goIndex_def)
  then show ?thesis by (simp add: Next_def nextLoop.simps[of _ _ _ 0] numeral_3_eq_3)
qed










end
