(* ===== verification/Config.thy ===== *)
theory Config
  imports Prelude
begin

text \<open>
  The parts of the configuration with code of their own (\<^verbatim>\<open>internal/config\<close>): the list of endpoints with
  their validation modes, written as one string and read back (\<^verbatim>\<open>endpoints.go\<close>), and the check of the
  configured status codes (\<^verbatim>\<open>status.go\<close>).
\<close>

subsection \<open>Endpoints\<close>

record Endpoint =
  ep_RequestValidation :: string
  ep_ResponseValidation :: string
  ep_Path :: string
  ep_Method :: string

definition errEndpointFormat :: gerror where
  "errEndpointFormat = ''invalid endpoint format, expected [METHOD:]PATH|REQ|RESP''"

text \<open>\<^verbatim>\<open>strings.SplitN(s, sep, 2)\<close> for a string that contains the separator: the text before and after its
  first occurrence.\<close>

definition splitMethod :: "string \<Rightarrow> string \<times> string" where
  "splitMethod s =
    (case IndexByte s CHR '':'' of
       Some i \<Rightarrow> (take i s, drop (Suc i) s)
     | None \<Rightarrow> ([], s))"

definition parseEndpoint :: "string \<Rightarrow> Endpoint result" where
  "parseEndpoint item =
    (case SplitByte item CHR ''|'' of
       [p0, p1, p2] \<Rightarrow>
         let (method, path) = splitMethod p0;
             endpoint = \<lparr> ep_RequestValidation = TrimSpace p1, ep_ResponseValidation = TrimSpace p2,
                          ep_Path = TrimSpace path, ep_Method = method \<rparr>
         in if ep_Path endpoint = [] \<or> ep_RequestValidation endpoint = [] \<or> ep_ResponseValidation endpoint = []
            then Inl errEndpointFormat else Inr endpoint
     | _ \<Rightarrow> Inl errEndpointFormat)"

text \<open>The loop of \<^verbatim>\<open>Set\<close>: the endpoints before a malformed one stay in the list.\<close>

fun setLoop :: "string list \<Rightarrow> Endpoint list \<Rightarrow> Endpoint list \<times> gerror option" where
  "setLoop [] e = (e, None)"
| "setLoop (item # items) e =
    (case parseEndpoint item of
       Inl err \<Rightarrow> (e, Some err)
     | Inr endpoint \<Rightarrow> setLoop items (e @ [endpoint]))"

definition EndpointList_Set :: "string \<Rightarrow> Endpoint list \<Rightarrow> Endpoint list \<times> gerror option" where
  "EndpointList_Set value e = (if value = [] then (e, None) else setLoop (SplitByte value CHR '','') e)"

definition printEndpoint :: "Endpoint \<Rightarrow> string" where
  "printEndpoint ep =
    ep_Method ep @ '':'' @ ep_Path ep @ ''|'' @ ep_RequestValidation ep @ ''|'' @ ep_ResponseValidation ep"

definition EndpointList_String :: "Endpoint list \<Rightarrow> string" where
  "EndpointList_String e = Join (map printEndpoint e) '',''"

subsection \<open>Status codes\<close>

definition AllHttpStatuses :: "int list" where
  "AllHttpStatuses =
    [100, 101, 102, 103,
     200, 201, 202, 203, 204, 205, 206, 207, 208, 226,
     300, 301, 302, 303, 304, 305, 307, 308,
     400, 401, 402, 403, 404, 405, 406, 407, 408, 409, 410, 411, 412, 413, 414, 415, 416, 417, 418,
     421, 422, 423, 424, 425, 426, 428, 429, 431, 451,
     500, 501, 502, 503, 504, 505, 506, 507, 508, 510, 511]"

text \<open>A field of a struct as package \<^verbatim>\<open>reflect\<close> shows it.  \<open>FSmallInt\<close> is an integer of kind \<^verbatim>\<open>Int8\<close> to
  \<^verbatim>\<open>Int32\<close>, \<open>FOther\<close> a value that is no integer; \<^verbatim>\<open>Int()\<close> panics on \<open>FFloat\<close>, \<open>FSlice\<close> and \<open>FOther\<close>.\<close>

datatype field = FInt int | FSmallInt int | FFloat | FSlice "field list" | FOther

fun field_Int :: "field \<Rightarrow> int result" where
  "field_Int (FInt i) = Inr i"
| "field_Int (FSmallInt i) = Inr i"
| "field_Int _ = Inl ''reflect: call of Value.Int on a value that is no integer''"

definition knownStatus :: "int \<Rightarrow> bool" where
  "knownStatus confStatusCode \<longleftrightarrow> confStatusCode \<in> set AllHttpStatuses"

fun statusLoop :: "field list \<Rightarrow> bool result" where
  "statusLoop [] = Inr True"
| "statusLoop (f # fs) =
    (case field_Int f of
       Inl p \<Rightarrow> Inl p
     | Inr confStatusCode \<Rightarrow> if knownStatus confStatusCode then statusLoop fs else Inr False)"

definition ValidateStatusList :: "field \<Rightarrow> bool result" where
  "ValidateStatusList f =
    (case f of
       FInt i \<Rightarrow> Inr (knownStatus i)
     | FFloat \<Rightarrow> map_sum id knownStatus (field_Int f)
     | FSlice fs \<Rightarrow> statusLoop fs
     | _ \<Rightarrow> Inr False)"

subsection \<open>Reading back what was printed\<close>

text \<open>The endpoints that have a textual form: no separator inside a part, no blanks around it and no
  empty part but the method.\<close>

definition trimmed :: "string \<Rightarrow> bool" where
  "trimmed s \<longleftrightarrow> s \<noteq> [] \<and> \<not> is_space (hd s) \<and> \<not> is_space (last s)"

definition no_sep :: "string \<Rightarrow> bool" where
  "no_sep s \<longleftrightarrow> CHR '','' \<notin> set s \<and> CHR ''|'' \<notin> set s"

definition printable :: "Endpoint \<Rightarrow> bool" where
  "printable ep \<longleftrightarrow>
    no_sep (ep_Method ep) \<and> CHR '':'' \<notin> set (ep_Method ep) \<and>
    no_sep (ep_Path ep) \<and> trimmed (ep_Path ep) \<and>
    no_sep (ep_RequestValidation ep) \<and> trimmed (ep_RequestValidation ep) \<and>
    no_sep (ep_ResponseValidation ep) \<and> trimmed (ep_ResponseValidation ep)"

lemma trimmed_TrimSpace: "trimmed s \<Longrightarrow> TrimSpace s = s"
  by (simp add: trimmed_def TrimSpace_no_space)

lemma trimmed_TrimSpaceI: "TrimSpace s \<noteq> [] \<Longrightarrow> trimmed (TrimSpace s)"
proof -
  assume ne: "TrimSpace s \<noteq> []"
  define d where "d = dropWhile is_space s"
  have rev: "TrimSpace s = rev (dropWhile is_space (rev d))" by (simp add: TrimSpace_def d_def)
  then have "\<not> is_space (hd (dropWhile is_space (rev d)))" using ne hd_dropWhile[of is_space "rev d"] by force
  then have last: "\<not> is_space (last (TrimSpace s))" using rev by (simp add: last_rev)
  have "d = rev (takeWhile is_space (rev d) @ dropWhile is_space (rev d))" by simp
  then obtain e where e: "d = TrimSpace s @ e" using rev by (metis rev_append)
  then have "hd d = hd (TrimSpace s)" "d \<noteq> []" using ne by (auto simp: hd_append)
  then have "\<not> is_space (hd (TrimSpace s))" using hd_dropWhile[of is_space s] unfolding d_def by metis
  with last ne show ?thesis by (simp add: trimmed_def)
qed

lemma splitMethod_print [simp]: "CHR '':'' \<notin> set m \<Longrightarrow> splitMethod (m @ CHR '':'' # p) = (m, p)"
  by (simp add: splitMethod_def IndexByte_append_fresh)

lemma parse_print:
  assumes "printable ep"
  shows "parseEndpoint (printEndpoint ep) = Inr ep"
proof -
  have "SplitByte (printEndpoint ep) CHR ''|'' =
      [ep_Method ep @ CHR '':'' # ep_Path ep, ep_RequestValidation ep, ep_ResponseValidation ep]"
    using assms SplitByte_append[of "CHR ''|''" "ep_Method ep @ CHR '':'' # ep_Path ep"]
      SplitByte_append[of "CHR ''|''" "ep_RequestValidation ep"]
    by (simp add: printEndpoint_def printable_def no_sep_def SplitByte_no_sep)
  moreover have "trimmed s \<Longrightarrow> s \<noteq> []" for s by (simp add: trimmed_def)
  ultimately show ?thesis
    using assms by (simp add: parseEndpoint_def printable_def trimmed_TrimSpace)
qed

lemma setLoop_print:
  assumes "list_all printable es"
  shows "setLoop (map printEndpoint es) e = (e @ es, None)"
  using assms by (induction es arbitrary: e) (simp_all add: parse_print)

lemma printed_no_comma: "printable ep \<Longrightarrow> CHR '','' \<notin> set (printEndpoint ep)"
  by (auto simp: printable_def printEndpoint_def no_sep_def)

text \<open>What \<^verbatim>\<open>Set\<close> accepts is printable.\<close>

lemma SplitByte_chars: "x \<in> set (SplitByte s c) \<Longrightarrow> set x \<subseteq> set s"
proof (induction s arbitrary: x)
  case (Cons a s)
  show ?case
  proof (cases "SplitByte s c")
    case (Cons y ys)
    then have "set y \<subseteq> set s" "\<forall>z\<in>set ys. set z \<subseteq> set s" using Cons.IH by auto
    then show ?thesis using Cons Cons.prems by (auto split: if_splits)
  qed simp
qed simp

lemma TrimSpace_chars: "set (TrimSpace s) \<subseteq> set s"
  unfolding TrimSpace_def by (auto dest!: set_dropWhileD)

lemma splitMethod_chars:
  assumes "splitMethod s = (m, p)"
  shows "set m \<subseteq> set s" "set p \<subseteq> set s" "CHR '':'' \<notin> set m"
  using assms by (auto simp: splitMethod_def IndexByte_Some split: option.splits
      dest: in_set_takeD in_set_dropD)

lemma parseEndpoint_printable:
  assumes "parseEndpoint item = Inr ep" "CHR '','' \<notin> set item"
  shows "printable ep"
proof -
  from assms(1) obtain p0 p1 p2 where sp: "SplitByte item CHR ''|'' = [p0, p1, p2]"
    by (auto simp: parseEndpoint_def split: list.splits)
  obtain m p where mp: "splitMethod p0 = (m, p)" by fastforce
  have ns: "no_sep x" if "x \<in> set [p0, p1, p2]" for x
    using that SplitByte_chars[of x item "CHR ''|''"] SplitByte_parts_fresh[of item "CHR ''|''"] sp assms(2)
    by (auto simp: no_sep_def)
  have sub: "no_sep y" if "set y \<subseteq> set x" "no_sep x" for x y using that by (auto simp: no_sep_def)
  from assms(1) sp mp have ep: "ep = \<lparr> ep_RequestValidation = TrimSpace p1, ep_ResponseValidation = TrimSpace p2,
      ep_Path = TrimSpace p, ep_Method = m \<rparr>" "TrimSpace p1 \<noteq> []" "TrimSpace p2 \<noteq> []" "TrimSpace p \<noteq> []"
    by (auto simp: parseEndpoint_def split: if_splits)
  have "no_sep m" "no_sep p" using splitMethod_chars[OF mp] ns sub by (meson list.set_intros(1))+
  moreover have "no_sep (TrimSpace p1)" "no_sep (TrimSpace p2)"
    using ns[of p1] ns[of p2] sub[OF TrimSpace_chars, of p1] sub[OF TrimSpace_chars, of p2] by simp_all
  moreover have "no_sep (TrimSpace p)" using sub[OF TrimSpace_chars \<open>no_sep p\<close>] .
  ultimately show ?thesis
    using ep splitMethod_chars(3)[OF mp] by (simp add: printable_def trimmed_TrimSpaceI)
qed

lemma setLoop_printable:
  assumes "\<forall>x\<in>set items. CHR '','' \<notin> set x" "list_all printable e"
  shows "list_all printable (fst (setLoop items e))"
  using assms
proof (induction items arbitrary: e)
  case (Cons item items)
  then have "list_all printable (e @ [ep])" if "parseEndpoint item = Inr ep" for ep
    using parseEndpoint_printable[OF that] by simp
  with Cons show ?case by (simp split: sum.splits)
qed simp

text \<open>C28. The textual form of an endpoint list is faithful: whatever list \<^verbatim>\<open>Set\<close> builds from a string,
  \<^verbatim>\<open>String\<close> prints it so that \<^verbatim>\<open>Set\<close> reads the same list back, without an error.\<close>

theorem EndpointList_round_trip:
  "EndpointList_Set (EndpointList_String (fst (EndpointList_Set value []))) []
    = (fst (EndpointList_Set value []), None)"
proof -
  define es where "es = fst (EndpointList_Set value [])"
  have p: "list_all printable es"
    by (simp add: es_def EndpointList_Set_def setLoop_printable SplitByte_parts_fresh)
  have "EndpointList_Set (EndpointList_String es) [] = (es, None)"
  proof (cases es)
    case (Cons a as)
    have "\<forall>x\<in>set (map printEndpoint es). CHR '','' \<notin> set x"
      using p by (auto simp: list_all_iff printed_no_comma)
    then have "SplitByte (EndpointList_String es) CHR '','' = map printEndpoint es"
      using Cons SplitByte_Join[of "map printEndpoint es" "CHR '',''"] by (simp add: EndpointList_String_def)
    moreover have "EndpointList_String es \<noteq> []"
      using Cons by (cases as) (auto simp: EndpointList_String_def printEndpoint_def)
    ultimately show ?thesis using p by (simp add: EndpointList_Set_def setLoop_print)
  qed (simp add: EndpointList_Set_def EndpointList_String_def)
  then show ?thesis by (simp add: es_def)
qed

text \<open>The check of the configured status codes: a number passes exactly when it is one of the listed
  codes, a list of numbers exactly when all its members do, and a floating point number makes the check
  panic although its kind is one of those the check names.\<close>

theorem ValidateStatusList_spec:
  "ValidateStatusList (FInt i) = Inr (i \<in> set AllHttpStatuses) \<and>
   ValidateStatusList (FSlice (map FInt is)) = Inr (set is \<subseteq> set AllHttpStatuses) \<and>
   ValidateStatusList FFloat = Inl ''reflect: call of Value.Int on a value that is no integer''"
proof -
  have "statusLoop (map FInt is) = Inr (set is \<subseteq> set AllHttpStatuses)"
    by (induction "is") (simp_all add: knownStatus_def)
  then show ?thesis by (simp add: ValidateStatusList_def knownStatus_def)
qed

end
