(* ===== verification/Proxy_Handler.thy ===== *)
theory Proxy_Handler
  imports Unknown_Params OAuth2 WAF Backend Config
begin

text \<open>
  The proxy mode (\<^verbatim>\<open>cmd/api-firewall/internal/handlers/proxy\<close> and \<^verbatim>\<open>internal/platform/loader/router.go\<close>): the handler of
  an operation, the routes of a document, the application with its chain of middlewares, the health endpoints
  and the update of the specification.  The state of the token validator is an argument and a result of the
  handler.  What the server library does to convert a request is a parameter.
\<close>

subsection \<open>Configuration\<close>

record proxyCfg =
  pc_Mode :: string
  pc_RequestValidation :: string
  pc_ResponseValidation :: string
  pc_CustomBlockStatusCode :: int
  pc_AddValidationStatusHeader :: bool
  pc_PassOptions :: bool
  pc_UnknownParametersDetection :: bool
  pc_ShadowExclude :: "int list"
  pc_RequestHostHeader :: string
  pc_DeleteAcceptEncoding :: bool
  pc_ModSecRequestValidation :: string
  pc_ModSecResponseValidation :: string
  pc_Endpoints :: "Endpoint list"

text \<open>More of the server library: the content type and encoding of a response, the conversion of a request, and the
  arguments of a request.\<close>

record ('rq, 'rs) fasthttpMore =
  rsContentType :: "'rs \<Rightarrow> string"
  rsContentEncoding :: "'rs \<Rightarrow> string"
  convertRequest :: "'rq \<Rightarrow> httpReq result"
  requestArgs :: "'rq \<Rightarrow> upReq"

subsection \<open>Routes of a document\<close>

record ('f, 'x) customRoute =
  cr_Route :: "('f, 'x) route"
  cr_Path :: string
  cr_Method :: string
  cr_ParametersNumberInPath :: nat

record ('f, 'x) pathItem =
  pi_Path :: string
  pi_Parameters :: "('f, 'x) parameter list"
  pi_Operations :: "(string \<times> ('f, 'x) operation) list"

record ('f, 'x) document =
  od_Paths :: "('f, 'x) pathItem list"
  od_Security :: "securityRequirement list"
  od_SecuritySchemes :: "(string \<times> securityScheme) list"

definition countPathParams :: "('f, 'x) parameter list \<Rightarrow> nat" where
  "countPathParams ps = length (filter (\<lambda>p. pa_In p = ''path'') ps)"

definition newRoute :: "('f, 'x) document \<Rightarrow> ('f, 'x) pathItem \<Rightarrow> string \<times> ('f, 'x) operation \<Rightarrow> ('f, 'x) customRoute" where
  "newRoute doc item mo =
    (let method = ToUpper (fst mo) in
     \<lparr> cr_Route = \<lparr> rt_Operation = snd mo, rt_PathParameters = pi_Parameters item, rt_Security = od_Security doc,
         rt_SecuritySchemes = od_SecuritySchemes doc \<rparr>,
       cr_Path = pi_Path item, cr_Method = method,
       cr_ParametersNumberInPath =
         (case map_of (pi_Operations item) method of Some getOp \<Rightarrow> countPathParams (op_Parameters getOp) | None \<Rightarrow> 0)
         + countPathParams (pi_Parameters item) \<rparr>)"

text \<open>\<^verbatim>\<open>NewRouter\<close>; \<open>validateOAS\<close> is the validation of the OpenAPI library.  The maps of the document are visited
  in the order of the lists.\<close>

definition NewRouter :: "(('f, 'x) document \<Rightarrow> gerror option) \<Rightarrow> ('f, 'x) document \<Rightarrow> bool \<Rightarrow> ('f, 'x) customRoute list result" where
  "NewRouter validateOAS doc validate =
    (case (if validate then validateOAS doc else None) of
       Some err \<Rightarrow> Inl (''OpenAPI specification validation failed: '' @ err)
     | None \<Rightarrow> Inr (concat (map (\<lambda>item. map (newRoute doc item) (pi_Operations item)) (od_Paths doc))))"

subsection \<open>The validation header\<close>

definition beforeSemicolon :: "string \<Rightarrow> string" where
  "beforeSemicolon s = hd (SplitByte s CHR '';'')"

definition reasonOr :: "string \<Rightarrow> string" where
  "reasonOr r = (if r \<noteq> [] then r else ''unknown'')"

definition getValidationHeader :: "('rq, 'rs) fasthttp \<Rightarrow> ('rq, 'rs) fasthttpMore \<Rightarrow> 'f goFloat \<Rightarrow> ('f, 'x) kin \<Rightarrow> ('rq, 'rs) rctx
    \<Rightarrow> ('f, 'x) oerr \<Rightarrow> string option" where
  "getValidationHeader H M F K ctx err =
    (case err of
       ResponseErr reason _ \<Rightarrow>
         Some (''response-'' @ Itoa (rsStatus H (cx_resp ctx)) @ ''-'' @ beforeSemicolon (rsContentType M (cx_resp ctx)) @ '':'' @
           reasonOr reason @ '':response'')
     | RequestErr (Some p) _ reason inner \<Rightarrow>
         Some (''request-parameter:'' @
           (case inner of
              Some (SchemaErr _ r _ _ _) \<Rightarrow> if reason = [] \<and> r \<noteq> [] then r else reasonOr reason
            | _ \<Rightarrow> reasonOr reason) @ '':'' @
           (if reason = [] then pa_Name p else ''request-parameter''))
     | RequestErr None (Some _) reason _ \<Rightarrow>
         Some (''request-body-'' @ beforeSemicolon (rqContentType H (cx_req ctx)) @ '':'' @ reasonOr reason @ '':request-body'')
     | SecurityErr srs errs \<Rightarrow>
         let secSchemeName = concat (map (\<lambda>key. key @ '','') (concat (map (map fst) srs)));
             secErrors = concat (map (\<lambda>e. errText F K e @ '','') errs)
         in Some (''security-requirements-'' @ TrimSuffix secSchemeName '','' @ '':'' @ TrimSuffix secErrors '','' @ '':'' @
              TrimSuffix secSchemeName '','')
     | _ \<Rightarrow> None)"

subsection \<open>Authentication\<close>

text \<open>The interface \<^verbatim>\<open>OAuth2\<close>: a validator with its state.\<close>

type_synonym 's oauth2 = "string \<Rightarrow> string list \<Rightarrow> 's \<Rightarrow> gerror option \<times> 's"

definition authenticate :: "'s oauth2 option \<Rightarrow> ('f, 'x, 's) authFunc" where
  "authenticate oauth scheme scopes req st =
    (let auth = hdrGet ''Authorization'' (hr_Header req);
         need = (\<lambda>ok msg. (if ok then None else Some (PlainErr msg), st))
     in if ss_Type scheme = ''http'' then
          if ss_Scheme scheme = ''basic'' then
            need (auth \<noteq> [] \<and> prefix ''basic '' (ToLower auth)) ''missing basic authorization header''
          else if ss_Scheme scheme = ''bearer'' then
            need (auth \<noteq> [] \<and> prefix ''bearer '' (ToLower auth)) ''missing bearer authorization header''
          else (None, st)
        else if ss_Type scheme = ''oauth2'' \<or> ss_Type scheme = ''openIdConnect'' then
          (case oauth of
             None \<Rightarrow> (Some (PlainErr ''oauth2 validator not configured''), st)
           | Some validate \<Rightarrow>
               (case validate auth scopes st of
                  (Some err, st') \<Rightarrow> (Some (PlainErr (''oauth2 error: '' @ err)), st')
                | (None, st') \<Rightarrow> (None, st')))
        else if ss_Type scheme = ''apiKey'' then
          if ss_In scheme = ''header'' then
            need (hdrGet (ss_Name scheme) (hr_Header req) \<noteq> []) (''missing '' @ ss_Name scheme @ '' header'')
          else if ss_In scheme = ''query'' then
            need (valGet (ss_Name scheme) (fst (ParseQuery (hr_RawQuery req))) \<noteq> []) (''missing '' @ ss_Name scheme @ '' query parameter'')
          else if ss_In scheme = ''cookie'' then
            need (reqCookie (hr_Header req) (ss_Name scheme) \<noteq> None) (''missing '' @ ss_Name scheme @ '' cookie'')
          else (None, st)
        else (None, st))"

subsection \<open>The handler of an operation\<close>

text \<open>What the handler of one route is built with.  \<open>ow_got\<close> is the answer of the connection pool to the one request of
  a client that a call of the handler makes.\<close>

record ('rq, 'rs, 'f, 'x, 's) openapiWaf =
  ow_Route :: "('f, 'x) customRoute option"
  ow_cfg :: proxyCfg
  ow_oauth :: "'s oauth2 option"
  ow_env :: "('f, 'x) venv"
  ow_got :: "string result"
  ow_client :: "'rq \<Rightarrow> 'rs \<Rightarrow> 'rs \<times> goerr option"

text \<open>\<^verbatim>\<open>proxy.Perform\<close> with its error logged; the flag tells whether it succeeded.\<close>

definition forward :: "('rq, 'rs) fasthttp \<Rightarrow> ('rq, 'rs, 'f, 'x, 's) openapiWaf \<Rightarrow> ('rq, 'rs) rctx \<Rightarrow> bool \<times> ('rq, 'rs) rctx" where
  "forward H s ctx =
    (case Perform H (ow_client s) (ow_got s) (pc_RequestHostHeader (ow_cfg s)) ctx of
       (Ok, ctx') \<Rightarrow> (True, ctx')
     | (_, ctx') \<Rightarrow> (False, logMsg ''Error while proxying request'' ctx'))"

text \<open>The modes of a request: those of the endpoint if it has some, else the global ones.\<close>

definition validationModes :: "proxyCfg \<Rightarrow> ('rq, 'rs) rctx \<Rightarrow> string \<times> string" where
  "validationModes cfg ctx =
    (case cx_vals ctx EndpointActions of
       Some (UActions a) \<Rightarrow> (act_Request a, act_Response a)
     | _ \<Rightarrow> (pc_RequestValidation cfg, pc_ResponseValidation cfg))"

definition isOptionsReq :: "('rq, 'rs) rctx \<Rightarrow> bool" where
  "isOptionsReq ctx \<longleftrightarrow> cx_vals ctx PassRequestOPTIONS = Some (UBool True)"

definition bothDisabled :: "string \<times> string \<Rightarrow> bool" where
  "bothDisabled modes \<longleftrightarrow> EqualFold (fst modes) ValidationDisable \<and> EqualFold (snd modes) ValidationDisable"

definition noRoute :: "('rq, 'rs) fasthttp \<Rightarrow> ('rq, 'rs, 'f, 'x, 's) openapiWaf \<Rightarrow> string \<times> string \<Rightarrow> ('rq, 'rs) handler" where
  "noRoute H s modes ctx =
    (let ctx1 = SetUserValue RequestProxyNoRoute (UBool True) ctx in
     if EqualFold (fst modes) ValidationBlock \<or> EqualFold (snd modes) ValidationBlock then
       RespondError H (pc_CustomBlockStatusCode (ow_cfg s))
         (if pc_AddValidationStatusHeader (ow_cfg s) then ''request: customRoute not found'' else []) ctx1
     else (Ok, snd (forward H s ctx1)))"

text \<open>The path parameters: a panic of the router is on the left.\<close>

definition pathParamsOf :: "('f, 'x) customRoute \<Rightarrow> ('rq, 'rs) rctx \<Rightarrow> (string \<times> string) list result" where
  "pathParamsOf cr ctx =
    (if cr_ParametersNumberInPath cr = 0 then Inr []
     else case cx_vals ctx RouteCtxKey of
       Some (URoute x) \<Rightarrow>
         (case AllURLParams x of
            None \<Rightarrow> Inl ''index out of range''
          | Some m \<Rightarrow> Inr (map (\<lambda>k. (k, case m k of Some v \<Rightarrow> v | None \<Rightarrow> [])) (remdups (Keys (URLParams x)))))
     | _ \<Rightarrow> Inr [])"

text \<open>The body error of a reader, as the validators see it.\<close>

definition bodyOf :: "string \<times> goerr option \<Rightarrow> body" where
  "bodyOf b = (fst b, map_option errString (snd b))"

text \<open>The converted request with its body decompressed; on the left is how the handler ends.\<close>

definition prepareRequest :: "('rq, 'rs) fasthttp \<Rightarrow> ('rq, 'rs) fasthttpMore \<Rightarrow> ('rq, 'rs) rctx
    \<Rightarrow> (outcome \<times> ('rq, 'rs) rctx) + httpReq" where
  "prepareRequest H M ctx =
    (case convertRequest M (cx_req ctx) of
       Inl err \<Rightarrow> Inl (RespondError H 400 [] (logMsg ''Error while converting http request'' ctx))
     | Inr req \<Rightarrow>
         let enc = rqContentEncoding H (cx_req ctx) in
         if enc = [] then Inr req
         else case GetDecompressedRequestBody H (cx_req ctx) enc of
           Inl err \<Rightarrow> Inl (Err err, logMsg ''Request body decompression error'' ctx)
         | Inr b \<Rightarrow> Inr (req\<lparr>hr_Body := Some (bodyOf b)\<rparr>))"

definition proxyOptions :: "'s oauth2 option \<Rightarrow> ('f, 'x, 's) options" where
  "proxyOptions oauth = noOptions\<lparr>vo_AuthenticationFunc := Some (authenticate oauth)\<rparr>"

text \<open>A body with a content type that no decoder reads is passed on.\<close>

definition unsupportedCTPrefix :: string where
  "unsupportedCTPrefix = ''request body has an error: failed to decode request body: unsupported content type''"

definition isRequestBlocked :: "('f, 'x) venv \<Rightarrow> ('f, 'x) oerr \<Rightarrow> bool" where
  "isRequestBlocked E err \<longleftrightarrow>
    \<not> (case err of RequestErr _ _ _ _ \<Rightarrow> prefix unsupportedCTPrefix (errText (ev_F E) (ev_K E) err) | _ \<Rightarrow> False)"

definition blockRequest :: "('rq, 'rs) fasthttp \<Rightarrow> ('rq, 'rs) fasthttpMore \<Rightarrow> ('rq, 'rs, 'f, 'x, 's) openapiWaf \<Rightarrow> ('f, 'x) oerr
    \<Rightarrow> ('rq, 'rs) handler" where
  "blockRequest H M s err ctx =
    (let ctx1 = logMsg ''Request validation error: request blocked'' (SetUserValue RequestBlocked (UBool True) ctx);
         code = pc_CustomBlockStatusCode (ow_cfg s)
     in case (if pc_AddValidationStatusHeader (ow_cfg s)
              then getValidationHeader H M (ev_F (ow_env s)) (ev_K (ow_env s)) ctx1 err else None) of
          Some vh \<Rightarrow>
            RespondError H code vh (onReq (rqAdd H ValidationStatus vh) (logMsg (''add header '' @ ValidationStatus @ '': '' @ vh) ctx1))
        | None \<Rightarrow> RespondError H code [] ctx1)"

text \<open>The search for unknown parameters: a panic, or the reported parameters and the context with the messages.\<close>

definition shadowParams :: "('rq, 'rs) fasthttpMore \<Rightarrow> ('rq, 'rs, 'f, 'x, 's) openapiWaf \<Rightarrow> ('f, 'x) route \<Rightarrow> header \<Rightarrow> ('rq, 'rs) rctx
    \<Rightarrow> string + (RequestUnknownParameterError list \<times> ('rq, 'rs) rctx)" where
  "shadowParams M s route h ctx =
    (if \<not> pc_UnknownParametersDetection (ow_cfg s) then Inr ([], ctx)
     else case ValidateUnknownRequestParameters (ow_env s) route h (requestArgs M (cx_req ctx)) of
       Inl p \<Rightarrow> Inl p
     | Inr (ups, err) \<Rightarrow>
         let ctx1 = (if err \<noteq> None then logMsg ''Shadow API: searching for undefined parameters'' ctx else ctx)
         in Inr (ups, if ups \<noteq> [] then logMsg ''Shadow API: undefined parameters found'' ctx1 else ctx1))"

text \<open>The validation of the request in the two modes that validate: \<^term>\<open>Inl\<close> ends the handler.\<close>

definition requestStage :: "('rq, 'rs) fasthttp \<Rightarrow> ('rq, 'rs) fasthttpMore \<Rightarrow> ('rq, 'rs, 'f, 'x, 's) openapiWaf \<Rightarrow> string
    \<Rightarrow> ('f, 'x) valInput \<Rightarrow> 's \<Rightarrow> ('rq, 'rs) rctx
    \<Rightarrow> ((outcome \<times> ('rq, 'rs) rctx) + ('rq, 'rs) rctx) \<times> 's" where
  "requestStage H M s mode input st ctx =
    (if mode \<noteq> ValidationBlock \<and> mode \<noteq> ValidationLog then (Inr ctx, st)
     else case ValidateRequest (ow_env s) (Some (proxyOptions (ow_oauth s))) input st of
       (Inl p, st') \<Rightarrow> (Inl (Panic p, ctx), st')
     | (Inr (err, input'), st') \<Rightarrow>
         (case (case err of
                  None \<Rightarrow> Inr ctx
                | Some e \<Rightarrow>
                    if mode = ValidationLog then Inr (logMsg ''Request validation error'' ctx)
                    else if isRequestBlocked (ow_env s) e then Inl (blockRequest H M s e ctx)
                    else Inr (logMsg ''Request body parsing error: request passed'' ctx)) of
            Inl r \<Rightarrow> Inl r
          | Inr ctx1 \<Rightarrow>
              (case shadowParams M s (vi_Route input) (hr_Header (vi_Req input')) ctx1 of
                 Inl p \<Rightarrow> Inl (Panic p, ctx1)
               | Inr (ups, ctx2) \<Rightarrow>
                   if mode = ValidationBlock \<and> ups \<noteq> []
                   then Inl (RespondError H (pc_CustomBlockStatusCode (ow_cfg s)) [] (SetUserValue RequestBlocked (UBool True) ctx2))
                   else Inr ctx2), st'))"

text \<open>The response: its headers are collected with \<^verbatim>\<open>Set\<close>, so the last value of a name stays.\<close>

definition responseHeader :: "('rq, 'rs) fasthttp \<Rightarrow> 'rs \<Rightarrow> header" where
  "responseHeader H resp = fold (\<lambda>(k, v). hdrSet k v) (rsHeaders H resp) []"

definition responseOptions :: "('f, 'x, 's) options" where
  "responseOptions = noOptions\<lparr>vo_IncludeResponseStatus := True\<rparr>"

definition blockResponse :: "('rq, 'rs) fasthttp \<Rightarrow> ('rq, 'rs) fasthttpMore \<Rightarrow> ('rq, 'rs, 'f, 'x, 's) openapiWaf \<Rightarrow> ('f, 'x) oerr
    \<Rightarrow> ('rq, 'rs) handler" where
  "blockResponse H M s err ctx =
    (let ctx1 = logMsg ''Response validation error'' (SetUserValue ResponseBlocked (UBool True) ctx);
         code = pc_CustomBlockStatusCode (ow_cfg s)
     in case (if pc_AddValidationStatusHeader (ow_cfg s)
              then getValidationHeader H M (ev_F (ow_env s)) (ev_K (ow_env s)) ctx1 err else None) of
          Some vh \<Rightarrow>
            RespondError H code vh (onResp (rsAdd H ValidationStatus vh) (logMsg (''Add header '' @ ValidationStatus @ '': '' @ vh) ctx1))
        | None \<Rightarrow> RespondError H code [] ctx1)"

text \<open>In the log mode an error of the response type ends the handler before the message is written.\<close>

definition logResponse :: "('f, 'x) oerr \<Rightarrow> ('rq, 'rs) handler" where
  "logResponse err ctx =
    (case err of
       ResponseErr reason _ \<Rightarrow>
         (Ok, if reason = ''status is not supported'' then SetUserValue ResponseStatusNotFound (UBool True) ctx else ctx)
     | _ \<Rightarrow> (Ok, logMsg ''Response validation error'' ctx))"

definition responseStage :: "('rq, 'rs) fasthttp \<Rightarrow> ('rq, 'rs) fasthttpMore \<Rightarrow> ('rq, 'rs, 'f, 'x, 's) openapiWaf \<Rightarrow> string
    \<Rightarrow> ('f, 'x) route \<Rightarrow> string \<Rightarrow> ('rq, 'rs) handler" where
  "responseStage H M s mode route method ctx =
    (case GetDecompressedResponseBody H (cx_resp ctx) (rsContentEncoding M (cx_resp ctx)) of
       Inl err \<Rightarrow> (Err err, logMsg ''Response body decompression error'' ctx)
     | Inr b \<Rightarrow>
         if mode \<noteq> ValidationBlock \<and> mode \<noteq> ValidationLog then (Ok, ctx)
         else case ValidateResponse (ow_env s) (Some (responseOptions :: ('f, 'x, unit) options))
                \<lparr> ri_Method = method, ri_Route = route, ri_Status = rsStatus H (cx_resp ctx),
                  ri_Header = responseHeader H (cx_resp ctx), ri_Body = bodyOf b \<rparr> of
           Inl p \<Rightarrow> (Panic p, ctx)
         | Inr None \<Rightarrow> (Ok, ctx)
         | Inr (Some err) \<Rightarrow> if mode = ValidationBlock then blockResponse H M s err ctx else logResponse err ctx)"

definition openapiWafHandler :: "('rq, 'rs) fasthttp \<Rightarrow> ('rq, 'rs) fasthttpMore \<Rightarrow> ('rq, 'rs, 'f, 'x, 's) openapiWaf \<Rightarrow> 's
    \<Rightarrow> ('rq, 'rs) rctx \<Rightarrow> (outcome \<times> ('rq, 'rs) rctx) \<times> 's" where
  "openapiWafHandler H M s st ctx =
    (let modes = validationModes (ow_cfg s) ctx in
     if isOptionsReq ctx \<or> bothDisabled modes then ((Ok, snd (forward H s ctx)), st)
     else case ow_Route s of
       None \<Rightarrow> (noRoute H s modes ctx, st)
     | Some cr \<Rightarrow>
         (case pathParamsOf cr ctx of
            Inl p \<Rightarrow> ((Panic p, ctx), st)
          | Inr pathParams \<Rightarrow>
              (case prepareRequest H M ctx of
                 Inl r \<Rightarrow> (r, st)
               | Inr req \<Rightarrow>
                   let input = \<lparr> vi_Req = req, vi_PathParams = pathParams, vi_QueryParams = fst (ParseQuery (hr_RawQuery req)),
                                 vi_Route = cr_Route cr \<rparr>
                   in case requestStage H M s (ToLower (fst modes)) input st ctx of
                        (Inl r, st') \<Rightarrow> (r, st')
                      | (Inr ctx1, st') \<Rightarrow>
                          (case forward H s ctx1 of
                             (False, ctx2) \<Rightarrow> ((Ok, ctx2), st')
                           | (True, ctx2) \<Rightarrow>
                               (responseStage H M s (ToLower (snd modes)) (cr_Route cr) (hr_Method req) ctx2, st')))))"

subsection \<open>The application\<close>

text \<open>The validator that the configuration asks for.  \<open>readKey\<close> reads and parses the certificate; a failure
  leaves no validator.\<close>

datatype 'pk oauthKind = UseJWT "'pk option JWT" | UseIntrospection introCfg

record 'pk oauthCfg =
  oc_ValidationType :: string
  oc_SignatureAlgorithm :: string
  oc_PubCertFile :: string
  oc_SecretKey :: string
  oc_Introspection :: introCfg

definition initOAuth :: "(string \<Rightarrow> 'pk result) \<Rightarrow> 'pk oauthCfg \<Rightarrow> 'pk oauthKind option" where
  "initOAuth readKey cfg =
    (if ToLower (oc_ValidationType cfg) = ''jwt'' then
       (case (if prefix ''rs'' (ToLower (oc_SignatureAlgorithm cfg)) \<and> oc_PubCertFile cfg \<noteq> []
              then map_sum id Some (readKey (oc_PubCertFile cfg)) else Inr None) of
          Inl err \<Rightarrow> None
        | Inr key \<Rightarrow> Some (UseJWT \<lparr> jwt_SignatureAlgorithm = oc_SignatureAlgorithm cfg, jwt_PubKey = key, jwt_SecretKey = oc_SecretKey cfg \<rparr>))
     else if ToLower (oc_ValidationType cfg) = ''introspection'' then Some (UseIntrospection (oc_Introspection cfg))
     else None)"

definition oauthValidate :: "(string \<Rightarrow> (signingMethod \<Rightarrow> 'pk option jwtKey result) \<Rightarrow> jwtToken result) \<Rightarrow> 'c ccache \<Rightarrow> 'w introNet
    \<Rightarrow> 'pk oauthKind \<Rightarrow> ('c \<times> 'w) oauth2" where
  "oauthValidate parse C N k token scopes st =
    (case k of
       UseJWT j \<Rightarrow> (JWT_Validate parse j token scopes, st)
     | UseIntrospection cfg \<Rightarrow> Introspection_Validate C N cfg token scopes st)"

text \<open>The middlewares, outermost first.\<close>

record ('c, 'tx) guards =
  gd_Scheme :: string
  gd_Host :: string
  gd_Cache :: "'c ristretto"
  gd_Allow :: "'c IPAllowListOptions"
  gd_Deny :: "'c DenylistOptions"
  gd_WAF :: "'tx coraza option"

definition orGlobal :: "string \<Rightarrow> string \<Rightarrow> string" where
  "orGlobal own global = (if own = [] then global else own)"

definition proxyMiddlewares :: "('rq, 'rs) fasthttp \<Rightarrow> proxyCfg \<Rightarrow> ('c, 'tx) guards \<Rightarrow> ('rq, 'rs) middleware option list" where
  "proxyMiddlewares H cfg g =
    map Some [Logger, Errors H, Panics,
      Proxy H \<lparr> po_Mode = ProxyMode, po_RequestValidation = pc_RequestValidation cfg,
        po_DeleteAcceptEncoding = pc_DeleteAcceptEncoding cfg, po_Scheme = gd_Scheme g, po_Host = gd_Host g \<rparr>,
      IPAllowlist (gd_Cache g) H ((gd_Allow g)\<lparr>al_Mode := ProxyMode, al_CustomBlockStatusCode := pc_CustomBlockStatusCode cfg\<rparr>),
      Denylist (gd_Cache g) H ((gd_Deny g)\<lparr>dl_Mode := ProxyMode, dl_CustomBlockStatusCode := pc_CustomBlockStatusCode cfg\<rparr>),
      WAFModSecurity H \<lparr> ms_Mode = ProxyMode, ms_WAF = gd_WAF g,
        ms_RequestValidation = orGlobal (pc_ModSecRequestValidation cfg) (pc_RequestValidation cfg),
        ms_ResponseValidation = orGlobal (pc_ModSecResponseValidation cfg) (pc_ResponseValidation cfg),
        ms_CustomBlockStatusCode = pc_CustomBlockStatusCode cfg \<rparr>,
      ShadowAPIMonitor H (pc_ShadowExclude cfg)]"

text \<open>The modes for an endpoint: the last entry of the configuration that matches decides.\<close>

definition endpointActions :: "Endpoint list \<Rightarrow> string \<Rightarrow> string \<Rightarrow> Actions option" where
  "endpointActions es method path =
    fold (\<lambda>e acc.
      if EqualFold (ep_Path e) path \<and> (ep_Method e = [] \<or> EqualFold method (ep_Method e))
      then Some \<lparr> act_Request = ep_RequestValidation e, act_Response = ep_ResponseValidation e \<rparr> else acc) es None"

text \<open>The registration of the routes: a route whose path cannot be joined or unescaped, or that the router
  refuses, is left out.\<close>

fun registerRoutes :: "router_env \<Rightarrow> (('f, 'x) customRoute \<Rightarrow> ('rq, 'rs) handler) \<Rightarrow> Endpoint list \<Rightarrow> string
    \<Rightarrow> ('f, 'x) customRoute list \<Rightarrow> ('rq, 'rs, 'm) App \<Rightarrow> ('rq, 'rs, 'm) App" where
  "registerRoutes env h es serverPath [] app = app"
| "registerRoutes env h es serverPath (cr # crs) app =
    registerRoutes env h es serverPath crs
     (case andThen (JoinPath serverPath (cr_Path cr)) PathUnescape of
        Inl err \<Rightarrow> app
      | Inr path \<Rightarrow> fst (Handle env app (cr_Method cr) path (endpointActions es (cr_Method cr) path) (h cr) []))"

definition routeHandler :: "('rq, 'rs) fasthttp \<Rightarrow> ('rq, 'rs) fasthttpMore \<Rightarrow> ('rq, 'rs, 'f, 'x, 's) openapiWaf \<Rightarrow> 's
    \<Rightarrow> ('f, 'x) customRoute option \<Rightarrow> ('rq, 'rs) handler" where
  "routeHandler H M s st cr ctx = fst (openapiWafHandler H M (s\<lparr>ow_Route := cr\<rparr>) st ctx)"

text \<open>The handler for OPTIONS requests that \<^verbatim>\<open>Handlers\<close> puts into the options of the application; the application does
  not call it.\<close>

definition optionsHandler :: "('rq, 'rs) fasthttp \<Rightarrow> ('rq, 'rs, 'f, 'x, 's) openapiWaf \<Rightarrow> string \<Rightarrow> ('rq, 'rs) rctx \<Rightarrow> ('rq, 'rs) rctx" where
  "optionsHandler H s uuid ctx =
    snd (forward H s (logMsg ''Pass request with OPTIONS method'' (SetUserValue RequestID (UStr uuid) ctx)))"

text \<open>\<^verbatim>\<open>Handlers\<close>; the result is nil when the document is refused.  The handler for requests without a route has no
  token validator.\<close>

definition Handlers :: "('rq, 'rs) fasthttp \<Rightarrow> ('rq, 'rs) fasthttpMore \<Rightarrow> router_env \<Rightarrow> ('rq, 'rs, 'f, 'x, 's) openapiWaf \<Rightarrow> 's
    \<Rightarrow> ('c, 'tx) guards \<Rightarrow> string \<Rightarrow> (('f, 'x) document \<Rightarrow> gerror option) \<Rightarrow> ('f, 'x) document \<Rightarrow> ('rq, 'rs, 'm) App option" where
  "Handlers H M env s st g urlPath validateOAS doc =
    (case NewRouter validateOAS doc True of
       Inl err \<Rightarrow> None
     | Inr routes \<Rightarrow>
         Some (registerRoutes env (\<lambda>cr. routeHandler H M s st (Some cr)) (pc_Endpoints (ow_cfg s))
                 (if urlPath \<noteq> [] then urlPath else ''/'') routes
                 (NewApp (pc_Mode (ow_cfg s)) (pc_PassOptions (ow_cfg s)) (routeHandler H M (s\<lparr>ow_oauth := None\<rparr>) st None)
                    (proxyMiddlewares H (ow_cfg s) g))))"

subsection \<open>Health endpoints\<close>

text \<open>\<open>got\<close> is the answer of the pool, \<open>putErr\<close> what returning the client gives.\<close>

definition statusJSON :: "string \<Rightarrow> string" where
  "statusJSON status = [CHR ''{'', CHR 0x22] @ ''status'' @ [CHR 0x22, CHR '':'', CHR 0x22] @ status @ [CHR 0x22, CHR ''}'']"

definition Readiness :: "('rq, 'rs) fasthttp \<Rightarrow> string result \<Rightarrow> gerror option \<Rightarrow> ('rq, 'rs) handler" where
  "Readiness H got putErr ctx =
    (let ok = (case got of Inl _ \<Rightarrow> False | Inr _ \<Rightarrow> putErr = None)
     in Respond H (Inr (statusJSON (if ok then ''ok'' else ''not ready''))) (if ok then 200 else 500) ctx)"

record livenessData =
  lv_Status :: string
  lv_Build :: string
  lv_Host :: string
  lv_Pod :: string
  lv_PodIP :: string
  lv_Node :: string
  lv_Namespace :: string

text \<open>\<open>marshal\<close> is \<^verbatim>\<open>json.Marshal\<close> on the data, \<open>env\<close> the environment of the process.\<close>

definition Liveness :: "('rq, 'rs) fasthttp \<Rightarrow> (livenessData \<Rightarrow> goerr + string) \<Rightarrow> string result \<Rightarrow> (string \<Rightarrow> string) \<Rightarrow> string
    \<Rightarrow> ('rq, 'rs) handler" where
  "Liveness H marshal hostname env version ctx =
    Respond H (marshal \<lparr> lv_Status = ''up'', lv_Build = version, lv_Host = (case hostname of Inl _ \<Rightarrow> ''unavailable'' | Inr h \<Rightarrow> h),
      lv_Pod = env ''KUBERNETES_PODNAME'', lv_PodIP = env ''KUBERNETES_NAMESPACE_POD_IP'', lv_Node = env ''KUBERNETES_NODENAME'',
      lv_Namespace = env ''KUBERNETES_NAMESPACE'' \<rparr>) 200 ctx"

text \<open>The handler of the health server; errors are logged.\<close>

definition healthHandler :: "('rq, 'rs) fasthttp \<Rightarrow> ('rq, 'rs) handler \<Rightarrow> ('rq, 'rs) handler \<Rightarrow> ('rq, 'rs) rctx \<Rightarrow> ('rq, 'rs) rctx" where
  "healthHandler H liveness readiness ctx =
    (let run = (\<lambda>h name. case h ctx of (Err e, ctx') \<Rightarrow> logMsg (name @ '': '' @ errString e) ctx' | (_, ctx') \<Rightarrow> ctx')
     in if rqPath H (cx_req ctx) = ''/v1/liveness'' then run liveness ''liveness''
        else if rqPath H (cx_req ctx) = ''/v1/readiness'' then run readiness ''readiness''
        else onResp (rsError H ''Unsupported path'' 404) ctx)"

subsection \<open>Updates of the specification\<close>

text \<open>The state that the updater changes: the loaded specification and the handler of the server.\<close>

record ('d, 'h) specState =
  sp_Storage :: 'd
  sp_Handler :: "'h option"

text \<open>One tick of \<^verbatim>\<open>Run\<close>: \<open>loaded\<close> is what loading gives, \<open>afterLoad\<close> the function after loading, whose error is
  only logged.  The lock is held for both assignments.\<close>

definition updateTick :: "('d \<Rightarrow> 'd \<Rightarrow> bool) \<Rightarrow> ('d \<Rightarrow> 'h option) \<Rightarrow> ('d \<Rightarrow> gerror option \<times> 'd) \<Rightarrow> 'd result \<Rightarrow> ('d, 'h) specState
    \<Rightarrow> ('d, 'h) specState" where
  "updateTick shouldUpdate handlers afterLoad loaded sp =
    (case loaded of
       Inl err \<Rightarrow> sp
     | Inr new \<Rightarrow>
         if shouldUpdate (sp_Storage sp) new
         then \<lparr> sp_Storage = snd (afterLoad new), sp_Handler = handlers new \<rparr>
         else sp)"

end
