(* ===== verification/API_Mode.thy ===== *)
theory API_Mode
  imports API_Errors Proxy_Handler
begin

text \<open>
  The validation of one request in the API mode (\<^verbatim>\<open>api_mode_validate_request.go\<close>, \<^verbatim>\<open>pkg/APIMode/handler.go\<close>,
  \<^verbatim>\<open>pkg/APIMode/validator/validator.go\<close> and \<^verbatim>\<open>handler.go\<close> of \<^verbatim>\<open>cmd/api-firewall/internal/handlers/api\<close>).  The two validators
  run in goroutines of their own, each of which drops a panic; they share the request, of which the second one reads
  the header it has before the first one adds default values.
\<close>

subsection \<open>Authentication\<close>

definition apiAuthenticate :: "('f, 'x, unit) authFunc" where
  "apiAuthenticate scheme scopes req st =
    (let auth = hdrGet ''Authorization'' (hr_Header req); name = ss_Name scheme;
         need = (\<lambda>ok field msg. (if ok then None else Some (SecMissing field msg), st))
     in if ss_Type scheme = ''http'' then
          if ss_Scheme scheme = ''basic'' then
            need (auth \<noteq> [] \<and> prefix ''basic '' (ToLower auth)) ''Authorization'' (ErrAuthHeaderMissed @ '': basic authentication is required'')
          else if ss_Scheme scheme = ''bearer'' then
            need (auth \<noteq> [] \<and> prefix ''bearer '' (ToLower auth)) ''Authorization'' (ErrAuthHeaderMissed @ '': bearer authentication is required'')
          else (None, st)
        else if ss_Type scheme = ''apiKey'' then
          if ss_In scheme = ''header'' then
            need (hdrGet name (hr_Header req) \<noteq> []) name (ErrAPITokenMissed @ '': missing '' @ name @ '' header'')
          else if ss_In scheme = ''query'' then
            need (valGet name (fst (ParseQuery (hr_RawQuery req))) \<noteq> []) name (ErrAPITokenMissed @ '': missing '' @ name @ '' query parameter'')
          else if ss_In scheme = ''cookie'' then
            need (reqCookie (hr_Header req) name \<noteq> None) name (ErrAPITokenMissed @ '': missing '' @ name @ '' cookie'')
          else (None, st)
        else (None, st))"

definition apiModeSecurityRequirementsOptions :: "('f, 'x, unit) options" where
  "apiModeSecurityRequirementsOptions = noOptions\<lparr>vo_MultiError := True, vo_AuthenticationFunc := Some apiAuthenticate\<rparr>"

subsection \<open>The validation of a request\<close>

text \<open>An error that is counted before it is returned.  Without metrics the count is a panic, which the deferred function
  turns into the error.\<close>

definition counted :: "bool \<Rightarrow> goerr \<Rightarrow> goerr + 'a" where
  "counted metrics err = Inl (if metrics then err else Plain nilDeref)"

text \<open>The converted request with its body decompressed, and the path parameters.\<close>

definition apiInput :: "('rq, 'rs) fasthttp \<Rightarrow> ('rq, 'rs) fasthttpMore \<Rightarrow> bool \<Rightarrow> ('f, 'x) customRoute \<Rightarrow> ('rq, 'rs) rctx
    \<Rightarrow> goerr + ('f, 'x) valInput" where
  "apiInput H M metrics cr ctx =
    (case pathParamsOf cr ctx of
       Inl p \<Rightarrow> Inl (Plain p)
     | Inr pathParams \<Rightarrow>
         (case convertRequest M (cx_req ctx) of
            Inl err \<Rightarrow> counted metrics (Wrapped ''request context error'' (Plain err))
          | Inr req \<Rightarrow>
              let enc = rqContentEncoding H (cx_req ctx);
                  input = (\<lambda>r. \<lparr> vi_Req = r, vi_PathParams = pathParams, vi_QueryParams = fst (ParseQuery (hr_RawQuery r)),
                                 vi_Route = cr_Route cr \<rparr>)
              in if enc = [] then Inr (input req)
                 else case GetDecompressedRequestBody H (cx_req ctx) enc of
                   Inl err \<Rightarrow> counted metrics (Wrapped ''request body decompression error'' err)
                 | Inr b \<Rightarrow> Inr (input (req\<lparr>hr_Body := Some (bodyOf b)\<rparr>))))"

text \<open>The first goroutine: its error, and no error after a panic.\<close>

definition valReqErrors :: "('f, 'x) venv \<Rightarrow> ('f, 'x) valInput \<Rightarrow> ('f, 'x) oerr option" where
  "valReqErrors E input =
    (case fst (ValidateRequest E (Some apiModeSecurityRequirementsOptions) input ()) of
       Inl p \<Rightarrow> None
     | Inr (err, _) \<Rightarrow> err)"

text \<open>The second goroutine.\<close>

definition upResults :: "('f, 'x) venv \<Rightarrow> ('f, 'x) valInput \<Rightarrow> upReq \<Rightarrow> RequestUnknownParameterError list \<times> ('f, 'x) oerr option" where
  "upResults E input args =
    (case ValidateUnknownRequestParameters E (vi_Route input) (hr_Header (vi_Req input)) args of
       Inl p \<Rightarrow> ([], None)
     | Inr r \<Rightarrow> r)"

fun reportAll :: "('f, 'x) venv \<Rightarrow> ('f, 'x) kinMore \<Rightarrow> bool \<Rightarrow> ('f, 'x) oerr list \<Rightarrow> goerr + ValidationError list" where
  "reportAll E L metrics [] = Inr []"
| "reportAll E L metrics (err # errs) =
    (case GetErrorResponse (ev_F E) (ev_K E) L err of
       Inl p \<Rightarrow> Inl (Plain p)
     | Inr (Inl unknownErr) \<Rightarrow>
         counted metrics (Wrapped ''request body decode error: unsupported content type'' (Plain (errText (ev_F E) (ev_K E) unknownErr)))
     | Inr (Inr parsed) \<Rightarrow> map_sum id (\<lambda>rs. parsed @ rs) (reportAll E L metrics errs))"

definition errorList :: "('f, 'x) oerr option \<Rightarrow> ('f, 'x) oerr list" where
  "errorList err = (case err of None \<Rightarrow> [] | Some (MultiErr es) \<Rightarrow> es | Some e \<Rightarrow> [e])"

definition unknownErrors :: "RequestUnknownParameterError list \<Rightarrow> ValidationError list" where
  "unknownErrors ups =
    concat (map (\<lambda>u. map (\<lambda>f. fieldError ErrCodeUnknownParameterFound (up_Message u) (rd_Name f) []) (up_Parameters u)) ups)"

definition reportUnknown :: "('f, 'x) venv \<Rightarrow> bool \<Rightarrow> RequestUnknownParameterError list \<times> ('f, 'x) oerr option
    \<Rightarrow> goerr + ValidationError list" where
  "reportUnknown E metrics res =
    (case res of
       (ups, Some err) \<Rightarrow>
         if asParseErr err then Inr (unknownErrors ups)
         else counted metrics (Wrapped ''unknown parameter detection error'' (Plain (errText (ev_F E) (ev_K E) err)))
     | (ups, None) \<Rightarrow> Inr (unknownErrors ups))"

definition APIModeValidateRequest :: "('rq, 'rs) fasthttp \<Rightarrow> ('rq, 'rs) fasthttpMore \<Rightarrow> ('f, 'x) venv \<Rightarrow> ('f, 'x) kinMore \<Rightarrow> bool
    \<Rightarrow> ('f, 'x) customRoute \<Rightarrow> bool \<Rightarrow> ('rq, 'rs) rctx \<Rightarrow> goerr + ValidationError list" where
  "APIModeValidateRequest H M E L metrics cr unknownParametersDetection ctx =
    (case apiInput H M metrics cr ctx of
       Inl err \<Rightarrow> Inl err
     | Inr input \<Rightarrow>
         (case reportAll E L metrics (errorList (valReqErrors E input)) of
            Inl err \<Rightarrow> Inl err
          | Inr respErrors \<Rightarrow>
              if unknownParametersDetection
              then map_sum id (\<lambda>rs. respErrors @ rs) (reportUnknown E metrics (upResults E input (requestArgs M (cx_req ctx))))
              else Inr respErrors))"

subsection \<open>The handlers of a route\<close>

definition keyStatusCode :: "int \<Rightarrow> string" where
  "keyStatusCode schemaID = Itoa schemaID @ APIModePostfixStatusCode"

definition keyValidationErrors :: "int \<Rightarrow> string" where
  "keyValidationErrors schemaID = Itoa schemaID @ APIModePostfixValidationErrors"

text \<open>What both packages keep of a route: the route, the version of the specification, its identifier and the options.\<close>

record ('f, 'x) RequestValidator =
  rv_CustomRoute :: "('f, 'x) customRoute option"
  rv_SchemaVersion :: string
  rv_SchemaID :: int
  rv_UnknownParametersDetection :: bool
  rv_Metrics :: bool

definition notFoundErrors :: "int \<Rightarrow> ValidationError list" where
  "notFoundErrors schemaID = [(plainError ErrCodeMethodAndPathNotFound ErrMethodAndPathNotFound)\<lparr>ve_SchemaID := Some schemaID\<rparr>]"

definition setResult :: "int \<Rightarrow> int \<Rightarrow> ValidationError list \<Rightarrow> ('rq, 'rs) rctx \<Rightarrow> ('rq, 'rs) rctx" where
  "setResult schemaID status errs ctx =
    SetUserValue (keyStatusCode schemaID) (UInt status) (SetUserValue (keyValidationErrors schemaID) (UErrors errs) ctx)"

definition stampErrors :: "('f, 'x) RequestValidator \<Rightarrow> ValidationError list \<Rightarrow> ValidationError list" where
  "stampErrors rv errs = map (\<lambda>r. r\<lparr>ve_SchemaID := Some (rv_SchemaID rv), ve_SchemaVersion := rv_SchemaVersion rv\<rparr>) errs"

text \<open>The handler of the library.\<close>

definition APIModeHandler :: "('rq, 'rs) fasthttp \<Rightarrow> ('rq, 'rs) fasthttpMore \<Rightarrow> ('f, 'x) venv \<Rightarrow> ('f, 'x) kinMore
    \<Rightarrow> ('f, 'x) RequestValidator \<Rightarrow> ('rq, 'rs) handler" where
  "APIModeHandler H M E L rv ctx =
    (case rv_CustomRoute rv of
       None \<Rightarrow> (Ok, setResult (rv_SchemaID rv) 403 (notFoundErrors (rv_SchemaID rv)) ctx)
     | Some cr \<Rightarrow>
         (case APIModeValidateRequest H M E L (rv_Metrics rv) cr (rv_UnknownParametersDetection rv) ctx of
            Inl err \<Rightarrow> (Err err, ctx)
          | Inr errs \<Rightarrow>
              if errs \<noteq> [] then (Ok, setResult (rv_SchemaID rv) 403 (stampErrors rv errs) ctx)
              else (Ok, SetUserValue (keyStatusCode (rv_SchemaID rv)) (UInt 200) ctx)))"

text \<open>The handler of the server logs an error and stores the status 500.\<close>

definition serverHandler :: "('rq, 'rs) fasthttp \<Rightarrow> ('rq, 'rs) fasthttpMore \<Rightarrow> ('f, 'x) venv \<Rightarrow> ('f, 'x) kinMore
    \<Rightarrow> ('f, 'x) RequestValidator \<Rightarrow> ('rq, 'rs) handler" where
  "serverHandler H M E L rv ctx =
    (case rv_CustomRoute rv of
       None \<Rightarrow> (Ok, setResult (rv_SchemaID rv) 403 (notFoundErrors (rv_SchemaID rv)) (logMsg ''method or path were not found'' ctx))
     | Some cr \<Rightarrow>
         (case APIModeValidateRequest H M E L (rv_Metrics rv) cr (rv_UnknownParametersDetection rv) ctx of
            Inl err \<Rightarrow>
              (Ok, SetUserValue (keyStatusCode (rv_SchemaID rv)) (UInt 500) (logMsg ''request validation error'' ctx))
          | Inr errs \<Rightarrow>
              if errs \<noteq> []
              then (Ok, setResult (rv_SchemaID rv) 403 (stampErrors rv errs) (logMsg ''request validation error'' ctx))
              else (Ok, SetUserValue (keyStatusCode (rv_SchemaID rv)) (UInt 200) ctx)))"

subsection \<open>The processing of a request for one specification\<close>

record ValidationResponseSummary =
  vs_SchemaID :: int
  vs_StatusCode :: int

record ValidationResponse =
  vr_Summary :: "ValidationResponseSummary list"
  vr_Errors :: "ValidationError list"

text \<open>\<^verbatim>\<open>SampleSlice\<close>; \<open>perm\<close> is the random permutation.  A negative limit panics.\<close>

definition SampleSlice :: "(nat \<Rightarrow> nat list) \<Rightarrow> 'a list \<Rightarrow> int \<Rightarrow> 'a list result" where
  "SampleSlice perm rawData limit =
    (if int (length rawData) \<le> limit \<or> limit = 0 then Inr rawData
     else if limit < 0 then Inl ''runtime error: slice bounds out of range''
     else Inr (map (\<lambda>idx. rawData ! idx) (take (nat limit) (perm (length rawData)))))"

definition statusOnly :: "int \<Rightarrow> int \<Rightarrow> ValidationResponse" where
  "statusOnly schemaID status = \<lparr> vr_Summary = [\<lparr> vs_SchemaID = schemaID, vs_StatusCode = status \<rparr>], vr_Errors = [] \<rparr>"

type_synonym ('h, 'm) lookupFun = "'m \<Rightarrow> Context \<Rightarrow> string \<Rightarrow> string \<Rightarrow> 'h option \<times> Context"

definition findRouter :: "router_env \<Rightarrow> ('h, 'm) lookupFun \<Rightarrow> (int \<rightharpoonup> ('h, 'm) Mux) \<Rightarrow> int \<Rightarrow> string \<Rightarrow> string
    \<Rightarrow> ('h option \<times> Context) result" where
  "findRouter env sub routers schemaID method path =
    (case routers schemaID of
       None \<Rightarrow> Inl (''router not found: provided schema ID '' @ Itoa schemaID)
     | Some mx \<Rightarrow> Inr (Find env sub mx NewRouteContext method path))"

definition storedErrors :: "int \<Rightarrow> ('rq, 'rs) rctx \<Rightarrow> ValidationError list" where
  "storedErrors schemaID ctx = (case cx_vals ctx (keyValidationErrors schemaID) of Some (UErrors errs) \<Rightarrow> errs | _ \<Rightarrow> [])"

text \<open>The part after the handler returned without an error.\<close>

definition readResult :: "(nat \<Rightarrow> nat list) \<Rightarrow> int \<Rightarrow> int \<Rightarrow> ('rq, 'rs) rctx \<Rightarrow> ValidationResponse \<times> goerr option" where
  "readResult perm schemaID maxErrors ctx =
    (case cx_vals ctx (keyStatusCode schemaID) of
       Some (UInt statusCode) \<Rightarrow>
         (case SampleSlice perm (storedErrors schemaID ctx) maxErrors of
            Inl p \<Rightarrow> (statusOnly schemaID 500, Some (Plain p))
          | Inr errs \<Rightarrow> ((statusOnly schemaID statusCode)\<lparr>vr_Errors := errs\<rparr>, None))
     | _ \<Rightarrow> (statusOnly schemaID 500, Some (Wrapped ''request parsing error'' (Plain ''unknown error while request processing''))))"

definition ProcessRequest :: "('rq, 'rs) fasthttp \<Rightarrow> router_env \<Rightarrow> (('rq, 'rs) handler, 'm) lookupFun \<Rightarrow> (nat \<Rightarrow> nat list)
    \<Rightarrow> (int \<rightharpoonup> (('rq, 'rs) handler, 'm) Mux) \<Rightarrow> bool \<Rightarrow> int \<Rightarrow> int \<Rightarrow> ('rq, 'rs) rctx \<Rightarrow> ValidationResponse \<times> goerr option" where
  "ProcessRequest H env sub perm routers passOptionsRequests maxErrors schemaID ctx =
    (let method = rqMethod H (cx_req ctx) in
     case findRouter env sub routers schemaID method (rqPath H (cx_req ctx)) of
       Inl err \<Rightarrow> (statusOnly schemaID 500, Some (Wrapped ''schema not found'' (Plain err)))
     | Inr (None, _) \<Rightarrow>
         if passOptionsRequests \<and> method = ''OPTIONS'' then (statusOnly schemaID 200, None)
         else ((statusOnly schemaID 403)\<lparr>vr_Errors := notFoundErrors schemaID\<rparr>, None)
     | Inr (Some handler, rctx) \<Rightarrow>
         (case handler (SetUserValue RouteCtxKey (URoute rctx) ctx) of
            (Panic p, _) \<Rightarrow> (statusOnly schemaID 500, Some (Plain p))
          | (Err err, _) \<Rightarrow> (statusOnly schemaID 500, Some (Wrapped ''request parsing error'' err))
          | (Ok, ctx') \<Rightarrow> readResult perm schemaID maxErrors ctx'))"

end
