(* ===== verification/Storage.thy ===== *)
theory Storage
  imports Config Go_HTTP
begin

text \<open>
  The sources of specifications (\<^verbatim>\<open>internal/platform/storage\<close> and \<^verbatim>\<open>loader.ParseOAS\<close>): a file, a URL and a database
  in two versions.  The file system, the network, the database engine and the OpenAPI library are not part of the
  repository; they are the record \<open>world\<close>, whose operations read and change a state \<open>'w\<close>.  Errors that the code
  joins are lists, with the empty list for nil.  A call of \<^verbatim>\<open>log.Fatal\<close> ends the process.
\<close>

subsection \<open>Specifications\<close>

datatype oasErr = OASParsing string | OASValidation string | OASPlain gerror

record ('d, 'w) world =
  loadFromData :: "string \<Rightarrow> 'd result"
  validateOAS :: "'d \<Rightarrow> gerror option"
  statErr :: "'w \<Rightarrow> string \<Rightarrow> (bool \<times> gerror) option"
  openFile :: "'w \<Rightarrow> string \<Rightarrow> string result result"
  clientDo :: "'w \<Rightarrow> string \<Rightarrow> (string \<times> string) list \<Rightarrow> (int \<times> string) result"
  sqlOpen :: "'w \<Rightarrow> string \<Rightarrow> gerror option"
  sqlQuery :: "'w \<Rightarrow> string \<Rightarrow> string \<Rightarrow> (int \<times> string list) list result"
  sqlExec :: "string \<Rightarrow> string \<Rightarrow> 'w \<Rightarrow> gerror option \<times> 'w"

definition oasContext :: "string \<Rightarrow> int \<Rightarrow> string" where
  "oasContext version schemaID =
    '': schema version '' @ [CHR 0x27] @ version @ [CHR 0x27] @ '', schema ID '' @ Itoa schemaID @ '': ''"

definition ParseOAS :: "('d, 'w) world \<Rightarrow> string \<Rightarrow> string \<Rightarrow> int \<Rightarrow> oasErr + 'd" where
  "ParseOAS W schema version schemaID =
    (case loadFromData W schema of
       Inl err \<Rightarrow> Inl (OASParsing (oasContext version schemaID @ err))
     | Inr spec \<Rightarrow>
         (case validateOAS W spec of
            Some err \<Rightarrow> Inl (OASValidation (oasContext version schemaID @ err @ '': ''))
          | None \<Rightarrow> Inr spec))"

subsection \<open>Entries and storages\<close>

record SpecificationEntryV1 =
  en_SchemaID :: int
  en_SchemaVersion :: string
  en_SchemaFormat :: string
  en_SchemaContent :: string

record SpecificationEntryV2 = SpecificationEntryV1 +
  en_Status :: string

record 'd File =
  fl_isReady :: bool
  fl_RawSpec :: string
  fl_OpenAPISpec :: "'d option"

record ('e, 'd) SQLLite =
  sl_isReady :: bool
  sl_RawSpecs :: "(int \<times> 'e) list"
  sl_OpenAPISpec :: "(int \<times> 'd) list"

text \<open>The implementations of the interface \<^verbatim>\<open>DBOpenAPILoader\<close>.  The storages of a file and of a URL differ in where
  \<^verbatim>\<open>Load\<close> reads only.\<close>

datatype 'd DBOpenAPILoader = LFile "'d File" | LURL "'d File"
  | LV1 "(SpecificationEntryV1, 'd) SQLLite" | LV2 "(SpecificationEntryV2, 'd) SQLLite"

subsection \<open>Files and URLs\<close>

text \<open>What loading does: it ends the process, or gives the storage with its errors.\<close>

datatype 's loadResult = Fatal gerror | Loaded 's "oasErr list"

definition parsedFile :: "('d, 'w) world \<Rightarrow> string \<Rightarrow> 'd File loadResult" where
  "parsedFile W rawSpec =
    (case ParseOAS W rawSpec [] 0 of
       Inl err \<Rightarrow> Loaded \<lparr> fl_isReady = True, fl_RawSpec = rawSpec, fl_OpenAPISpec = None \<rparr> [err]
     | Inr spec \<Rightarrow> Loaded \<lparr> fl_isReady = True, fl_RawSpec = rawSpec, fl_OpenAPISpec = Some spec \<rparr> [])"

definition emptyFile :: "'d File" where
  "emptyFile = \<lparr> fl_isReady = False, fl_RawSpec = [], fl_OpenAPISpec = None \<rparr>"

definition NewOpenAPIFromFile :: "('d, 'w) world \<Rightarrow> 'w \<Rightarrow> string \<Rightarrow> 'd File loadResult" where
  "NewOpenAPIFromFile W w path =
    (case statErr W w path of
       Some (True, err) \<Rightarrow> Loaded emptyFile [OASPlain err]
     | _ \<Rightarrow>
         (case openFile W w path of
            Inl err \<Rightarrow> Fatal err
          | Inr (Inl err) \<Rightarrow> Loaded emptyFile [OASPlain err]
          | Inr (Inr rawSpec) \<Rightarrow> parsedFile W rawSpec))"

definition NewOpenAPIFromURL :: "('d, 'w) world \<Rightarrow> 'w \<Rightarrow> string \<Rightarrow> string \<times> string \<Rightarrow> 'd File loadResult" where
  "NewOpenAPIFromURL W w url customHeader =
    (let name = TrimSpace (fst customHeader); value = TrimSpace (snd customHeader)
     in case clientDo W w url ((''User-Agent'', ''Wallarm/API-Firewall'') # (if name \<noteq> [] \<and> value \<noteq> [] then [(name, value)] else [])) of
          Inl err \<Rightarrow> Fatal err
        | Inr (status, rawSpec) \<Rightarrow>
            if status \<noteq> 200 then Fatal (''OAS loading via URL: unexpected status code: '' @ Itoa status)
            else parsedFile W rawSpec)"

text \<open>\<^verbatim>\<open>NewOpenAPIFromFileOrURL\<close>: an error leaves no storage.\<close>

definition NewOpenAPIFromFileOrURL :: "('d, 'w) world \<Rightarrow> 'w \<Rightarrow> string \<Rightarrow> string \<times> string \<Rightarrow> 'd DBOpenAPILoader option loadResult" where
  "NewOpenAPIFromFileOrURL W w specPath header =
    (let done = (\<lambda>wrap r. case r of
            Fatal err \<Rightarrow> Fatal err
          | Loaded f errs \<Rightarrow> Loaded (if errs = [] then Some (wrap f) else None) errs)
     in case URL_ParseRequestURI specPath of
          Inr u \<Rightarrow>
            if u_Scheme u = [] then done LFile (NewOpenAPIFromFile W w specPath)
            else done LURL (NewOpenAPIFromURL W w specPath header)
        | Inl err \<Rightarrow> done LFile (NewOpenAPIFromFile W w specPath))"

subsection \<open>Databases\<close>

definition currentDBPath :: "string \<Rightarrow> int \<Rightarrow> string" where
  "currentDBPath path version = (if path = [] then ''/var/lib/wallarm-api/'' @ Itoa version @ ''/wallarm_api.db'' else path)"

text \<open>The rows of the table as entries: a row that does not have the columns of the query ends the loop with an error.
  Rows with the same identifier replace each other.\<close>

definition scanError :: "string list \<Rightarrow> nat \<Rightarrow> gerror" where
  "scanError cols n = ''sql: expected '' @ itoa (Suc (length cols)) @ '' destination arguments in Scan, not '' @ itoa n"

definition scanV1 :: "int \<times> string list \<Rightarrow> SpecificationEntryV1 result" where
  "scanV1 row =
    (case row of
       (i, [v, f, c]) \<Rightarrow> Inr \<lparr> en_SchemaID = i, en_SchemaVersion = v, en_SchemaFormat = f, en_SchemaContent = c \<rparr>
     | (i, cols) \<Rightarrow> Inl (scanError cols 4))"

definition scanV2 :: "int \<times> string list \<Rightarrow> SpecificationEntryV2 result" where
  "scanV2 row =
    (case row of
       (i, [v, f, c, s]) \<Rightarrow>
         Inr \<lparr> en_SchemaID = i, en_SchemaVersion = v, en_SchemaFormat = f, en_SchemaContent = c, en_Status = s \<rparr>
     | (i, cols) \<Rightarrow> Inl (scanError cols 5))"

fun scanRows :: "(int \<times> string list \<Rightarrow> 'e SpecificationEntryV1_scheme result) \<Rightarrow> (int \<times> string list) list
    \<Rightarrow> (int \<times> 'e SpecificationEntryV1_scheme) list \<Rightarrow> (int \<times> 'e SpecificationEntryV1_scheme) list result" where
  "scanRows scan [] entries = Inr entries"
| "scanRows scan (row # rows) entries =
    (case scan row of Inl err \<Rightarrow> Inl err | Inr e \<Rightarrow> scanRows scan rows (AList.update (en_SchemaID e) e entries))"

definition parseEntry :: "('d, 'w) world \<Rightarrow> int \<times> 'e SpecificationEntryV1_scheme \<Rightarrow> oasErr + 'd" where
  "parseEntry W ie = ParseOAS W (en_SchemaContent (snd ie)) (en_SchemaVersion (snd ie)) (fst ie)"

text \<open>The loop over the entries: an entry that cannot be parsed is deleted.\<close>

definition parsedDB :: "('d, 'w) world \<Rightarrow> (int \<times> 'e SpecificationEntryV1_scheme) list
    \<Rightarrow> ('e SpecificationEntryV1_scheme, 'd) SQLLite \<times> oasErr list" where
  "parsedDB W entries =
    (\<lparr> sl_isReady = True,
       sl_RawSpecs = filter (\<lambda>ie. case parseEntry W ie of Inl _ \<Rightarrow> False | Inr _ \<Rightarrow> True) entries,
       sl_OpenAPISpec = concat (map (\<lambda>ie. case parseEntry W ie of Inl _ \<Rightarrow> [] | Inr spec \<Rightarrow> [(en_SchemaID (snd ie), spec)]) entries) \<rparr>,
     concat (map (\<lambda>ie. case parseEntry W ie of Inl err \<Rightarrow> [err] | Inr _ \<Rightarrow> []) entries))"

definition emptyDB :: "('e, 'd) SQLLite" where
  "emptyDB = \<lparr> sl_isReady = False, sl_RawSpecs = [], sl_OpenAPISpec = [] \<rparr>"

definition loadDB :: "('d, 'w) world \<Rightarrow> (int \<times> string list \<Rightarrow> 'e SpecificationEntryV1_scheme result) \<Rightarrow> string \<Rightarrow> 'w \<Rightarrow> string
    \<Rightarrow> ('e SpecificationEntryV1_scheme, 'd) SQLLite \<times> oasErr list" where
  "loadDB W scan query w path =
    (let failed = (\<lambda>err. (emptyDB, [OASPlain err])) in
     case statErr W w path of
       Some (True, err) \<Rightarrow> failed err
     | _ \<Rightarrow>
         (case sqlOpen W w path of
            Some err \<Rightarrow> failed err
          | None \<Rightarrow>
              (case andThen (sqlQuery W w path query) (\<lambda>rows. scanRows scan rows []) of
                 Inl err \<Rightarrow> failed err
               | Inr entries \<Rightarrow> parsedDB W entries)))"

definition queryV1 :: string where
  "queryV1 = ''select schema_id,schema_version,schema_format,schema_content from openapi_schemas''"

definition queryV2 :: string where
  "queryV2 = ''select schema_id,schema_version,schema_format,schema_content,status from openapi_schemas''"

definition NewOpenAPIDBV1 :: "('d, 'w) world \<Rightarrow> string \<Rightarrow> 'w \<Rightarrow> 'd DBOpenAPILoader \<times> oasErr list" where
  "NewOpenAPIDBV1 W path w = (case loadDB W scanV1 queryV1 w (currentDBPath path 1) of (s, errs) \<Rightarrow> (LV1 s, errs))"

text \<open>\<^verbatim>\<open>AfterLoad\<close> of the second version: the new entries are marked in the database and in the storage.\<close>

definition newIDs :: "(SpecificationEntryV2, 'd) SQLLite \<Rightarrow> string list" where
  "newIDs s = map (Itoa \<circ> fst) (filter (\<lambda>ie. en_Status (snd ie) = ''new'') (sl_RawSpecs s))"

definition updateQuery :: "string list \<Rightarrow> string" where
  "updateQuery ids =
    ''UPDATE openapi_schemas SET status = '' @ [CHR 0x27] @ ''applied'' @ [CHR 0x27] @ '' WHERE schema_id IN ('' @ Join ids '','' @ '')''"

definition setApplied :: "int \<Rightarrow> (SpecificationEntryV2, 'd) SQLLite \<Rightarrow> (SpecificationEntryV2, 'd) SQLLite" where
  "setApplied i s = s\<lparr>sl_RawSpecs := map (\<lambda>ie. if fst ie = i then (i, (snd ie)\<lparr>en_Status := ''applied''\<rparr>) else ie) (sl_RawSpecs s)\<rparr>"

fun markLoop :: "string list \<Rightarrow> (SpecificationEntryV2, 'd) SQLLite \<Rightarrow> gerror option \<times> (SpecificationEntryV2, 'd) SQLLite" where
  "markLoop [] s = (None, s)"
| "markLoop (specId # ids) s = (case Atoi specId of Inl err \<Rightarrow> (Some err, s) | Inr i \<Rightarrow> markLoop ids (setApplied i s))"

definition afterLoadV2 :: "('d, 'w) world \<Rightarrow> string \<Rightarrow> (SpecificationEntryV2, 'd) SQLLite \<Rightarrow> 'w
    \<Rightarrow> gerror option \<times> (SpecificationEntryV2, 'd) SQLLite \<times> 'w" where
  "afterLoadV2 W path0 s w =
    (let path = currentDBPath path0 2 in
     case statErr W w path of
       Some (True, err) \<Rightarrow> (Some err, s, w)
     | _ \<Rightarrow>
         (case sqlOpen W w path of
            Some err \<Rightarrow> (Some err, s, w)
          | None \<Rightarrow>
              if newIDs s = [] then (None, s, w)
              else case sqlExec W path (updateQuery (newIDs s)) w of
                (Some err, w') \<Rightarrow> (Some err, s, w')
              | (None, w') \<Rightarrow> (case markLoop (newIDs s) s of (err, s') \<Rightarrow> (err, s', w'))))"

definition NewOpenAPIDBV2 :: "('d, 'w) world \<Rightarrow> string \<Rightarrow> bool \<Rightarrow> 'w \<Rightarrow> 'd DBOpenAPILoader \<times> oasErr list \<times> 'w" where
  "NewOpenAPIDBV2 W path execAfterLoad w =
    (case loadDB W scanV2 queryV2 w (currentDBPath path 2) of
       (s, errs) \<Rightarrow>
         if \<not> execAfterLoad then (LV2 s, errs, w)
         else case afterLoadV2 W path s w of
           (None, s', w') \<Rightarrow> (LV2 s', errs, w')
         | (Some err, s', w') \<Rightarrow> (LV2 (s'\<lparr>sl_isReady := False\<rparr>), errs @ [OASPlain err], w'))"

definition loadOpenAPIDBVersion :: "('d, 'w) world \<Rightarrow> string \<Rightarrow> int \<Rightarrow> bool \<Rightarrow> 'w \<Rightarrow> 'd DBOpenAPILoader \<times> oasErr list \<times> 'w" where
  "loadOpenAPIDBVersion W path version execAfterLoad w =
    (let v1 = (\<lambda>w'. case NewOpenAPIDBV1 W path w' of (l, errs) \<Rightarrow> (l, errs, w')) in
     if version = 1 then v1 w
     else if version = 2 then NewOpenAPIDBV2 W path execAfterLoad w
     else case NewOpenAPIDBV2 W path execAfterLoad w of
       (l, errs, w') \<Rightarrow> if errs = [] then (l, [], w') else v1 w')"

definition NewOpenAPIDB :: "('d, 'w) world \<Rightarrow> string \<Rightarrow> int \<Rightarrow> 'w \<Rightarrow> 'd DBOpenAPILoader \<times> oasErr list \<times> 'w" where
  "NewOpenAPIDB W path version w = loadOpenAPIDBVersion W path version True w"

definition LoadOpenAPIDB :: "('d, 'w) world \<Rightarrow> string \<Rightarrow> int \<Rightarrow> 'w \<Rightarrow> 'd DBOpenAPILoader \<times> oasErr list \<times> 'w" where
  "LoadOpenAPIDB W path version w = loadOpenAPIDBVersion W path version False w"

subsection \<open>The interface\<close>

definition Specification :: "'d DBOpenAPILoader \<Rightarrow> int \<Rightarrow> 'd option" where
  "Specification l schemaID =
    (case l of
       LFile f \<Rightarrow> fl_OpenAPISpec f
     | LURL f \<Rightarrow> fl_OpenAPISpec f
     | LV1 s \<Rightarrow> map_of (sl_OpenAPISpec s) schemaID
     | LV2 s \<Rightarrow> map_of (sl_OpenAPISpec s) schemaID)"

datatype rawSpec = RawNil | RawText string | RawV1 SpecificationEntryV1 | RawV2 SpecificationEntryV2

definition SpecificationRaw :: "'d DBOpenAPILoader \<Rightarrow> int \<Rightarrow> rawSpec" where
  "SpecificationRaw l schemaID =
    (case l of
       LFile f \<Rightarrow> RawText (fl_RawSpec f)
     | LURL f \<Rightarrow> RawText (fl_RawSpec f)
     | LV1 s \<Rightarrow> (case map_of (sl_RawSpecs s) schemaID of None \<Rightarrow> RawNil | Some e \<Rightarrow> RawV1 e)
     | LV2 s \<Rightarrow> (case map_of (sl_RawSpecs s) schemaID of None \<Rightarrow> RawNil | Some e \<Rightarrow> RawV2 e))"

definition SpecificationRawContent :: "'d DBOpenAPILoader \<Rightarrow> int \<Rightarrow> string" where
  "SpecificationRawContent l schemaID =
    (case SpecificationRaw l schemaID of
       RawNil \<Rightarrow> [] | RawText s \<Rightarrow> s | RawV1 e \<Rightarrow> en_SchemaContent e | RawV2 e \<Rightarrow> en_SchemaContent e)"

definition SpecificationVersion :: "'d DBOpenAPILoader \<Rightarrow> int \<Rightarrow> string" where
  "SpecificationVersion l schemaID =
    (case SpecificationRaw l schemaID of
       RawV1 e \<Rightarrow> en_SchemaVersion e | RawV2 e \<Rightarrow> en_SchemaVersion e | _ \<Rightarrow> [])"

definition IsLoaded :: "'d DBOpenAPILoader \<Rightarrow> int \<Rightarrow> bool" where
  "IsLoaded l schemaID =
    (case l of
       LFile f \<Rightarrow> fl_OpenAPISpec f \<noteq> None
     | LURL f \<Rightarrow> fl_OpenAPISpec f \<noteq> None
     | LV1 s \<Rightarrow> schemaID \<in> fst ` set (sl_OpenAPISpec s)
     | LV2 s \<Rightarrow> schemaID \<in> fst ` set (sl_OpenAPISpec s))"

definition SchemaIDs :: "'d DBOpenAPILoader \<Rightarrow> int list" where
  "SchemaIDs l =
    (case l of
       LV1 s \<Rightarrow> sort (map (en_SchemaID \<circ> snd) (sl_RawSpecs s))
     | LV2 s \<Rightarrow> sort (map (en_SchemaID \<circ> snd) (sl_RawSpecs s))
     | _ \<Rightarrow> [])"

definition IsReady :: "'d DBOpenAPILoader \<Rightarrow> bool" where
  "IsReady l =
    (case l of LFile f \<Rightarrow> fl_isReady f | LURL f \<Rightarrow> fl_isReady f | LV1 s \<Rightarrow> sl_isReady s | LV2 s \<Rightarrow> sl_isReady s)"

definition LoaderVersion :: "'d DBOpenAPILoader \<Rightarrow> nat" where
  "LoaderVersion l = (case l of LV1 _ \<Rightarrow> 1 | LV2 _ \<Rightarrow> 2 | _ \<Rightarrow> 0)"

definition AfterLoad :: "('d, 'w) world \<Rightarrow> string \<Rightarrow> 'd DBOpenAPILoader \<Rightarrow> 'w \<Rightarrow> gerror option \<times> 'd DBOpenAPILoader \<times> 'w" where
  "AfterLoad W path l w =
    (case l of
       LV2 s \<Rightarrow> (case afterLoadV2 W path s w of (err, s', w') \<Rightarrow> (err, LV2 s', w'))
     | _ \<Rightarrow> (None, l, w))"

text \<open>\<^verbatim>\<open>getChecksum\<close> appends the digest of the empty input to its argument.\<close>

definition emptyDigest :: string where
  "emptyDigest = map char_of [227, 176, 196, 66, 152, 252, 28, 20, 154, 251, 244, 200, 153, 111, 185, 36, 39, 174, 65, 228,
     100, 155, 147, 76, 164, 149, 153, 27, 120, 82, 184, 85 :: nat]"

definition getChecksum :: "string \<Rightarrow> string" where
  "getChecksum oasFile = oasFile @ emptyDigest"

definition getSchemaVersions :: "'d DBOpenAPILoader \<Rightarrow> (int \<times> string) set" where
  "getSchemaVersions l = (\<lambda>i. (i, SpecificationVersion l i)) ` set (SchemaIDs l)"

definition changedV2 :: "'d DBOpenAPILoader \<Rightarrow> 'd DBOpenAPILoader \<Rightarrow> int \<Rightarrow> bool" where
  "changedV2 l new i =
    (case SpecificationRaw new i of
       RawV2 e \<Rightarrow> en_Status e = ''new'' \<or> en_SchemaVersion e \<noteq> SpecificationVersion l i
     | _ \<Rightarrow> False)"

definition ShouldUpdate :: "'d DBOpenAPILoader \<Rightarrow> 'd DBOpenAPILoader \<Rightarrow> bool" where
  "ShouldUpdate l new =
    (let byContent = getChecksum (SpecificationRawContent l 0) \<noteq> getChecksum (SpecificationRawContent new 0) in
     case l of
       LFile _ \<Rightarrow> byContent
     | LURL _ \<Rightarrow> byContent
     | LV1 _ \<Rightarrow> getSchemaVersions l \<noteq> getSchemaVersions new
     | LV2 _ \<Rightarrow>
         length (SchemaIDs l) \<noteq> length (SchemaIDs new) \<or>
         (\<exists>i \<in> set (SchemaIDs new). i \<notin> set (SchemaIDs l)) \<or>
         (\<exists>i \<in> set (SchemaIDs new). changedV2 l new i))"

subsection \<open>What a loaded database promises\<close>

definition entries_ok :: "(int \<times> 'e SpecificationEntryV1_scheme) list \<Rightarrow> bool" where
  "entries_ok es \<longleftrightarrow> distinct (map fst es) \<and> (\<forall>ie \<in> set es. en_SchemaID (snd ie) = fst ie)"

definition db_ok :: "('e SpecificationEntryV1_scheme, 'd) SQLLite \<Rightarrow> bool" where
  "db_ok s \<longleftrightarrow> entries_ok (sl_RawSpecs s) \<and> map fst (sl_RawSpecs s) = map fst (sl_OpenAPISpec s)"

definition loader_ok :: "'d DBOpenAPILoader \<Rightarrow> bool" where
  "loader_ok l \<longleftrightarrow> (case l of LV1 s \<Rightarrow> db_ok s | LV2 s \<Rightarrow> db_ok s | _ \<Rightarrow> False)"

lemma set_AList_update: "set (AList.update k v xs) \<subseteq> insert (k, v) (set xs)"
  by (induction xs) auto

lemma entries_ok_update: "entries_ok es \<Longrightarrow> entries_ok (AList.update (en_SchemaID e) e es)"
  unfolding entries_ok_def using set_AList_update[of "en_SchemaID e" e es] by (auto simp: distinct_update)

lemma scanRows_ok: "entries_ok es \<Longrightarrow> scanRows scan rows es = Inr es' \<Longrightarrow> entries_ok es'"
  by (induction rows arbitrary: es) (auto split: sum.splits intro: entries_ok_update)

lemma parsed_keys:
  "\<forall>ie \<in> set xs. en_SchemaID (snd ie) = fst ie \<Longrightarrow>
    map fst (filter (\<lambda>ie. case parseEntry W ie of Inl _ \<Rightarrow> False | Inr _ \<Rightarrow> True) xs) =
    map fst (concat (map (\<lambda>ie. case parseEntry W ie of Inl _ \<Rightarrow> [] | Inr spec \<Rightarrow> [(en_SchemaID (snd ie), spec)]) xs))"
  by (induction xs) (auto split: sum.splits)

lemma parsedDB_ok: "entries_ok es \<Longrightarrow> db_ok (fst (parsedDB W es))"
  unfolding db_ok_def parsedDB_def entries_ok_def by (simp add: parsed_keys[symmetric] distinct_map_filter)

lemma emptyDB_ok [simp]: "db_ok emptyDB"
  by (simp add: db_ok_def emptyDB_def entries_ok_def)

lemma loadDB_ok: "db_ok (fst (loadDB W scan query w path))"
proof -
  have "db_ok (fst (case r of Inl err \<Rightarrow> (emptyDB, [OASPlain err]) | Inr entries \<Rightarrow> parsedDB W entries))"
    if "r = andThen q (\<lambda>rows. scanRows scan rows [])" for r q
  proof (cases r)
    case (Inr es)
    with that obtain rows where "scanRows scan rows [] = Inr es" by (cases q) auto
    then have "entries_ok es" by (rule scanRows_ok[rotated]) (simp add: entries_ok_def)
    then show ?thesis using Inr by (simp add: parsedDB_ok)
  qed simp
  then show ?thesis unfolding loadDB_def Let_def by (auto split: option.split bool.split)
qed

lemma setApplied_keys: "map fst (sl_RawSpecs (setApplied i s)) = map fst (sl_RawSpecs s)"
  by (simp add: setApplied_def)

lemma setApplied_ok: "db_ok s \<Longrightarrow> db_ok (setApplied i s)"
  using setApplied_keys[of i s] unfolding db_ok_def entries_ok_def
  by (simp del: map_map) (auto simp: setApplied_def)

lemma markLoop_ok: "db_ok s \<Longrightarrow> db_ok (snd (markLoop ids s))"
  by (induction ids arbitrary: s) (auto split: sum.split intro: setApplied_ok)

lemma afterLoadV2_ok: "db_ok s \<Longrightarrow> db_ok (fst (snd (afterLoadV2 W path s w)))"
  unfolding afterLoadV2_def Let_def using markLoop_ok[of s "newIDs s"]
  by (auto split: option.split bool.split prod.split)

lemma NewOpenAPIDBV1_ok: "loader_ok (fst (NewOpenAPIDBV1 W path w))"
  unfolding NewOpenAPIDBV1_def loader_ok_def using loadDB_ok[of W scanV1 queryV1 w "currentDBPath path 1"]
  by (simp add: case_prod_beta)

lemma NewOpenAPIDBV2_ok: "loader_ok (fst (NewOpenAPIDBV2 W path execAfterLoad w))"
proof -
  obtain s errs where l: "loadDB W scanV2 queryV2 w (currentDBPath path 2) = (s, errs)" by fastforce
  then have "db_ok s" using loadDB_ok[of W scanV2 queryV2 w "currentDBPath path 2"] by simp
  then have "db_ok (fst (snd (afterLoadV2 W path s w)))" by (rule afterLoadV2_ok)
  then show ?thesis using l \<open>db_ok s\<close> unfolding NewOpenAPIDBV2_def loader_ok_def
    by (auto simp: db_ok_def split: prod.split option.split)
qed

lemma loadOpenAPIDBVersion_ok: "loader_ok (fst (loadOpenAPIDBVersion W path version execAfterLoad w))"
proof -
  have v1: "loader_ok (fst (case NewOpenAPIDBV1 W path w' of (l, errs) \<Rightarrow> (l, errs, w')))" for w'
    using NewOpenAPIDBV1_ok[of W path w'] by (simp add: case_prod_beta)
  show ?thesis
    using v1 NewOpenAPIDBV2_ok[of W path execAfterLoad w] unfolding loadOpenAPIDBVersion_def Let_def
    by (simp add: case_prod_beta)
qed

lemma AfterLoad_ok: "loader_ok l \<Longrightarrow> loader_ok (fst (snd (AfterLoad W path l w)))"
  unfolding AfterLoad_def loader_ok_def using afterLoadV2_ok
  by (auto simp: case_prod_beta split: DBOpenAPILoader.split)

text \<open>The interface as its clients use it: the identifiers that are listed are the ones that are loaded, and each has a
  specification.\<close>

locale spec_source =
  fixes ok :: "'l \<Rightarrow> bool" and ids :: "'l \<Rightarrow> int list" and loaded :: "'l \<Rightarrow> int \<Rightarrow> bool" and spec :: "'l \<Rightarrow> int \<Rightarrow> 'd option"
  assumes ids_distinct: "ok l \<Longrightarrow> distinct (ids l)"
    and ids_loaded: "ok l \<Longrightarrow> i \<in> set (ids l) \<longleftrightarrow> loaded l i"
    and loaded_spec: "ok l \<Longrightarrow> loaded l i \<longleftrightarrow> spec l i \<noteq> None"
begin

lemma listed_spec: "ok l \<Longrightarrow> i \<in> set (ids l) \<Longrightarrow> \<exists>d. spec l i = Some d"
  using ids_loaded loaded_spec by fastforce

lemma unlisted_spec: "ok l \<Longrightarrow> i \<notin> set (ids l) \<Longrightarrow> spec l i = None"
  using ids_loaded loaded_spec by blast

end

lemma entries_ids: "entries_ok es \<Longrightarrow> map (en_SchemaID \<circ> snd) es = map fst es"
  by (simp add: entries_ok_def)

interpretation db: spec_source loader_ok SchemaIDs IsLoaded Specification
proof
  fix l :: "'d DBOpenAPILoader" and i
  assume ok: "loader_ok l"
  have keys: "fst ` set (sl_RawSpecs s) = fst ` set (sl_OpenAPISpec s)" if "db_ok s"
    for s :: "('e SpecificationEntryV1_scheme, 'd) SQLLite"
    using that unfolding db_ok_def by (metis set_map)
  show "distinct (SchemaIDs l)"
    using ok by (cases l) (auto simp: loader_ok_def db_ok_def SchemaIDs_def entries_ids, auto simp: entries_ok_def)
  show "i \<in> set (SchemaIDs l) \<longleftrightarrow> IsLoaded l i"
    using ok keys by (cases l) (auto simp: loader_ok_def db_ok_def SchemaIDs_def entries_ids IsLoaded_def simp del: set_map simp flip: set_map)
  show "IsLoaded l i \<longleftrightarrow> Specification l i \<noteq> None"
    using ok by (cases l) (auto simp: loader_ok_def IsLoaded_def Specification_def map_of_eq_None_iff)
qed

end
