(* ===== verification/API_Firewall.thy ===== *)
theory API_Firewall
  imports API_Mode Storage
begin

text \<open>
  The API mode as a library (\<^verbatim>\<open>pkg/APIMode/apifw.go\<close>, \<^verbatim>\<open>helpers.go\<close>) and as a server (\<^verbatim>\<open>app.go\<close>, \<^verbatim>\<open>routes.go\<close>, \<^verbatim>\<open>health.go\<close>
  and \<^verbatim>\<open>updater.go\<close> of \<^verbatim>\<open>cmd/api-firewall/internal/handlers/api\<close>): the routers of the stored specifications, the
  fan-out of a request over specifications, and the update of the storage.  The goroutines for the
  specifications of a request work on contexts of their own and add their results under a lock; the order in
  which they do so is an argument.  A panic is on the left of the outer sum.
\<close>

subsection \<open>The library\<close>

record Configuration =
  cf_PathToSpecDB :: string
  cf_DBVersion :: int
  cf_UnknownParametersDetection :: bool
  cf_PassOptionsRequests :: bool
  cf_MaxErrorsInResponse :: int
  cf_MetricsEnabled :: bool

definition WithDBVersion :: "int \<Rightarrow> Configuration \<Rightarrow> Configuration" where
  "WithDBVersion dbVersion c = c\<lparr>cf_DBVersion := dbVersion\<rparr>"

definition WithPathToDB :: "string \<Rightarrow> Configuration \<Rightarrow> Configuration" where
  "WithPathToDB path c = c\<lparr>cf_PathToSpecDB := path\<rparr>"

definition WithMaxErrorsInResponse :: "int \<Rightarrow> Configuration \<Rightarrow> Configuration" where
  "WithMaxErrorsInResponse limit c = c\<lparr>cf_MaxErrorsInResponse := limit\<rparr>"

definition DisableUnknownParameters :: "Configuration \<Rightarrow> Configuration" where
  "DisableUnknownParameters c = c\<lparr>cf_UnknownParametersDetection := False\<rparr>"

definition EnablePassOptionsRequests :: "Configuration \<Rightarrow> Configuration" where
  "EnablePassOptionsRequests c = c\<lparr>cf_PassOptionsRequests := True\<rparr>"

definition DisablePassOptionsRequests :: "Configuration \<Rightarrow> Configuration" where
  "DisablePassOptionsRequests c = c\<lparr>cf_PassOptionsRequests := False\<rparr>"

definition EnablePrometheusMetrics :: "Configuration \<Rightarrow> Configuration" where
  "EnablePrometheusMetrics c = c\<lparr>cf_MetricsEnabled := True\<rparr>"

subsection \<open>Errors\<close>

datatype fwErr = ErrSpecValidation "oasErr list" | ErrSpecParsing "oasErr list" | ErrSpecLoading "oasErr list"
  | ErrHandlersInit gerror

definition wrapOASpecErrs :: "oasErr list \<Rightarrow> fwErr" where
  "wrapOASpecErrs errs =
    (if \<exists>e \<in> set errs. case e of OASValidation _ \<Rightarrow> True | _ \<Rightarrow> False then ErrSpecValidation errs
     else if \<exists>e \<in> set errs. case e of OASParsing _ \<Rightarrow> True | _ \<Rightarrow> False then ErrSpecParsing errs
     else ErrSpecLoading errs)"

subsection \<open>The routers of the specifications\<close>

text \<open>\<^verbatim>\<open>NewRouterDBLoader\<close>: the document was validated when it was loaded.\<close>

definition NewRouterDBLoader :: "('f, 'x) document \<Rightarrow> ('f, 'x) customRoute list result" where
  "NewRouterDBLoader doc = NewRouter (\<lambda>d. None) doc False"

text \<open>The base path of a document: \<open>basePath\<close> is \<^verbatim>\<open>Servers.BasePath\<close> of the OpenAPI library, \<^term>\<open>None\<close> for a document without
  servers.\<close>

definition withID :: "int \<Rightarrow> gerror \<Rightarrow> string" where
  "withID schemaID err = ''specification with ID '' @ Itoa schemaID @ '': '' @ err"

definition serverPath :: "(('f, 'x) document \<Rightarrow> string result option) \<Rightarrow> int \<Rightarrow> ('f, 'x) document \<Rightarrow> string result" where
  "serverPath basePath schemaID doc =
    andThen (case basePath doc of
               None \<Rightarrow> Inr ''/''
             | Some r \<Rightarrow> map_sum (\<lambda>err. ''getting server URL from OpenAPI '' @ withID schemaID err) id r)
      (\<lambda>s. map_sum (\<lambda>err. ''parsing server URL from OpenAPI '' @ withID schemaID err)
             (\<lambda>u. if u_Path u = [] then ''/'' else u_Path u) (URL_Parse s))"

fun addRoutes :: "router_env \<Rightarrow> int \<Rightarrow> (('f, 'x) customRoute \<Rightarrow> ('rq, 'rs) handler) \<Rightarrow> string \<Rightarrow> ('f, 'x) customRoute list
    \<Rightarrow> (('rq, 'rs) handler, 'm) Mux \<Rightarrow> (('rq, 'rs) handler, 'm) Mux result" where
  "addRoutes env schemaID h base [] mx = Inr mx"
| "addRoutes env schemaID h base (cr # crs) mx =
    (case JoinPath base (cr_Path cr) of
       Inl err \<Rightarrow> Inl (''join path error for route '' @ cr_Path cr @ '' in '' @ withID schemaID err)
     | Inr esc \<Rightarrow>
         (case PathUnescape esc of
            Inl err \<Rightarrow> Inl (''path unescape error for route '' @ cr_Path cr @ '' in '' @ withID schemaID err)
          | Inr path \<Rightarrow>
              (case AddEndpoint env mx (cr_Method cr) path (Some (h cr)) of
                 (_, Some err) \<Rightarrow>
                   Inl (''the OAS endpoint registration failed: method '' @ cr_Method cr @ '', path '' @ path @ '': '' @ err)
               | (mx', None) \<Rightarrow> addRoutes env schemaID h base crs mx')))"

definition validatorOf :: "Configuration \<Rightarrow> bool \<Rightarrow> string \<Rightarrow> int \<Rightarrow> ('f, 'x) customRoute \<Rightarrow> ('f, 'x) RequestValidator" where
  "validatorOf options metrics version schemaID cr =
    \<lparr> rv_CustomRoute = Some cr, rv_SchemaVersion = version, rv_SchemaID = schemaID,
      rv_UnknownParametersDetection = cf_UnknownParametersDetection options, rv_Metrics = metrics \<rparr>"

text \<open>\<open>mkHandler\<close> makes the handler of a route from its validator.  A specification that is missing is a panic.\<close>

type_synonym ('f, 'x, 'rq, 'rs) makeHandler = "('f, 'x) RequestValidator \<Rightarrow> ('rq, 'rs) handler"

definition routerFor :: "router_env \<Rightarrow> (('f, 'x) document \<Rightarrow> string result option) \<Rightarrow> ('f, 'x, 'rq, 'rs) makeHandler \<Rightarrow> Configuration
    \<Rightarrow> bool \<Rightarrow> ('f, 'x) document DBOpenAPILoader \<Rightarrow> int \<Rightarrow> (('rq, 'rs) handler, 'm) Mux result result" where
  "routerFor env basePath mkHandler options metrics l schemaID =
    (case Specification l schemaID of
       None \<Rightarrow> Inl nilDeref
     | Some doc \<Rightarrow> Inr (andThen (serverPath basePath schemaID doc) (\<lambda>base.
         andThen (map_sum (\<lambda>err. ''new router creation failed for '' @ withID schemaID err) id (NewRouterDBLoader doc)) (\<lambda>crs.
           addRoutes env schemaID (\<lambda>cr. mkHandler (validatorOf options metrics (SpecificationVersion l schemaID) schemaID cr)) base crs NewMux))))"

fun getRoutersLoop :: "(int \<Rightarrow> 'mx result result) \<Rightarrow> int list \<Rightarrow> (int \<rightharpoonup> 'mx) \<Rightarrow> (int \<rightharpoonup> 'mx) result result" where
  "getRoutersLoop f [] routers = Inr (Inr routers)"
| "getRoutersLoop f (i # is) routers =
    (case f i of
       Inl p \<Rightarrow> Inl p
     | Inr (Inl err) \<Rightarrow> Inr (Inl err)
     | Inr (Inr mx) \<Rightarrow> getRoutersLoop f is (routers(i \<mapsto> mx)))"

definition getRouters :: "router_env \<Rightarrow> (('f, 'x) document \<Rightarrow> string result option) \<Rightarrow> ('f, 'x, 'rq, 'rs) makeHandler \<Rightarrow> Configuration
    \<Rightarrow> bool \<Rightarrow> ('f, 'x) document DBOpenAPILoader \<Rightarrow> (int \<rightharpoonup> (('rq, 'rs) handler, 'm) Mux) result result" where
  "getRouters env basePath mkHandler options metrics l =
    getRoutersLoop (routerFor env basePath mkHandler options metrics l) (SchemaIDs l) Map.empty"

subsection \<open>The firewall\<close>

record ('rq, 'rs, 'm, 'd) APIFWModeAPI =
  fw_routers :: "int \<rightharpoonup> (('rq, 'rs) handler, 'm) Mux"
  fw_specsStorage :: "'d DBOpenAPILoader"
  fw_metrics :: bool
  fw_options :: Configuration

text \<open>\<^verbatim>\<open>NewAPIFirewall\<close>; \<open>parsed\<close> is the configuration from the environment.  The routers are built before the metrics.\<close>

definition NewAPIFirewall :: "router_env \<Rightarrow> (('f, 'x) document \<Rightarrow> string result option) \<Rightarrow> ('f, 'x, 'rq, 'rs) makeHandler
    \<Rightarrow> (('f, 'x) document, 'w) world \<Rightarrow> Configuration result \<Rightarrow> (Configuration \<Rightarrow> Configuration) list \<Rightarrow> 'w
    \<Rightarrow> (gerror + ('rq, 'rs, 'm, ('f, 'x) document) APIFWModeAPI \<times> fwErr list) result \<times> 'w" where
  "NewAPIFirewall env basePath mkHandler W parsed opts w =
    (case parsed of
       Inl err \<Rightarrow> (Inr (Inl (''parsing config: '' @ err)), w)
     | Inr cfg \<Rightarrow>
         let options = fold (\<lambda>opt. opt) opts cfg in
         case NewOpenAPIDB W (cf_PathToSpecDB options) (cf_DBVersion options) w of
           (l, loadErrs, w') \<Rightarrow>
             let errs = (if loadErrs = [] then [] else [wrapOASpecErrs loadErrs]);
                 fw = (\<lambda>routers. \<lparr> fw_routers = routers, fw_specsStorage = l, fw_metrics = True, fw_options = options \<rparr>)
             in (case getRouters env basePath mkHandler options False l of
                   Inl p \<Rightarrow> Inl p
                 | Inr (Inl err) \<Rightarrow> Inr (Inr (fw Map.empty, errs @ [ErrHandlersInit err]))
                 | Inr (Inr routers) \<Rightarrow> Inr (Inr (fw routers, errs)), w'))"

definition versionLower :: fwErr where
  "versionLower = ErrSpecLoading [OASPlain ''version of the new DB structure is lower then current one (V2)'']"

text \<open>\<^verbatim>\<open>UpdateSpecsStorage\<close>: the identifiers, whether there was an update, and the error.\<close>

definition UpdateSpecsStorage :: "router_env \<Rightarrow> (('f, 'x) document \<Rightarrow> string result option) \<Rightarrow> ('f, 'x, 'rq, 'rs) makeHandler
    \<Rightarrow> (('f, 'x) document, 'w) world \<Rightarrow> ('rq, 'rs, 'm, ('f, 'x) document) APIFWModeAPI \<Rightarrow> 'w
    \<Rightarrow> (int list \<times> bool \<times> fwErr option) result \<times> ('rq, 'rs, 'm, ('f, 'x) document) APIFWModeAPI \<times> 'w" where
  "UpdateSpecsStorage env basePath mkHandler W a w =
    (let path = cf_PathToSpecDB (fw_options a); old = fw_specsStorage a;
         done = (\<lambda>updated err a'. (Inr (SchemaIDs (fw_specsStorage a'), updated, err), a'))
     in case NewOpenAPIDB W path (cf_DBVersion (fw_options a)) w of
          (new, errs, w') \<Rightarrow>
            if errs \<noteq> [] then case done False (Some (wrapOASpecErrs errs)) a of (r, a') \<Rightarrow> (r, a', w')
            else if LoaderVersion old > LoaderVersion new then case done False (Some versionLower) a of (r, a') \<Rightarrow> (r, a', w')
            else if \<not> ShouldUpdate old new then case done False None a of (r, a') \<Rightarrow> (r, a', w')
            else case getRouters env basePath mkHandler (fw_options a) (fw_metrics a) new of
              Inl p \<Rightarrow> (Inl p, a, w')
            | Inr (Inl err) \<Rightarrow> (case done False (Some (ErrHandlersInit err)) a of (r, a') \<Rightarrow> (r, a', w'))
            | Inr (Inr routers) \<Rightarrow>
                (case AfterLoad W path new w' of
                   (err, new', w'') \<Rightarrow>
                     (case done True (map_option (\<lambda>e. wrapOASpecErrs [OASPlain e]) err)
                             (a\<lparr>fw_routers := routers, fw_specsStorage := new'\<rparr>) of (r, a') \<Rightarrow> (r, a', w''))))"

subsection \<open>The fan-out over specifications\<close>

text \<open>What the server library provides: a context for a request, the request from its parts, a request read from a
  stream, and three operations on messages.\<close>

record ('rq, 'rs, 'r) fasthttpAPI =
  newCtx :: "'rq \<Rightarrow> ('rq, 'rs) rctx"
  buildRequest :: "string \<Rightarrow> string \<Rightarrow> string \<Rightarrow> (string \<times> string list) list \<Rightarrow> 'rq"
  readRequest :: "'r \<Rightarrow> 'rq result \<times> 'r"
  rsResetHeader :: "'rs \<Rightarrow> 'rs"
  rqSetMethod :: "string \<Rightarrow> 'rq \<Rightarrow> 'rq"

type_synonym processed = "ValidationResponse \<times> goerr option"

text \<open>The results in the order in which the goroutines add them; the errors are joined.\<close>

definition mergeResults :: "processed list \<Rightarrow> ValidationResponse \<times> goerr list" where
  "mergeResults rs =
    (\<lparr> vr_Summary = concat (map (vr_Summary \<circ> fst) rs), vr_Errors = concat (map (vr_Errors \<circ> fst) rs) \<rparr>,
     concat (map (\<lambda>r. case snd r of None \<Rightarrow> [] | Some e \<Rightarrow> [e]) rs))"

definition fwProcess :: "('rq, 'rs) fasthttp \<Rightarrow> router_env \<Rightarrow> (('rq, 'rs) handler, 'm) lookupFun \<Rightarrow> (nat \<Rightarrow> nat list)
    \<Rightarrow> ('rq, 'rs, 'm, 'd) APIFWModeAPI \<Rightarrow> int \<Rightarrow> ('rq, 'rs) rctx \<Rightarrow> processed" where
  "fwProcess H env sub perm a = ProcessRequest H env sub perm (fw_routers a) (cf_PassOptionsRequests (fw_options a))
     (cf_MaxErrorsInResponse (fw_options a))"

definition fwValidateRequest :: "('rq, 'rs) fasthttp \<Rightarrow> ('rq, 'rs, 'r) fasthttpAPI \<Rightarrow> router_env \<Rightarrow> (('rq, 'rs) handler, 'm) lookupFun
    \<Rightarrow> (nat \<Rightarrow> nat list) \<Rightarrow> (processed list \<Rightarrow> processed list) \<Rightarrow> ('rq, 'rs, 'm, 'd) APIFWModeAPI \<Rightarrow> int list
    \<Rightarrow> string \<Rightarrow> string \<Rightarrow> string \<Rightarrow> (string \<times> string list) list \<Rightarrow> ValidationResponse \<times> goerr list" where
  "fwValidateRequest H B env sub perm order a schemaIDs uri method body headers =
    mergeResults (order (map (\<lambda>sID. fwProcess H env sub perm a sID (newCtx B (buildRequest B uri method body headers))) schemaIDs))"

text \<open>From a stream: every specification reads a request of its own.\<close>

fun readResults :: "('rq, 'rs, 'r) fasthttpAPI \<Rightarrow> (int \<Rightarrow> ('rq, 'rs) rctx \<Rightarrow> processed) \<Rightarrow> int list \<Rightarrow> 'r \<Rightarrow> processed list" where
  "readResults B process [] r = []"
| "readResults B process (sID # sIDs) r =
    (case readRequest B r of
       (Inl err, r') \<Rightarrow> (statusOnly sID 500, Some (Wrapped ''request parsing error'' (Plain err))) # readResults B process sIDs r'
     | (Inr req, r') \<Rightarrow> process sID (newCtx B req) # readResults B process sIDs r')"

definition ValidateRequestFromReader :: "('rq, 'rs) fasthttp \<Rightarrow> ('rq, 'rs, 'r) fasthttpAPI \<Rightarrow> router_env
    \<Rightarrow> (('rq, 'rs) handler, 'm) lookupFun \<Rightarrow> (nat \<Rightarrow> nat list) \<Rightarrow> (processed list \<Rightarrow> processed list)
    \<Rightarrow> ('rq, 'rs, 'm, 'd) APIFWModeAPI \<Rightarrow> int list \<Rightarrow> 'r \<Rightarrow> ValidationResponse \<times> goerr list" where
  "ValidateRequestFromReader H B env sub perm order a schemaIDs r =
    mergeResults (order (readResults B (fwProcess H env sub perm a) schemaIDs r))"

subsection \<open>The server\<close>

record ('rq, 'rs, 'm, 'd) apiApp =
  aa_Routers :: "int \<rightharpoonup> (('rq, 'rs) handler, 'm) Mux"
  aa_passOPTIONS :: bool
  aa_maxErrorsInResponse :: int
  aa_mw :: "('rq, 'rs) middleware option list"
  aa_storedSpecs :: "'d DBOpenAPILoader"

definition NewApiApp :: "bool \<Rightarrow> int \<Rightarrow> 'd DBOpenAPILoader \<Rightarrow> ('rq, 'rs) middleware option list \<Rightarrow> ('rq, 'rs, 'm, 'd) apiApp" where
  "NewApiApp passOPTIONS maxErrors storedSpecs mw =
    \<lparr> aa_Routers = map_of (map (\<lambda>i. (i, NewMux)) (SchemaIDs storedSpecs)), aa_passOPTIONS = passOPTIONS,
      aa_maxErrorsInResponse = maxErrors, aa_mw = mw, aa_storedSpecs = storedSpecs \<rparr>"

text \<open>\<^verbatim>\<open>Handle\<close>: a missing router is a panic.\<close>

definition apiHandle :: "router_env \<Rightarrow> ('rq, 'rs, 'm, 'd) apiApp \<Rightarrow> int \<Rightarrow> string \<Rightarrow> string \<Rightarrow> ('rq, 'rs) handler
    \<Rightarrow> ('rq, 'rs) middleware option list \<Rightarrow> (('rq, 'rs, 'm, 'd) apiApp \<times> gerror option) result" where
  "apiHandle env a schemaID method path handler mw =
    (case aa_Routers a schemaID of
       None \<Rightarrow> Inl nilDeref
     | Some mx \<Rightarrow>
         (case AddEndpoint env mx method path (Some (endpointHandler (aa_mw a) mw handler)) of
            (mx', err) \<Rightarrow> Inr (a\<lparr>aa_Routers := (aa_Routers a)(schemaID \<mapsto> mx')\<rparr>, err)))"

text \<open>\<^verbatim>\<open>getWallarmSchemaID\<close>: the identifiers that are loaded, without repetitions and in the order \<open>order\<close> in which the map
  is visited, and those that are not.\<close>

fun schemaIDLoop :: "(int \<Rightarrow> bool) \<Rightarrow> string list \<Rightarrow> int list \<Rightarrow> int list \<Rightarrow> (int list \<times> int list) result" where
  "schemaIDLoop loaded [] hits misses = Inr (hits, misses)"
| "schemaIDLoop loaded (s # ss) hits misses =
    (case Atoi (TrimSpace s) of
       Inl err \<Rightarrow> Inl (''error parsing  value: '' @ err)
     | Inr i \<Rightarrow>
         if \<not> loaded i then schemaIDLoop loaded ss hits (misses @ [i])
         else schemaIDLoop loaded ss (if i \<in> set hits then hits else hits @ [i]) misses)"

definition getWallarmSchemaID :: "('rq, 'rs) fasthttp \<Rightarrow> (int list \<Rightarrow> int list) \<Rightarrow> 'd DBOpenAPILoader \<Rightarrow> 'rq \<Rightarrow> (int list \<times> int list) result" where
  "getWallarmSchemaID H order storedSpecs req =
    (let hdr = (case rqPeek H XWallarmSchemaIDHeader req of None \<Rightarrow> [] | Some v \<Rightarrow> v) in
     if \<not> IsReady storedSpecs then Inl ''DB with schemas has not loaded''
     else if hdr = [] then Inl ''required X-WALLARM-SCHEMA-ID header is missing''
     else map_sum id (\<lambda>(hits, misses). (order hits, misses)) (schemaIDLoop (IsLoaded storedSpecs) (Split hdr '','') [] []))"

text \<open>The first loop of \<^verbatim>\<open>APIModeMainHandler\<close>: the handlers of the specifications.\<close>

definition validateFor :: "('rq, 'rs) fasthttp \<Rightarrow> router_env \<Rightarrow> (('rq, 'rs) handler, 'm) lookupFun \<Rightarrow> ('rq, 'rs, 'm, 'd) apiApp \<Rightarrow> int
    \<Rightarrow> ('rq, 'rs) handler" where
  "validateFor H env sub a schemaID ctx0 =
    (let ctx = SetUserValue RequestSchemaID (UStr (Itoa schemaID)) ctx0; method = rqMethod H (cx_req ctx) in
     case aa_Routers a schemaID of
       None \<Rightarrow> (Panic nilDeref, ctx)
     | Some mx \<Rightarrow>
         (case Find env sub mx NewRouteContext method (rqPath H (cx_req ctx)) of
            (None, _) \<Rightarrow>
              (Ok, if aa_passOPTIONS a \<and> method = ''OPTIONS''
                   then logMsg ''pass request with OPTIONS method'' (SetUserValue (keyStatusCode schemaID) (UInt 200) ctx)
                   else setResult schemaID 403 (notFoundErrors schemaID) (logMsg ''method or path were not found'' ctx))
          | (Some handler, rctx) \<Rightarrow>
              (case handler (SetUserValue RouteCtxKey (URoute rctx) ctx) of
                 (Err err, ctx') \<Rightarrow> (Ok, logMsg ''error in the request handler'' ctx')
               | r \<Rightarrow> r)))"

fun validateLoop :: "(int \<Rightarrow> ('rq, 'rs) handler) \<Rightarrow> int list \<Rightarrow> ('rq, 'rs) handler" where
  "validateLoop f [] ctx = (Ok, ctx)"
| "validateLoop f (i # is) ctx =
    (case f i ctx of (Panic p, ctx') \<Rightarrow> (Panic p, ctx') | (_, ctx') \<Rightarrow> validateLoop f is ctx')"

text \<open>The second loop: \<^term>\<open>Inl\<close> is the status that a guard set for the whole request.\<close>

primrec summaryLoop :: "('rq, 'rs) fasthttp \<Rightarrow> ('rq, 'rs, 'r) fasthttpAPI \<Rightarrow> bool \<Rightarrow> int list \<Rightarrow> ValidationResponse \<Rightarrow> ('rq, 'rs) rctx
    \<Rightarrow> (int + ValidationResponse) \<times> ('rq, 'rs) rctx" where
  "summaryLoop H B passOPTIONS [] resp ctx = (Inr resp, ctx)"
| "summaryLoop H B passOPTIONS (i # is) resp ctx =
    (case cx_vals ctx GlobalResponseStatusCodeKey of
       Some (UInt statusCode) \<Rightarrow> (Inl statusCode, ctx)
     | _ \<Rightarrow>
         let add = (\<lambda>status. resp\<lparr>vr_Summary := vr_Summary resp @ [\<lparr>vs_SchemaID = i, vs_StatusCode = status\<rparr>]\<rparr>);
             errs = (\<lambda>r. r\<lparr>vr_Errors := vr_Errors r @ storedErrors i ctx\<rparr>)
         in case cx_vals ctx (keyStatusCode i) of
              Some (UInt status) \<Rightarrow> summaryLoop H B passOPTIONS is (errs (add status)) ctx
            | _ \<Rightarrow>
                if passOPTIONS \<and> rqMethod H (cx_req ctx) = ''OPTIONS'' then summaryLoop H B passOPTIONS is (add 200) ctx
                else summaryLoop H B passOPTIONS is (errs (add 500)) (onResp (rsResetHeader B) ctx))"

definition withNotFound :: "int list \<Rightarrow> ValidationResponse \<Rightarrow> ValidationResponse" where
  "withNotFound notFound resp = resp\<lparr>vr_Summary := vr_Summary resp @ map (\<lambda>i. \<lparr>vs_SchemaID = i, vs_StatusCode = 500\<rparr>) notFound\<rparr>"

text \<open>The end of the handler: the answer is written with the status 200.  \<open>marshal\<close> is \<^verbatim>\<open>json.Marshal\<close>.\<close>

definition sendAnswer :: "('rq, 'rs) fasthttp \<Rightarrow> ('rq, 'rs, 'r) fasthttpAPI \<Rightarrow> (nat \<Rightarrow> nat list) \<Rightarrow> (ValidationResponse \<Rightarrow> goerr + string)
    \<Rightarrow> int \<Rightarrow> ValidationResponse \<Rightarrow> ('rq, 'rs) rctx \<Rightarrow> ('rq, 'rs) rctx" where
  "sendAnswer H B perm marshal maxErrors resp ctx =
    (let ctx1 = onResp (rsDel H ''Allow'') ctx;
         ctx2 = (if rqMethod H (cx_req ctx1) = ''HEAD'' then onReq (rqSetMethod B ''GET'') ctx1 else ctx1)
     in case SampleSlice perm (vr_Errors resp) maxErrors of
          Inl p \<Rightarrow> logMsg (''panic: '' @ p) ctx2
        | Inr errs \<Rightarrow>
            (case Respond H (marshal (resp\<lparr>vr_Errors := errs\<rparr>)) 200 ctx2 of
               (Err err, ctx3) \<Rightarrow> logMsg ''respond error'' ctx3
             | (_, ctx3) \<Rightarrow> ctx3))"

definition APIModeMainHandler :: "('rq, 'rs) fasthttp \<Rightarrow> ('rq, 'rs, 'r) fasthttpAPI \<Rightarrow> router_env \<Rightarrow> (('rq, 'rs) handler, 'm) lookupFun
    \<Rightarrow> (nat \<Rightarrow> nat list) \<Rightarrow> (int list \<Rightarrow> int list) \<Rightarrow> (ValidationResponse \<Rightarrow> goerr + string) \<Rightarrow> string
    \<Rightarrow> ('rq, 'rs, 'm, 'd) apiApp \<Rightarrow> ('rq, 'rs) rctx \<Rightarrow> ('rq, 'rs) rctx" where
  "APIModeMainHandler H B env sub perm order marshal uuid a ctx0 =
    (let ctx = SetUserValue RequestID (UStr uuid) ctx0 in
     case getWallarmSchemaID H order (aa_storedSpecs a) (cx_req ctx) of
       Inl err \<Rightarrow> snd (RespondError H 500 [] (logMsg ''error while getting schema ID'' ctx))
     | Inr (schemaIDs, notFound) \<Rightarrow>
         (case validateLoop (validateFor H env sub a) schemaIDs (onReq (rqDel H XWallarmSchemaIDHeader) ctx) of
            (Panic p, ctx1) \<Rightarrow> logMsg (''panic: '' @ p) ctx1
          | (_, ctx1) \<Rightarrow>
              (case summaryLoop H B (aa_passOPTIONS a) schemaIDs \<lparr> vr_Summary = [], vr_Errors = [] \<rparr> ctx1 of
                 (Inl status, ctx2) \<Rightarrow> onResp (rsSetStatus H status \<circ> rsResetHeader B) ctx2
               | (Inr resp, ctx2) \<Rightarrow>
                   sendAnswer H B perm marshal (aa_maxErrorsInResponse a) (withNotFound notFound resp) ctx2)))"

subsection \<open>The routes of the server\<close>

record apiGuards =
  ag_PassOptionsRequests :: bool
  ag_MaxErrorsInResponse :: int
  ag_UnknownParametersDetection :: bool

text \<open>The middlewares, outermost first; \<open>detectReader\<close> and \<open>detect\<close> are the library that recognises content types.\<close>

definition apiMiddlewares :: "('rq, 'rs) fasthttp \<Rightarrow> (string \<times> goerr option \<Rightarrow> goerr + string) \<Rightarrow> (string \<Rightarrow> string)
    \<Rightarrow> 'c ristretto \<Rightarrow> 'c IPAllowListOptions \<Rightarrow> 'tx coraza option \<Rightarrow> ('rq, 'rs) middleware option list" where
  "apiMiddlewares H detectReader detect C allow waf =
    map Some [IPAllowlist C H (allow\<lparr>al_Mode := APIMode, al_CustomBlockStatusCode := 403\<rparr>),
      WAFModSecurity H \<lparr> ms_Mode = APIMode, ms_WAF = waf, ms_RequestValidation = [], ms_ResponseValidation = [],
        ms_CustomBlockStatusCode = 0 \<rparr>,
      Logger, MIMETypeIdentifier H detectReader detect, Errors H, Panics]"

text \<open>The loop over the routes of a specification: errors are logged and the route is left out.\<close>

fun apiRegister :: "router_env \<Rightarrow> (('f, 'x) customRoute \<Rightarrow> ('rq, 'rs) handler) \<Rightarrow> int \<Rightarrow> string \<Rightarrow> ('f, 'x) customRoute list
    \<Rightarrow> ('rq, 'rs, 'm, 'd) apiApp \<Rightarrow> ('rq, 'rs, 'm, 'd) apiApp result" where
  "apiRegister env h schemaID base [] a = Inr a"
| "apiRegister env h schemaID base (cr # crs) a =
    (case andThen (JoinPath base (cr_Path cr)) PathUnescape of
       Inl err \<Rightarrow> apiRegister env h schemaID base crs a
     | Inr path \<Rightarrow>
         (case apiHandle env a schemaID (cr_Method cr) path (h cr) [] of
            Inl p \<Rightarrow> Inl p
          | Inr (a', _) \<Rightarrow> apiRegister env h schemaID base crs a'))"

text \<open>The base path of a specification: an error of the library leaves the empty text, a URL that cannot be parsed is
  dereferenced all the same.\<close>

definition apiServerPath :: "(('f, 'x) document \<Rightarrow> string result option) \<Rightarrow> ('f, 'x) document \<Rightarrow> string result" where
  "apiServerPath basePath doc =
    (case URL_Parse (case basePath doc of None \<Rightarrow> ''/'' | Some (Inl err) \<Rightarrow> [] | Some (Inr p) \<Rightarrow> p) of
       Inl err \<Rightarrow> Inl nilDeref
     | Inr u \<Rightarrow> Inr (if u_Path u = [] then ''/'' else u_Path u))"

definition registerSpec :: "router_env \<Rightarrow> (('f, 'x) document \<Rightarrow> string result option) \<Rightarrow> ('f, 'x, 'rq, 'rs) makeHandler \<Rightarrow> apiGuards
    \<Rightarrow> ('f, 'x) document DBOpenAPILoader \<Rightarrow> int \<Rightarrow> ('rq, 'rs, 'm, ('f, 'x) document) apiApp
    \<Rightarrow> ('rq, 'rs, 'm, ('f, 'x) document) apiApp result" where
  "registerSpec env basePath mkHandler g l schemaID a =
    (case Specification l schemaID of
       None \<Rightarrow> Inl nilDeref
     | Some doc \<Rightarrow>
         andThen (apiServerPath basePath doc) (\<lambda>base.
           andThen (NewRouterDBLoader doc) (\<lambda>crs.
             apiRegister env (\<lambda>cr. mkHandler \<lparr> rv_CustomRoute = Some cr, rv_SchemaVersion = SpecificationVersion l schemaID,
                 rv_SchemaID = schemaID, rv_UnknownParametersDetection = ag_UnknownParametersDetection g, rv_Metrics = True \<rparr>)
               schemaID base crs a)))"

fun registerSpecs :: "(int \<Rightarrow> 'a \<Rightarrow> 'a result) \<Rightarrow> int list \<Rightarrow> 'a \<Rightarrow> 'a result" where
  "registerSpecs f [] a = Inr a"
| "registerSpecs f (i # is) a = andThen (f i a) (registerSpecs f is)"

text \<open>\<^verbatim>\<open>Handlers\<close>: a panic is recovered and leaves no handler.\<close>

definition apiHandlers :: "router_env \<Rightarrow> (('f, 'x) document \<Rightarrow> string result option) \<Rightarrow> ('f, 'x, 'rq, 'rs) makeHandler \<Rightarrow> apiGuards
    \<Rightarrow> ('rq, 'rs) middleware option list \<Rightarrow> ('f, 'x) document DBOpenAPILoader \<Rightarrow> ('rq, 'rs, 'm, ('f, 'x) document) apiApp option" where
  "apiHandlers env basePath mkHandler g mw l =
    (case registerSpecs (registerSpec env basePath mkHandler g l) (SchemaIDs l)
            (NewApiApp (ag_PassOptionsRequests g) (ag_MaxErrorsInResponse g) l mw) of
       Inl p \<Rightarrow> None
     | Inr a \<Rightarrow> Some a)"

subsection \<open>Health and updates\<close>

definition apiReadiness :: "('rq, 'rs) fasthttp \<Rightarrow> 'd DBOpenAPILoader \<Rightarrow> ('rq, 'rs) handler" where
  "apiReadiness H db ctx =
    Respond H (Inr (statusJSON (if IsReady db then ''ok'' else ''not ready''))) (if IsReady db then 200 else 500) ctx"

text \<open>The state of the updater: the storage, the handler of the server and the storage that the health endpoint looks at.\<close>

record ('d, 'h) apiSpecState =
  as_Storage :: "'d DBOpenAPILoader"
  as_Handler :: "'h option"
  as_Health :: "'d DBOpenAPILoader"

text \<open>One tick of \<^verbatim>\<open>Run\<close>: the entries are marked only after the decision to update.  The storage is shared by pointer, so
  all three fields see the marks.\<close>

definition apiUpdateTick :: "('d, 'w) world \<Rightarrow> string \<Rightarrow> int \<Rightarrow> ('d DBOpenAPILoader \<Rightarrow> 'h option) \<Rightarrow> ('d, 'h) apiSpecState \<Rightarrow> 'w
    \<Rightarrow> ('d, 'h) apiSpecState \<times> 'w" where
  "apiUpdateTick W path version handlers s w =
    (case LoadOpenAPIDB W path version w of
       (new, errs, w') \<Rightarrow>
         if errs \<noteq> [] \<or> LoaderVersion (as_Storage s) > LoaderVersion new \<or> \<not> ShouldUpdate (as_Storage s) new then (s, w')
         else case AfterLoad W path new w' of
           (err, new', w'') \<Rightarrow> (\<lparr> as_Storage = new', as_Handler = handlers new, as_Health = new' \<rparr>, w''))"

end
