(* ===== verification/Router_Samples.thy ===== *)
theory Router_Samples
  imports Router_Mux
begin

text \<open>
  Evaluations of the multiplexer that later theories instantiate their properties with.
\<close>

lemma add_GET_a: "snd (AddEndpoint (initial_env demo_rc) (NewMux :: ('h, unit) Mux) ''GET'' ''/a'' (Some g)) = None"
  by code_simp

lemma find_new_a:
  "fst (FindWithActions (initial_env demo_rc) sub (NewMux :: ('h, unit) Mux) NewRouteContext ''GET'' ''/a'') = (None, None)"
proof -
  have "case fst (FindWithActions (initial_env demo_rc) sub (NewMux :: ('h, unit) Mux) NewRouteContext ''GET'' ''/a'') of
      (None, None) \<Rightarrow> True | _ \<Rightarrow> False"
    by code_simp
  then show ?thesis by (simp split: prod.splits option.splits)
qed

end
