(* ===== verification/Proxy_Props.thy ===== *)
theory Proxy_Props
  imports Proxy_Handler Router_Samples
begin

text \<open>
  Properties of the proxy mode: what the handler sends in the blocking mode, what it reports in the
  log mode, and what the chain of middlewares guards and does not guard.
\<close>

subsection \<open>Only forwarding sends\<close>

lemma forward_sent:
  "forward H s ctx = (ok, ctx') \<Longrightarrow> cx_sent ctx' = cx_sent ctx @ (case ow_got s of Inl _ \<Rightarrow> [] | Inr _ \<Rightarrow> [cx_req ctx'])"
  by (auto simp: forward_def Perform_def Let_def RespondError_def split: sum.splits prod.splits option.splits outcome.splits if_splits)

lemma blockRequest_sent [simp]: "cx_sent (snd (blockRequest H M s err ctx)) = cx_sent ctx"
  by (simp add: blockRequest_def Let_def split: option.splits)

lemma blockResponse_sent [simp]: "cx_sent (snd (blockResponse H M s err ctx)) = cx_sent ctx"
  by (simp add: blockResponse_def Let_def split: option.splits)

lemma logResponse_sent [simp]: "cx_sent (snd (logResponse err ctx)) = cx_sent ctx"
  by (simp add: logResponse_def split: oerr.splits)

lemma responseStage_sent [simp]: "cx_sent (snd (responseStage H M s mode route method ctx)) = cx_sent ctx"
  by (simp add: responseStage_def split: sum.splits option.splits)

lemma shadowParams_sent: "shadowParams M s route h ctx = Inr (ups, ctx') \<Longrightarrow> cx_sent ctx' = cx_sent ctx"
  by (auto simp: shadowParams_def Let_def split: if_splits sum.splits)

lemma prepareRequest_sent: "prepareRequest H M ctx = Inl r \<Longrightarrow> cx_sent (snd r) = cx_sent ctx"
  by (auto simp: prepareRequest_def Let_def split: if_splits sum.splits)

lemma blockRequest_sentD: "blockRequest H M s err ctx = (out, ctx') \<Longrightarrow> cx_sent ctx' = cx_sent ctx"
  using blockRequest_sent[of H M s err ctx] by simp

lemma requestStage_Inl: "requestStage H M s mode input st ctx = (Inl r, st') \<Longrightarrow> cx_sent (snd r) = cx_sent ctx"
  by (auto simp: requestStage_def dest!: shadowParams_sent blockRequest_sentD split: if_splits sum.splits prod.splits option.splits)

text \<open>What the request stage let pass in the blocking mode.\<close>

lemma requestStage_block:
  assumes "requestStage H M s ValidationBlock input st ctx = (Inr ctx1, st')"
  shows "\<exists>err input'. fst (ValidateRequest (ow_env s) (Some (proxyOptions (ow_oauth s))) input st) = Inr (err, input') \<and>
    (\<forall>e. err = Some e \<longrightarrow> \<not> isRequestBlocked (ow_env s) e) \<and>
    (pc_UnknownParametersDetection (ow_cfg s) \<longrightarrow>
      (\<exists>w. ValidateUnknownRequestParameters (ow_env s) (vi_Route input) (hr_Header (vi_Req input'))
             (requestArgs M (cx_req ctx)) = Inr ([], w)))"
proof -
  have ne: "ValidationBlock \<noteq> ValidationLog" by code_simp
  obtain v st1 where v: "ValidateRequest (ow_env s) (Some (proxyOptions (ow_oauth s))) input st = (v, st1)" by fastforce
  obtain err input' where r: "v = Inr (err, input')"
    using assms v by (cases v) (auto simp: requestStage_def)
  let ?ctx = "case err of None \<Rightarrow> ctx | Some _ \<Rightarrow> logMsg ''Request body parsing error: request passed'' ctx"
  have b: "\<forall>e. err = Some e \<longrightarrow> \<not> isRequestBlocked (ow_env s) e"
    using assms v r ne by (auto simp: requestStage_def split: if_splits)
  have a: "cx_req ?ctx = cx_req ctx" by (simp split: option.split)
  obtain c where c: "shadowParams M s (vi_Route input) (hr_Header (vi_Req input')) ?ctx = Inr ([], c)"
    using assms v r ne b by (cases err) (auto simp: requestStage_def split: sum.splits prod.splits if_splits)
  have "\<exists>w. ValidateUnknownRequestParameters (ow_env s) (vi_Route input) (hr_Header (vi_Req input'))
      (requestArgs M (cx_req ctx)) = Inr ([], w)" if "pc_UnknownParametersDetection (ow_cfg s)"
    using c that unfolding shadowParams_def a by (auto simp: Let_def split: sum.splits prod.splits if_splits)
  then show ?thesis using v r b by auto
qed

subsection \<open>The blocking mode\<close>

text \<open>The input that the handler builds for the validators.\<close>

definition handlerInput :: "('f, 'x) customRoute \<Rightarrow> (string \<times> string) list \<Rightarrow> httpReq \<Rightarrow> ('f, 'x) valInput" where
  "handlerInput cr pathParams req =
    \<lparr> vi_Req = req, vi_PathParams = pathParams, vi_QueryParams = fst (ParseQuery (hr_RawQuery req)), vi_Route = cr_Route cr \<rparr>"

lemma ToLower_block: "EqualFold m ValidationBlock \<Longrightarrow> ToLower m = ValidationBlock"
proof -
  have "ToLower ValidationBlock = ValidationBlock" by code_simp
  then show "EqualFold m ValidationBlock \<Longrightarrow> ToLower m = ValidationBlock" by (simp add: EqualFold_def)
qed

lemma not_blocked_prefix:
  "\<not> isRequestBlocked E e \<Longrightarrow> prefix unsupportedCTPrefix (errText (ev_F E) (ev_K E) e)"
  by (auto simp: isRequestBlocked_def simp del: errText.simps split: oerr.splits)

lemma block_not_disabled: "EqualFold m ValidationBlock \<Longrightarrow> \<not> EqualFold m ValidationDisable"
  by (rule validation_modes_disjoint)

lemma handler_sends:
  assumes "openapiWafHandler H M s st ctx = ((out, ctx'), st')" "ow_Route s = Some cr" "\<not> isOptionsReq ctx"
    "EqualFold (fst (validationModes (ow_cfg s) ctx)) ValidationBlock" "cx_sent ctx' \<noteq> cx_sent ctx"
  shows "\<exists>pathParams req ctx1 st1. pathParamsOf cr ctx = Inr pathParams \<and> prepareRequest H M ctx = Inr req \<and>
    requestStage H M s ValidationBlock (handlerInput cr pathParams req) st ctx = (Inr ctx1, st1)"
proof -
  have m: "ToLower (fst (validationModes (ow_cfg s) ctx)) = ValidationBlock" by (rule ToLower_block[OF assms(4)])
  have d: "\<not> bothDisabled (validationModes (ow_cfg s) ctx)" using block_not_disabled[OF assms(4)] by (simp add: bothDisabled_def)
  obtain pathParams where p: "pathParamsOf cr ctx = Inr pathParams"
    using assms d by (cases "pathParamsOf cr ctx") (auto simp: openapiWafHandler_def Let_def)
  obtain req where q: "prepareRequest H M ctx = Inr req"
    using assms d p by (cases "prepareRequest H M ctx") (auto simp: openapiWafHandler_def Let_def dest: prepareRequest_sent)
  obtain r st1 where r: "requestStage H M s ValidationBlock (handlerInput cr pathParams req) st ctx = (r, st1)" by fastforce
  obtain ctx1 where "r = Inr ctx1"
    using assms d p q r m by (cases r) (auto simp: openapiWafHandler_def handlerInput_def Let_def dest: requestStage_Inl)
  with p q r show ?thesis by blast
qed

text \<open>C1. In the blocking mode only valid requests reach the backend.  When the handler of a route sends anything in this
  mode, and the request is no OPTIONS request to be passed, then the request was converted and its
  validation ended without a panic: either the request meets its operation, or the only complaint is
  that no decoder reads the content type of the body; and with the detection of unknown parameters, none were found.\<close>

theorem proxy_sends_only_valid:
  assumes "openapiWafHandler H M s st ctx = ((out, ctx'), st')" and "ow_Route s = Some cr" and "\<not> isOptionsReq ctx"
    and "EqualFold (fst (validationModes (ow_cfg s) ctx)) ValidationBlock" and "cx_sent ctx' \<noteq> cx_sent ctx"
  shows "\<exists>pathParams req err input'. pathParamsOf cr ctx = Inr pathParams \<and> prepareRequest H M ctx = Inr req \<and>
    fst (ValidateRequest (ow_env s) (Some (proxyOptions (ow_oauth s))) (handlerInput cr pathParams req) st) = Inr (err, input') \<and>
    (case err of
       None \<Rightarrow> requestOK (ow_env s) (Some (proxyOptions (ow_oauth s))) (handlerInput cr pathParams req) input'
     | Some e \<Rightarrow> prefix unsupportedCTPrefix (errText (ev_F (ow_env s)) (ev_K (ow_env s)) e)) \<and>
    (pc_UnknownParametersDetection (ow_cfg s) \<longrightarrow>
      (\<exists>w. ValidateUnknownRequestParameters (ow_env s) (cr_Route cr) (hr_Header (vi_Req input'))
             (requestArgs M (cx_req ctx)) = Inr ([], w)))"
proof -
  obtain pathParams req ctx1 st1 where p: "pathParamsOf cr ctx = Inr pathParams" "prepareRequest H M ctx = Inr req"
    and r: "requestStage H M s ValidationBlock (handlerInput cr pathParams req) st ctx = (Inr ctx1, st1)"
    using handler_sends[OF assms] by blast
  obtain err input' where v: "fst (ValidateRequest (ow_env s) (Some (proxyOptions (ow_oauth s))) (handlerInput cr pathParams req) st) =
      Inr (err, input')" "\<forall>e. err = Some e \<longrightarrow> \<not> isRequestBlocked (ow_env s) e"
    "pc_UnknownParametersDetection (ow_cfg s) \<longrightarrow>
      (\<exists>w. ValidateUnknownRequestParameters (ow_env s) (cr_Route cr) (hr_Header (vi_Req input'))
             (requestArgs M (cx_req ctx)) = Inr ([], w))"
    using requestStage_block[OF r] by (auto simp: handlerInput_def)
  have "case err of
       None \<Rightarrow> requestOK (ow_env s) (Some (proxyOptions (ow_oauth s))) (handlerInput cr pathParams req) input'
     | Some e \<Rightarrow> prefix unsupportedCTPrefix (errText (ev_F (ow_env s)) (ev_K (ow_env s)) e)"
  proof (cases err)
    case None
    then show ?thesis using ValidateRequest_requestOK[of "ow_env s" _ _ st input'] v(1) by simp
  next
    case (Some e)
    with v(2) show ?thesis by (auto dest: not_blocked_prefix simp del: errText.simps)
  qed
  then show ?thesis using p v(1,3) by (intro exI conjI)
qed

text \<open>A handler for evaluation: a route without parameters, and a backend that leaves the response alone.\<close>

definition demo_more :: "(dreq, dresp) fasthttpMore" where
  "demo_more = \<lparr> rsContentType = (\<lambda>r. []), rsContentEncoding = (\<lambda>r. []),
     convertRequest = (\<lambda>r. Inr (vi_Req (demo_input [] [] None))), requestArgs = (\<lambda>r. \<lparr>uq_QueryArgs = [], uq_Body = [], uq_ContentType = [], uq_PostArgs = []\<rparr>) \<rparr>"

definition demo_pcfg :: "string \<Rightarrow> string \<Rightarrow> proxyCfg" where
  "demo_pcfg rqv rsv = \<lparr> pc_Mode = ''PROXY'', pc_RequestValidation = rqv, pc_ResponseValidation = rsv, pc_CustomBlockStatusCode = 403,
     pc_AddValidationStatusHeader = False, pc_PassOptions = False, pc_UnknownParametersDetection = False, pc_ShadowExclude = [],
     pc_RequestHostHeader = [], pc_DeleteAcceptEncoding = False, pc_ModSecRequestValidation = [], pc_ModSecResponseValidation = [],
     pc_Endpoints = [] \<rparr>"

definition demo_cr :: "(int, unit) customRoute" where
  "demo_cr = \<lparr> cr_Route = demo_route [] None, cr_Path = ''/'', cr_Method = ''GET'', cr_ParametersNumberInPath = 0 \<rparr>"

definition demo_ow :: "string \<Rightarrow> string \<Rightarrow> (int, unit) customRoute option \<Rightarrow> (dreq, dresp, int, unit, unit) openapiWaf" where
  "demo_ow rqv rsv cr = \<lparr> ow_Route = cr, ow_cfg = demo_pcfg rqv rsv, ow_oauth = None, ow_env = demo_venv, ow_got = Inr ''192.0.2.9'',
     ow_client = (\<lambda>q r. (r, None)) \<rparr>"

lemma demo_ValidateRequest:
  "fst (ValidateRequest demo_venv (Some (proxyOptions None)) (handlerInput demo_cr [] (vi_Req (demo_input [] [] None))) ()) =
    Inr (None, handlerInput demo_cr [] (vi_Req (demo_input [] [] None)))"
  by (simp add: ValidateRequest_def ValidateSecurityRequirements_def validateRest_def securityOf_def handlerInput_def demo_cr_def
      demo_route_def pathItemParams_def operationParams_def Let_def)

lemma demo_handler_sends:
  "cx_sent (snd (fst (openapiWafHandler demo_http demo_more (demo_ow ''BLOCK'' ''BLOCK'' (Some demo_cr)) () (demo_ctx (demo_req ''GET'' ''/'' []))))) =
    [demo_req ''GET'' ''/'' []]"
proof -
  have m: "\<not> EqualFold ''BLOCK'' ValidationDisable" "ToLower ''BLOCK'' = ValidationBlock" by code_simp+
  have i: "\<lparr>vi_Req = vi_Req (demo_input [] [] None), vi_PathParams = [], vi_QueryParams = fst (ParseQuery (hr_RawQuery (vi_Req (demo_input [] [] None)))),
      vi_Route = demo_route [] None\<rparr> = handlerInput demo_cr [] (vi_Req (demo_input [] [] None))"
    by (simp add: handlerInput_def demo_cr_def)
  obtain v where v: "ValidateRequest demo_venv (Some (proxyOptions None)) (handlerInput demo_cr [] (vi_Req (demo_input [] [] None))) () =
      (Inr (None, handlerInput demo_cr [] (vi_Req (demo_input [] [] None))), v)"
    using demo_ValidateRequest by (metis prod.collapse)
  have e: "rqContentEncoding demo_http (demo_req ''GET'' ''/'' []) = []" by code_simp
  have "requestStage demo_http demo_more (demo_ow ''BLOCK'' ''BLOCK'' (Some demo_cr)) ValidationBlock
      (handlerInput demo_cr [] (vi_Req (demo_input [] [] None))) () (demo_ctx (demo_req ''GET'' ''/'' [])) =
      (Inr (demo_ctx (demo_req ''GET'' ''/'' [])), v)"
    by (simp add: requestStage_def v demo_ow_def demo_pcfg_def shadowParams_def)
  then show ?thesis
    unfolding openapiWafHandler_def
    by (simp add: validationModes_def demo_ctx_def demo_ow_def demo_pcfg_def m isOptionsReq_def bothDisabled_def demo_cr_def pathParamsOf_def
        prepareRequest_def demo_more_def e i[unfolded demo_cr_def] Let_def forward_def Perform_def split: prod.splits)
qed

theorem proxy_sends_only_valid_witness:
  "\<exists>input'. requestOK demo_venv (Some (proxyOptions (None :: unit oauth2 option)))
     (handlerInput demo_cr [] (vi_Req (demo_input [] [] None))) input'"
proof -
  let ?s = "demo_ow ''BLOCK'' ''BLOCK'' (Some demo_cr)" and ?ctx = "demo_ctx (demo_req ''GET'' ''/'' [])"
  obtain out ctx' st' where o: "openapiWafHandler demo_http demo_more ?s () ?ctx = ((out, ctx'), st')"
    by (metis prod.exhaust)
  have sent: "cx_sent ctx' \<noteq> cx_sent ?ctx" using demo_handler_sends o by (simp add: demo_ctx_def)
  have m: "EqualFold (fst (validationModes (ow_cfg ?s) ?ctx)) ValidationBlock"
    using ToLower_block by (simp add: validationModes_def demo_ctx_def demo_ow_def demo_pcfg_def) code_simp
  have s: "ow_Route ?s = Some demo_cr" "\<not> isOptionsReq ?ctx" "ow_env ?s = demo_venv" "ow_oauth ?s = None"
    by (simp_all add: demo_ow_def isOptionsReq_def demo_ctx_def)
  have p: "pathParamsOf demo_cr ?ctx = Inr []" by (simp add: pathParamsOf_def demo_cr_def)
  have e: "rqContentEncoding demo_http (demo_req ''GET'' ''/'' []) = []" by code_simp
  have q: "prepareRequest demo_http demo_more ?ctx = Inr (vi_Req (demo_input [] [] None))"
    by (simp add: prepareRequest_def demo_more_def demo_ctx_def e)
  from proxy_sends_only_valid[OF o s(1,2) m sent] show ?thesis
    unfolding p q s(3,4) by (auto simp: demo_ValidateRequest split: option.splits)
qed

subsection \<open>The log mode\<close>

text \<open>Every error of \<^verbatim>\<open>ValidateResponse\<close> has the type of a response error.\<close>

lemma validateResponseHeader_kind:
  "validateResponseHeader E multi hn hp h = Inr (Some e) \<Longrightarrow> \<exists>r i. e = ResponseErr r i"
  by (auto simp: validateResponseHeader_def responseError_def split: sum.splits option.splits prod.splits if_splits)

lemma headerLoop_kind:
  assumes "\<And>h e. f h = Inr (Some e) \<Longrightarrow> \<exists>r i. e = ResponseErr r i"
  shows "headerLoop f hs = Inr (Some e) \<Longrightarrow> \<exists>r i. e = ResponseErr r i"
  using assms by (induction hs) (auto split: sum.splits option.splits)

lemma responseBody_kind: "responseBody E multi resp input = Inr (Some e) \<Longrightarrow> \<exists>r i. e = ResponseErr r i"
  by (auto simp: responseBody_def responseError_def Let_def split: sum.splits option.splits prod.splits)

lemma ValidateResponse_kind:
  assumes "ValidateResponse E opts input = Inr (Some e)"
  shows "\<exists>r i. e = ResponseErr r i"
proof -
  have loop: "headerLoop (\<lambda>hn. case map_of hs hn of None \<Rightarrow> Inr None | Some hp \<Rightarrow> validateResponseHeader E multi hn hp h) ns =
      Inr (Some e) \<Longrightarrow> \<exists>r i. e = ResponseErr r i" for hs multi h ns
    by (rule headerLoop_kind) (auto dest: validateResponseHeader_kind split: option.splits)
  show ?thesis
    using assms loop unfolding ValidateResponse_def
    by (auto simp: responseError_def Let_def dest: responseBody_kind split: if_splits sum.splits option.splits)
qed

text \<open>In the log mode an invalid response is never reported: whatever the validation of the response finds,
  the stage that handles the response adds nothing to the log, once the body of the response could be
  decompressed.\<close>

theorem log_mode_response_not_logged:
  assumes "GetDecompressedResponseBody H (cx_resp ctx) (rsContentEncoding M (cx_resp ctx)) = Inr b"
  shows "cx_log (snd (responseStage H M s ValidationLog route method ctx)) = cx_log ctx"
proof -
  have ne: "ValidationBlock \<noteq> ValidationLog" by code_simp
  show ?thesis
    using assms ne unfolding responseStage_def
    by (auto dest!: ValidateResponse_kind simp: logResponse_def split: sum.splits option.splits)
qed

theorem log_mode_response_not_logged_witness:
  "cx_log (snd (responseStage demo_http demo_more (demo_ow ''LOG_ONLY'' ''LOG_ONLY'' (Some demo_cr)) ValidationLog
     ((demo_route [] None)\<lparr>rt_Operation := (rt_Operation (demo_route [] None))\<lparr>op_Responses := [(''200'', None)]\<rparr>\<rparr>) ''GET''
     (demo_ctx (demo_req ''GET'' ''/'' [])))) = [] \<and>
   ValidateResponse demo_venv (Some (responseOptions :: (int, unit, unit) options))
     \<lparr> ri_Method = ''GET'', ri_Route = (demo_route [] None)\<lparr>rt_Operation := (rt_Operation (demo_route [] None))\<lparr>op_Responses := [(''200'', None)]\<rparr>\<rparr>,
       ri_Status = 200, ri_Header = [], ri_Body = ([], None) \<rparr> =
     Inr (Some (ResponseErr ''response has not been resolved'' None))"
proof -
  have "GetDecompressedResponseBody demo_http (cx_resp (demo_ctx (demo_req ''GET'' ''/'' [])))
      (rsContentEncoding demo_more (cx_resp (demo_ctx (demo_req ''GET'' ''/'' [])))) =
      Inr (rsBody demo_http (cx_resp (demo_ctx (demo_req ''GET'' ''/'' []))), None)"
    by (simp add: GetDecompressedResponseBody_def demo_more_def Let_def)
  note log_mode_response_not_logged[OF this]
  moreover have "Itoa 200 = ''200''" by code_simp
  ultimately show ?thesis
    by (simp add: demo_ctx_def ValidateResponse_def demo_venv_def demo_kin_def demo_route_def responseError_def)
qed

subsection \<open>The chain\<close>

text \<open>The options of the two lists in the chain.\<close>

definition allowOf :: "proxyCfg \<Rightarrow> ('c, 'tx) guards \<Rightarrow> 'c IPAllowListOptions" where
  "allowOf cfg g = (gd_Allow g)\<lparr>al_Mode := ProxyMode, al_CustomBlockStatusCode := pc_CustomBlockStatusCode cfg\<rparr>"

definition denyOf :: "proxyCfg \<Rightarrow> ('c, 'tx) guards \<Rightarrow> 'c DenylistOptions" where
  "denyOf cfg g = (gd_Deny g)\<lparr>dl_Mode := ProxyMode, dl_CustomBlockStatusCode := pc_CustomBlockStatusCode cfg\<rparr>"

definition proxyOf :: "proxyCfg \<Rightarrow> ('c, 'tx) guards \<Rightarrow> ProxyOptions" where
  "proxyOf cfg g = \<lparr> po_Mode = ProxyMode, po_RequestValidation = pc_RequestValidation cfg,
     po_DeleteAcceptEncoding = pc_DeleteAcceptEncoding cfg, po_Scheme = gd_Scheme g, po_Host = gd_Host g \<rparr>"

lemma Logger_sent [simp]: "cx_sent (snd (Logger h ctx)) = cx_sent (snd (h (logMsg ''request received'' ctx)))"
  by (auto simp: Logger_def Let_def split: prod.splits outcome.splits sum.splits)

lemma Errors_sent [simp]: "cx_sent (snd (Errors H h ctx)) = cx_sent (snd (h ctx))"
  by (auto simp: Errors_def RespondError_def Let_def split: prod.splits outcome.splits)

lemma Panics_sent [simp]: "cx_sent (snd (Panics h ctx)) = cx_sent (snd (h ctx))"
  by (auto simp: Panics_def split: prod.splits outcome.splits)

lemma proxyRequest_sent: "proxyRequest H opts ctx = Inr ctx' \<Longrightarrow> cx_sent ctx' = cx_sent ctx"
  "proxyRequest H opts ctx = Inl (p, ctx') \<Longrightarrow> cx_sent ctx' = cx_sent ctx"
  by (auto simp: proxyRequest_def Let_def split: if_splits sum.splits option.splits uval.splits)

lemma Proxy_sent:
  assumes "\<And>ctx1. proxyRequest H opts ctx = Inr ctx1 \<Longrightarrow> cx_sent (snd (h ctx1)) = cx_sent ctx1"
  shows "cx_sent (snd (Proxy H opts h ctx)) = cx_sent ctx"
  using assms
  by (auto simp: Proxy_def proxyRequest_sent split: sum.splits prod.splits outcome.splits)

lemma endpointHandler_sent [simp]:
  "cx_sent (snd (endpointHandler mws [] h ctx)) = cx_sent (snd (WrapMiddleware mws h ctx))"
  by (auto simp: endpointHandler_def WrapMiddleware_def SignalShutdown_def split: prod.splits outcome.splits)

lemma chain_guarded:
  assumes "\<And>ctx1. proxyRequest H (proxyOf cfg g) (logMsg ''request received'' ctx) = Inr ctx1 \<Longrightarrow>
    ipBlocks (gd_Cache g) H (allowOf cfg g) ctx1 \<or> denyBlocks (gd_Cache g) H (denyOf cfg g) ctx1"
  shows "cx_sent (snd (endpointHandler (proxyMiddlewares H cfg g) [] h ctx)) = cx_sent ctx"
proof -
  let ?in = "WrapMiddleware (drop 6 (proxyMiddlewares H cfg g)) h"
  have w: "WrapMiddleware (proxyMiddlewares H cfg g) h = Logger (Errors H (Panics (Proxy H (proxyOf cfg g)
      (IPAllowlist (gd_Cache g) H (allowOf cfg g) (Denylist (gd_Cache g) H (denyOf cfg g) ?in)))))"
    by (simp add: WrapMiddleware_def proxyMiddlewares_def proxyOf_def allowOf_def denyOf_def)
  have "cx_sent (snd (Proxy H (proxyOf cfg g)
      (IPAllowlist (gd_Cache g) H (allowOf cfg g) (Denylist (gd_Cache g) H (denyOf cfg g) ?in)) (logMsg ''request received'' ctx))) =
      cx_sent (logMsg ''request received'' ctx)"
  proof (rule Proxy_sent)
    fix ctx1 assume "proxyRequest H (proxyOf cfg g) (logMsg ''request received'' ctx) = Inr ctx1"
    with assms show "cx_sent (snd (IPAllowlist (gd_Cache g) H (allowOf cfg g) (Denylist (gd_Cache g) H (denyOf cfg g) ?in) ctx1)) = cx_sent ctx1"
      by (intro allow.guard_silent) (auto intro: deny.guard_silent)
  qed
  then show ?thesis by (simp add: w)
qed

text \<open>C7. The two lists guard every registered endpoint: for any handler behind the chain, a request that the list of
  allowed addresses or the list of denied tokens refuses, as the lists see it after the proxy headers were set,
  is not sent to the backend.\<close>

theorem chain_lists_guard:
  assumes "\<And>ctx1. proxyRequest H (proxyOf cfg g) (logMsg ''request received'' ctx) = Inr ctx1 \<Longrightarrow>
    ipBlocks (gd_Cache g) H (allowOf cfg g) ctx1 \<or> denyBlocks (gd_Cache g) H (denyOf cfg g) ctx1"
  shows "cx_sent (snd (endpointHandler (proxyMiddlewares H cfg g) [] h ctx)) = cx_sent ctx"
  using assms by (rule chain_guarded)

text \<open>A list that does not allow the address of the client.\<close>

definition demo_far_ctx :: "(dreq, dresp) rctx" where
  "demo_far_ctx = (demo_ctx (demo_req ''GET'' ''/a'' []))\<lparr>cx_remote := \<lparr>ra_tcp = Some ''198.51.100.1'', ra_ip = ''198.51.100.1'', ra_str = ''198.51.100.1:4711''\<rparr>\<rparr>"

definition demo_guards :: "(string list, unit) guards" where
  "demo_guards = \<lparr> gd_Scheme = ''http'', gd_Host = ''backend'', gd_Cache = demo_cache, gd_Allow = demo_allow,
     gd_Deny = \<lparr>dl_Mode = [], dl_CookieName = [], dl_HeaderName = [], dl_TrimBearerPrefix = False, dl_CustomBlockStatusCode = 0, dl_DeniedTokens = None\<rparr>,
     gd_WAF = None \<rparr>"

lemma proxyRequest_remote: "proxyRequest H opts ctx = Inr ctx' \<Longrightarrow> cx_remote ctx' = cx_remote ctx"
  by (auto simp: proxyRequest_def Let_def split: if_splits sum.splits option.splits uval.splits)

lemma ipBlocks_remote:
  "al_HeaderName opts = [] \<Longrightarrow> cx_remote ctx = cx_remote ctx' \<Longrightarrow> ipBlocks C H opts ctx = ipBlocks C H opts ctx'"
  by (simp add: ipBlocks_def ipToCheck_def Let_def ToLower_def split: option.splits)

lemma ipBlocks_modes:
  "ipBlocks C H (opts\<lparr>al_Mode := a, al_CustomBlockStatusCode := b\<rparr>) ctx = ipBlocks C H opts ctx"
proof -
  have h: "al_HeaderName (opts\<lparr>al_Mode := a, al_CustomBlockStatusCode := b\<rparr>) = al_HeaderName opts"
    "al_AllowedIPs (opts\<lparr>al_Mode := a, al_CustomBlockStatusCode := b\<rparr>) = al_AllowedIPs opts" by simp_all
  show ?thesis unfolding ipBlocks_def ipToCheck_def h by (rule refl)
qed

lemma demo_far_blocked: "ipBlocks (gd_Cache demo_guards) demo_http (allowOf (demo_pcfg rqv rsv) demo_guards) demo_far_ctx"
proof -
  have "ipBlocks demo_cache demo_http demo_allow demo_far_ctx" by code_simp
  then show ?thesis by (simp add: allowOf_def demo_guards_def ipBlocks_modes)
qed

theorem chain_lists_guard_witness:
  "cx_sent (snd (endpointHandler (proxyMiddlewares demo_http (demo_pcfg ''LOG_ONLY'' ''LOG_ONLY'') demo_guards) []
     (\<lambda>ctx. (Ok, ctx\<lparr>cx_sent := [cx_req ctx]\<rparr>)) demo_far_ctx)) = []"
proof -
  have "ipBlocks (gd_Cache demo_guards) demo_http (allowOf (demo_pcfg ''LOG_ONLY'' ''LOG_ONLY'') demo_guards) ctx1"
    if "proxyRequest demo_http (proxyOf (demo_pcfg ''LOG_ONLY'' ''LOG_ONLY'') demo_guards) (logMsg ''request received'' demo_far_ctx) = Inr ctx1" for ctx1
    using demo_far_blocked ipBlocks_remote[of "allowOf (demo_pcfg ''LOG_ONLY'' ''LOG_ONLY'') demo_guards" ctx1 demo_far_ctx] proxyRequest_remote[OF that]
    by (simp add: allowOf_def demo_guards_def demo_allow_def)
  then have "cx_sent (snd (endpointHandler (proxyMiddlewares demo_http (demo_pcfg ''LOG_ONLY'' ''LOG_ONLY'') demo_guards) []
      (\<lambda>ctx. (Ok, ctx\<lparr>cx_sent := [cx_req ctx]\<rparr>)) demo_far_ctx)) = cx_sent demo_far_ctx"
    by (intro chain_lists_guard) simp
  then show ?thesis by (simp add: demo_far_ctx_def demo_ctx_def)
qed

subsection \<open>Requests without a route\<close>

lemma registerRoutes_app:
  "app_DefaultHandler (registerRoutes env h es p crs app) = app_DefaultHandler app \<and>
   app_Mode (registerRoutes env h es p crs app) = app_Mode app \<and>
   app_PassOptions (registerRoutes env h es p crs app) = app_PassOptions app"
  by (induction env h es p crs app rule: registerRoutes.induct) (auto simp: Handle_def split: sum.splits prod.splits)

lemmas registerRoutes_keeps [simp] = registerRoutes_app[THEN conjunct1] registerRoutes_app[THEN conjunct2, THEN conjunct1]
  registerRoutes_app[THEN conjunct2, THEN conjunct2]

lemma Handlers_app:
  assumes "Handlers H M env s st g urlPath v doc = Some app"
  shows "app_DefaultHandler app = routeHandler H M (s\<lparr>ow_oauth := None\<rparr>) st None" "app_Mode app = pc_Mode (ow_cfg s)"
    "app_PassOptions app = pc_PassOptions (ow_cfg s)"
  using assms by (auto simp: Handlers_def NewApp_def split: sum.splits)

lemma default_handler_sends:
  assumes "\<not> EqualFold (pc_RequestValidation (ow_cfg s)) ValidationBlock" "\<not> EqualFold (pc_ResponseValidation (ow_cfg s)) ValidationBlock"
    and "cx_vals ctx EndpointActions = None" and "ow_got s = Inr ip"
  shows "\<exists>ctx'. routeHandler H M s st None ctx = (Ok, ctx') \<and> (\<exists>r. cx_sent ctx' = cx_sent ctx @ [r])"
proof -
  have f: "\<exists>r. cx_sent (snd (forward H s c)) = cx_sent c @ [r]" for c
    using forward_sent[of H s c] assms(4) by (metis prod.collapse sum.case(2))
  have m: "validationModes (ow_cfg s) ctx = (pc_RequestValidation (ow_cfg s), pc_ResponseValidation (ow_cfg s))"
    using assms(3) by (simp add: validationModes_def)
  have upd: "forward H (s\<lparr>ow_Route := None\<rparr>) c = forward H s c" for c by (simp add: forward_def)
  show ?thesis
    using assms(1,2) f f[of "SetUserValue RequestProxyNoRoute (UBool True) ctx"]
    by (simp add: routeHandler_def openapiWafHandler_def noRoute_def m upd Let_def)
qed

text \<open>C33. A request without a route passes by the lists: outside the blocking mode, when no endpoint matches the path
  or the method, the request is sent to the backend whatever the lists of addresses and tokens and the
  rules are, because the handler for these requests is not behind the chain.\<close>

theorem unknown_path_not_guarded:
  assumes "Handlers H M env s st g urlPath validateOAS doc = Some app"
    and "FindWithActions env sub (app_Router app) NewRouteContext (rqMethod H (cx_req ctx)) (rqPath H (cx_req ctx)) = ((None, None), rctx)"
    and "\<not> EqualFold (pc_RequestValidation (ow_cfg s)) ValidationBlock" and "\<not> EqualFold (pc_ResponseValidation (ow_cfg s)) ValidationBlock"
    and "pc_Mode (ow_cfg s) \<noteq> GraphQLMode" and "cx_vals ctx EndpointActions = None" and "ow_got s = Inr ip"
  shows "\<exists>r. cx_sent (MainHandler H env sub app uuid ctx) = cx_sent ctx @ [r]"
proof -
  have k: "RequestID \<noteq> EndpointActions" "PassRequestOPTIONS \<noteq> EndpointActions" by code_simp+
  have d: "\<exists>ctx2. app_DefaultHandler app c = (Ok, ctx2) \<and> (\<exists>r. cx_sent ctx2 = cx_sent c @ [r])"
    if "cx_vals c EndpointActions = None" for c
    unfolding Handlers_app(1)[OF assms(1)] by (rule default_handler_sends) (use assms that in simp_all)
  define c1 where "c1 = SetUserValue RequestID (UStr uuid) ctx"
  have c1: "cx_vals c1 EndpointActions = None" "cx_req c1 = cx_req ctx" "cx_sent c1 = cx_sent ctx"
    using assms(6) k by (simp_all add: c1_def)
  have "\<exists>ctx2. dispatch H env sub app c1 = (Ok, ctx2) \<and> (\<exists>r. cx_sent ctx2 = cx_sent c1 @ [r])"
    using d[of "logMsg ''Pass request with OPTIONS method'' (SetUserValue PassRequestOPTIONS (UBool True) c1)"]
      d[of "logMsg ''Path or method not found'' c1"] c1 k assms(2,5)
    by (auto simp: dispatch_def Handlers_app(2,3)[OF assms(1)] afterHandler_def Let_def)
  then show ?thesis by (auto simp: MainHandler_def c1_def[symmetric] c1(3))
qed

text \<open>A router without sub-routers.\<close>

definition no_sub :: "unit \<Rightarrow> Context \<Rightarrow> string \<Rightarrow> string \<Rightarrow> (('rq, 'rs) handler option \<times> Actions option) \<times> Context" where
  "no_sub s c m p = ((None, None), c)"

theorem unknown_path_not_guarded_witness:
  "ipBlocks (gd_Cache demo_guards) demo_http (allowOf (demo_pcfg ''LOG_ONLY'' ''LOG_ONLY'') demo_guards) demo_far_ctx \<and>
   (\<exists>app r. Handlers demo_http demo_more (initial_env demo_rc) (demo_ow ''LOG_ONLY'' ''LOG_ONLY'' None) () demo_guards [] (\<lambda>d. None)
      \<lparr> od_Paths = [], od_Security = [], od_SecuritySchemes = [] \<rparr> = Some app \<and>
     cx_sent (MainHandler demo_http (initial_env demo_rc) no_sub app ''1'' demo_far_ctx) = [r])"
proof -
  let ?s = "demo_ow ''LOG_ONLY'' ''LOG_ONLY'' None"
  have m: "\<not> EqualFold ''LOG_ONLY'' ValidationBlock" "''PROXY'' \<noteq> GraphQLMode" by code_simp+
  define app :: "(dreq, dresp, unit) App" where "app = NewApp ''PROXY'' False (routeHandler demo_http demo_more (?s\<lparr>ow_oauth := None\<rparr>) () None)
      (proxyMiddlewares demo_http (ow_cfg ?s) demo_guards)"
  have a: "Handlers demo_http demo_more (initial_env demo_rc) ?s () demo_guards [] (\<lambda>d. None)
      \<lparr> od_Paths = [], od_Security = [], od_SecuritySchemes = [] \<rparr> = Some app"
    by (simp add: Handlers_def NewRouter_def app_def demo_ow_def demo_pcfg_def)
  have f: "fst (FindWithActions (initial_env demo_rc) no_sub (app_Router app) NewRouteContext
      (rqMethod demo_http (cx_req demo_far_ctx)) (rqPath demo_http (cx_req demo_far_ctx))) = (None, None)"
    by (simp add: app_def NewApp_def demo_far_ctx_def demo_ctx_def demo_req_def demo_http_def find_new_a)
  then obtain rc where r: "FindWithActions (initial_env demo_rc) no_sub (app_Router app) NewRouteContext
      (rqMethod demo_http (cx_req demo_far_ctx)) (rqPath demo_http (cx_req demo_far_ctx)) = ((None, None), rc)"
    by (metis prod.collapse)
  have "\<exists>r. cx_sent (MainHandler demo_http (initial_env demo_rc) no_sub app ''1'' demo_far_ctx) = cx_sent demo_far_ctx @ [r]"
    by (rule unknown_path_not_guarded[OF a r])
      (use m in \<open>simp_all add: demo_ow_def demo_pcfg_def demo_far_ctx_def demo_ctx_def\<close>)
  then show ?thesis using demo_far_blocked a by (auto simp: demo_far_ctx_def demo_ctx_def)
qed

end
