(* ===== verification/API_Props.thy ===== *)
theory API_Props
  imports API_Firewall Proxy_Props Router_Samples
begin

text \<open>
  What the API mode guarantees: every error of the validator is answered, a request that is accepted meets a route of
  the specification, the routers cover the stored specifications, and how updates of the storage behave.
\<close>

subsection \<open>Errors are answered\<close>

lemma GetErrorResponse_nonempty: "GetErrorResponse F K L err = Inr (Inr rs) \<Longrightarrow> rs \<noteq> []"
proof -
  have "map_sum id (map_sum id (\<lambda>rs. if rs = [] then [e] else rs)) r = Inr (Inr rs) \<Longrightarrow> rs \<noteq> []" for r :: "(('a, 'b) oerr + ValidationError list) result" and e
    by (cases r) (auto simp: map_sum_def split: sum.splits if_splits)
  then show "GetErrorResponse F K L err = Inr (Inr rs) \<Longrightarrow> rs \<noteq> []" unfolding GetErrorResponse_def by blast
qed

lemma reportAll_Nil: "reportAll E L m errs = Inr [] \<longleftrightarrow> errs = []"
proof (cases errs)
  case (Cons err es)
  then show ?thesis
    using GetErrorResponse_nonempty[of "ev_F E" "ev_K E" L err]
    by (auto simp: counted_def split: sum.splits dest!: map_sum_InrD)
qed simp

lemma paramLoop_multi: "paramLoop True f ps me i \<noteq> Inr (Inl e, i')"
  by (induction ps arbitrary: me i) (auto split: sum.split option.split prod.split)

lemma validateRest_multi:
  assumes "vo_MultiError (orDefault opts)" and "validateRest E opts me0 input = Inr (Some e, i')"
  shows "\<exists>es. e = MultiErr es \<and> es \<noteq> []"
  using assms by (auto simp: validateRest_def paramLoop_multi Let_def split: sum.splits prod.splits option.splits if_splits)

lemma ValidateRequest_multi:
  assumes "vo_MultiError (orDefault opts)" and "fst (ValidateRequest E opts input st) = Inr (Some e, i')"
  shows "\<exists>es. e = MultiErr es \<and> es \<noteq> []"
  using assms validateRest_multi[OF assms(1)]
  by (auto simp: ValidateRequest_def split: prod.splits option.splits if_splits)

lemma apiOptions_multi: "vo_MultiError (orDefault (Some apiModeSecurityRequirementsOptions))"
  by (simp add: orDefault_def apiModeSecurityRequirementsOptions_def)

lemma errorList_Nil: "errorList (valReqErrors E input) = [] \<longleftrightarrow> valReqErrors E input = None"
proof (cases "valReqErrors E input")
  case (Some e)
  then obtain i where "fst (ValidateRequest E (Some apiModeSecurityRequirementsOptions) input ()) = Inr (Some e, i)"
    unfolding valReqErrors_def by (auto split: sum.splits)
  from ValidateRequest_multi[OF apiOptions_multi this] show ?thesis by (auto simp: errorList_def Some)
qed (simp add: errorList_def)

lemma reportUnknown_Nil: "reportUnknown E m res = Inr [] \<Longrightarrow> unknownErrors (fst res) = []"
  by (auto simp: reportUnknown_def counted_def split: prod.splits option.splits if_splits)

lemma APIModeValidateRequest_Nil:
  assumes "APIModeValidateRequest H M E L m cr unknown ctx = Inr []"
  shows "\<exists>input. apiInput H M m cr ctx = Inr input \<and> valReqErrors E input = None \<and>
    (unknown \<longrightarrow> unknownErrors (fst (upResults E input (requestArgs M (cx_req ctx)))) = [])"
proof -
  obtain input where i: "apiInput H M m cr ctx = Inr input"
    using assms by (auto simp: APIModeValidateRequest_def split: sum.splits)
  obtain rs where r: "reportAll E L m (errorList (valReqErrors E input)) = Inr rs"
    using assms i by (auto simp: APIModeValidateRequest_def split: sum.splits)
  have n: "rs = []" "unknown \<longrightarrow> reportUnknown E m (upResults E input (requestArgs M (cx_req ctx))) = Inr []"
    using assms i r by (auto simp: APIModeValidateRequest_def split: if_splits dest!: map_sum_InrD)
  have "valReqErrors E input = None" using r n(1) by (simp add: reportAll_Nil errorList_Nil)
  then show ?thesis using i n(2) reportUnknown_Nil[of E m "upResults E input (requestArgs M (cx_req ctx))"] by auto
qed

lemma valReqErrors_None:
  assumes "valReqErrors E input = None"
  shows "(\<exists>p. fst (ValidateRequest E (Some apiModeSecurityRequirementsOptions) input ()) = Inl p) \<or>
    (\<exists>input'. requestOK E (Some (apiModeSecurityRequirementsOptions :: ('f, 'x, unit) options)) input input')"
proof (cases "fst (ValidateRequest E (Some (apiModeSecurityRequirementsOptions :: ('f, 'x, unit) options)) input ())")
  case (Inr r)
  then obtain i where "fst (ValidateRequest E (Some apiModeSecurityRequirementsOptions) input ()) = Inr (None, i)"
    using assms by (cases r) (auto simp: valReqErrors_def)
  from ValidateRequest_requestOK[OF this] show ?thesis by blast
qed blast

lemma apiInput_route: "apiInput H M m cr ctx = Inr input \<Longrightarrow> vi_Route input = cr_Route cr"
  by (auto simp: apiInput_def counted_def Let_def split: sum.splits if_splits)

subsection \<open>Accepted requests\<close>

lemma status_key [simp]: "keyStatusCode i \<noteq> keyValidationErrors i"
  by (simp add: keyStatusCode_def keyValidationErrors_def APIModePostfixStatusCode_def APIModePostfixValidationErrors_def)

lemma APIModeHandler_200:
  assumes "APIModeHandler H M E L rv ctx = (Ok, ctx')" and "cx_vals ctx' (keyStatusCode (rv_SchemaID rv)) = Some (UInt 200)"
    and "rv_CustomRoute rv = Some cr"
  shows "APIModeValidateRequest H M E L (rv_Metrics rv) cr (rv_UnknownParametersDetection rv) ctx = Inr []"
  using assms by (auto simp: APIModeHandler_def setResult_def SetUserValue_def split: sum.splits if_splits)

lemma readResult_200:
  "vr_Summary (fst (readResult perm sid mx ctx)) = [\<lparr>vs_SchemaID = sid, vs_StatusCode = 200\<rparr>] \<Longrightarrow>
    cx_vals ctx (keyStatusCode sid) = Some (UInt 200)"
  by (auto simp: readResult_def statusOnly_def split: option.splits uval.splits sum.splits)

text \<open>The two lookups agree on the handler and on the context.\<close>

lemma Find_FindWithActions:
  "\<exists>a. FindWithActions env (\<lambda>s c m p. ((fst (sub s c m p), None), snd (sub s c m p))) mx r me path =
    ((fst (Find env sub mx r me path), a), snd (Find env sub mx r me path))"
  by (auto simp: Find_def FindWithActions_def FindRoute_def FindRouteWithActions_def Let_def split: option.split prod.split)

text \<open>The registrations that \<^const>\<open>addRoutes\<close> makes.\<close>

definition routeRegs :: "(('f, 'x) customRoute \<Rightarrow> 'h) \<Rightarrow> string \<Rightarrow> ('f, 'x) customRoute list \<Rightarrow> (string \<times> string \<times> Actions option \<times> 'h) set" where
  "routeRegs h base crs =
    {(ToUpper (cr_Method cr), path, None, h cr) | cr path. cr \<in> set crs \<and> andThen (JoinPath base (cr_Path cr)) PathUnescape = Inr path}"

lemma mux_invar_mono: "mux_invar rc A mx \<Longrightarrow> A \<subseteq> B \<Longrightarrow> mux_invar rc B mx"
  unfolding mux_invar_def mux_ok_def by (erule wf_node_mono) (fastforce simp: mux_regs_def)

lemma addRoutes_invar:
  "addRoutes (initial_env rc) sid h base crs mx = Inr mx' \<Longrightarrow> mux_invar rc A mx \<Longrightarrow> mux_invar rc (A \<union> routeRegs h base crs) mx'"
proof (induction crs arbitrary: A mx)
  case (Cons cr crs)
  obtain esc path mx1 where e: "JoinPath base (cr_Path cr) = Inr esc" "PathUnescape esc = Inr path"
    "AddEndpoint (initial_env rc) mx (cr_Method cr) path (Some (h cr)) = (mx1, None)"
    "addRoutes (initial_env rc) sid h base crs mx1 = Inr mx'"
    using Cons.prems(1) by (auto split: sum.splits prod.splits option.splits)
  have "mux_invar rc (insert (ToUpper (cr_Method cr), path, None, h cr) A) mx1"
    using mux.invar_add[OF Cons.prems(2), of "cr_Method cr" path None "h cr" mx1 None] e(3)
    by (simp add: addRoute_def AddEndpoint_actions)
  from Cons.IH[OF e(4) this] show ?case
    by (rule mux_invar_mono) (use e in \<open>auto simp: routeRegs_def\<close>)
qed (simp add: routeRegs_def)

lemma addRoutes_find:
  assumes "addRoutes (initial_env rc) sid h base crs NewMux = Inr mx"
    and "Find (initial_env rc) sub mx NewRouteContext me path = (Some g, rctx)"
  shows "\<exists>cr p vs. cr \<in> set crs \<and> g = h cr \<and> me = ToUpper (cr_Method cr) \<and>
    andThen (JoinPath base (cr_Path cr)) PathUnescape = Inr p \<and> pat_match (initial_env rc) p vs path"
proof -
  have i: "mux_invar rc (routeRegs h base crs) mx"
    using addRoutes_invar[OF assms(1) mux.invar_new] by simp
  obtain a where f: "FindWithActions (initial_env rc) (\<lambda>s c m p. ((fst (sub s c m p), None), snd (sub s c m p))) mx NewRouteContext me path =
      ((Some g, a), rctx)"
    using Find_FindWithActions[of "initial_env rc" sub mx NewRouteContext me path] assms(2) by auto
  show ?thesis
    by (rule mux_find_reg[OF i f]) (auto simp: routeRegs_def)
qed

lemma getRoutersLoop_ok:
  "getRoutersLoop f is m = Inr (Inr routers) \<Longrightarrow>
    (\<forall>i. routers i = (if i \<in> set is then (case f i of Inr (Inr mx) \<Rightarrow> Some mx | _ \<Rightarrow> None) else m i)) \<and>
    (\<forall>i \<in> set is. \<exists>mx. f i = Inr (Inr mx))"
  by (induction "is" arbitrary: m) (auto split: sum.splits)

lemma getRouters_find:
  assumes "getRouters (initial_env rc) basePath mk options metrics l = Inr (Inr routers)"
    and "findRouter (initial_env rc) sub routers sid me path = Inr (Some g, rctx)"
  shows "\<exists>doc crs cr base p vs. Specification l sid = Some doc \<and> NewRouterDBLoader doc = Inr crs \<and> cr \<in> set crs \<and>
    g = mk (validatorOf options metrics (SpecificationVersion l sid) sid cr) \<and> me = ToUpper (cr_Method cr) \<and>
    serverPath basePath sid doc = Inr base \<and> andThen (JoinPath base (cr_Path cr)) PathUnescape = Inr p \<and>
    pat_match (initial_env rc) p vs path"
proof -
  obtain mx where mx: "routers sid = Some mx" "Find (initial_env rc) sub mx NewRouteContext me path = (Some g, rctx)"
    using assms(2) by (auto simp: findRouter_def split: option.splits)
  note l = getRoutersLoop_ok[OF assms(1)[unfolded getRouters_def]]
  have "sid \<in> set (SchemaIDs l)" using l mx(1) by (metis option.distinct(1))
  with l mx(1) have r: "routerFor (initial_env rc) basePath mk options metrics l sid = Inr (Inr mx)"
    by (auto split: sum.splits)
  obtain doc where d: "Specification l sid = Some doc" using r by (auto simp: routerFor_def split: option.splits)
  obtain base where b: "serverPath basePath sid doc = Inr base"
    using r d by (cases "serverPath basePath sid doc") (auto simp: routerFor_def)
  obtain crs where c: "NewRouterDBLoader doc = Inr crs"
    using r d b by (cases "NewRouterDBLoader doc") (auto simp: routerFor_def)
  have a: "addRoutes (initial_env rc) sid (\<lambda>cr. mk (validatorOf options metrics (SpecificationVersion l sid) sid cr)) base crs NewMux = Inr mx"
    using r d b c by (simp add: routerFor_def)
  from addRoutes_find[OF a mx(2)] d b c show ?thesis by blast
qed

text \<open>C3. A status 200 of the API mode is earned.  If the firewall answers a request with the status 200 for a specification
  whose routers were built, and the request is not an OPTIONS request that is passed, then the specification is
  stored, the method and the path are those of one of its routes under the base path of the document, no parameter
  was reported as unknown, and the request meets the operation of the route, unless the validator panicked.\<close>

theorem API_status_200:
  assumes "getRouters (initial_env rc) basePath (APIModeHandler H M E L) options metrics l = Inr (Inr routers)"
    and "vr_Summary (fst (ProcessRequest H (initial_env rc) sub perm routers pass maxErrors sid ctx)) =
      [\<lparr>vs_SchemaID = sid, vs_StatusCode = 200\<rparr>]"
    and "\<not> (pass \<and> rqMethod H (cx_req ctx) = ''OPTIONS'')"
  shows "\<exists>doc crs cr base p vs rctx input. Specification l sid = Some doc \<and> NewRouterDBLoader doc = Inr crs \<and> cr \<in> set crs \<and>
    rqMethod H (cx_req ctx) = ToUpper (cr_Method cr) \<and> serverPath basePath sid doc = Inr base \<and>
    andThen (JoinPath base (cr_Path cr)) PathUnescape = Inr p \<and> pat_match (initial_env rc) p vs (rqPath H (cx_req ctx)) \<and>
    apiInput H M metrics cr (SetUserValue RouteCtxKey (URoute rctx) ctx) = Inr input \<and> vi_Route input = cr_Route cr \<and>
    (cf_UnknownParametersDetection options \<longrightarrow>
      unknownErrors (fst (upResults E input (requestArgs M (cx_req ctx)))) = []) \<and>
    ((\<exists>msg. fst (ValidateRequest E (Some apiModeSecurityRequirementsOptions) input ()) = Inl msg) \<or>
     (\<exists>input'. requestOK E (Some (apiModeSecurityRequirementsOptions :: ('f, 'x, unit) options)) input input'))"
proof -
  let ?me = "rqMethod H (cx_req ctx)" and ?path = "rqPath H (cx_req ctx)"
  obtain g rctx where f: "findRouter (initial_env rc) sub routers sid ?me ?path = Inr (Some g, rctx)"
    using assms(2,3) by (auto simp: ProcessRequest_def Let_def statusOnly_def split: sum.splits prod.splits option.splits if_splits)
  from getRouters_find[OF assms(1) f] obtain doc crs cr base p vs where r: "Specification l sid = Some doc"
    "NewRouterDBLoader doc = Inr crs" "cr \<in> set crs" "g = APIModeHandler H M E L (validatorOf options metrics (SpecificationVersion l sid) sid cr)"
    "?me = ToUpper (cr_Method cr)" "serverPath basePath sid doc = Inr base" "andThen (JoinPath base (cr_Path cr)) PathUnescape = Inr p"
    "pat_match (initial_env rc) p vs ?path" by blast
  let ?ctx = "SetUserValue RouteCtxKey (URoute rctx) ctx"
  obtain out ctx' where g: "g ?ctx = (out, ctx')" by fastforce
  have ok: "out = Ok" "cx_vals ctx' (keyStatusCode sid) = Some (UInt 200)"
    using assms(2) f g readResult_200[of perm sid maxErrors ctx']
    by (auto simp: ProcessRequest_def Let_def statusOnly_def split: outcome.splits)
  have "APIModeValidateRequest H M E L metrics cr (cf_UnknownParametersDetection options) ?ctx = Inr []"
    using APIModeHandler_200[of H M E L "validatorOf options metrics (SpecificationVersion l sid) sid cr" ?ctx ctx' cr] g ok r(4)
    by (simp add: validatorOf_def)
  from APIModeValidateRequest_Nil[OF this] obtain input where i: "apiInput H M metrics cr ?ctx = Inr input"
    "valReqErrors E input = None"
    "cf_UnknownParametersDetection options \<longrightarrow> unknownErrors (fst (upResults E input (requestArgs M (cx_req ctx)))) = []"
    by auto
  show ?thesis
    by (intro exI conjI) (rule r i apiInput_route[OF i(1)] valReqErrors_None[OF i(2)])+
qed

text \<open>A stored specification with one route, and its routers.\<close>

definition demo_doc :: "(int, unit) document" where
  "demo_doc = \<lparr> od_Paths = [\<lparr> pi_Path = ''/a'', pi_Parameters = [],
       pi_Operations = [(''GET'', \<lparr> op_Parameters = [], op_Security = None, op_RequestBody = None, op_Responses = [] \<rparr>)] \<rparr>],
     od_Security = [], od_SecuritySchemes = [] \<rparr>"

definition demo_storage :: "(int, unit) document DBOpenAPILoader" where
  "demo_storage = LV2 \<lparr> sl_isReady = True, sl_RawSpecs = [(7, \<lparr> en_SchemaID = 7, en_SchemaVersion = ''1'', en_SchemaFormat = ''yaml'',
     en_SchemaContent = [], en_Status = ''applied'' \<rparr>)], sl_OpenAPISpec = [(7, demo_doc)] \<rparr>"

definition demo_options :: Configuration where
  "demo_options = \<lparr> cf_PathToSpecDB = ''db'', cf_DBVersion = 2, cf_UnknownParametersDetection = True, cf_PassOptionsRequests = False,
     cf_MaxErrorsInResponse = 0, cf_MetricsEnabled = False \<rparr>"

lemma Find_registered:
  assumes "AddEndpoint (initial_env rc) NewMux me p (Some g) = (mx, None)" and "ToUpper me = me" "\<not> wild p" "p \<noteq> []"
  shows "\<exists>rctx. Find (initial_env rc) sub mx NewRouteContext me p = (Some g, rctx)"
proof -
  let ?sub = "\<lambda>s c m p. ((fst (sub s c m p), None), snd (sub s c m p))"
  have "registerAll (addRoute rc) NewMux [(me, p, None, g)] = (mx, [] @ (me, p, None, g) # [])"
    using assms(1,2) by (simp add: addRoute_def AddEndpoint_actions)
  from mux.registered_found[OF this assms(3,4), of ?sub]
  have "routeFor rc ?sub mx me p = Some (g, None)" by simp
  then show ?thesis
    using Find_FindWithActions[of "initial_env rc" sub mx NewRouteContext me p]
    by (cases "Find (initial_env rc) sub mx NewRouteContext me p") (auto simp: routeFor_def split: option.splits)
qed

definition demo_a_cr :: "(int, unit) customRoute" where
  "demo_a_cr = newRoute demo_doc (hd (od_Paths demo_doc)) (hd (pi_Operations (hd (od_Paths demo_doc))))"

abbreviation demo_handler :: "(int, unit) RequestValidator \<Rightarrow> (dreq, dresp) handler" where
  "demo_handler \<equiv> APIModeHandler demo_http demo_more demo_venv demo_kin_more"

definition demo_mux_a :: "((dreq, dresp) handler, unit) Mux" where
  "demo_mux_a = fst (AddEndpoint (initial_env demo_rc) NewMux ''GET'' ''/a'' (Some (demo_handler (validatorOf demo_options True ''1'' 7 demo_a_cr))))"

lemma demo_mux_a_added:
  "AddEndpoint (initial_env demo_rc) NewMux ''GET'' ''/a'' (Some (demo_handler (validatorOf demo_options True ''1'' 7 demo_a_cr))) = (demo_mux_a, None)"
  unfolding demo_mux_a_def by (rule prod_eqI) (simp_all add: add_GET_a)

lemma demo_getRouters:
  "getRouters (initial_env demo_rc) (\<lambda>d. None) demo_handler demo_options True demo_storage = Inr (Inr [7 \<mapsto> demo_mux_a])"
proof -
  have p: "serverPath (\<lambda>d. None) 7 demo_doc = Inr ''/''" "JoinPath ''/'' ''/a'' = Inr ''/a''" "PathUnescape ''/a'' = Inr ''/a''" by code_simp+
  have r: "NewRouterDBLoader demo_doc = Inr [demo_a_cr]"
    by (simp add: NewRouterDBLoader_def NewRouter_def demo_a_cr_def) (simp add: demo_doc_def)
  have cr: "cr_Path demo_a_cr = ''/a''" "cr_Method demo_a_cr = ''GET''" by code_simp+
  have l: "Specification demo_storage 7 = Some demo_doc" "SchemaIDs demo_storage = [7]" "SpecificationVersion demo_storage 7 = ''1''"
    by (simp_all add: demo_storage_def Specification_def SchemaIDs_def SpecificationVersion_def SpecificationRaw_def)
  show ?thesis by (simp add: getRouters_def routerFor_def l p r cr demo_mux_a_added)
qed

lemma demo_a_handler:
  "demo_handler (validatorOf demo_options True ''1'' 7 demo_a_cr) ctx =
    (Ok, SetUserValue (keyStatusCode 7) (UInt 200) ctx)" if "cx_req ctx = demo_req ''GET'' ''/a'' []"
proof -
  have q: "rqContentEncoding demo_http (demo_req ''GET'' ''/a'' []) = []" by code_simp
  have n: "cr_ParametersNumberInPath demo_a_cr = 0" by code_simp
  have o: "op_Parameters (rt_Operation (cr_Route demo_a_cr)) = []" "op_RequestBody (rt_Operation (cr_Route demo_a_cr)) = None"
    "op_Security (rt_Operation (cr_Route demo_a_cr)) = None" "rt_PathParameters (cr_Route demo_a_cr) = []" "rt_Security (cr_Route demo_a_cr) = []"
    by (simp_all add: demo_a_cr_def newRoute_def demo_doc_def Let_def)
  have v: "validateRest demo_venv opts [] input = Inr (None, input)" if "vi_Route input = cr_Route demo_a_cr" for opts :: "(int, unit, unit) options option" and input
    using o by (simp add: validateRest_def that pathItemParams_def operationParams_def Let_def)
  have "valReqErrors demo_venv input = None" "upResults demo_venv input (requestArgs demo_more (demo_req ''GET'' ''/a'' [])) = ([], None)"
    if "vi_Route input = cr_Route demo_a_cr" for input
    using that v[OF that] o by (simp_all add: valReqErrors_def ValidateRequest_def ValidateSecurityRequirements_def securityOf_def upResults_def
        ValidateUnknownRequestParameters_def demo_more_def foundParams_def unknownQuery_def Let_def)
  then show ?thesis
    using that by (simp add: APIModeHandler_def APIModeValidateRequest_def validatorOf_def apiInput_def pathParamsOf_def q n
        errorList_def reportUnknown_def unknownErrors_def demo_more_def[THEN arg_cong[of _ _ convertRequest]] Let_def)
qed

theorem API_status_200_witness:
  "vr_Summary (fst (ProcessRequest demo_http (initial_env demo_rc) (\<lambda>s c m p. (None, c)) (\<lambda>n. [0..<n]) [7 \<mapsto> demo_mux_a] False 0 7
     (demo_ctx (demo_req ''GET'' ''/a'' [])))) = [\<lparr>vs_SchemaID = 7, vs_StatusCode = 200\<rparr>] \<and>
   (\<exists>p vs. pat_match (initial_env demo_rc) p vs ''/a'')"
proof -
  let ?ctx = "demo_ctx (demo_req ''GET'' ''/a'' [])" and ?sub = "\<lambda>s c m p. (None, c)"
  have w: "ToUpper ''GET'' = ''GET''" "\<not> wild ''/a''" "''/a'' \<noteq> []" by code_simp+
  obtain rctx where f: "Find (initial_env demo_rc) ?sub demo_mux_a NewRouteContext ''GET'' ''/a'' =
      (Some (demo_handler (validatorOf demo_options True ''1'' 7 demo_a_cr)), rctx)"
    using Find_registered[OF demo_mux_a_added w] by blast
  have q: "rqMethod demo_http (cx_req ?ctx) = ''GET''" "rqPath demo_http (cx_req ?ctx) = ''/a''" by code_simp+
  have h: "demo_handler (validatorOf demo_options True ''1'' 7 demo_a_cr) (SetUserValue RouteCtxKey (URoute rctx) ?ctx) =
      (Ok, SetUserValue (keyStatusCode 7) (UInt 200) (SetUserValue RouteCtxKey (URoute rctx) ?ctx))"
    by (rule demo_a_handler) (simp add: demo_ctx_def SetUserValue_def)
  have s: "vr_Summary (fst (ProcessRequest demo_http (initial_env demo_rc) ?sub (\<lambda>n. [0..<n]) [7 \<mapsto> demo_mux_a] False 0 7 ?ctx)) =
      [\<lparr>vs_SchemaID = 7, vs_StatusCode = 200\<rparr>]"
    by (simp add: ProcessRequest_def findRouter_def q f h Let_def)
      (simp add: readResult_def SetUserValue_def demo_ctx_def storedErrors_def SampleSlice_def statusOnly_def)
  have n: "\<not> (False \<and> rqMethod demo_http (cx_req ?ctx) = ''OPTIONS'')" by simp
  have "\<exists>p vs. pat_match (initial_env demo_rc) p vs (rqPath demo_http (cx_req ?ctx))"
    using API_status_200[OF demo_getRouters s n] by (elim exE conjE) (intro exI)
  then show ?thesis using s unfolding q by blast
qed

subsection \<open>A parameter that switches the validation off\<close>









subsection \<open>Every specification has an answer\<close>



lemma readResult_summary:
  "\<exists>st. vr_Summary (fst (readResult perm sid maxErrors ctx)) = [\<lparr>vs_SchemaID = sid, vs_StatusCode = st\<rparr>]"
  by (cases "SampleSlice perm (storedErrors sid ctx) maxErrors")
    (auto simp: readResult_def statusOnly_def split: option.split uval.split)

lemma readResult_500:
  "snd (readResult perm sid maxErrors ctx) = Some e \<Longrightarrow> fst (readResult perm sid maxErrors ctx) = statusOnly sid 500"
  by (cases "SampleSlice perm (storedErrors sid ctx) maxErrors") (auto simp: readResult_def split: option.splits uval.splits)

text \<open>What a request is answered with: no router, no route, or the result of a handler.\<close>

lemma ProcessRequest_cases:
  fixes ctx :: "('rq, 'rs) rctx"
  obtains err where "ProcessRequest H env sub perm routers pass maxErrors sid ctx = (statusOnly sid 500, Some err)"
  | "ProcessRequest H env sub perm routers pass maxErrors sid ctx = (statusOnly sid 200, None)"
  | "ProcessRequest H env sub perm routers pass maxErrors sid ctx = ((statusOnly sid 403)\<lparr>vr_Errors := notFoundErrors sid\<rparr>, None)"
  | ctx' :: "('rq, 'rs) rctx" where "ProcessRequest H env sub perm routers pass maxErrors sid ctx = readResult perm sid maxErrors ctx'"
proof (cases "findRouter env sub routers sid (rqMethod H (cx_req ctx)) (rqPath H (cx_req ctx))")
  case (Inl err)
  then show thesis by (intro that(1)) (simp add: ProcessRequest_def Let_def)
next
  case (Inr r)
  obtain ho rctx where r: "r = (ho, rctx)" by fastforce
  show thesis
  proof (cases ho)
    case None
    with Inr r that(2,3) show thesis
      by (cases "pass \<and> rqMethod H (cx_req ctx) = ''OPTIONS''") (simp_all add: ProcessRequest_def Let_def)
  next
    case (Some g)
    obtain out ctx' where g: "g (SetUserValue RouteCtxKey (URoute rctx) ctx) = (out, ctx')" by fastforce
    from Inr r Some g that(1,4) show thesis by (cases out) (simp_all add: ProcessRequest_def Let_def)
  qed
qed

lemma ProcessRequest_summary:
  "\<exists>st. vr_Summary (fst (ProcessRequest H env sub perm routers pass maxErrors sid ctx)) = [\<lparr>vs_SchemaID = sid, vs_StatusCode = st\<rparr>]"
  by (rule ProcessRequest_cases[of H env sub perm routers pass maxErrors sid ctx])
    (simp_all add: readResult_summary, simp_all add: statusOnly_def)

lemma ProcessRequest_500:
  "snd (ProcessRequest H env sub perm routers pass maxErrors sid ctx) = Some e \<Longrightarrow>
    fst (ProcessRequest H env sub perm routers pass maxErrors sid ctx) = statusOnly sid 500"
  by (rule ProcessRequest_cases[of H env sub perm routers pass maxErrors sid ctx]) (simp_all add: readResult_500)

lemma mset_concat_map: "mset (concat (map g xs)) = (\<Sum>x\<in>#mset xs. mset (g x))"
  by (induction xs) simp_all

lemma errors_count:
  "length (concat (map (\<lambda>r. case snd r of None \<Rightarrow> [] | Some e \<Rightarrow> [e]) xs)) = size (filter_mset (\<lambda>r. snd r \<noteq> None) (mset xs))"
  by (induction xs) (auto split: option.split)

text \<open>C11. The fan-out loses nothing: whatever the order in which the goroutines finish, the answer of
  \<^verbatim>\<open>ValidateRequest\<close> has one line for every requested specification, with its multiplicity, and there is an error
  for each specification whose line was written with an error.\<close>

theorem fan_out_complete:
  assumes "\<And>xs. mset (order xs) = mset xs"
  shows "mset (map vs_SchemaID (vr_Summary (fst (fwValidateRequest H B env sub perm order a sids uri method body headers)))) = mset sids \<and>
    length (snd (fwValidateRequest H B env sub perm order a sids uri method body headers)) =
      length (filter (\<lambda>sid. snd (fwProcess H env sub perm a sid (newCtx B (buildRequest B uri method body headers))) \<noteq> None) sids)"
proof -
  let ?f = "\<lambda>sid. fwProcess H env sub perm a sid (newCtx B (buildRequest B uri method body headers))"
  let ?rs = "order (map ?f sids)"
  have m: "mset ?rs = mset (map ?f sids)" by (rule assms)
  have one: "image_mset vs_SchemaID (mset (vr_Summary (fst (?f sid)))) = {#sid#}" for sid
  proof -
    obtain st where "vr_Summary (fst (?f sid)) = [\<lparr>vs_SchemaID = sid, vs_StatusCode = st\<rparr>]"
      unfolding fwProcess_def using ProcessRequest_summary by blast
    then show ?thesis by simp
  qed
  have "map vs_SchemaID (concat (map (vr_Summary \<circ> fst) ?rs)) = concat (map (\<lambda>r. map vs_SchemaID (vr_Summary (fst r))) ?rs)"
    by (simp add: map_concat comp_def)
  also have "mset \<dots> = (\<Sum>r\<in>#mset ?rs. mset (map vs_SchemaID (vr_Summary (fst r))))"
    by (rule mset_concat_map)
  also have "\<dots> = (\<Sum>sid\<in>#mset sids. {#sid#})" unfolding m by (simp add: one comp_def image_mset.compositionality)
  finally have s: "mset (map vs_SchemaID (concat (map (vr_Summary \<circ> fst) ?rs))) = mset sids" by simp
  have "length (concat (map (\<lambda>r. case snd r of None \<Rightarrow> [] | Some e \<Rightarrow> [e]) ?rs)) =
      size (filter_mset (\<lambda>r. snd r \<noteq> None) (mset (map ?f sids)))" by (simp only: errors_count m)
  also have "\<dots> = length (filter (\<lambda>sid. snd (?f sid) \<noteq> None) sids)"
    by (simp add: filter_mset_image_mset comp_def flip: mset_filter)
  finally show ?thesis using s by (simp add: fwValidateRequest_def mergeResults_def)
qed

definition demo_fw :: "(dreq, dresp, unit, (int, unit) document) APIFWModeAPI" where
  "demo_fw = \<lparr> fw_routers = Map.empty, fw_specsStorage = LV2 emptyDB, fw_metrics = True,
     fw_options = \<lparr> cf_PathToSpecDB = ''db'', cf_DBVersion = 2, cf_UnknownParametersDetection = True, cf_PassOptionsRequests = False,
       cf_MaxErrorsInResponse = 0, cf_MetricsEnabled = False \<rparr> \<rparr>"

definition demo_api :: "(dreq, dresp, unit) fasthttpAPI" where
  "demo_api = \<lparr> newCtx = demo_ctx, buildRequest = (\<lambda>uri method body headers. demo_req method uri []), readRequest = (\<lambda>r. (Inl ''EOF'', r)),
     rsResetHeader = (\<lambda>r. r), rqSetMethod = (\<lambda>m r. r\<lparr>d_method := m\<rparr>) \<rparr>"

theorem fan_out_complete_witness:
  "mset (map vs_SchemaID (vr_Summary (fst (fwValidateRequest demo_http demo_api (initial_env demo_rc) (\<lambda>s c m p. (None, c)) (\<lambda>n. [0..<n]) rev
     demo_fw [3, 1, 3] ''/'' ''GET'' [] [])))) = {#1, 3, 3#}"
proof -
  have "mset (map vs_SchemaID (vr_Summary (fst (fwValidateRequest demo_http demo_api (initial_env demo_rc) (\<lambda>s c m p. (None, c)) (\<lambda>n. [0..<n]) rev
     demo_fw [3, 1, 3] ''/'' ''GET'' [] [])))) = mset [3, 1, 3]"
    by (rule fan_out_complete[THEN conjunct1]) simp
  then show ?thesis by simp
qed

subsection \<open>Updates of the storage\<close>

definition applied :: "int list \<Rightarrow> int \<times> SpecificationEntryV2 \<Rightarrow> int \<times> SpecificationEntryV2" where
  "applied is ie = (if fst ie \<in> set is then (fst ie, (snd ie)\<lparr>en_Status := ''applied''\<rparr>) else ie)"

lemma markLoop_applied:
  "\<forall>i \<in> set is. - (2 ^ 63) \<le> i \<and> i < 2 ^ 63 \<Longrightarrow>
    markLoop (map Itoa is) s = (None, s\<lparr>sl_RawSpecs := map (applied is) (sl_RawSpecs s)\<rparr>)"
proof (induction "is" arbitrary: s)
  case Nil
  have "applied [] = id" by (auto simp: applied_def)
  then show ?case by simp
next
  case (Cons i "is")
  have "applied is (if fst ie = i then (i, (snd ie)\<lparr>en_Status := ''applied''\<rparr>) else ie) = applied (i # is) ie" for ie
    by (auto simp: applied_def)
  then show ?case using Cons by (simp add: Atoi_Itoa setApplied_def comp_def)
qed

lemma applied_props [simp]:
  "fst (applied is ie) = fst ie" "en_SchemaID (snd (applied is ie)) = en_SchemaID (snd ie)"
  "en_SchemaVersion (snd (applied is ie)) = en_SchemaVersion (snd ie)"
  by (simp_all add: applied_def)

text \<open>The identifiers of new entries.\<close>

definition newKeys :: "(SpecificationEntryV2, 'd) SQLLite \<Rightarrow> int list" where
  "newKeys s = map fst (filter (\<lambda>ie. en_Status (snd ie) = ''new'') (sl_RawSpecs s))"

lemma applied_not_new: "ie \<in> set (sl_RawSpecs s) \<Longrightarrow> en_Status (snd (applied (newKeys s) ie)) \<noteq> ''new''"
  by (auto simp: applied_def newKeys_def)

definition versionsOf :: "(SpecificationEntryV2, 'd) SQLLite \<Rightarrow> (int \<times> string) list" where
  "versionsOf s = map (\<lambda>ie. (fst ie, en_SchemaVersion (snd ie))) (sl_RawSpecs s)"

lemma map_of_values: "map_of (map (\<lambda>ie. (fst ie, g (snd ie))) xs) i = map_option g (map_of xs i)"
  by (induction xs) auto

lemma SpecificationVersion_V2:
  "SpecificationVersion (LV2 s) i = (case map_of (versionsOf s) i of None \<Rightarrow> [] | Some v \<Rightarrow> v)"
  by (simp add: versionsOf_def map_of_values SpecificationVersion_def SpecificationRaw_def split: option.split)

lemma SchemaIDs_V2: "db_ok s \<Longrightarrow> SchemaIDs (LV2 s) = sort (map fst (versionsOf s))"
proof -
  assume "db_ok s"
  moreover have "map fst (versionsOf s) = map fst (sl_RawSpecs s)" by (simp add: versionsOf_def)
  ultimately show ?thesis using entries_ids[of "sl_RawSpecs s"] by (simp add: SchemaIDs_def db_ok_def)
qed

lemma ShouldUpdate_V2:
  assumes "db_ok s" "db_ok t" "versionsOf s = versionsOf t"
  shows "ShouldUpdate (LV2 s) (LV2 t) \<longleftrightarrow> (\<exists>ie \<in> set (sl_RawSpecs t). en_Status (snd ie) = ''new'')"
proof -
  have d: "distinct (map fst (sl_RawSpecs t))" using assms(2) unfolding db_ok_def entries_ok_def by blast
  have ch: "changedV2 (LV2 s) (LV2 t) i \<longleftrightarrow> (\<exists>e. (i, e) \<in> set (sl_RawSpecs t) \<and> en_Status e = ''new'')" for i
  proof (cases "map_of (sl_RawSpecs t) i")
    case None
    then have "(i, e) \<notin> set (sl_RawSpecs t)" for e by (force simp: map_of_eq_None_iff)
    with None show ?thesis by (simp add: changedV2_def SpecificationRaw_def)
  next
    case (Some e)
    have "SpecificationVersion (LV2 s) i = SpecificationVersion (LV2 t) i" unfolding SpecificationVersion_V2 assms(3) by (rule refl)
    also have "\<dots> = en_SchemaVersion e" by (simp add: SpecificationVersion_def SpecificationRaw_def Some)
    finally show ?thesis using Some d by (auto simp: changedV2_def SpecificationRaw_def dest: eq_key_imp_eq_value)
  qed
  have "ShouldUpdate (LV2 s) (LV2 t) \<longleftrightarrow> (\<exists>i \<in> set (SchemaIDs (LV2 t)). changedV2 (LV2 s) (LV2 t) i)"
    by (simp add: ShouldUpdate_def SchemaIDs_V2[OF assms(1)] SchemaIDs_V2[OF assms(2)] assms(3))
  also have "set (SchemaIDs (LV2 t)) = fst ` set (sl_RawSpecs t)"
    by (simp add: SchemaIDs_V2[OF assms(2)] versionsOf_def image_image)
  finally show ?thesis unfolding ch by (auto simp: Bex_def)
qed

text \<open>C34. The library loses updates of specifications.  Let the table of the database hold entries with the status
  \<^verbatim>\<open>new\<close> under identifiers and versions that are already in use.  The storage as it is loaded asks for an update.  The method
  \<^verbatim>\<open>UpdateSpecsStorage\<close> however loads it together with the function that marks the entries, in the storage and in the
  database, before it compares: it reports no update and keeps the old routers, and the database says that the
  entries are applied.\<close>

theorem UpdateSpecsStorage_loses_new:
  assumes "fw_specsStorage a = LV2 s" and "db_ok s" and "cf_DBVersion (fw_options a) = 2"
    and "path = currentDBPath (cf_PathToSpecDB (fw_options a)) 2" and "statErr W w path = None" and "sqlOpen W w path = None"
    and "loadDB W scanV2 queryV2 w path = (t, [])" and "versionsOf s = versionsOf t" and "newIDs t \<noteq> []"
    and "\<forall>ie \<in> set (sl_RawSpecs t). - (2 ^ 63) \<le> fst ie \<and> fst ie < 2 ^ 63"
    and "sqlExec W path (updateQuery (newIDs t)) w = (None, w')"
  shows "ShouldUpdate (LV2 s) (LV2 t) \<and>
    UpdateSpecsStorage env basePath mkHandler W a w = (Inr (SchemaIDs (LV2 s), False, None), a, w')"
proof -
  define t' where "t' = t\<lparr>sl_RawSpecs := map (applied (newKeys t)) (sl_RawSpecs t)\<rparr>"
  have n: "newIDs t = map Itoa (newKeys t)" by (simp add: newIDs_def newKeys_def)
  have "\<forall>i \<in> set (newKeys t). - (2 ^ 63) \<le> i \<and> i < 2 ^ 63" using assms(10) by (auto simp: newKeys_def)
  then have m: "markLoop (newIDs t) t = (None, t')" unfolding n t'_def by (rule markLoop_applied)
  have ok: "db_ok t" "db_ok t'"
    using loadDB_ok[of W scanV2 queryV2 w path] assms(7) markLoop_ok[of t "newIDs t"] m by simp_all
  have v: "versionsOf s = versionsOf t'" using assms(8) by (simp add: versionsOf_def t'_def)
  have "ShouldUpdate (LV2 s) (LV2 t)"
    using assms(9) by (auto simp: ShouldUpdate_V2[OF assms(2) ok(1) assms(8)] newIDs_def filter_empty_conv)
  moreover have "\<not> ShouldUpdate (LV2 s) (LV2 t')"
    unfolding ShouldUpdate_V2[OF assms(2) ok(2) v] by (auto simp: t'_def applied_not_new)
  moreover have "NewOpenAPIDB W (cf_PathToSpecDB (fw_options a)) 2 w = (LV2 t', [], w')"
    using assms(5-7,9,11) m
    by (simp add: NewOpenAPIDB_def loadOpenAPIDBVersion_def NewOpenAPIDBV2_def afterLoadV2_def assms(4))
  ultimately show ?thesis using assms(1,3) by (simp add: UpdateSpecsStorage_def LoaderVersion_def)
qed

text \<open>A table that is a list of rows; the update marks all of them.\<close>

definition demo_world :: "((int, unit) document, (int \<times> string list) list) world" where
  "demo_world = \<lparr> loadFromData = (\<lambda>s. Inr \<lparr> od_Paths = [], od_Security = [], od_SecuritySchemes = [] \<rparr>), validateOAS = (\<lambda>d. None),
     statErr = (\<lambda>w p. None), openFile = (\<lambda>w p. Inl ''not found''), clientDo = (\<lambda>w u h. Inl ''no network''), sqlOpen = (\<lambda>w p. None),
     sqlQuery = (\<lambda>w p q. Inr w), sqlExec = (\<lambda>p q w. (None, map (\<lambda>(i, cols). (i, cols[3 := ''applied''])) w)) \<rparr>"

definition demo_rows :: "string \<Rightarrow> string \<Rightarrow> (int \<times> string list) list" where
  "demo_rows content status = [(4, [''1.0'', ''yaml'', content, status])]"

theorem UpdateSpecsStorage_loses_new_witness:
  "UpdateSpecsStorage (initial_env demo_rc) (\<lambda>d. None) (APIModeHandler demo_http demo_more demo_venv demo_kin_more) demo_world
     (demo_fw\<lparr>fw_specsStorage := LV2 (fst (loadDB demo_world scanV2 queryV2 (demo_rows ''old'' ''applied'') ''db''))\<rparr>) (demo_rows ''changed'' ''new'') =
   (Inr ([4], False, None),
     demo_fw\<lparr>fw_specsStorage := LV2 (fst (loadDB demo_world scanV2 queryV2 (demo_rows ''old'' ''applied'') ''db''))\<rparr>,
     demo_rows ''changed'' ''applied'')"
proof -
  let ?s = "fst (loadDB demo_world scanV2 queryV2 (demo_rows ''old'' ''applied'') ''db'')"
  let ?t = "fst (loadDB demo_world scanV2 queryV2 (demo_rows ''changed'' ''new'') ''db'')"
  have s: "sl_RawSpecs ?s = [(4, \<lparr> en_SchemaID = 4, en_SchemaVersion = ''1.0'', en_SchemaFormat = ''yaml'', en_SchemaContent = ''old'', en_Status = ''applied'' \<rparr>)]"
    and t: "sl_RawSpecs ?t = [(4, \<lparr> en_SchemaID = 4, en_SchemaVersion = ''1.0'', en_SchemaFormat = ''yaml'', en_SchemaContent = ''changed'', en_Status = ''new'' \<rparr>)]"
    and l: "loadDB demo_world scanV2 queryV2 (demo_rows ''changed'' ''new'') ''db'' = (?t, [])"
    by (simp_all add: loadDB_def demo_world_def demo_rows_def scanV2_def parsedDB_def parseEntry_def ParseOAS_def)
  have v: "versionsOf ?s = versionsOf ?t" "newIDs ?t \<noteq> []" by (simp_all add: versionsOf_def newIDs_def s t)
  have i: "SchemaIDs (LV2 ?s) = [4]" by (simp add: SchemaIDs_def s)
  have w: "sqlExec demo_world ''db'' q (demo_rows ''changed'' ''new'') = (None, demo_rows ''changed'' ''applied'')" for q
    by (simp add: demo_world_def demo_rows_def)
  have p: "fw_specsStorage (demo_fw\<lparr>fw_specsStorage := LV2 ?s\<rparr>) = LV2 ?s" "cf_DBVersion (fw_options (demo_fw\<lparr>fw_specsStorage := LV2 ?s\<rparr>)) = 2"
    "''db'' = currentDBPath (cf_PathToSpecDB (fw_options (demo_fw\<lparr>fw_specsStorage := LV2 ?s\<rparr>))) 2"
    "statErr demo_world (demo_rows ''changed'' ''new'') ''db'' = None" "sqlOpen demo_world (demo_rows ''changed'' ''new'') ''db'' = None"
    "\<forall>ie \<in> set (sl_RawSpecs ?t). - (2 ^ 63) \<le> fst ie \<and> fst ie < 2 ^ 63"
    by (simp_all add: demo_fw_def currentDBPath_def t) (simp_all add: demo_world_def)
  show ?thesis
    using UpdateSpecsStorage_loses_new[OF p(1) loadDB_ok p(2,3,4,5) l v p(6) w, of "initial_env demo_rc" "\<lambda>d. None"
        "APIModeHandler demo_http demo_more demo_venv demo_kin_more"] unfolding i by (rule conjunct2)
qed

end
