(* ===== verification/GraphQL_Check.thy ===== *)
theory GraphQL_Check
  imports Unknown_Params Web
begin

text \<open>
  The checks of a GraphQL request (\<^verbatim>\<open>internal/platform/validator/graphql.go\<close>, \<^verbatim>\<open>internal/platform/complexity\<close>,
  \<^verbatim>\<open>internal/config/graphql.go\<close>).  The GraphQL and JSON libraries are not part of the repository; what the code calls of
  them is the record \<open>gqlLib\<close>.  Their methods may parse the query into private fields of the request, so they return
  the request they leave.  A document is the part of the library's syntax tree that the code reads: tables that refer to
  each other by number.
\<close>

subsection \<open>Data\<close>

record gqlCfg =
  gc_MaxQueryComplexity :: int
  gc_MaxQueryDepth :: int
  gc_MaxAliasesNum :: int
  gc_NodeCountLimit :: int
  gc_BatchQueryLimit :: int
  gc_DisableFieldDuplication :: bool
  gc_Playground :: bool
  gc_PlaygroundPath :: string
  gc_Introspection :: bool
  gc_WSCheckOrigin :: bool
  gc_WSOrigin :: "string list"
  gc_RequestValidation :: string

record 'p gqlRequest =
  gr_OperationName :: string
  gr_Variables :: string
  gr_Query :: string
  gr_Private :: 'p

record gqlField =
  fd_Name :: string
  fd_HasAlias :: bool
  fd_HasSelections :: bool

text \<open>The number of a selection is an index into the table of its kind.\<close>

datatype selectionKind = SelectionField | SelectionFragmentSpread | SelectionInlineFragment

record 'p gqlDocument =
  dc_Fields :: "gqlField list"
  dc_Selections :: "(selectionKind \<times> nat) list"
  dc_SelectionSets :: "nat list list"
  dc_Private :: 'p

datatype gqlErr = GPlain gerror | GNameMissing | GNameNotFound string | GErrors "string list" | GNil

datatype operationType = OperationQuery | OperationMutation | OperationSubscription | OperationUnknown

record complexityResult =
  co_Complexity :: int
  co_Depth :: int
  co_NodeCount :: int

record validationResult =
  vr_Valid :: bool
  vr_Errors :: "string list option"

record ('sc, 'p) gqlLib =
  IsIntrospectionQuery :: "'p gqlRequest \<Rightarrow> bool result \<times> 'p gqlRequest"
  ParseGraphqlDocumentString :: "string \<Rightarrow> 'p gqlDocument"
  NumOfOperationDefinitions :: "'p gqlDocument \<Rightarrow> nat"
  OperationNameExists :: "'p gqlDocument \<Rightarrow> string \<Rightarrow> bool"
  CalculateComplexity :: "'sc \<Rightarrow> 'p gqlRequest \<Rightarrow> complexityResult result \<times> 'p gqlRequest"
  Normalize :: "'sc \<Rightarrow> 'p gqlRequest \<Rightarrow> validationResult result \<times> 'p gqlRequest"
  ValidateForSchema :: "'sc \<Rightarrow> 'p gqlRequest \<Rightarrow> validationResult result \<times> 'p gqlRequest"
  OperationType :: "'p gqlRequest \<Rightarrow> operationType result"
  RequestErrorsFromError :: "gqlErr \<Rightarrow> string list"
  ParseBytes :: "string \<Rightarrow> fjson result"
  MarshalTo :: "fjson \<Rightarrow> string"
  ErrEmptyRequest :: gerror
  notStringErr :: "fjson \<Rightarrow> gerror"
  noPrivate :: 'p

definition ErrNotAllowIntrospectionQuery :: gerror where
  "ErrNotAllowIntrospectionQuery = ''introspection queries are not allowed''"
definition ErrGraphQLQueryNotFound :: gerror where
  "ErrGraphQLQueryNotFound = ''GraphQL query not found in the request''"
definition ErrWrongGraphQLQueryTypeInGETRequest :: gerror where
  "ErrWrongGraphQLQueryTypeInGETRequest = ''wrong GraphQL query type in GET request''"
definition ErrFieldDuplicationFound :: gerror where
  "ErrFieldDuplicationFound = ''duplicate fields were found in the GraphQL document''"

subsection \<open>Complexity\<close>

definition limitError :: "string \<Rightarrow> int \<Rightarrow> string \<Rightarrow> int \<Rightarrow> string list" where
  "limitError what limit current n =
    (if limit > 0 \<and> n > limit then [what @ Itoa limit @ current @ Itoa n] else [])"

definition ValidateQuery :: "('sc, 'p) gqlLib \<Rightarrow> gqlCfg \<Rightarrow> 'sc \<Rightarrow> 'p gqlRequest \<Rightarrow> string list \<times> 'p gqlRequest" where
  "ValidateQuery L cfg s r =
    (case CalculateComplexity L s r of
       (Inl err, r') \<Rightarrow> (RequestErrorsFromError L (GPlain err), r')
     | (Inr res, r') \<Rightarrow>
         (limitError ''the maximum query complexity value has been exceeded. The maximum query complexity value is ''
            (gc_MaxQueryComplexity cfg) ''. The current query complexity is '' (co_Complexity res) @
          limitError ''the maximum query depth value has been exceeded. The maximum query depth value is ''
            (gc_MaxQueryDepth cfg) ''. The current query depth is '' (co_Depth res) @
          limitError ''the query node limit has been exceeded. The query node count limit is ''
            (gc_NodeCountLimit cfg) ''. The current query node count value is '' (co_NodeCount res), r'))"

subsection \<open>Aliases, duplicate fields and operation names\<close>

fun getNumOfAliases :: "gqlField list \<Rightarrow> nat" where
  "getNumOfAliases [] = 0"
| "getNumOfAliases (f # fs) = (if fd_HasAlias f then Suc (getNumOfAliases fs) else getNumOfAliases fs)"

definition validateAliasesNum :: "'p gqlDocument \<Rightarrow> int \<Rightarrow> gqlErr option" where
  "validateAliasesNum document maxAliasesNum =
    (let numOfAliases = int (getNumOfAliases (dc_Fields document))
     in if numOfAliases > maxAliasesNum
        then Some (GPlain (''the maximum number of aliases in the GraphQL document has been exceeded. The maximum number of aliases value is ''
               @ Itoa maxAliasesNum @ ''. The current number of aliases is '' @ Itoa numOfAliases))
        else None)"

text \<open>The map of one selection set.  The number of a selection is taken as the number of a field, whatever its kind; an
  index out of range is a panic.\<close>

definition indexPanic :: string where "indexPanic = ''runtime error: index out of range''"

fun fieldsRepeatMap :: "'p gqlDocument \<Rightarrow> nat list \<Rightarrow> (string \<times> nat) list \<Rightarrow> (string \<times> nat) list result" where
  "fieldsRepeatMap document [] m = Inr m"
| "fieldsRepeatMap document (cs # refs) m =
    (if cs < length (dc_Selections document) \<and> snd (dc_Selections document ! cs) < length (dc_Fields document)
     then let field = dc_Fields document ! snd (dc_Selections document ! cs)
          in fieldsRepeatMap document refs
               (if fd_HasSelections field then m
                else AList.update (fd_Name field)
                       (case map_of m (fd_Name field) of None \<Rightarrow> 1 | Some currentNum \<Rightarrow> currentNum + 1) m)
     else Inl indexPanic)"

fun duplicatesIn :: "'p gqlDocument \<Rightarrow> nat list list \<Rightarrow> gqlErr option result" where
  "duplicatesIn document [] = Inr None"
| "duplicatesIn document (ss # sets) =
    (case fieldsRepeatMap document ss [] of
       Inl p \<Rightarrow> Inl p
     | Inr m \<Rightarrow> if list_ex (\<lambda>(f, n). n > 1) m then Inr (Some (GPlain ErrFieldDuplicationFound))
               else duplicatesIn document sets)"

definition validateDuplicateFields :: "'p gqlDocument \<Rightarrow> gqlErr option result" where
  "validateDuplicateFields document = duplicatesIn document (dc_SelectionSets document)"

definition validateOperationName :: "('sc, 'p) gqlLib \<Rightarrow> 'p gqlDocument \<Rightarrow> 'p gqlRequest \<Rightarrow> gqlErr option" where
  "validateOperationName L document r =
    (let operationName = TrimSpace (gr_OperationName r)
     in if operationName = [] \<and> NumOfOperationDefinitions L document > 1 then Some GNameMissing
        else if \<not> OperationNameExists L document operationName then Some (GNameNotFound operationName)
        else None)"

subsection \<open>The request\<close>

text \<open>The steps in the order of the code: each gives the result of the function or lets the next one run.\<close>

type_synonym verdict = "validationResult \<times> gerror option"

definition refused :: "string list option \<Rightarrow> verdict" where
  "refused errs = (\<lparr> vr_Valid = False, vr_Errors = errs \<rparr>, None)"

definition failed :: "gerror \<Rightarrow> verdict" where
  "failed err = (\<lparr> vr_Valid = False, vr_Errors = None \<rparr>, Some err)"

definition introspectionCheck :: "('sc, 'p) gqlLib \<Rightarrow> gqlCfg \<Rightarrow> 'p gqlRequest \<Rightarrow> verdict + 'p gqlRequest" where
  "introspectionCheck L cfg r =
    (if gc_Introspection cfg then Inr r
     else case IsIntrospectionQuery L r of
       (Inl err, r') \<Rightarrow> Inl (failed err)
     | (Inr b, r') \<Rightarrow>
         if b then Inl (refused (Some (RequestErrorsFromError L (GPlain ErrNotAllowIntrospectionQuery)))) else Inr r')"

definition complexityCheck :: "('sc, 'p) gqlLib \<Rightarrow> gqlCfg \<Rightarrow> 'sc \<Rightarrow> 'p gqlRequest \<Rightarrow> verdict + 'p gqlRequest" where
  "complexityCheck L cfg schema r =
    (if gc_NodeCountLimit cfg > 0 \<or> gc_MaxQueryDepth cfg > 0 \<or> gc_MaxQueryComplexity cfg > 0
     then (case ValidateQuery L cfg schema r of
             (errs, r') \<Rightarrow> if errs \<noteq> [] then Inl (refused (Some errs)) else Inr r')
     else Inr r)"

definition schemaCheck :: "('sc, 'p) gqlLib \<Rightarrow> 'sc \<Rightarrow> 'p gqlRequest \<Rightarrow> verdict + 'p gqlRequest" where
  "schemaCheck L schema r =
    (case Normalize L schema r of
       (Inl err, r1) \<Rightarrow> Inl (failed err)
     | (Inr norm, r1) \<Rightarrow>
         if \<not> vr_Valid norm then Inl (refused (vr_Errors norm))
         else case ValidateForSchema L schema r1 of
           (Inl err, r2) \<Rightarrow> Inl (failed err)
         | (Inr res, r2) \<Rightarrow> if \<not> vr_Valid res then Inl (res, None) else Inr r2)"

definition duplicateCheck :: "('sc, 'p) gqlLib \<Rightarrow> gqlCfg \<Rightarrow> 'p gqlDocument \<Rightarrow> verdict result" where
  "duplicateCheck L cfg document =
    (if gc_DisableFieldDuplication cfg
     then map_sum id (\<lambda>e. case e of Some err \<Rightarrow> refused (Some (RequestErrorsFromError L err))
                                 | None \<Rightarrow> (\<lparr> vr_Valid = True, vr_Errors = None \<rparr>, None))
            (validateDuplicateFields document)
     else Inr (\<lparr> vr_Valid = True, vr_Errors = None \<rparr>, None))"

definition ValidateGraphQLRequest :: "('sc, 'p) gqlLib \<Rightarrow> gqlCfg \<Rightarrow> 'sc \<Rightarrow> 'p gqlRequest \<Rightarrow> verdict result" where
  "ValidateGraphQLRequest L cfg schema r =
    (case introspectionCheck L cfg r of
       Inl v \<Rightarrow> Inr v
     | Inr r1 \<Rightarrow>
         let document = ParseGraphqlDocumentString L (gr_Query r1)
         in case validateOperationName L document r1 of
              Some err \<Rightarrow> Inr (refused (Some (RequestErrorsFromError L err)))
            | None \<Rightarrow>
                (case (if gc_MaxAliasesNum cfg > 0 then validateAliasesNum document (gc_MaxAliasesNum cfg) else None) of
                   Some err \<Rightarrow> Inr (refused (Some (RequestErrorsFromError L err)))
                 | None \<Rightarrow>
                     (case complexityCheck L cfg schema r1 of
                        Inl v \<Rightarrow> Inr v
                      | Inr r2 \<Rightarrow>
                          (case schemaCheck L schema r2 of
                             Inl v \<Rightarrow> Inr v
                           | Inr r3 \<Rightarrow> duplicateCheck L cfg document))))"

subsection \<open>Reading a request\<close>

definition getKey :: "string \<Rightarrow> fjson \<Rightarrow> fjson option" where
  "getKey k v = (case v of FJObject kvs \<Rightarrow> map_of kvs k | _ \<Rightarrow> None)"

definition StringBytes :: "('sc, 'p) gqlLib \<Rightarrow> fjson \<Rightarrow> string result" where
  "StringBytes L v = (case v of FJString s \<Rightarrow> Inr s | _ \<Rightarrow> Inl (notStringErr L v))"

definition stringKey :: "('sc, 'p) gqlLib \<Rightarrow> string \<Rightarrow> fjson \<Rightarrow> string result" where
  "stringKey L k v = (case getKey k v of None \<Rightarrow> Inr [] | Some x \<Rightarrow> StringBytes L x)"

definition requestOf :: "('sc, 'p) gqlLib \<Rightarrow> fjson \<Rightarrow> 'p gqlRequest result" where
  "requestOf L v =
    andThen (stringKey L ''query'' v) (\<lambda>query.
      map_sum id (\<lambda>opName. \<lparr> gr_OperationName = opName,
          gr_Variables = (case getKey ''variables'' v of None \<Rightarrow> [] | Some x \<Rightarrow> MarshalTo L x),
          gr_Query = query, gr_Private = noPrivate L \<rparr>)
        (stringKey L ''operationName'' v))"

fun requestsOf :: "('sc, 'p) gqlLib \<Rightarrow> fjson list \<Rightarrow> 'p gqlRequest list result" where
  "requestsOf L [] = Inr []"
| "requestsOf L (v # vs) = andThen (requestOf L v) (\<lambda>r. map_sum id (\<lambda>rs. r # rs) (requestsOf L vs))"

definition UnmarshalGraphQLRequest :: "('sc, 'p) gqlLib \<Rightarrow> string \<Rightarrow> 'p gqlRequest list result" where
  "UnmarshalGraphQLRequest L requestBytes =
    (if requestBytes = [] then Inl (ErrEmptyRequest L)
     else andThen (ParseBytes L requestBytes) (\<lambda>parsedRequest.
       case parsedRequest of
         FJObject kvs \<Rightarrow> map_sum id (\<lambda>r. [r]) (requestOf L parsedRequest)
       | FJArray batchQueries \<Rightarrow> requestsOf L batchQueries
       | _ \<Rightarrow> Inl ''JSON parsing error: invalid query''))"

text \<open>\<^verbatim>\<open>json.NewEncoder(w).Encode\<close> on a string: the escapes of Go's library, with its HTML escapes, the
  replacement of bytes that are no UTF-8 and the line break at the end.  \<open>utf8Size\<close> is the number of bytes of a valid
  sequence at the start of the text, or 0.\<close>

definition continues :: "char \<Rightarrow> bool" where
  "continues c \<longleftrightarrow> (let b = of_char c :: nat in 0x80 \<le> b \<and> b \<le> 0xBF)"

definition utf8Size :: "string \<Rightarrow> nat" where
  "utf8Size s =
    (case map of_char s :: nat list of
       [] \<Rightarrow> 0
     | b0 # rest \<Rightarrow>
         if b0 < 0x80 then 1
         else if 0xC2 \<le> b0 \<and> b0 \<le> 0xDF \<and> list_all continues (take 1 (tl s)) \<and> length s \<ge> 2 then 2
         else if 0xE0 \<le> b0 \<and> b0 \<le> 0xEF \<and> length s \<ge> 3 \<and> list_all continues (take 2 (tl s))
             \<and> (b0 = 0xE0 \<longrightarrow> hd rest \<ge> 0xA0) \<and> (b0 = 0xED \<longrightarrow> hd rest \<le> 0x9F) then 3
         else if 0xF0 \<le> b0 \<and> b0 \<le> 0xF4 \<and> length s \<ge> 4 \<and> list_all continues (take 3 (tl s))
             \<and> (b0 = 0xF0 \<longrightarrow> hd rest \<ge> 0x90) \<and> (b0 = 0xF4 \<longrightarrow> hd rest \<le> 0x8F) then 4
         else 0)"

definition lowerHex :: "nat \<Rightarrow> char" where
  "lowerHex n = ''0123456789abcdef'' ! n"

definition jsonByte :: "char \<Rightarrow> string" where
  "jsonByte c =
    (if c = CHR 0x22 \<or> c = CHR 0x5C then [CHR 0x5C, c]
     else if c = CHR 0x08 then [CHR 0x5C, CHR ''b'']
     else if c = CHR 0x0C then [CHR 0x5C, CHR ''f'']
     else if c = CHR 0x0A then [CHR 0x5C, CHR ''n'']
     else if c = CHR 0x0D then [CHR 0x5C, CHR ''r'']
     else if c = CHR 0x09 then [CHR 0x5C, CHR ''t'']
     else if of_char c < (0x20 :: nat) \<or> c = CHR ''<'' \<or> c = CHR ''>'' \<or> c = CHR ''&''
     then [CHR 0x5C] @ ''u00'' @ [lowerHex (of_char c div 16), lowerHex (of_char c mod 16)]
     else [c])"

function escapeJSON :: "string \<Rightarrow> string" where
  "escapeJSON s =
    (if s = [] then []
     else if utf8Size s = 0 then [CHR 0x5C] @ ''ufffd'' @ escapeJSON (tl s)
     else (if utf8Size s = 1 then jsonByte (hd s)
           else if take 3 s = [CHR 0xE2, CHR 0x80, CHR 0xA8] then [CHR 0x5C] @ ''u2028''
           else if take 3 s = [CHR 0xE2, CHR 0x80, CHR 0xA9] then [CHR 0x5C] @ ''u2029''
           else take (utf8Size s) s) @ escapeJSON (drop (utf8Size s) s))"
  by pat_completeness auto
termination by (relation "measure length") auto
declare escapeJSON.simps [simp del]

definition encodeJSON :: "string \<Rightarrow> string" where
  "encodeJSON s = [CHR 0x22] @ escapeJSON s @ [CHR 0x22, CHR 0x0A]"

text \<open>The text that the code builds for a GET request; the operation name is not escaped.\<close>

definition getQueryJSON :: "string \<Rightarrow> string \<Rightarrow> string" where
  "getQueryJSON query opName =
    [CHR ''{'', CHR 0x22] @ ''query'' @ [CHR 0x22, CHR '':''] @ encodeJSON query
    @ [CHR '','', CHR 0x22] @ ''operationName'' @ [CHR 0x22, CHR '':'', CHR 0x22] @ opName @ [CHR 0x22, CHR ''}'']"

fun checkOperationTypes :: "('sc, 'p) gqlLib \<Rightarrow> string \<Rightarrow> 'p gqlRequest list \<Rightarrow> gerror option" where
  "checkOperationTypes L httpMethod [] = None"
| "checkOperationTypes L httpMethod (r # rs) =
    (case OperationType L r of
       Inl err \<Rightarrow> Some err
     | Inr operationType \<Rightarrow>
         if httpMethod = ''GET'' \<and> operationType \<noteq> OperationQuery then Some ErrWrongGraphQLQueryTypeInGETRequest
         else checkOperationTypes L httpMethod rs)"

text \<open>More of the server library: the decoded value of an argument of the query string, and what the GraphQL handlers
  change in a request.\<close>

record ('rq, 'rs) fasthttpGQL =
  rqQueryArg :: "string \<Rightarrow> 'rq \<Rightarrow> string"
  rqSetPath :: "string \<Rightarrow> 'rq \<Rightarrow> 'rq"
  isWebSocketUpgrade :: "'rq \<Rightarrow> bool"

definition queryText :: "('rq, 'rs) fasthttp \<Rightarrow> ('rq, 'rs) fasthttpGQL \<Rightarrow> 'rq \<Rightarrow> string result" where
  "queryText H G rq =
    (if rqMethod H rq = ''GET'' then
       map_sum id (\<lambda>q. getQueryJSON q (rqQueryArg G ''operationName'' rq)) (QueryUnescape (rqQueryArg G ''query'' rq))
     else if rqMethod H rq = ''POST'' then Inr (rqBody H rq) else Inr [])"

definition ParseGraphQLRequest :: "('rq, 'rs) fasthttp \<Rightarrow> ('rq, 'rs) fasthttpGQL \<Rightarrow> ('sc, 'p) gqlLib \<Rightarrow> 'rq \<Rightarrow> 'p gqlRequest list result" where
  "ParseGraphQLRequest H G L rq =
    andThen (queryText H G rq) (\<lambda>query.
      if query = [] then Inl ErrGraphQLQueryNotFound
      else andThen (UnmarshalGraphQLRequest L query) (\<lambda>gqlRequest.
        case checkOperationTypes L (rqMethod H rq) gqlRequest of
          Some err \<Rightarrow> Inl err
        | None \<Rightarrow> Inr gqlRequest))"

subsection \<open>The pool of buffers\<close>

text \<open>The code builds the text of a GET request in a buffer of a pool.  For a POST request it replaces the buffer by
  one over the bytes of the request, and the deferred function puts that one into the pool.  Byte arrays are addresses
  of a store; the array of an address has the length of its capacity, and a slice that starts at its first byte is the
  address with a length.  Appending writes in place when the bytes fit and moves to a new array otherwise.
  The argument \<open>pick\<close> tells which buffer the pool gives out, \<^term>\<open>None\<close> for a new one.\<close>

record goBuffer =
  bf_Array :: nat
  bf_Len :: nat

record bufferPool =
  bp_Store :: "nat \<Rightarrow> string"
  bp_Free :: nat
  bp_Pool :: "goBuffer list"

definition bufBytes :: "bufferPool \<Rightarrow> goBuffer \<Rightarrow> string" where
  "bufBytes st b = take (bf_Len b) (bp_Store st (bf_Array b))"

definition bufGet :: "nat option \<Rightarrow> bufferPool \<Rightarrow> goBuffer \<times> bufferPool" where
  "bufGet pick st =
    (case pick of
       Some i \<Rightarrow>
         if i < length (bp_Pool st)
         then (bp_Pool st ! i, st\<lparr>bp_Pool := take i (bp_Pool st) @ drop (Suc i) (bp_Pool st)\<rparr>)
         else (\<lparr> bf_Array = bp_Free st, bf_Len = 0 \<rparr>, st\<lparr>bp_Store := (bp_Store st)(bp_Free st := []), bp_Free := Suc (bp_Free st)\<rparr>)
     | None \<Rightarrow> (\<lparr> bf_Array = bp_Free st, bf_Len = 0 \<rparr>, st\<lparr>bp_Store := (bp_Store st)(bp_Free st := []), bp_Free := Suc (bp_Free st)\<rparr>))"

definition bufPut :: "goBuffer \<Rightarrow> bufferPool \<Rightarrow> bufferPool" where
  "bufPut b st = st\<lparr>bp_Pool := bp_Pool st @ [b\<lparr>bf_Len := 0\<rparr>]\<rparr>"

definition bufWrite :: "string \<Rightarrow> goBuffer \<times> bufferPool \<Rightarrow> goBuffer \<times> bufferPool" where
  "bufWrite p bs =
    (let (b, st) = bs; arr = bp_Store st (bf_Array b); n = bf_Len b + length p in
     if n \<le> length arr
     then (b\<lparr>bf_Len := n\<rparr>, st\<lparr>bp_Store := (bp_Store st)(bf_Array b := take (bf_Len b) arr @ p @ drop n arr)\<rparr>)
     else (\<lparr> bf_Array = bp_Free st, bf_Len = n \<rparr>,
           st\<lparr>bp_Store := (bp_Store st)(bp_Free st := take (bf_Len b) arr @ p), bp_Free := Suc (bp_Free st)\<rparr>))"

definition buildQuery :: "nat option \<Rightarrow> string \<Rightarrow> string result \<Rightarrow> string \<Rightarrow> goBuffer \<Rightarrow> bufferPool \<Rightarrow> string result \<times> bufferPool" where
  "buildQuery pick httpMethod unescaped opName body st =
    (let (query, st1) = bufGet pick st in
     if httpMethod = ''GET'' then
       let (q1, st2) = bufWrite ([CHR ''{'', CHR 0x22] @ ''query'' @ [CHR 0x22, CHR '':'']) (query, st1)
       in case unescaped of
            Inl err \<Rightarrow> (Inl err, bufPut q1 st2)
          | Inr q \<Rightarrow>
              let (q2, st3) = fold bufWrite [encodeJSON q,
                    [CHR '','', CHR 0x22] @ ''operationName'' @ [CHR 0x22, CHR '':'', CHR 0x22], opName, [CHR 0x22, CHR ''}'']] (q1, st2)
              in (Inr (bufBytes st3 q2), bufPut q2 st3)
     else if httpMethod = ''POST'' then (Inr (bufBytes st1 body), bufPut body st1)
     else (Inr (bufBytes st1 query), bufPut query st1))"

end
