(* ===== verification/GraphQL_Handler.thy ===== *)
theory GraphQL_Handler
  imports GraphQL_Check Proxy_Handler
begin

text \<open>
  The GraphQL mode (\<^verbatim>\<open>cmd/api-firewall/internal/handlers/graphql\<close>, \<^verbatim>\<open>internal/platform/proxy/ws.go\<close> and
  \<^verbatim>\<open>wsClient.go\<close>, \<^verbatim>\<open>internal/platform/web/adaptor.go\<close>): the connection to the backend, the session of a WebSocket
  connection as a step relation over its two goroutines, the handler of HTTP requests and the application.  The
  WebSocket library is a parameter: dialing, upgrading, and whether a write fails.
\<close>

subsection \<open>The WebSocket client\<close>

record wsOptions =
  wo_Scheme :: string
  wo_Host :: string
  wo_Path :: string
  wo_InsecureConnection :: bool
  wo_RootCA :: string

definition NewWSClient :: "(string \<Rightarrow> string result) \<Rightarrow> (string \<Rightarrow> bool) \<Rightarrow> wsOptions \<Rightarrow> string result" where
  "NewWSClient readFile appendCerts opts =
    (case BuildTLSConfig readFile appendCerts (wo_InsecureConnection opts) (wo_RootCA opts) of
       Inl err \<Rightarrow> Inl err
     | Inr tlsConfig \<Rightarrow> Inr (wo_Scheme opts @ ''://'' @ path_Join [wo_Host opts, wo_Path opts]))"

text \<open>The response of the backend to the handshake: \<open>wr_Body\<close> has the bytes that can be read and the error of
  reading, if any.\<close>

record wsResponse =
  wr_Header :: "(string \<times> string list) list"
  wr_StatusCode :: int
  wr_Body :: "string \<times> gerror option"

record ('rq, 'rs) wsLib =
  wsDial :: "string \<Rightarrow> (string \<times> string) list \<Rightarrow> wsResponse result"
  wsUpgrade :: "bool \<Rightarrow> 'rq \<Rightarrow> 'rs \<Rightarrow> 'rs \<times> gerror option"
  rsSetBody :: "string \<Rightarrow> 'rs \<Rightarrow> 'rs"
  marshalError :: "string \<Rightarrow> string list \<Rightarrow> string result"

definition peekText :: "('rq, 'rs) fasthttp \<Rightarrow> string \<Rightarrow> 'rq \<Rightarrow> string" where
  "peekText H k rq = (case rqPeek H k rq of None \<Rightarrow> [] | Some v \<Rightarrow> v)"

definition builtinForwardHeaderHandler :: "('rq, 'rs) fasthttp \<Rightarrow> 'rq \<Rightarrow> (string \<times> string) list" where
  "builtinForwardHeaderHandler H rq =
    (let origin = peekText H ''Origin'' rq; cookie = peekText H ''Cookie'' rq
     in (if origin \<noteq> [] then [(''Origin'', origin)] else []) @ (if cookie \<noteq> [] then [(''Cookie'', cookie)] else []))"

definition wsCopyResponse :: "('rq, 'rs) fasthttp \<Rightarrow> ('rq, 'rs) wsLib \<Rightarrow> wsResponse \<Rightarrow> 'rs \<Rightarrow> 'rs \<times> gerror option" where
  "wsCopyResponse H W src dst =
    (let dst1 = fold (\<lambda>(k, vv) d. fold (\<lambda>v d. rsAdd H k v d) vv d) (wr_Header src) dst;
         dst2 = rsSetStatus H (wr_StatusCode src) dst1
     in case wr_Body src of
          (body, Some err) \<Rightarrow> (dst2, Some err)
        | (body, None) \<Rightarrow> (rsSetBody W body dst2, None))"

definition GetConn :: "('rq, 'rs) fasthttp \<Rightarrow> ('rq, 'rs) wsLib \<Rightarrow> string \<Rightarrow> ('rq, 'rs) rctx \<Rightarrow> gerror option \<times> ('rq, 'rs) rctx" where
  "GetConn H W connStr ctx =
    (case wsDial W connStr (builtinForwardHeaderHandler H (cx_req ctx)) of
       Inl err \<Rightarrow> (Some err, ctx)
     | Inr backendResp \<Rightarrow>
         (case wsCopyResponse H W backendResp (cx_resp ctx) of (resp, err) \<Rightarrow> (err, ctx\<lparr>cx_resp := resp\<rparr>)))"

subsection \<open>A session\<close>

text \<open>The messages written so far decide together with the next one whether a write fails.  Each goroutine is at its
  \<^verbatim>\<open>select\<close>, blocked in a read, or done.  A panic of a goroutine ends the process.\<close>

type_synonym frame = "int \<times> string"

datatype wsPC = AtSelect | Reading | Finished

record wsSession =
  ss_Client :: wsPC
  ss_Backend :: wsPC
  ss_errClient :: bool
  ss_errBackend :: bool
  ss_toBackend :: "frame list"
  ss_toClient :: "frame list"
  ss_Crash :: "string option"

record wsConns =
  backendWriteErr :: "frame list \<Rightarrow> frame \<Rightarrow> gerror option"
  clientWriteErr :: "frame list \<Rightarrow> frame \<Rightarrow> gerror option"

record ('rq, 'rs, 'sc, 'p) gqlHandler =
  gh_cfg :: gqlCfg
  gh_schema :: 'sc
  gh_lib :: "('sc, 'p) gqlLib"
  gh_ws :: "('rq, 'rs) wsLib"
  gh_ServerPath :: string
  gh_RequestHostHeader :: string
  gh_ConnStr :: string
  gh_got :: "string result"
  gh_client :: "'rq \<Rightarrow> 'rs \<Rightarrow> 'rs \<times> goerr option"

definition newSession :: wsSession where
  "newSession = \<lparr> ss_Client = AtSelect, ss_Backend = AtSelect, ss_errClient = False, ss_errBackend = False,
     ss_toBackend = [], ss_toClient = [], ss_Crash = None \<rparr>"

definition stopClient :: "wsSession \<Rightarrow> wsSession" where
  "stopClient s = s\<lparr>ss_Client := Finished, ss_errClient := True\<rparr>"

definition stopBackend :: "wsSession \<Rightarrow> wsSession" where
  "stopBackend s = s\<lparr>ss_Backend := Finished, ss_errBackend := True\<rparr>"

definition writeBackend :: "wsConns \<Rightarrow> frame \<Rightarrow> wsSession \<Rightarrow> gerror option \<times> wsSession" where
  "writeBackend E f s =
    (case backendWriteErr E (ss_toBackend s) f of
       Some err \<Rightarrow> (Some err, s)
     | None \<Rightarrow> (None, s\<lparr>ss_toBackend := ss_toBackend s @ [f]\<rparr>))"

definition writeClient :: "wsConns \<Rightarrow> frame \<Rightarrow> wsSession \<Rightarrow> gerror option \<times> wsSession" where
  "writeClient E f s =
    (case clientWriteErr E (ss_toClient s) f of
       Some err \<Rightarrow> (Some err, s)
     | None \<Rightarrow> (None, s\<lparr>ss_toClient := ss_toClient s @ [f]\<rparr>))"

text \<open>A message that is handed to the backend ends the goroutine when the write fails.\<close>

definition passOn :: "wsConns \<Rightarrow> frame \<Rightarrow> wsSession \<Rightarrow> wsSession" where
  "passOn E f s =
    (case writeBackend E f s of
       (Some err, s1) \<Rightarrow> stopClient s1
     | (None, s1) \<Rightarrow> s1\<lparr>ss_Client := AtSelect\<rparr>)"

definition SendError :: "('rq, 'rs, 'sc, 'p) gqlHandler \<Rightarrow> wsConns \<Rightarrow> int \<Rightarrow> string \<Rightarrow> gqlErr \<Rightarrow> wsSession \<Rightarrow> wsSession" where
  "SendError h E messageType msgID err s =
    (case marshalError (gh_ws h) msgID (RequestErrorsFromError (gh_lib h) err) of
       Inl e \<Rightarrow> s
     | Inr msg \<Rightarrow> snd (writeClient E (messageType, msg) s))"

definition completeMessage :: "string \<Rightarrow> string" where
  "completeMessage i =
    [CHR ''{'', CHR 0x22] @ ''id'' @ [CHR 0x22, CHR '':'', CHR 0x22] @ i @ [CHR 0x22, CHR '','', CHR 0x22] @ ''type''
    @ [CHR 0x22, CHR '':'', CHR 0x22] @ ''complete'' @ [CHR 0x22, CHR ''}'']"

definition SendComplete :: "wsConns \<Rightarrow> int \<Rightarrow> string \<Rightarrow> wsSession \<Rightarrow> wsSession" where
  "SendComplete E messageType i s = snd (writeClient E (messageType, completeMessage i) s)"

definition refuseMessage :: "('rq, 'rs, 'sc, 'p) gqlHandler \<Rightarrow> wsConns \<Rightarrow> int \<Rightarrow> string \<Rightarrow> gqlErr \<Rightarrow> wsSession \<Rightarrow> wsSession" where
  "refuseMessage h E messageType msgID err s =
    (SendComplete E messageType msgID (SendError h E messageType msgID err s))\<lparr>ss_Client := AtSelect\<rparr>"

text \<open>\<^verbatim>\<open>GetStringBytes\<close> gives nothing for a value that is missing or no string.\<close>

definition textOf :: "fjson option \<Rightarrow> string" where
  "textOf v = (case v of Some (FJString s) \<Rightarrow> s | _ \<Rightarrow> [])"

definition payloadKey :: "string \<Rightarrow> fjson \<Rightarrow> fjson option" where
  "payloadKey k msg = Option.bind (getKey ''payload'' msg) (getKey k)"

definition messageRequest :: "('sc, 'p) gqlLib \<Rightarrow> fjson \<Rightarrow> 'p gqlRequest" where
  "messageRequest L msg =
    \<lparr> gr_OperationName = textOf (payloadKey ''operationName'' msg), gr_Variables = textOf (payloadKey ''variables'' msg),
      gr_Query = textOf (payloadKey ''query'' msg), gr_Private = noPrivate L \<rparr>"

definition startsOperation :: "fjson \<Rightarrow> bool" where
  "startsOperation msg \<longleftrightarrow> textOf (getKey ''type'' msg) = ''subscribe'' \<or> textOf (getKey ''type'' msg) = ''start''"

definition isMode :: "('rq, 'rs, 'sc, 'p) gqlHandler \<Rightarrow> string \<Rightarrow> bool" where
  "isMode h mode \<longleftrightarrow> EqualFold (gc_RequestValidation (gh_cfg h)) mode"

definition uncheckedFrame :: "frame \<Rightarrow> bool" where
  "uncheckedFrame f \<longleftrightarrow> snd f = [] \<or> fst f \<noteq> 1 \<and> fst f \<noteq> 2"

text \<open>What follows the validation: the branch for a result that is not valid, then the write.\<close>

definition afterValidation :: "('rq, 'rs, 'sc, 'p) gqlHandler \<Rightarrow> wsConns \<Rightarrow> frame \<Rightarrow> string \<Rightarrow> validationResult \<Rightarrow> wsSession \<Rightarrow> wsSession" where
  "afterValidation h E f msgID res s =
    (if \<not> vr_Valid res \<and> isMode h ValidationBlock
     then refuseMessage h E (fst f) msgID (case vr_Errors res of None \<Rightarrow> GNil | Some es \<Rightarrow> GErrors es) s
     else passOn E f s)"

definition checkMessage :: "('rq, 'rs, 'sc, 'p) gqlHandler \<Rightarrow> wsConns \<Rightarrow> frame \<Rightarrow> fjson \<Rightarrow> wsSession \<Rightarrow> wsSession" where
  "checkMessage h E f msg s =
    (let msgID = textOf (getKey ''id'' msg) in
     case ValidateGraphQLRequest (gh_lib h) (gh_cfg h) (gh_schema h) (messageRequest (gh_lib h) msg) of
       Inl p \<Rightarrow> s\<lparr>ss_Crash := Some p\<rparr>
     | Inr (res, Some err) \<Rightarrow>
         if isMode h ValidationBlock then refuseMessage h E (fst f) msgID (GPlain ''invalid graphql request'') s
         else (case writeBackend E f s of
                 (Some e, s1) \<Rightarrow> stopClient s1
               | (None, s1) \<Rightarrow> afterValidation h E f msgID res s1)
     | Inr (res, None) \<Rightarrow> afterValidation h E f msgID res s)"

definition clientMessage :: "('rq, 'rs, 'sc, 'p) gqlHandler \<Rightarrow> wsConns \<Rightarrow> frame \<Rightarrow> wsSession \<Rightarrow> wsSession" where
  "clientMessage h E f s =
    (if isMode h ValidationDisable \<or> uncheckedFrame f then passOn E f s
     else case ParseBytes (gh_lib h) (snd f) of
       Inl err \<Rightarrow> if isMode h ValidationLog then passOn E f s else s\<lparr>ss_Client := AtSelect\<rparr>
     | Inr msg \<Rightarrow> if startsOperation msg then checkMessage h E f msg s else passOn E f s)"

definition backendMessage :: "wsConns \<Rightarrow> frame \<Rightarrow> wsSession \<Rightarrow> wsSession" where
  "backendMessage E f s =
    (case writeClient E f s of
       (Some err, s1) \<Rightarrow> stopBackend s1
     | (None, s1) \<Rightarrow> s1\<lparr>ss_Backend := AtSelect\<rparr>)"

text \<open>The steps of the two goroutines, in any order.\<close>

inductive wsStep :: "('rq, 'rs, 'sc, 'p) gqlHandler \<Rightarrow> wsConns \<Rightarrow> wsSession \<Rightarrow> wsSession \<Rightarrow> bool"
  for h :: "('rq, 'rs, 'sc, 'p) gqlHandler" and E :: wsConns
where
  client_told: "ss_Crash s = None \<Longrightarrow> ss_Client s = AtSelect \<Longrightarrow> ss_errBackend s \<Longrightarrow> wsStep h E s (stopClient s)"
| client_waits: "ss_Crash s = None \<Longrightarrow> ss_Client s = AtSelect \<Longrightarrow> \<not> ss_errBackend s \<Longrightarrow> wsStep h E s (s\<lparr>ss_Client := Reading\<rparr>)"
| client_fails: "ss_Crash s = None \<Longrightarrow> ss_Client s = Reading \<Longrightarrow> wsStep h E s (stopClient s)"
| client_reads: "ss_Crash s = None \<Longrightarrow> ss_Client s = Reading \<Longrightarrow> wsStep h E s (clientMessage h E f s)"
| backend_told: "ss_Crash s = None \<Longrightarrow> ss_Backend s = AtSelect \<Longrightarrow> ss_errClient s \<Longrightarrow> wsStep h E s (stopBackend s)"
| backend_waits: "ss_Crash s = None \<Longrightarrow> ss_Backend s = AtSelect \<Longrightarrow> \<not> ss_errClient s \<Longrightarrow> wsStep h E s (s\<lparr>ss_Backend := Reading\<rparr>)"
| backend_fails: "ss_Crash s = None \<Longrightarrow> ss_Backend s = Reading \<Longrightarrow> wsStep h E s (stopBackend s)"
| backend_reads: "ss_Crash s = None \<Longrightarrow> ss_Backend s = Reading \<Longrightarrow> wsStep h E s (backendMessage E f s)"

text \<open>\<^verbatim>\<open>closeWSConn\<close>, run for the backend and then for the client when both goroutines have ended: a close message, then the
  close.  \<open>formatClose\<close> is the library's text of a close message.\<close>

definition closeFrames :: "(int \<Rightarrow> string) \<Rightarrow> wsConns \<Rightarrow> wsSession \<Rightarrow> wsSession" where
  "closeFrames formatClose E s =
    snd (writeClient E (8, formatClose 1000) (snd (writeBackend E (8, formatClose 1000) s)))"

subsection \<open>Upgrading\<close>

definition checkOrigin :: "('rq, 'rs) fasthttp \<Rightarrow> gqlCfg \<Rightarrow> 'rq \<Rightarrow> bool" where
  "checkOrigin H cfg rq = (if \<not> gc_WSCheckOrigin cfg then True else peekText H ''Origin'' rq \<in> set (gc_WSOrigin cfg))"

text \<open>What becomes of the connection to the backend: it is never opened, closed at the end of the session, or left open
  without one.\<close>

datatype backendConn = NotOpened | ClosedAfterSession | LeftOpen

definition HandleWebSocketProxy :: "('rq, 'rs) fasthttp \<Rightarrow> ('rq, 'rs, 'sc, 'p) gqlHandler \<Rightarrow> ('rq, 'rs) rctx
    \<Rightarrow> (outcome \<times> ('rq, 'rs) rctx) \<times> backendConn" where
  "HandleWebSocketProxy H h ctx =
    (case GetConn H (gh_ws h) (gh_ConnStr h) ctx of
       (Some err, ctx1) \<Rightarrow> (RespondError H 503 [] (logMsg ''Connecting to the server WS error'' ctx1),
          case wsDial (gh_ws h) (gh_ConnStr h) (builtinForwardHeaderHandler H (cx_req ctx)) of Inl _ \<Rightarrow> NotOpened | Inr _ \<Rightarrow> LeftOpen)
     | (None, ctx1) \<Rightarrow>
         (case wsUpgrade (gh_ws h) (checkOrigin H (gh_cfg h) (cx_req ctx1)) (cx_req ctx1) (cx_resp ctx1) of
            (resp, Some err) \<Rightarrow> ((Ok, logMsg ''WebSocket handler'' (ctx1\<lparr>cx_resp := resp\<rparr>)), LeftOpen)
          | (resp, None) \<Rightarrow> ((Ok, ctx1\<lparr>cx_resp := resp\<rparr>), ClosedAfterSession)))"

subsection \<open>HTTP requests\<close>

definition ErrNetworkConnection :: string where "ErrNetworkConnection = ''network connection error''"
definition ErrInvalidQuery :: string where "ErrInvalidQuery = ''invalid query''"

definition proxyGraphQL :: "('rq, 'rs) fasthttp \<Rightarrow> ('rq, 'rs, 'sc, 'p) gqlHandler \<Rightarrow> ('rq, 'rs) handler" where
  "proxyGraphQL H h ctx =
    (case Perform H (gh_client h) (gh_got h) (gh_RequestHostHeader h) ctx of
       (Err e, ctx1) \<Rightarrow>
         RespondGraphQLErrors H ErrNetworkConnection (onResp (rsSetStatus H 500) (logMsg ''request proxying'' ctx1))
     | r \<Rightarrow> r)"

text \<open>The goroutine of one request of a batch: its error, or a panic.\<close>

definition checkQuery :: "('rq, 'rs, 'sc, 'p) gqlHandler \<Rightarrow> 'p gqlRequest \<Rightarrow> gqlErr option result" where
  "checkQuery h r =
    map_sum id (\<lambda>(res, err). case err of
        Some e \<Rightarrow> Some (GPlain e)
      | None \<Rightarrow> if vr_Valid res then None else map_option GErrors (vr_Errors res))
      (ValidateGraphQLRequest (gh_lib h) (gh_cfg h) (gh_schema h) r)"

text \<open>The number of requests of a batch that are refused; a panic wins.\<close>

definition checkQueries :: "('rq, 'rs, 'sc, 'p) gqlHandler \<Rightarrow> 'p gqlRequest list \<Rightarrow> nat result" where
  "checkQueries h rs =
    (let results = map (checkQuery h) rs in
     case find isl results of
       Some (Inl p) \<Rightarrow> Inl p
     | _ \<Rightarrow> Inr (length (filter (\<lambda>res. res \<noteq> Inr None) results)))"

text \<open>The end of the handler: the limit of a batch, the validation of every request, the proxying.  \<open>groupPanic\<close> is what
  the group of goroutines makes of a panic in one of them.\<close>

definition overLimit :: "gqlCfg \<Rightarrow> 'p gqlRequest list \<Rightarrow> bool" where
  "overLimit cfg rs \<longleftrightarrow> gc_BatchQueryLimit cfg > 0 \<and> gc_BatchQueryLimit cfg < int (length rs)"

definition validateBatch :: "('rq, 'rs) fasthttp \<Rightarrow> ('rq, 'rs, 'sc, 'p) gqlHandler \<Rightarrow> (string \<Rightarrow> outcome) \<Rightarrow> 'p gqlRequest list \<Rightarrow> ('rq, 'rs) handler" where
  "validateBatch H h groupPanic rs ctx =
    (let block = isMode h ValidationBlock;
         ctx1 = (if overLimit (gh_cfg h) rs then logMsg ''GraphQL query validation'' ctx else ctx)
     in if overLimit (gh_cfg h) rs \<and> block then RespondGraphQLErrors H ErrInvalidQuery ctx1
        else case checkQueries h rs of
          Inl p \<Rightarrow> (groupPanic p, ctx1)
        | Inr n \<Rightarrow>
            let ctx2 = (logMsg ''GraphQL query validation'' ^^ n) ctx1
            in if n > 0 \<and> block then RespondGraphQLErrors H ErrInvalidQuery ctx2 else proxyGraphQL H h ctx2)"

definition GraphQLHandle :: "('rq, 'rs) fasthttp \<Rightarrow> ('rq, 'rs) fasthttpGQL \<Rightarrow> ('rq, 'rs, 'sc, 'p) gqlHandler \<Rightarrow> (string \<Rightarrow> outcome) \<Rightarrow> ('rq, 'rs) handler" where
  "GraphQLHandle H G h groupPanic ctx0 =
    (let ctx = onReq (rqSetPath G (gh_ServerPath h)) ctx0; rq = cx_req ctx in
     if isWebSocketUpgrade G rq then fst (HandleWebSocketProxy H h ctx)
     else if rqMethod H rq = ''POST'' \<and> \<not> EqualFold (rqContentType H rq) ''application/json''
     then RespondError H 403 [] (logMsg ''POST request without application/json content-type is received'' ctx)
     else if rqMethod H rq = ''GET'' \<and> rqQueryArg G ''query'' rq = []
     then RespondGraphQLErrors H ErrInvalidQuery (onResp (rsSetStatus H 400)
            (logMsg ''GET request without query parameter is received'' ctx))
     else if isMode h ValidationDisable then proxyGraphQL H h ctx
     else case ParseGraphQLRequest H G (gh_lib h) rq of
       Inl err \<Rightarrow>
         let ctx1 = logMsg ''GraphQL request unmarshal'' ctx
         in if isMode h ValidationBlock then RespondGraphQLErrors H ErrInvalidQuery ctx1
            else validateBatch H h groupPanic [] ctx1
     | Inr rs \<Rightarrow> validateBatch H h groupPanic rs ctx)"

subsection \<open>The application\<close>

text \<open>\<^verbatim>\<open>NewFastHTTPHandler\<close>: \<open>serve\<close> is the handler of \<^verbatim>\<open>net/http\<close> on the converted request, with the status it wrote (0 for
  none), its headers and the bytes it wrote; \<open>detect\<close> is \<^verbatim>\<open>http.DetectContentType\<close>.\<close>

definition Playground :: string where "Playground = ''playground''"

definition writerStatus :: "int \<Rightarrow> int" where
  "writerStatus statusCode = (if statusCode = 0 then 200 else statusCode)"

definition NewFastHTTPHandler :: "('rq, 'rs) fasthttp \<Rightarrow> ('rq \<Rightarrow> 'hr result) \<Rightarrow> (string \<Rightarrow> string)
    \<Rightarrow> ('hr \<Rightarrow> int \<times> (string \<times> string list) list \<times> string) \<Rightarrow> bool \<Rightarrow> ('rq, 'rs) handler" where
  "NewFastHTTPHandler H convert detect serve isPlayground ctx =
    (case convert (cx_req ctx) of
       Inl err \<Rightarrow> (Err (Plain err), onResp (rsError H ''Internal Server Error'' 500) ctx)
     | Inr r \<Rightarrow>
         let (status, header, body) = serve r;
             ctx1 = onResp (rsSetStatus H (writerStatus status) \<circ> rsWrite H body) ctx;
             ctx2 = onResp (fold (\<lambda>(k, vv) d. fold (\<lambda>v d. rsAdd H k v d) vv d) header) ctx1;
             ctx3 = (if ''Content-Type'' \<in> fst ` set header then ctx2
                     else onResp (rsSet H ''Content-Type'' (detect (take 512 (rsBody H (cx_resp ctx2))))) ctx2)
         in (Ok, if isPlayground then SetUserValue Playground (UBool True) ctx3 else ctx3))"

definition gqlMiddlewares :: "('rq, 'rs) fasthttp \<Rightarrow> gqlCfg \<Rightarrow> bool \<Rightarrow> ('c, 'tx) guards \<Rightarrow> ('rq, 'rs) middleware option list" where
  "gqlMiddlewares H cfg deleteAcceptEncoding g =
    map Some [Logger, Errors H, Panics,
      Proxy H \<lparr> po_Mode = GraphQLMode, po_RequestValidation = gc_RequestValidation cfg,
        po_DeleteAcceptEncoding = deleteAcceptEncoding, po_Scheme = gd_Scheme g, po_Host = gd_Host g \<rparr>,
      IPAllowlist (gd_Cache g) H ((gd_Allow g)\<lparr>al_Mode := GraphQLMode, al_CustomBlockStatusCode := 401\<rparr>),
      Denylist (gd_Cache g) H ((gd_Deny g)\<lparr>dl_Mode := GraphQLMode, dl_CustomBlockStatusCode := 401\<rparr>)]"

fun registerPlayground :: "router_env \<Rightarrow> (string \<times> ('rq, 'rs) handler) list \<Rightarrow> ('rq, 'rs, 'm) App \<Rightarrow> ('rq, 'rs, 'm) App" where
  "registerPlayground env [] app = app"
| "registerPlayground env ((path, ph) # rest) app =
    registerPlayground env rest (fst (Handle env app ''GET'' path None ph []))"

text \<open>\<^verbatim>\<open>Handlers\<close>; \<open>playground\<close> gives the pages of the playground for its path and the path of the endpoint.  \<^term>\<open>Inl\<close> ends the
  process.  The application of this mode never calls a default handler.\<close>

definition gqlHandlers :: "('rq, 'rs) fasthttp \<Rightarrow> ('rq, 'rs) fasthttpGQL \<Rightarrow> router_env \<Rightarrow> (string \<Rightarrow> string \<Rightarrow> (string \<times> ('rq, 'rs) handler) list result)
    \<Rightarrow> ('rq, 'rs, 'sc, 'p) gqlHandler \<Rightarrow> (string \<Rightarrow> outcome) \<Rightarrow> bool \<Rightarrow> ('c, 'tx) guards \<Rightarrow> string \<Rightarrow> ('rq, 'rs) handler \<Rightarrow> ('rq, 'rs, 'm) App result" where
  "gqlHandlers H G env playground h groupPanic deleteAcceptEncoding g apiHost nilHandler =
    andThen (map_sum (\<lambda>err. ''parsing API Host URL: '' @ err) id (URL_ParseRequestURI apiHost)) (\<lambda>u.
      let graphqlPath = (if u_Path u = [] then ''/'' else u_Path u);
          app = NewApp GraphQLMode False nilHandler (gqlMiddlewares H (gh_cfg h) deleteAcceptEncoding g);
          app1 = fst (Handle env app ''GET'' graphqlPath None (GraphQLHandle H G h groupPanic) [None]);
          app2 = fst (Handle env app1 ''POST'' graphqlPath None (GraphQLHandle H G h groupPanic) [])
      in if gc_Playground (gh_cfg h)
         then map_sum (\<lambda>err. ''playground handlers error: '' @ err) (\<lambda>pages. registerPlayground env pages app2)
                (playground (gc_PlaygroundPath (gh_cfg h)) graphqlPath)
         else Inr app2)"

end
