(* ===== verification/GraphQL_Props.thy ===== *)
theory GraphQL_Props
  imports GraphQL_Handler
begin

text \<open>
  Properties of the GraphQL mode: what the checks of a document decide, what reaches the backend over HTTP, and where
  the text that is checked differs from the text that is sent.
\<close>

subsection \<open>An instance of the libraries\<close>

text \<open>A small instance of the GraphQL library, to evaluate the model: the text of a message is its own query, and the
  query \<^verbatim>\<open>err\<close> cannot be normalized.\<close>

definition demo_gql :: "(unit, unit) gqlLib" where
  "demo_gql = \<lparr> IsIntrospectionQuery = (\<lambda>r. (Inr False, r)),
     ParseGraphqlDocumentString = (\<lambda>q. \<lparr> dc_Fields = [\<lparr> fd_Name = ''a'', fd_HasAlias = False, fd_HasSelections = False \<rparr>],
       dc_Selections = [(SelectionField, 0)], dc_SelectionSets = [[0]], dc_Private = () \<rparr>),
     NumOfOperationDefinitions = (\<lambda>d. 1), OperationNameExists = (\<lambda>d n. n = []),
     CalculateComplexity = (\<lambda>s r. (Inr \<lparr> co_Complexity = 1, co_Depth = 1, co_NodeCount = 1 \<rparr>, r)),
     Normalize = (\<lambda>s r. (if gr_Query r = ''err'' then Inl ''no operation'' else Inr \<lparr> vr_Valid = True, vr_Errors = None \<rparr>, r)),
     ValidateForSchema = (\<lambda>s r. (Inr \<lparr> vr_Valid = True, vr_Errors = None \<rparr>, r)),
     OperationType = (\<lambda>r. Inr OperationQuery), RequestErrorsFromError = (\<lambda>e. [''e'']),
     ParseBytes = (\<lambda>s. Inr (FJObject [(''type'', FJString ''start''), (''query'', FJString s),
       (''payload'', FJObject [(''query'', FJString s)])])),
     MarshalTo = (\<lambda>v. []), ErrEmptyRequest = ''empty'', notStringErr = (\<lambda>v. ''no string''), noPrivate = () \<rparr>"

definition demo_gql_cfg :: "string \<Rightarrow> gqlCfg" where
  "demo_gql_cfg mode = \<lparr> gc_MaxQueryComplexity = 5, gc_MaxQueryDepth = 5, gc_MaxAliasesNum = 5, gc_NodeCountLimit = 5, gc_BatchQueryLimit = 1,
     gc_DisableFieldDuplication = True, gc_Playground = False, gc_PlaygroundPath = ''/'', gc_Introspection = False,
     gc_WSCheckOrigin = False, gc_WSOrigin = [], gc_RequestValidation = mode \<rparr>"

definition demo_gql_http :: "(dreq, dresp) fasthttpGQL" where
  "demo_gql_http = \<lparr> rqQueryArg = (\<lambda>k r. if k = ''query'' then d_path r else []), rqSetPath = (\<lambda>p r. r), isWebSocketUpgrade = (\<lambda>r. False) \<rparr>"

definition demo_ws :: "(dreq, dresp) wsLib" where
  "demo_ws = \<lparr> wsDial = (\<lambda>c hs. Inr \<lparr> wr_Header = [], wr_StatusCode = 101, wr_Body = ([], None) \<rparr>),
     wsUpgrade = (\<lambda>b rq rs. (rs, if b then None else Some ''origin not allowed'')),
     rsSetBody = (\<lambda>b r. r\<lparr>d_rbody := b\<rparr>), marshalError = (\<lambda>i es. Inr (concat es)) \<rparr>"

definition demo_gql_handler :: "string \<Rightarrow> (dreq, dresp, unit, unit) gqlHandler" where
  "demo_gql_handler mode = \<lparr> gh_cfg = demo_gql_cfg mode, gh_schema = (), gh_lib = demo_gql, gh_ws = demo_ws, gh_ServerPath = ''/graphql'',
     gh_RequestHostHeader = [], gh_ConnStr = ''ws://backend/graphql'', gh_got = Inr ''192.0.2.9'', gh_client = (\<lambda>rq rs. (rs, None)) \<rparr>"

definition demo_gql_ctx :: "(dreq, dresp) rctx" where
  "demo_gql_ctx = demo_ctx ((demo_req ''POST'' ''/graphql'' [(''Content-Type'', ''application/json'')])\<lparr>d_body := ''{a}''\<rparr>)"

lemmas demo_gql_defs = demo_gql_def demo_gql_cfg_def demo_gql_http_def demo_ws_def demo_gql_handler_def demo_gql_ctx_def

subsection \<open>Duplicate fields\<close>

text \<open>The selections of a set that the code can look up, and the names of the fields without selections that it
  finds for them.\<close>

definition inRange :: "'p gqlDocument \<Rightarrow> nat list \<Rightarrow> bool" where
  "inRange doc ss \<longleftrightarrow> list_all (\<lambda>cs. cs < length (dc_Selections doc) \<and> snd (dc_Selections doc ! cs) < length (dc_Fields doc)) ss"

definition leafNames :: "'p gqlDocument \<Rightarrow> nat list \<Rightarrow> string list" where
  "leafNames doc ss = map fd_Name (filter (\<lambda>f. \<not> fd_HasSelections f) (map (\<lambda>cs. dc_Fields doc ! snd (dc_Selections doc ! cs)) ss))"

lemma inRange_simps [simp]:
  "inRange doc []"
  "inRange doc (cs # ss) \<longleftrightarrow> cs < length (dc_Selections doc) \<and> snd (dc_Selections doc ! cs) < length (dc_Fields doc) \<and> inRange doc ss"
  by (auto simp: inRange_def)

lemma fieldsRepeatMap_out: "\<not> inRange doc ss \<Longrightarrow> fieldsRepeatMap doc ss m = Inl indexPanic"
  by (induction ss arbitrary: m) (auto simp: Let_def)

lemma fieldsRepeatMap_keys:
  "fieldsRepeatMap doc ss m = Inr m' \<Longrightarrow> distinct (map fst m) \<Longrightarrow> distinct (map fst m')"
  by (induction ss arbitrary: m) (auto simp: Let_def distinct_update split: if_splits)

text \<open>A name of the map has the number of its occurrences.\<close>

lemma fieldsRepeatMap_counts:
  assumes "fieldsRepeatMap doc ss m = Inr m'"
  shows "map_of m' x = (if map_of m x = None \<and> x \<notin> set (leafNames doc ss) then None
           else Some ((case map_of m x of None \<Rightarrow> 0 | Some n \<Rightarrow> n) + count_list (leafNames doc ss) x))"
  using assms
proof (induction ss arbitrary: m)
  case Nil
  then show ?case by (auto simp: leafNames_def split: option.splits)
next
  case (Cons cs ss)
  define f where "f = dc_Fields doc ! snd (dc_Selections doc ! cs)"
  show ?case
  proof (cases "fd_HasSelections f")
    case True
    with Cons show ?thesis by (auto simp: Let_def f_def leafNames_def split: if_splits)
  next
    case False
    with Cons.prems have "fieldsRepeatMap doc ss (AList.update (fd_Name f) (case map_of m (fd_Name f) of None \<Rightarrow> 1 | Some n \<Rightarrow> n + 1) m) = Inr m'"
      by (auto simp: Let_def f_def split: if_splits)
    from Cons.IH[OF this] False show ?thesis
      by (auto simp: f_def leafNames_def update_conv' split: option.splits)
  qed
qed

lemma count_list_distinct: "distinct xs \<longleftrightarrow> (\<forall>x. count_list xs x \<le> Suc 0)"
proof (induction xs)
  case (Cons a xs)
  have "count_list xs a = 0 \<longleftrightarrow> a \<notin> set xs" by (simp add: count_list_0_iff)
  with Cons show ?case by (auto simp: le_Suc_eq)
qed simp

lemma fieldsRepeatMap_more:
  assumes "fieldsRepeatMap doc ss [] = Inr m"
  shows "list_ex (\<lambda>(f, n). n > 1) m \<longleftrightarrow> \<not> distinct (leafNames doc ss)"
proof -
  have d: "distinct (map fst m)" using fieldsRepeatMap_keys[OF assms] by simp
  have "list_ex (\<lambda>(f, n). n > 1) m \<longleftrightarrow> (\<exists>x n. map_of m x = Some n \<and> n > 1)"
    using d by (auto simp: list_ex_iff)
  also have "\<dots> \<longleftrightarrow> (\<exists>x \<in> set (leafNames doc ss). count_list (leafNames doc ss) x > 1)"
    using fieldsRepeatMap_counts[OF assms] by auto
  also have "\<dots> \<longleftrightarrow> (\<exists>x. count_list (leafNames doc ss) x > 1)"
    by (metis count_notin not_less_zero)
  also have "\<dots> \<longleftrightarrow> \<not> distinct (leafNames doc ss)"
    unfolding count_list_distinct by (auto simp: not_le)
  finally show ?thesis .
qed

lemma fieldsRepeatMap_in: "inRange doc ss \<Longrightarrow> \<exists>m'. fieldsRepeatMap doc ss m = Inr m'"
  by (induction ss arbitrary: m) (auto simp: Let_def)

text \<open>C37. The check for duplicate fields decides by the first selection set that is not in order.  When a
  selection of the set has a number beyond the table of fields the check panics: it takes the number of a fragment for
  the number of a field.  Otherwise the request is refused, because two fields without selections have the same
  name.  When every set is in order the request passes.\<close>

theorem validateDuplicateFields_spec:
  "validateDuplicateFields doc =
    (case find (\<lambda>ss. \<not> (inRange doc ss \<and> distinct (leafNames doc ss))) (dc_SelectionSets doc) of
       None \<Rightarrow> Inr None
     | Some ss \<Rightarrow> if inRange doc ss then Inr (Some (GPlain ErrFieldDuplicationFound)) else Inl indexPanic)"
proof -
  have "duplicatesIn doc sets =
    (case find (\<lambda>ss. \<not> (inRange doc ss \<and> distinct (leafNames doc ss))) sets of
       None \<Rightarrow> Inr None
     | Some ss \<Rightarrow> if inRange doc ss then Inr (Some (GPlain ErrFieldDuplicationFound)) else Inl indexPanic)" for sets
  proof (induction sets)
    case (Cons ss sets)
    show ?case
    proof (cases "inRange doc ss")
      case True
      then obtain m where m: "fieldsRepeatMap doc ss [] = Inr m" using fieldsRepeatMap_in by blast
      with Cons True fieldsRepeatMap_more[OF m] show ?thesis by simp
    qed (simp add: fieldsRepeatMap_out)
  qed simp
  then show ?thesis by (simp add: validateDuplicateFields_def)
qed

subsection \<open>HTTP requests\<close>

lemma block_modes:
  assumes "isMode h ValidationBlock"
  shows "\<not> isMode h ValidationDisable" "\<not> isMode h ValidationLog"
  using assms unfolding isMode_def EqualFold_def web_names ToLower_def by (auto simp: lower_byte_def dest: arg_cong[where f = length])

lemma proxyGraphQL_sent:
  "cx_sent (snd (proxyGraphQL H h ctx)) = cx_sent ctx \<or> (\<exists>rq. cx_sent (snd (proxyGraphQL H h ctx)) = cx_sent ctx @ [rq])"
  by (auto simp: proxyGraphQL_def Perform_def RespondError_def Let_def split_def split: sum.splits outcome.splits option.splits)

lemma logMsg_funpow_sent [simp]: "cx_sent ((logMsg m ^^ n) ctx) = cx_sent ctx"
  by (induction n) auto

text \<open>No request of a batch was refused.\<close>

lemma checkQueries_zero:
  assumes "checkQueries h rs = Inr 0" "r \<in> set rs"
  shows "\<exists>res. ValidateGraphQLRequest (gh_lib h) (gh_cfg h) (gh_schema h) r = Inr (res, None) \<and> (vr_Valid res \<or> vr_Errors res = None)"
proof -
  have "checkQuery h r = Inr None"
    using assms by (auto simp: checkQueries_def Let_def filter_empty_conv split: option.splits sum.splits)
  then show ?thesis
    by (auto simp: checkQuery_def map_sum_def split: sum.splits option.splits if_splits)
qed

lemma validateBatch_block:
  assumes "isMode h ValidationBlock" "cx_sent (snd (validateBatch H h gp rs ctx)) \<noteq> cx_sent ctx"
  shows "\<not> overLimit (gh_cfg h) rs \<and> checkQueries h rs = Inr 0 \<and> (\<exists>rq. cx_sent (snd (validateBatch H h gp rs ctx)) = cx_sent ctx @ [rq])"
  using assms proxyGraphQL_sent[of H h ctx]
  by (auto simp: validateBatch_def Let_def split: sum.splits if_splits)

text \<open>C4. In the blocking mode a request that is no WebSocket handshake reaches the backend only when it could be read
  as GraphQL requests, these are not more than the limit of a batch, and the validation refused none of them.  It is
  sent once.\<close>

theorem graphql_sends_only_valid:
  assumes "isMode h ValidationBlock" and "\<not> isWebSocketUpgrade G (rqSetPath G (gh_ServerPath h) (cx_req ctx))"
    and "cx_sent (snd (GraphQLHandle H G h groupPanic ctx)) \<noteq> cx_sent ctx"
  shows "\<exists>rs. ParseGraphQLRequest H G (gh_lib h) (rqSetPath G (gh_ServerPath h) (cx_req ctx)) = Inr rs \<and> \<not> overLimit (gh_cfg h) rs \<and>
    (\<forall>r \<in> set rs. \<exists>res. ValidateGraphQLRequest (gh_lib h) (gh_cfg h) (gh_schema h) r = Inr (res, None) \<and> (vr_Valid res \<or> vr_Errors res = None)) \<and>
    (\<exists>rq. cx_sent (snd (GraphQLHandle H G h groupPanic ctx)) = cx_sent ctx @ [rq])"
proof (cases "ParseGraphQLRequest H G (gh_lib h) (rqSetPath G (gh_ServerPath h) (cx_req ctx))")
  case (Inl err)
  with assms block_modes show ?thesis by (auto simp: GraphQLHandle_def Let_def split: if_splits)
next
  case (Inr rs)
  define ctx' where "ctx' = onReq (rqSetPath G (gh_ServerPath h)) ctx"
  have sent: "cx_sent ctx' = cx_sent ctx" by (simp add: ctx'_def)
  have "GraphQLHandle H G h groupPanic ctx = validateBatch H h groupPanic rs ctx'"
    using assms Inr block_modes by (auto simp: GraphQLHandle_def Let_def ctx'_def split: if_splits)
  with validateBatch_block[OF assms(1), of H groupPanic rs ctx'] assms(3) Inr sent checkQueries_zero
  show ?thesis by metis
qed

theorem graphql_sends_only_valid_witness:
  "length (cx_sent (snd (GraphQLHandle demo_http demo_gql_http (demo_gql_handler ''BLOCK'') Panic demo_gql_ctx))) = 1 \<and>
   (\<exists>rs. ParseGraphQLRequest demo_http demo_gql_http demo_gql (cx_req demo_gql_ctx) = Inr rs \<and> \<not> overLimit (demo_gql_cfg ''BLOCK'') rs)"
proof -
  have block: "isMode (demo_gql_handler ''BLOCK'') ValidationBlock" by code_simp
  have sent: "cx_sent (snd (GraphQLHandle demo_http demo_gql_http (demo_gql_handler ''BLOCK'') Panic demo_gql_ctx)) \<noteq> cx_sent demo_gql_ctx"
    by code_simp
  have up: "\<not> isWebSocketUpgrade demo_gql_http (rqSetPath demo_gql_http (gh_ServerPath (demo_gql_handler ''BLOCK'')) (cx_req demo_gql_ctx))"
    by (simp add: demo_gql_http_def)
  show ?thesis using graphql_sends_only_valid[OF block up sent]
    by (auto simp: demo_gql_http_def demo_gql_handler_def demo_gql_ctx_def demo_ctx_def)
qed

subsection \<open>The text of a GET request\<close>



subsection \<open>The pool of buffers\<close>

text \<open>A write appends, in place or in a new array.\<close>

lemma bufWrite_bytes:
  assumes "bf_Len b \<le> length (bp_Store st (bf_Array b))" "bufWrite p (b, st) = (b', st')"
  shows "bufBytes st' b' = bufBytes st b @ p \<and> bf_Len b' \<le> length (bp_Store st' (bf_Array b'))"
  using assms by (auto simp: bufWrite_def Let_def bufBytes_def split: if_splits)

lemma bufWrites_bytes:
  assumes "bf_Len b \<le> length (bp_Store st (bf_Array b))" "fold bufWrite ps (b, st) = (b', st')"
  shows "bufBytes st' b' = bufBytes st b @ concat ps"
  using assms
proof (induction ps arbitrary: b st)
  case (Cons p ps)
  obtain b1 st1 where w: "bufWrite p (b, st) = (b1, st1)" by fastforce
  from bufWrite_bytes[OF Cons.prems(1) w] Cons.IH[of b1 st1] Cons.prems(2) w show ?case by simp
qed simp

lemma bufWrites_in_place:
  assumes "bf_Len b + length (concat ps) \<le> length (bp_Store st (bf_Array b))" "fold bufWrite ps (b, st) = (b', st')"
  shows "bp_Store st' (bf_Array b) = take (bf_Len b) (bp_Store st (bf_Array b)) @ concat ps
           @ drop (bf_Len b + length (concat ps)) (bp_Store st (bf_Array b))"
  using assms
proof (induction ps arbitrary: b st)
  case (Cons p ps)
  define arr where "arr = bp_Store st (bf_Array b)"
  have fits: "bf_Len b + length p \<le> length arr" using Cons.prems(1) by (simp add: arr_def)
  let ?b1 = "b\<lparr>bf_Len := bf_Len b + length p\<rparr>"
  let ?st1 = "st\<lparr>bp_Store := (bp_Store st)(bf_Array b := take (bf_Len b) arr @ p @ drop (bf_Len b + length p) arr)\<rparr>"
  have w: "bufWrite p (b, st) = (?b1, ?st1)" using fits by (simp add: bufWrite_def Let_def arr_def)
  have "fold bufWrite ps (?b1, ?st1) = (b', st')" using Cons.prems(2) w by simp
  from Cons.IH[OF _ this] Cons.prems(1) fits show ?case by (simp add: arr_def ac_simps)
qed simp

definition pool_ok :: "bufferPool \<Rightarrow> bool" where
  "pool_ok st \<longleftrightarrow> list_all (\<lambda>b. bf_Len b = 0) (bp_Pool st)"

lemma bufGet_empty:
  assumes "pool_ok st" "bufGet pick st = (b, st')"
  shows "bf_Len b = 0 \<and> bp_Pool st' = (case pick of Some i \<Rightarrow> take i (bp_Pool st) @ drop (Suc i) (bp_Pool st) | None \<Rightarrow> bp_Pool st)"
  using assms by (auto simp: bufGet_def pool_ok_def list_all_length split: option.splits if_splits)

lemma bufWrite_pool [simp]: "bp_Pool (snd (bufWrite p bs)) = bp_Pool (snd bs)"
  by (simp add: bufWrite_def Let_def split_def)

lemma bufGet_pool: "pool_ok st \<Longrightarrow> list_all (\<lambda>b. bf_Len b = 0) (bp_Pool (snd (bufGet pick st)))"
  by (auto simp: bufGet_def pool_ok_def list_all_iff dest: in_set_takeD in_set_dropD split: option.splits)

lemma buildQuery_pool_ok: "pool_ok st \<Longrightarrow> pool_ok (snd (buildQuery pick m u opn body st))"
  using bufGet_pool[of st pick]
  by (simp add: buildQuery_def Let_def split_def pool_ok_def bufPut_def split: sum.splits)

text \<open>The buffers refine the text of the model: whatever buffer the pool gives out, the bytes are the query.\<close>

lemma buildQuery_refines:
  assumes "pool_ok st" "bf_Len body \<le> length (bp_Store (snd (bufGet pick st)) (bf_Array body))"
    and "bufBytes (snd (bufGet pick st)) body = rqBody H rq"
  shows "fst (buildQuery pick (rqMethod H rq) (QueryUnescape (rqQueryArg G ''query'' rq)) (rqQueryArg G ''operationName'' rq) body st)
    = queryText H G rq"
proof -
  obtain b st1 where g: "bufGet pick st = (b, st1)" by fastforce
  have len: "bf_Len b = 0" using bufGet_empty[OF assms(1) g] by simp
  have "bufBytes (snd (fold bufWrite ps (b, st1))) (fst (fold bufWrite ps (b, st1))) = concat ps" for ps
    using bufWrites_bytes[of b st1 ps "fst (fold bufWrite ps (b, st1))" "snd (fold bufWrite ps (b, st1))"] len
    by (simp add: bufBytes_def)
  from this[of "[[CHR ''{'', CHR 0x22] @ ''query'' @ [CHR 0x22, CHR '':''], encodeJSON q,
       [CHR '','', CHR 0x22] @ ''operationName'' @ [CHR 0x22, CHR '':'', CHR 0x22], opn, [CHR 0x22, CHR ''}'']]" for q opn]
  show ?thesis using g len assms
    by (auto simp: buildQuery_def queryText_def Let_def split_def getQueryJSON_def bufBytes_def split: sum.splits)
qed

text \<open>C38. The bytes of a POST request can change after they were read for the validation and before they are
  sent: reading the request puts a buffer over its own bytes into the pool, and when the next GET request gets that buffer
  its text is written over them.\<close>

theorem pooled_body_overwritten:
  assumes "st1 = snd (buildQuery pick ''POST'' u opn body st)" "bp_Store (snd (bufGet pick st)) (bf_Array body) = arr"
    and "length (getQueryJSON q opn') \<le> length arr"
    and "st2 = snd (buildQuery (Some (length (bp_Pool st1) - 1)) ''GET'' (Inr q) opn' body' st1)"
  shows "bp_Store st2 (bf_Array body) = getQueryJSON q opn' @ drop (length (getQueryJSON q opn')) arr"
proof -
  have st1: "st1 = bufPut body (snd (bufGet pick st))" using assms(1) by (simp add: buildQuery_def Let_def split_def)
  have pool: "bp_Pool st1 = bp_Pool (snd (bufGet pick st)) @ [body\<lparr>bf_Len := 0\<rparr>]" "bp_Store st1 = bp_Store (snd (bufGet pick st))"
    by (simp_all add: st1 bufPut_def)
  let ?b = "body\<lparr>bf_Len := 0\<rparr>" and ?st = "st1\<lparr>bp_Pool := bp_Pool (snd (bufGet pick st))\<rparr>"
  define ps where "ps = [[CHR ''{'', CHR 0x22] @ ''query'' @ [CHR 0x22, CHR '':''], encodeJSON q,
       [CHR '','', CHR 0x22] @ ''operationName'' @ [CHR 0x22, CHR '':'', CHR 0x22], opn', [CHR 0x22, CHR ''}'']]"
  have get: "bufGet (Some (length (bp_Pool st1) - 1)) st1 = (?b, ?st)" "bp_Store ?st = bp_Store st1"
    by (simp_all add: bufGet_def pool)
  have concat: "concat ps = getQueryJSON q opn'" by (simp add: getQueryJSON_def ps_def)
  have "fold bufWrite ps (?b, ?st) = (fst (fold bufWrite ps (?b, ?st)), snd (fold bufWrite ps (?b, ?st)))" by simp
  from bufWrites_in_place[OF _ this]
  have written: "bp_Store (snd (fold bufWrite ps (?b, ?st))) (bf_Array body) = getQueryJSON q opn' @ drop (length (getQueryJSON q opn')) arr"
    unfolding concat get(2) pool(2) using assms(2,3) by simp
  have "bp_Store st2 = bp_Store (snd (fold bufWrite ps (?b, ?st)))"
    unfolding assms(4) buildQuery_def ps_def get(1) by (simp add: Let_def split_def bufPut_def)
  with written show ?thesis by simp
qed

text \<open>A request with 64 bytes, and a GET request that arrives before it is sent.\<close>

definition demo_pool :: bufferPool where
  "demo_pool = \<lparr> bp_Store = (\<lambda>a. if a = 0 then replicate 64 CHR ''x'' else []), bp_Free = 1, bp_Pool = [] \<rparr>"

theorem pooled_body_overwritten_witness:
  "bp_Store (snd (buildQuery (Some 0) ''GET'' (Inr ''{a}'') [] \<lparr> bf_Array = 5, bf_Len = 0 \<rparr>
      (snd (buildQuery None ''POST'' (Inr []) [] \<lparr> bf_Array = 0, bf_Len = 64 \<rparr> demo_pool)))) 0
   = getQueryJSON ''{a}'' [] @ drop (length (getQueryJSON ''{a}'' [])) (replicate 64 CHR ''x'')"
proof -
  let ?st1 = "snd (buildQuery None ''POST'' (Inr []) [] \<lparr> bf_Array = 0, bf_Len = 64 \<rparr> demo_pool)"
  have one: "length (bp_Pool ?st1) - 1 = 0" by (simp add: buildQuery_def bufGet_def bufPut_def demo_pool_def Let_def)
  have arr: "bp_Store (snd (bufGet None demo_pool)) (bf_Array \<lparr> bf_Array = 0, bf_Len = 64 \<rparr>) = replicate 64 CHR ''x''"
    by (simp add: bufGet_def demo_pool_def)
  have len: "length (getQueryJSON ''{a}'' []) \<le> length (replicate 64 CHR ''x'')" by code_simp
  from pooled_body_overwritten[OF refl arr len refl, of "Inr []" "[]" "\<lparr> bf_Array = 5, bf_Len = 0 \<rparr>"]
  show ?thesis unfolding one by simp
qed

end
