(* ===== verification/GraphQL_Session.thy ===== *)
theory GraphQL_Session
  imports GraphQL_Props
begin

text \<open>
  The sessions of the GraphQL mode over a WebSocket connection: invariants of the two goroutines by induction over
  the step relation, the messages that reach the backend, and the end of a session.
\<close>

subsection \<open>The steps\<close>

text \<open>What the writes and the ends of a goroutine change.\<close>

lemma writeBackend_cases:
  obtains err where "backendWriteErr E (ss_toBackend s) f = Some err" "writeBackend E f s = (Some err, s)"
  | "backendWriteErr E (ss_toBackend s) f = None" "writeBackend E f s = (None, s\<lparr>ss_toBackend := ss_toBackend s @ [f]\<rparr>)"
  by (cases "backendWriteErr E (ss_toBackend s) f") (auto simp: writeBackend_def)

lemma writeClient_cases:
  obtains err where "writeClient E f s = (Some err, s)"
  | "writeClient E f s = (None, s\<lparr>ss_toClient := ss_toClient s @ [f]\<rparr>)"
  by (cases "clientWriteErr E (ss_toClient s) f") (auto simp: writeClient_def)

lemma stop_fields [simp]:
  "ss_Client (stopClient s) = Finished" "ss_errClient (stopClient s)" "ss_Backend (stopClient s) = ss_Backend s"
  "ss_errBackend (stopClient s) = ss_errBackend s" "ss_toBackend (stopClient s) = ss_toBackend s"
  "ss_toClient (stopClient s) = ss_toClient s" "ss_Crash (stopClient s) = ss_Crash s"
  "ss_Backend (stopBackend s) = Finished" "ss_errBackend (stopBackend s)" "ss_Client (stopBackend s) = ss_Client s"
  "ss_errClient (stopBackend s) = ss_errClient s" "ss_toBackend (stopBackend s) = ss_toBackend s"
  "ss_toClient (stopBackend s) = ss_toClient s" "ss_Crash (stopBackend s) = ss_Crash s"
  by (simp_all add: stopClient_def stopBackend_def)

lemma writeClient_fields [simp]:
  "ss_Client (snd (writeClient E f s)) = ss_Client s" "ss_errClient (snd (writeClient E f s)) = ss_errClient s"
  "ss_Backend (snd (writeClient E f s)) = ss_Backend s" "ss_errBackend (snd (writeClient E f s)) = ss_errBackend s"
  "ss_toBackend (snd (writeClient E f s)) = ss_toBackend s" "ss_Crash (snd (writeClient E f s)) = ss_Crash s"
  by (rule writeClient_cases[of E f s]; simp)+

lemma refuseMessage_fields [simp]:
  "ss_Client (refuseMessage h E mt i err s) = AtSelect" "ss_errClient (refuseMessage h E mt i err s) = ss_errClient s"
  "ss_Backend (refuseMessage h E mt i err s) = ss_Backend s" "ss_errBackend (refuseMessage h E mt i err s) = ss_errBackend s"
  "ss_toBackend (refuseMessage h E mt i err s) = ss_toBackend s" "ss_Crash (refuseMessage h E mt i err s) = ss_Crash s"
  by (simp_all add: refuseMessage_def SendComplete_def SendError_def split: sum.split)

lemma passOn_cases:
  obtains "backendWriteErr E (ss_toBackend s) f \<noteq> None" "passOn E f s = stopClient s"
  | "backendWriteErr E (ss_toBackend s) f = None" "passOn E f s = s\<lparr>ss_toBackend := ss_toBackend s @ [f], ss_Client := AtSelect\<rparr>"
  by (rule writeBackend_cases[of E s f]) (auto simp: passOn_def)

text \<open>The outcomes of reading a message from the client.\<close>

definition clientStepOk :: "wsSession \<Rightarrow> wsSession \<Rightarrow> bool" where
  "clientStepOk s s' \<longleftrightarrow> ss_Backend s' = ss_Backend s \<and> ss_errBackend s' = ss_errBackend s \<and>
    (ss_Client s' = Finished \<and> ss_errClient s' \<or> ss_Client s' = AtSelect \<and> ss_errClient s' = ss_errClient s
     \<or> ss_Crash s' \<noteq> None \<and> ss_Client s' = ss_Client s \<and> ss_errClient s' = ss_errClient s)"

lemma passOn_ok: "clientStepOk s (passOn E f s)"
  by (rule passOn_cases[of E s f]) (simp_all add: clientStepOk_def)

lemma afterValidation_ok: "clientStepOk s (afterValidation h E f i res s)"
  by (cases "\<not> vr_Valid res \<and> isMode h ValidationBlock") (simp_all only: afterValidation_def if_True if_False passOn_ok, simp_all add: clientStepOk_def)

lemma checkMessage_ok: "clientStepOk s (checkMessage h E f msg s)"
proof (cases "ValidateGraphQLRequest (gh_lib h) (gh_cfg h) (gh_schema h) (messageRequest (gh_lib h) msg)")
  case (Inl p)
  then show ?thesis by (simp add: checkMessage_def Let_def clientStepOk_def)
next
  case (Inr v)
  then obtain res err where v: "v = (res, err)" by fastforce
  show ?thesis
  proof (cases err)
    case None
    with Inr v show ?thesis by (simp add: checkMessage_def Let_def afterValidation_ok)
  next
    case (Some e)
    show ?thesis
    proof (cases "isMode h ValidationBlock")
      case True
      with Inr v Some show ?thesis by (simp add: checkMessage_def Let_def clientStepOk_def)
    next
      case False
      show ?thesis
      proof (rule writeBackend_cases[of E s f])
        assume w: "writeBackend E f s = (None, s\<lparr>ss_toBackend := ss_toBackend s @ [f]\<rparr>)"
        from afterValidation_ok[of "s\<lparr>ss_toBackend := ss_toBackend s @ [f]\<rparr>" h E f "textOf (getKey ''id'' msg)" res]
        show ?thesis using Inr v Some False w by (simp add: checkMessage_def Let_def clientStepOk_def)
      qed (use Inr v Some False in \<open>simp add: checkMessage_def Let_def clientStepOk_def\<close>)
    qed
  qed
qed

lemma clientMessage_ok: "clientStepOk s (clientMessage h E f s)"
  by (auto simp: clientMessage_def passOn_ok checkMessage_ok clientStepOk_def[of s "s\<lparr>ss_Client := AtSelect\<rparr>"] split: sum.split)

lemma backendMessage_fields [simp]:
  "ss_Client (backendMessage E f s) = ss_Client s" "ss_errClient (backendMessage E f s) = ss_errClient s"
  "ss_toBackend (backendMessage E f s) = ss_toBackend s" "ss_Crash (backendMessage E f s) = ss_Crash s"
  by (rule writeClient_cases[of E f s]; simp add: backendMessage_def)+

lemma backendMessage_ends:
  "ss_Backend (backendMessage E f s) = Finished \<and> ss_errBackend (backendMessage E f s)
   \<or> ss_Backend (backendMessage E f s) = AtSelect \<and> ss_errBackend (backendMessage E f s) = ss_errBackend s"
  by (rule writeClient_cases[of E f s]) (simp_all add: backendMessage_def)

text \<open>A goroutine has closed its channel exactly when it has ended: no channel is closed twice.\<close>

definition ws_ok :: "wsSession \<Rightarrow> bool" where
  "ws_ok s \<longleftrightarrow> (ss_errClient s \<longleftrightarrow> ss_Client s = Finished) \<and> (ss_errBackend s \<longleftrightarrow> ss_Backend s = Finished)"

lemma wsStep_ok: "wsStep h E s s' \<Longrightarrow> ws_ok s \<Longrightarrow> ws_ok s'"
proof (induction rule: wsStep.induct)
  case (client_reads s f)
  with clientMessage_ok[of s h E f] show ?case by (auto simp: ws_ok_def clientStepOk_def)
next
  case (backend_reads s f)
  with backendMessage_ends[of E f s] show ?case by (auto simp: ws_ok_def)
qed (auto simp: ws_ok_def)

lemma ws_reach_ok: "(wsStep h E)\<^sup>*\<^sup>* newSession s \<Longrightarrow> ws_ok s"
  by (induction rule: rtranclp_induct) (auto simp: wsStep_ok, simp add: ws_ok_def newSession_def)

text \<open>The frames that a blocking session may hand to the backend.\<close>

definition wsAdmissible :: "('rq, 'rs, 'sc, 'p) gqlHandler \<Rightarrow> frame \<Rightarrow> bool" where
  "wsAdmissible h f \<longleftrightarrow> uncheckedFrame f \<or>
    (case ParseBytes (gh_lib h) (snd f) of
       Inl _ \<Rightarrow> False
     | Inr msg \<Rightarrow> startsOperation msg \<longrightarrow>
         (case ValidateGraphQLRequest (gh_lib h) (gh_cfg h) (gh_schema h) (messageRequest (gh_lib h) msg) of
            Inr (res, None) \<Rightarrow> vr_Valid res
          | _ \<Rightarrow> False))"

lemma passOn_toBackend:
  "ss_toBackend (passOn E f s) = ss_toBackend s @ (if backendWriteErr E (ss_toBackend s) f = None then [f] else [])"
  by (rule passOn_cases[of E s f]) simp_all

lemma clientMessage_admissible:
  assumes "isMode h ValidationBlock"
  shows "ss_toBackend (clientMessage h E f s) = ss_toBackend s @
    (if wsAdmissible h f \<and> backendWriteErr E (ss_toBackend s) f = None then [f] else [])"
  using assms block_modes[OF assms]
  by (auto simp: clientMessage_def checkMessage_def afterValidation_def wsAdmissible_def passOn_toBackend Let_def
      split: sum.splits option.splits prod.splits)

text \<open>C5. In the blocking mode, whatever the order in which the two goroutines of a session run and whichever reads and
  writes fail, every message that reached the backend is empty, no text or binary message, a message that starts no
  operation, or one whose operation was found valid.\<close>

theorem ws_block_sends_only_valid:
  assumes "isMode h ValidationBlock" and "(wsStep h E)\<^sup>*\<^sup>* newSession s"
  shows "list_all (wsAdmissible h) (ss_toBackend s)"
  using assms(2)
proof (induction rule: rtranclp_induct)
  case base
  then show ?case by (simp add: newSession_def)
next
  case (step s s')
  from step.hyps(2) step.IH show ?case
    by (induction rule: wsStep.induct) (auto simp: clientMessage_admissible[OF assms(1)] stopClient_def stopBackend_def)
qed

definition demo_conns :: wsConns where
  "demo_conns = \<lparr> backendWriteErr = (\<lambda>fs f. None), clientWriteErr = (\<lambda>fs f. None) \<rparr>"

lemma demo_session:
  "(wsStep h demo_conns)\<^sup>*\<^sup>* newSession (clientMessage h demo_conns f (newSession\<lparr>ss_Client := Reading\<rparr>))"
proof -
  have "wsStep h demo_conns newSession (newSession\<lparr>ss_Client := Reading\<rparr>)"
    by (rule client_waits) (simp_all add: newSession_def)
  moreover have "wsStep h demo_conns (newSession\<lparr>ss_Client := Reading\<rparr>) (clientMessage h demo_conns f (newSession\<lparr>ss_Client := Reading\<rparr>))"
    by (rule client_reads) (simp_all add: newSession_def)
  ultimately show ?thesis by auto
qed

theorem ws_block_sends_only_valid_witness:
  "\<exists>s. (wsStep (demo_gql_handler ''BLOCK'') demo_conns)\<^sup>*\<^sup>* newSession s \<and> ss_toBackend s = [(1, ''{a}'')] \<and>
    list_all (wsAdmissible (demo_gql_handler ''BLOCK'')) (ss_toBackend s)"
proof -
  let ?s = "clientMessage (demo_gql_handler ''BLOCK'') demo_conns (1, ''{a}'') (newSession\<lparr>ss_Client := Reading\<rparr>)"
  have block: "isMode (demo_gql_handler ''BLOCK'') ValidationBlock" by code_simp
  have "ss_toBackend ?s = [(1, ''{a}'')]" by code_simp
  with demo_session ws_block_sends_only_valid[OF block demo_session] show ?thesis by blast
qed

text \<open>C40. In the log mode a message whose validation fails with an internal error is sent to the backend twice: the
  branch for the error writes it, and so does the end of the loop.\<close>

theorem ws_log_only_sends_twice:
  assumes "isMode h ValidationLog" "\<not> uncheckedFrame f" "ParseBytes (gh_lib h) (snd f) = Inr msg" "startsOperation msg"
    and "ValidateGraphQLRequest (gh_lib h) (gh_cfg h) (gh_schema h) (messageRequest (gh_lib h) msg) = Inr (res, Some err)"
    and "backendWriteErr E (ss_toBackend s) f = None" "backendWriteErr E (ss_toBackend s @ [f]) f = None"
  shows "ss_toBackend (clientMessage h E f s) = ss_toBackend s @ [f, f]"
proof -
  have modes: "\<not> isMode h ValidationBlock" "\<not> isMode h ValidationDisable"
    using assms(1) unfolding isMode_def EqualFold_def web_names ToLower_def
    by (auto simp: lower_byte_def dest: arg_cong[where f = length])
  show ?thesis
    using assms modes by (simp add: clientMessage_def checkMessage_def afterValidation_def writeBackend_def passOn_toBackend Let_def)
qed

theorem ws_log_only_sends_twice_witness:
  "ss_toBackend (clientMessage (demo_gql_handler ''LOG_ONLY'') demo_conns (1, ''err'') newSession) = [(1, ''err''), (1, ''err'')]"
proof -
  let ?h = "demo_gql_handler ''LOG_ONLY''"
  let ?msg = "projr (ParseBytes demo_gql ''err'')"
  have "isMode ?h ValidationLog" "\<not> uncheckedFrame (1, ''err'')" by code_simp+
  moreover have "ParseBytes (gh_lib ?h) (snd (1, ''err'')) = Inr ?msg" by (simp add: demo_gql_defs)
  moreover have "startsOperation ?msg" by code_simp
  moreover have "ValidateGraphQLRequest (gh_lib ?h) (gh_cfg ?h) (gh_schema ?h) (messageRequest (gh_lib ?h) ?msg) =
      Inr (\<lparr> vr_Valid = False, vr_Errors = None \<rparr>, Some ''no operation'')" by code_simp
  ultimately have "ss_toBackend (clientMessage ?h demo_conns (1, ''err'') newSession) = ss_toBackend newSession @ [(1, ''err''), (1, ''err'')]"
    by (rule ws_log_only_sends_twice) (simp_all add: demo_conns_def)
  then show ?thesis by (simp add: newSession_def)
qed

subsection \<open>The end of a session\<close>

text \<open>The steps a goroutine can still take once the other one has ended.\<close>

definition stepsLeft :: "wsPC \<Rightarrow> nat" where
  "stepsLeft pc = (case pc of AtSelect \<Rightarrow> 1 | Reading \<Rightarrow> 2 | Finished \<Rightarrow> 0)"

definition sessionLeft :: "wsSession \<Rightarrow> nat" where
  "sessionLeft s = (if ss_Crash s = None then stepsLeft (ss_Client s) + stepsLeft (ss_Backend s) else 0)"

definition oneEnded :: "wsSession \<Rightarrow> bool" where
  "oneEnded s \<longleftrightarrow> ws_ok s \<and> (ss_errClient s \<or> ss_errBackend s)"

lemma stepsLeft_simps [simp]: "stepsLeft AtSelect = 1" "stepsLeft Reading = 2" "stepsLeft Finished = 0"
  by (simp_all add: stepsLeft_def)

lemma wsStep_decreases:
  assumes "wsStep h E s s'" "oneEnded s"
  shows "oneEnded s' \<and> sessionLeft s' < sessionLeft s"
proof -
  have ok: "ws_ok s'" using wsStep_ok assms by (auto simp: oneEnded_def)
  from assms ok show ?thesis
  proof (induction rule: wsStep.induct)
    case (client_reads s f)
    with clientMessage_ok[of s h E f] show ?case by (auto simp: oneEnded_def ws_ok_def sessionLeft_def clientStepOk_def)
  next
    case (backend_reads s f)
    with backendMessage_ends[of E f s] show ?case by (auto simp: oneEnded_def ws_ok_def sessionLeft_def)
  qed (auto simp: oneEnded_def ws_ok_def sessionLeft_def)
qed

lemma wsSteps_bounded: "(wsStep h E ^^ n) s s' \<Longrightarrow> oneEnded s \<Longrightarrow> n + sessionLeft s' \<le> sessionLeft s"
proof (induction n arbitrary: s')
  case (Suc n)
  then obtain t where t: "(wsStep h E ^^ n) s t" "wsStep h E t s'" by auto
  have "oneEnded t" using t(1) Suc.prems(2)
    by (induction n arbitrary: t) (auto dest: wsStep_decreases)
  with wsStep_decreases[OF t(2)] Suc.IH[OF t(1) Suc.prems(2)] show ?case by simp
qed simp

lemma oneEnded_left: "oneEnded s \<Longrightarrow> sessionLeft s \<le> 2"
  by (cases "ss_Client s"; cases "ss_Backend s") (auto simp: oneEnded_def ws_ok_def sessionLeft_def)

text \<open>Only an end of both goroutines or a panic leaves no step.\<close>

lemma ws_not_stuck:
  assumes "ss_Crash s = None" "ss_Client s \<noteq> Finished \<or> ss_Backend s \<noteq> Finished"
  shows "\<exists>s'. wsStep h E s s'"
  using assms by (cases "ss_Client s"; cases "ss_Backend s"; cases "ss_errClient s"; cases "ss_errBackend s") (auto intro: wsStep.intros)

text \<open>C36. Once a goroutine of a session has ended, on either side, the session makes at most two more steps in
  whatever way it goes on, and when it can make none both goroutines have ended or the process has died of a panic.\<close>

theorem ws_session_ends:
  assumes "(wsStep h E)\<^sup>*\<^sup>* newSession s" and "ss_errClient s \<or> ss_errBackend s"
  shows "((wsStep h E ^^ n) s s' \<longrightarrow> n \<le> 2) \<and>
    ((\<nexists>s'. wsStep h E s s') \<longrightarrow> ss_Crash s \<noteq> None \<or> ss_Client s = Finished \<and> ss_Backend s = Finished)"
proof -
  have one: "oneEnded s" using assms ws_reach_ok by (auto simp: oneEnded_def)
  have "n \<le> 2" if "(wsStep h E ^^ n) s s'" using wsSteps_bounded[OF that one] oneEnded_left[OF one] by simp
  moreover have "ss_Crash s \<noteq> None \<or> ss_Client s = Finished \<and> ss_Backend s = Finished" if "\<nexists>s'. wsStep h E s s'"
    using ws_not_stuck[of s h E] that by blast
  ultimately show ?thesis by blast
qed

theorem ws_session_ends_witness:
  "let s = stopClient (newSession\<lparr>ss_Client := Reading\<rparr>) in
   (wsStep (demo_gql_handler ''BLOCK'') demo_conns)\<^sup>*\<^sup>* newSession s \<and> \<not> (\<exists>s'. (wsStep (demo_gql_handler ''BLOCK'') demo_conns ^^ 3) s s')"
proof -
  let ?h = "demo_gql_handler ''BLOCK''" and ?s = "stopClient (newSession\<lparr>ss_Client := Reading\<rparr>)"
  have "wsStep ?h demo_conns newSession (newSession\<lparr>ss_Client := Reading\<rparr>)"
    by (rule client_waits) (simp_all add: newSession_def)
  moreover have "wsStep ?h demo_conns (newSession\<lparr>ss_Client := Reading\<rparr>) ?s"
    by (rule client_fails) (simp_all add: newSession_def)
  ultimately have r: "(wsStep ?h demo_conns)\<^sup>*\<^sup>* newSession ?s" by auto
  have "ss_errClient ?s \<or> ss_errBackend ?s" by simp
  from ws_session_ends[OF r this, of 3] r show ?thesis by (auto simp: Let_def)
qed

end
