(* ===== verification/Startup.thy ===== *)
theory Startup
  imports API_Firewall GraphQL_Handler
begin

text \<open>
  How the three servers are put together (the functions \<^verbatim>\<open>Run\<close> of \<^verbatim>\<open>cmd/api-firewall/internal/handlers\<close>,
  \<^verbatim>\<open>config.LoadModSecurityConfiguration\<close> and the choice of the mode in \<^verbatim>\<open>main.go\<close>): the configuration, the
  specification, the pool, the lists, the rule engine and the handlers, in the order of the code, with every error that
  ends the start.  What the process asks of the system is the record \<open>system\<close>; the configuration libraries are the
  record \<open>confLib\<close>.  A server that is started is described by its handler and by what it listens on; the
  goroutines that serve are not modelled.
\<close>

subsection \<open>Parts\<close>

datatype 'a started = NotStarted gerror | Exited gerror | Serving 'a

definition orFail :: "'a result \<Rightarrow> ('a \<Rightarrow> 'b started) \<Rightarrow> 'b started" where
  "orFail r f = (case r of Inl err \<Rightarrow> NotStarted err | Inr a \<Rightarrow> f a)"

definition orExit :: "'a result \<Rightarrow> ('a \<Rightarrow> 'b started) \<Rightarrow> 'b started" where
  "orExit r f = (case r of Inl err \<Rightarrow> Exited err | Inr a \<Rightarrow> f a)"

lemma started_simps [simp]:
  "orFail r f = Serving b \<longleftrightarrow> (\<exists>a. r = Inr a \<and> f a = Serving b)"
  "orExit r f = Serving b \<longleftrightarrow> (\<exists>a. r = Inr a \<and> f a = Serving b)"
  by (auto simp: orFail_def orExit_def split: sum.splits)

definition wrapErr :: "string \<Rightarrow> 'a result \<Rightarrow> 'a result" where
  "wrapErr msg r = map_sum (\<lambda>err. msg @ '': '' @ err) id r"

lemma wrapErr_Inr [simp]: "wrapErr msg r = Inr a \<longleftrightarrow> r = Inr a"
  by (cases r) (auto simp: wrapErr_def)

record ('c, 'tx, 'd, 'w, 'pk) system =
  sy_LookupIP :: "string \<Rightarrow> (128 word list) result"
  sy_ReadFile :: "string \<Rightarrow> string result"
  sy_AppendCerts :: "string \<Rightarrow> bool"
  sy_Cache :: "'c ristretto"
  sy_FS :: filesys
  sy_World :: "('d, 'w) world"
  sy_NotExist :: "string \<Rightarrow> bool"
  sy_NewWAF :: "string list \<Rightarrow> 'tx coraza result"
  sy_ReadKey :: "string \<Rightarrow> 'pk result"

record modSecCfg =
  mc_ConfFiles :: "string list"
  mc_RulesDir :: string

definition LoadModSecurityConfiguration :: "(string \<Rightarrow> bool) \<Rightarrow> (string list \<Rightarrow> 'tx coraza result) \<Rightarrow> modSecCfg \<Rightarrow> 'tx coraza option result" where
  "LoadModSecurityConfiguration notExist newWAF cfg =
    (if mc_ConfFiles cfg = [] \<and> mc_RulesDir cfg = [] then Inr None
     else case find notExist (mc_ConfFiles cfg) of
       Some confFile \<Rightarrow> Inl (''Loading ModSecurity configuration file error: no such file or directory: '' @ confFile)
     | None \<Rightarrow>
         if mc_RulesDir cfg \<noteq> [] \<and> notExist (mc_RulesDir cfg)
         then Inl (''Loading ModSecurity rules from dir error: no such file or directory: '' @ mc_RulesDir cfg)
         else map_sum id Some (newWAF (mc_ConfFiles cfg @ (if mc_RulesDir cfg \<noteq> [] then [path_Join [mc_RulesDir cfg, ''*.conf'']] else []))))"

text \<open>\<^verbatim>\<open>URL.Port\<close>, and the address of the backend with the default port of its scheme.\<close>

definition URL_Port :: "URL \<Rightarrow> string" where
  "URL_Port u =
    (let port = rev (takeWhile (\<lambda>c. c \<noteq> CHR '':'') (rev (u_Host u)))
     in if CHR '':'' \<in> set (u_Host u) \<and> validOptionalPort (CHR '':'' # port) then port else [])"

definition backendHost :: "URL \<Rightarrow> string" where
  "backendHost u = u_Host u @
    (if URL_Port u = [] then (if u_Scheme u = ''https'' then '':443'' else if u_Scheme u = ''http'' then '':80'' else []) else [])"

record protectedAPI =
  pa_URL :: string
  pa_RequestHostHeader :: string
  pa_InsecureConnection :: bool
  pa_RootCA :: string
  pa_DialTimeout :: int
  pa_HealthCheckInterval :: int
  pa_DeleteAcceptEncoding :: bool

definition initPool :: "('c, 'tx, 'd, 'w, 'pk) system \<Rightarrow> protectedAPI \<Rightarrow> (URL \<times> PoolV2) result" where
  "initPool S api =
    andThen (wrapErr ''parsing proxy URL'' (URL_ParseRequestURI (pa_URL api))) (\<lambda>serverURL.
      map_sum id (\<lambda>pool. (serverURL, pool))
       (wrapErr ''proxy pool init'' (NewPoolV2 (sy_LookupIP S) (sy_ReadFile S) (sy_AppendCerts S) (backendHost serverURL)
          (Some \<lparr> pvo_DialTimeout = pa_DialTimeout api, pvo_InsecureConnection = pa_InsecureConnection api, pvo_RootCA = pa_RootCA api,
                  pvo_Backends = [], pvo_HealthCheckInterval = pa_HealthCheckInterval api \<rparr>))))"

record listsCfg =
  lc_DenyFile :: string
  lc_CookieName :: string
  lc_HeaderName :: string
  lc_TrimBearerPrefix :: bool
  lc_AllowFile :: string
  lc_AllowHeaderName :: string

definition initDeny :: "('c, 'tx, 'd, 'w, 'pk) system \<Rightarrow> listsCfg \<Rightarrow> 'c DeniedTokens option result" where
  "initDeny S cfg = wrapErr ''denylist init error'' (fst (denyNew (sy_Cache S) (sy_FS S) (lc_DenyFile cfg)))"

definition initAllow :: "('c, 'tx, 'd, 'w, 'pk) system \<Rightarrow> listsCfg \<Rightarrow> 'c AllowedIPsType option result" where
  "initAllow S cfg = wrapErr ''The allow IP list init error'' (fst (allowNew (sy_Cache S) (sy_FS S) (lc_AllowFile cfg)))"

text \<open>The options of the middlewares; their mode and status are set by the chain.\<close>

definition allowOptions :: "listsCfg \<Rightarrow> 'c AllowedIPsType option \<Rightarrow> 'c IPAllowListOptions" where
  "allowOptions cfg allowed =
    \<lparr> al_Mode = [], al_HeaderName = lc_AllowHeaderName cfg, al_CustomBlockStatusCode = 0, al_AllowedIPs = allowed \<rparr>"

definition guardsOf :: "('c, 'tx, 'd, 'w, 'pk) system \<Rightarrow> listsCfg \<Rightarrow> URL \<Rightarrow> 'c DeniedTokens option \<Rightarrow> 'c AllowedIPsType option \<Rightarrow> 'tx coraza option
    \<Rightarrow> ('c, 'tx) guards" where
  "guardsOf S cfg u denied allowed waf =
    \<lparr> gd_Scheme = u_Scheme u, gd_Host = u_Host u, gd_Cache = sy_Cache S, gd_Allow = allowOptions cfg allowed,
      gd_Deny = \<lparr> dl_Mode = [], dl_CookieName = lc_CookieName cfg, dl_HeaderName = lc_HeaderName cfg,
                  dl_TrimBearerPrefix = lc_TrimBearerPrefix cfg, dl_CustomBlockStatusCode = 0, dl_DeniedTokens = denied \<rparr>,
      gd_WAF = waf \<rparr>"

record tlsCfg =
  tc_APIHost :: string
  tc_CertsPath :: string
  tc_CertFile :: string
  tc_CertKey :: string

text \<open>The address to listen on, and the certificate and key for TLS.\<close>

definition listenOn :: "tlsCfg \<Rightarrow> (string \<times> (string \<times> string) option) result" where
  "listenOn cfg =
    map_sum id (\<lambda>u. (u_Host u, if u_Scheme u = ''https''
        then Some (path_Join [tc_CertsPath cfg, tc_CertFile cfg], path_Join [tc_CertsPath cfg, tc_CertKey cfg]) else None))
     (wrapErr ''parsing API Host URL'' (URL_ParseRequestURI (tc_APIHost cfg)))"

record ('app, 'd) server =
  sv_Handler :: "'app option"
  sv_Pool :: "PoolV2 option"
  sv_Spec :: 'd
  sv_Host :: string
  sv_TLS :: "(string \<times> string) option"
  sv_Updates :: bool

subsection \<open>The proxy mode\<close>

record 'pk proxyModeCfg =
  pm_Proxy :: proxyCfg
  pm_Oauth :: "'pk oauthCfg"
  pm_Server :: protectedAPI
  pm_Lists :: listsCfg
  pm_ModSec :: modSecCfg
  pm_TLS :: tlsCfg
  pm_APISpecs :: string
  pm_APISpecsCustomHeader :: "string \<times> string"
  pm_SpecificationUpdatePeriod :: int

text \<open>An error of the validation library names a field, the tag it violates, the parameter of the tag and the value.\<close>

record fieldErr =
  fe_Tag :: string
  fe_Field :: string
  fe_Param :: string
  fe_Value :: string

record 'cfg confLib =
  cf_Parse :: "'cfg result"
  cf_RegisterErr :: "gerror option"
  cf_Validate :: "'cfg \<Rightarrow> (fieldErr list \<times> gerror) option"
  cf_MediaTypeErr :: "string \<Rightarrow> gerror option"
  cf_Yaml :: "'cfg \<Rightarrow> 'cfg"
  cf_StringErr :: "'cfg \<Rightarrow> gerror option"

fun configError :: "fieldErr list \<Rightarrow> gerror \<Rightarrow> gerror" where
  "configError [] text = ''configuration validator error: '' @ text"
| "configError (e # es) text =
    (if fe_Tag e = ''gt'' then ''configuration validator error: parameter '' @ fe_Field e @ '' should be > '' @ fe_Param e @ ''. Actual value: '' @ fe_Value e
     else if fe_Tag e = ''url'' then ''configuration validator error: parameter '' @ fe_Field e
       @ '' should be a string in URL format. Example: http://localhost:8080/; actual value: '' @ fe_Value e
     else if fe_Tag e = ''oneof'' then ''configuration validator error: parameter '' @ fe_Field e
       @ '' should have one of the following value: '' @ fe_Param e @ ''; actual value: '' @ fe_Value e
     else configError es text)"

definition upperMode :: "'pk proxyModeCfg \<Rightarrow> 'pk proxyModeCfg" where
  "upperMode cfg = cfg\<lparr>pm_Proxy := (pm_Proxy cfg)\<lparr>pc_Mode := ToUpper (pc_Mode (pm_Proxy cfg))\<rparr>\<rparr>"

text \<open>The validation comes before the file is read: \<open>cf_Yaml\<close> overrides what the file has, and errors of it are only
  logged.\<close>

definition loadProxyConfig :: "'pk proxyModeCfg confLib \<Rightarrow> 'pk proxyModeCfg result" where
  "loadProxyConfig K =
    andThen (wrapErr ''parsing config'' (cf_Parse K)) (\<lambda>parsed.
      let cfg = upperMode parsed in
      case cf_RegisterErr K of
        Some err \<Rightarrow> Inl (''Configuration validator error: '' @ err)
      | None \<Rightarrow>
          (case cf_Validate K cfg of
             Some (errs, text) \<Rightarrow> Inl (configError errs text)
           | None \<Rightarrow>
               (case (if ic_ContentType (oc_Introspection (pm_Oauth cfg)) \<noteq> []
                      then cf_MediaTypeErr K (ic_ContentType (oc_Introspection (pm_Oauth cfg))) else None) of
                  Some err \<Rightarrow> Inl (''configuration validator error: '' @ err)
                | None \<Rightarrow>
                    (case cf_StringErr K (cf_Yaml K cfg) of
                       Some err \<Rightarrow> Inl (''generating config for output: '' @ err)
                     | None \<Rightarrow> Inr (cf_Yaml K cfg)))))"

definition oasText :: "oasErr \<Rightarrow> string" where
  "oasText e = (case e of OASParsing s \<Rightarrow> ''OpenAPI specification parsing error'' @ s
                        | OASValidation s \<Rightarrow> ''OpenAPI specification validation error'' @ s | OASPlain s \<Rightarrow> s)"

definition joinText :: "oasErr list \<Rightarrow> string" where
  "joinText errs = concat (map (\<lambda>e. oasText e @ [CHR 0x0A]) (butlast errs)) @ (if errs = [] then [] else oasText (last errs))"

text \<open>The libraries and the network that the handlers of the proxy mode are made with.\<close>

record ('rq, 'rs, 'f, 'x, 'pk, 'cc, 'n) proxyLibs =
  pl_HTTP :: "('rq, 'rs) fasthttp"
  pl_More :: "('rq, 'rs) fasthttpMore"
  pl_Router :: router_env
  pl_Env :: "('f, 'x) venv"
  pl_ParseJWT :: "string \<Rightarrow> (signingMethod \<Rightarrow> 'pk option jwtKey result) \<Rightarrow> jwtToken result"
  pl_Cache :: "'cc ccache"
  pl_Net :: "'n introNet"
  pl_ValidateOAS :: "('f, 'x) document \<Rightarrow> gerror option"
  pl_Client :: "'rq \<Rightarrow> 'rs \<Rightarrow> 'rs \<times> goerr option"

definition proxyHandlers :: "('rq, 'rs, 'f, 'x, 'pk, 'cc, 'n) proxyLibs \<Rightarrow> ('c, 'tx, ('f, 'x) document, 'w, 'pk) system \<Rightarrow> 'pk proxyModeCfg \<Rightarrow> URL \<Rightarrow> PoolV2
    \<Rightarrow> ('c, 'tx) guards \<Rightarrow> 'cc \<times> 'n \<Rightarrow> ('f, 'x) document DBOpenAPILoader \<Rightarrow> ('rq, 'rs, 'm) App option" where
  "proxyHandlers P S cfg u pool g st l =
    (case Specification l (-1) of
       None \<Rightarrow> None
     | Some doc \<Rightarrow>
         Handlers (pl_HTTP P) (pl_More P) (pl_Router P)
          \<lparr> ow_Route = None, ow_cfg = pm_Proxy cfg,
            ow_oauth = map_option (oauthValidate (pl_ParseJWT P) (pl_Cache P) (pl_Net P)) (initOAuth (sy_ReadKey S) (pm_Oauth cfg)),
            ow_env = pl_Env P, ow_got = poolGet pool, ow_client = pl_Client P \<rparr>
          st g (u_Path u) (pl_ValidateOAS P) doc)"

definition proxyRun :: "('rq, 'rs, 'f, 'x, 'pk, 'cc, 'n) proxyLibs \<Rightarrow> ('c, 'tx, ('f, 'x) document, 'w, 'pk) system \<Rightarrow> 'pk proxyModeCfg confLib \<Rightarrow> 'cc \<times> 'n \<Rightarrow> 'w
    \<Rightarrow> (('rq, 'rs, 'm) App, ('f, 'x) document DBOpenAPILoader) server started" where
  "proxyRun P S K st w =
    orFail (loadProxyConfig K) (\<lambda>cfg.
      case NewOpenAPIFromFileOrURL (sy_World S) w (pm_APISpecs cfg) (pm_APISpecsCustomHeader cfg) of
        Fatal err \<Rightarrow> Exited err
      | Loaded None errs \<Rightarrow> NotStarted (''loading OpenAPI specification from File or URL: '' @ joinText errs)
      | Loaded (Some specStorage) errs \<Rightarrow>
          orFail (initPool S (pm_Server cfg)) (\<lambda>(serverURL, pool).
            orFail (initDeny S (pm_Lists cfg)) (\<lambda>deniedTokens.
              orFail (initAllow S (pm_Lists cfg)) (\<lambda>allowedIPCache.
                orFail (LoadModSecurityConfiguration (sy_NotExist S) (sy_NewWAF S) (pm_ModSec cfg)) (\<lambda>waf.
                  orFail (listenOn (pm_TLS cfg)) (\<lambda>(host, tls).
                    Serving \<lparr> sv_Handler = proxyHandlers P S cfg serverURL pool
                                 (guardsOf S (pm_Lists cfg) serverURL deniedTokens allowedIPCache waf) st specStorage,
                              sv_Pool = Some pool, sv_Spec = specStorage, sv_Host = host, sv_TLS = tls,
                              sv_Updates = (pm_SpecificationUpdatePeriod cfg > 0) \<rparr>))))))"

subsection \<open>The GraphQL mode\<close>

record gqlModeCfg =
  gm_Graphql :: gqlCfg
  gm_Schema :: string
  gm_Server :: protectedAPI
  gm_Lists :: listsCfg
  gm_TLS :: tlsCfg

record 'sc schemaLib =
  sl_Open :: "string \<Rightarrow> string result"
  sl_NewSchema :: "string \<Rightarrow> 'sc result"
  sl_Validate :: "'sc \<Rightarrow> validationResult result"
  sl_CloseErr :: "string \<Rightarrow> gerror option"

definition loadSchema :: "'sc schemaLib \<Rightarrow> string \<Rightarrow> 'sc result" where
  "loadSchema L file =
    andThen (wrapErr ''Loading GraphQL Schema error'' (andThen (sl_Open L file) (sl_NewSchema L))) (\<lambda>schema.
      andThen (wrapErr ''GraphQL Schema validator error'' (sl_Validate L schema)) (\<lambda>res.
        if \<not> vr_Valid res then Inl (''GraphQL Schema validator error: '' @ concat (case vr_Errors res of None \<Rightarrow> [] | Some es \<Rightarrow> es))
        else case sl_CloseErr L file of
          Some err \<Rightarrow> Inl (''Loading GraphQL Schema error: '' @ err)
        | None \<Rightarrow> Inr schema))"

definition wsOptionsOf :: "protectedAPI \<Rightarrow> URL \<Rightarrow> wsOptions" where
  "wsOptionsOf api u =
    \<lparr> wo_Scheme = (if u_Scheme u = ''https'' then ''wss'' else ''ws''), wo_Host = u_Host u, wo_Path = u_Path u,
      wo_InsecureConnection = pa_InsecureConnection api, wo_RootCA = pa_RootCA api \<rparr>"

record ('rq, 'rs, 'sc, 'p) gqlLibs =
  ql_HTTP :: "('rq, 'rs) fasthttp"
  ql_More :: "('rq, 'rs) fasthttpGQL"
  ql_Router :: router_env
  ql_Lib :: "('sc, 'p) gqlLib"
  ql_WS :: "('rq, 'rs) wsLib"
  ql_Schema :: "'sc schemaLib"
  ql_Playground :: "string \<Rightarrow> string \<Rightarrow> (string \<times> ('rq, 'rs) handler) list result"
  ql_Client :: "'rq \<Rightarrow> 'rs \<Rightarrow> 'rs \<times> goerr option"
  ql_GroupPanic :: "string \<Rightarrow> outcome"
  ql_NilHandler :: "('rq, 'rs) handler"

definition gqlHandlerOf :: "('rq, 'rs, 'sc, 'p) gqlLibs \<Rightarrow> gqlModeCfg \<Rightarrow> 'sc \<Rightarrow> URL \<Rightarrow> PoolV2 \<Rightarrow> string \<Rightarrow> ('rq, 'rs, 'sc, 'p) gqlHandler" where
  "gqlHandlerOf Q cfg schema u pool connStr =
    \<lparr> gh_cfg = gm_Graphql cfg, gh_schema = schema, gh_lib = ql_Lib Q, gh_ws = ql_WS Q, gh_ServerPath = u_Path u,
      gh_RequestHostHeader = pa_RequestHostHeader (gm_Server cfg), gh_ConnStr = connStr, gh_got = poolGet pool, gh_client = ql_Client Q \<rparr>"

definition gqlRun :: "('rq, 'rs, 'sc, 'p) gqlLibs \<Rightarrow> ('c, 'tx, 'd, 'w, 'pk) system \<Rightarrow> gqlModeCfg confLib
    \<Rightarrow> (('rq, 'rs, 'm) App, 'sc) server started" where
  "gqlRun Q S K =
    orFail (wrapErr ''parsing config'' (cf_Parse K)) (\<lambda>cfg.
      case cf_StringErr K cfg of
        Some err \<Rightarrow> NotStarted (''generating config for output: '' @ err)
      | None \<Rightarrow>
          orExit (loadSchema (ql_Schema Q) (gm_Schema cfg)) (\<lambda>schema.
            orFail (initPool S (gm_Server cfg)) (\<lambda>(serverURL, pool).
              orFail (wrapErr ''ws connections pool init''
                  (NewWSClient (sy_ReadFile S) (sy_AppendCerts S) (wsOptionsOf (gm_Server cfg) serverURL))) (\<lambda>connStr.
                orFail (initDeny S (gm_Lists cfg)) (\<lambda>deniedTokens.
                  orFail (initAllow S (gm_Lists cfg)) (\<lambda>allowedIPCache.
                    orExit (gqlHandlers (ql_HTTP Q) (ql_More Q) (ql_Router Q) (ql_Playground Q)
                        (gqlHandlerOf Q cfg schema serverURL pool connStr) (ql_GroupPanic Q) (pa_DeleteAcceptEncoding (gm_Server cfg))
                        (guardsOf S (gm_Lists cfg) serverURL deniedTokens allowedIPCache None) (tc_APIHost (gm_TLS cfg)) (ql_NilHandler Q)) (\<lambda>app.
                      orFail (listenOn (gm_TLS cfg)) (\<lambda>(host, tls).
                        Serving \<lparr> sv_Handler = Some app, sv_Pool = Some pool, sv_Spec = schema, sv_Host = host, sv_TLS = tls,
                                  sv_Updates = False \<rparr>))))))))"

subsection \<open>The API mode\<close>

record apiModeCfg =
  am_PathToSpecDB :: string
  am_DBVersion :: int
  am_Guards :: apiGuards
  am_Lists :: listsCfg
  am_ModSec :: modSecCfg
  am_TLS :: tlsCfg
  am_SpecificationUpdatePeriod :: int

record ('rq, 'rs, 'f, 'x) apiLibs =
  al_HTTP :: "('rq, 'rs) fasthttp"
  al_Router :: router_env
  al_BasePath :: "('f, 'x) document \<Rightarrow> string result option"
  al_MakeHandler :: "('f, 'x, 'rq, 'rs) makeHandler"
  al_DetectReader :: "string \<times> goerr option \<Rightarrow> goerr + string"
  al_Detect :: "string \<Rightarrow> string"

text \<open>Errors of the database are only logged: the server starts with what could be loaded.\<close>

definition apiRun :: "('rq, 'rs, 'f, 'x) apiLibs \<Rightarrow> ('c, 'tx, ('f, 'x) document, 'w, 'pk) system \<Rightarrow> apiModeCfg confLib \<Rightarrow> 'w
    \<Rightarrow> (('rq, 'rs, 'm, ('f, 'x) document) apiApp, ('f, 'x) document DBOpenAPILoader) server started \<times> 'w" where
  "apiRun A S K w =
    (case wrapErr ''parsing config'' (cf_Parse K) of
       Inl err \<Rightarrow> (NotStarted err, w)
     | Inr cfg \<Rightarrow>
         (case cf_StringErr K cfg of
            Some err \<Rightarrow> (NotStarted (''generating config for output: '' @ err), w)
          | None \<Rightarrow>
              (case NewOpenAPIDB (sy_World S) (am_PathToSpecDB cfg) (am_DBVersion cfg) w of
                 (specStorage, errs, w') \<Rightarrow>
                   (orFail (LoadModSecurityConfiguration (sy_NotExist S) (sy_NewWAF S) (am_ModSec cfg)) (\<lambda>waf.
                      orFail (initAllow S (am_Lists cfg)) (\<lambda>allowedIPCache.
                        orFail (listenOn (am_TLS cfg)) (\<lambda>(host, tls).
                          Serving \<lparr> sv_Handler = apiHandlers (al_Router A) (al_BasePath A) (al_MakeHandler A) (am_Guards cfg)
                                       (apiMiddlewares (al_HTTP A) (al_DetectReader A) (al_Detect A) (sy_Cache S)
                                          (allowOptions (am_Lists cfg) allowedIPCache) waf) specStorage,
                                    sv_Pool = None, sv_Spec = specStorage, sv_Host = host, sv_TLS = tls,
                                    sv_Updates = (am_SpecificationUpdatePeriod cfg > 0) \<rparr>))), w'))))"

subsection \<open>The choice of the mode, and the end\<close>

definition chosenMode :: "string \<Rightarrow> string" where
  "chosenMode mode = (if ToLower mode = APIMode then APIMode else if ToLower mode = GraphQLMode then GraphQLMode else ProxyMode)"

text \<open>What ends a server: an error of a listener, of the updater or of the metrics service, or a signal.  Only the API mode
  waits for the last two errors and stops its updater.\<close>

datatype stopEvent = ServerError gerror | UpdaterError gerror | MetricsError gerror | Signal

definition serverStop :: "gerror option \<Rightarrow> ('app, 'd) server \<Rightarrow> stopEvent \<Rightarrow> gerror option \<times> ('app, 'd) server" where
  "serverStop shutdownErr sv ev =
    (case ev of
       ServerError err \<Rightarrow> (Some (''server error: '' @ err), sv)
     | UpdaterError err \<Rightarrow> (Some (''regular updater error: '' @ err), sv)
     | MetricsError err \<Rightarrow> (Some (''metrics error: '' @ err), sv)
     | Signal \<Rightarrow>
         (case shutdownErr of
            Some err \<Rightarrow> (Some (''could not stop server gracefully: '' @ err), sv)
          | None \<Rightarrow> (None, sv\<lparr>sv_Pool := map_option poolClose (sv_Pool sv)\<rparr>)))"

end
