(* ===== verification/Server_Samples.thy ===== *)
theory Server_Samples
  imports Go_URL Go_Net
begin

text \<open>
  Evaluations of addresses and paths that the properties of a started server are instantiated with.
\<close>

lemma parse_spec_path: "URL_ParseRequestURI ''spec'' = Inl (projl (URL_ParseRequestURI ''spec''))"
  by code_simp

lemma parse_backend: "URL_ParseRequestURI ''http://b/'' = Inr (noURL\<lparr>u_Scheme := ''http'', u_Host := ''b'', u_Path := ''/''\<rparr>)"
  by code_simp

lemma parse_listen: "URL_ParseRequestURI ''http://l'' = Inr (noURL\<lparr>u_Scheme := ''http'', u_Host := ''l''\<rparr>)"
  by code_simp

lemma split_backend: "SplitHostPort ''b:80'' = Inr (''b'', ''80'')"
  by code_simp

lemma join_a: "andThen (JoinPath ''/'' ''/a'') PathUnescape = Inr ''/a''"
  by code_simp

end
