(* ===== verification/Spec2Isabelle.thy ===== *)
theory Spec2Isabelle
  imports API_Props GraphQL_Session Startup Server_Samples
begin

text \<open>
  A verification library for the API firewall (repository \<^verbatim>\<open>api-firewall\<close>).
\<close>

end
